(* ===== verification/Prelude.thy ===== *)
theory Prelude imports Main "HOL-Library.Multiset" "HOL-Library.Monad_Syntax" "HOL-Library.List_Lexorder" "HOL-Library.Char_ord" begin

text \<open>
  Shared vocabulary of the development: 64-bit wrap-around, times as nanosecond counts,
  the string helpers of the Go standard library that the code uses, folds whose body may
  panic, and the \<open>named_theorems\<close> collections the component theories extend.
\<close>

named_theorems money_simps \<open>unfolding rules of the money operations\<close>
named_theorems panic_simps \<open>when an option-valued (possibly panicking) operation returns\<close>

section \<open>Machine integers\<close>

text \<open>Go's \<open>int64\<close> (and \<open>int\<close> on 64-bit targets) wraps around silently.\<close>

definition wrap64 :: "int \<Rightarrow> int" where
  "wrap64 n = (n + 2 ^ 63) mod 2 ^ 64 - 2 ^ 63"

definition int64 :: "int \<Rightarrow> bool" where
  "int64 n \<longleftrightarrow> - (2 ^ 63) \<le> n \<and> n < 2 ^ 63"

lemma wrap64_id [simp]: "int64 n \<Longrightarrow> wrap64 n = n"
  by (simp add: wrap64_def int64_def)

lemma int64_wrap64 [simp, intro]: "int64 (wrap64 n)"
  by (simp add: wrap64_def int64_def)

text \<open>Two wrapped values agree exactly when they agree modulo \<open>2 ^ 64\<close>.\<close>

lemma wrap64_cong_dvd: "wrap64 a = wrap64 b \<longleftrightarrow> 2 ^ 64 dvd (a - b)"
proof -
  have "wrap64 a = wrap64 b \<longleftrightarrow> (a + 2 ^ 63) mod 2 ^ 64 = (b + 2 ^ 63) mod 2 ^ 64"
    by (simp only: wrap64_def diff_right_commute diff_eq_eq, simp)
  also have "\<dots> \<longleftrightarrow> 2 ^ 64 dvd (a + 2 ^ 63 - (b + 2 ^ 63))"
    by (rule mod_eq_dvd_iff)
  also have "a + 2 ^ 63 - (b + 2 ^ 63) = a - b" by (simp only: add_diff_cancel_right)
  finally show ?thesis .
qed

lemma wrap64_dvd: "2 ^ 64 dvd (wrap64 a - a)"
  using wrap64_cong_dvd [of "wrap64 a" a] wrap64_id [OF int64_wrap64] by simp

lemma wrap64_add_wrap64 [simp]:
  "wrap64 (wrap64 a + b) = wrap64 (a + b)" "wrap64 (b + wrap64 a) = wrap64 (b + a)"
  using wrap64_dvd [of a] by (simp_all only: wrap64_cong_dvd add_diff_cancel_right add_diff_cancel_left)

lemma wrap64_diff_wrap64_left [simp]: "wrap64 (wrap64 a - b) = wrap64 (a - b)"
proof -
  have "wrap64 a - b - (a - b) = wrap64 a - a" by (simp only: diff_diff_eq2 diff_add_cancel add.commute diff_diff_eq)
  with wrap64_dvd [of a] show ?thesis by (simp only: wrap64_cong_dvd)
qed

lemma wrap64_diff_wrap64_right [simp]: "wrap64 (b - wrap64 a) = wrap64 (b - a)"
proof -
  have "b - wrap64 a - (b - a) = - (wrap64 a - a)" by simp
  with wrap64_dvd [of a] show ?thesis by (simp only: wrap64_cong_dvd dvd_minus_iff)
qed

lemma int64_0 [simp, intro]: "int64 0"
  by (simp add: int64_def)

section \<open>Time\<close>

text \<open>
  A \<open>time.Time\<close> is the count of nanoseconds since Go's zero instant, so \<open>IsZero\<close> is
  \<open>t = 0\<close>. The wall clock is always an argument.
\<close>

type_synonym gotime = int

abbreviation nanos_per_hour :: int where
  "nanos_per_hour \<equiv> 3600000000000"

abbreviation nanos_per_day :: int where
  "nanos_per_day \<equiv> 86400000000000"

section \<open>Strings\<close>

definition to_lower_char :: "char \<Rightarrow> char" where
  "to_lower_char c = (if 65 \<le> (of_char c :: nat) \<and> (of_char c :: nat) \<le> 90
     then char_of ((of_char c :: nat) + 32) else c)"

definition to_lower :: "string \<Rightarrow> string" where
  "to_lower s = map to_lower_char s"

definition equal_fold :: "string \<Rightarrow> string \<Rightarrow> bool" where
  "equal_fold s t \<longleftrightarrow> to_lower s = to_lower t"

definition is_space :: "char \<Rightarrow> bool" where
  "is_space c \<longleftrightarrow> of_char c \<in> {9, 10, 11, 12, 13, 32 :: nat}"

definition trim_space :: "string \<Rightarrow> string" where
  "trim_space s = rev (dropWhile is_space (rev (dropWhile is_space s)))"

definition has_prefix :: "string \<Rightarrow> string \<Rightarrow> bool" where
  "has_prefix s p \<longleftrightarrow> take (length p) s = p"

text \<open>\<open>strings.Contains\<close>.\<close>

fun str_contains :: "string \<Rightarrow> string \<Rightarrow> bool" where
  "str_contains [] sub = (sub = [])"
| "str_contains (c # cs) sub = (has_prefix (c # cs) sub \<or> str_contains cs sub)"

definition is_digit :: "char \<Rightarrow> bool" where
  "is_digit c = (let n = (of_char c :: nat) in 48 \<le> n \<and> n \<le> 57)"

text \<open>\<open>fmt.Sprintf("%d", n)\<close> of a non-negative number.\<close>

fun itoa :: "nat \<Rightarrow> string" where
  "itoa n = (if n < 10 then [char_of (n + 48)] else itoa (n div 10) @ [char_of (n mod 10 + 48)])"

declare itoa.simps [simp del]

text \<open>\<open>strings.SplitN(s, sep, n)\<close> for a one-character separator.\<close>

fun split_n :: "char \<Rightarrow> nat \<Rightarrow> string \<Rightarrow> string list" where
  "split_n sep n s = (if n \<le> 1 then [s]
     else case dropWhile (\<lambda>c. c \<noteq> sep) s of
       [] \<Rightarrow> [s]
     | _ # rest \<Rightarrow> takeWhile (\<lambda>c. c \<noteq> sep) s # split_n sep (n - 1) rest)"

declare split_n.simps [simp del]

lemma equal_fold_refl [simp]: "equal_fold s s"
  by (simp add: equal_fold_def)

lemma ball_same_iff:
  assumes "c \<in> S" shows "(\<forall>a \<in> S. f a = f c) = (\<forall>a \<in> S. \<forall>b \<in> S. f a = f b)"
proof
  assume "\<forall>a \<in> S. f a = f c"
  then have "f a = f c" if "a \<in> S" for a using that by blast
  then show "\<forall>a \<in> S. \<forall>b \<in> S. f a = f b" by metis
next
  assume "\<forall>a \<in> S. \<forall>b \<in> S. f a = f b"
  with assms show "\<forall>a \<in> S. f a = f c" by blast
qed

section \<open>Option-valued folds\<close>

text \<open>A loop whose body may panic: \<open>None\<close> is the panic and stops the loop.\<close>

fun fold_opt :: "('a \<Rightarrow> 's \<Rightarrow> 's option) \<Rightarrow> 'a list \<Rightarrow> 's \<Rightarrow> 's option" where
  "fold_opt f [] s = Some s"
| "fold_opt f (x # xs) s = Option.bind (f x s) (fold_opt f xs)"

lemma fold_opt_total:
  assumes "\<And>x s. x \<in> set xs \<Longrightarrow> P s \<Longrightarrow> \<exists>s'. f x s = Some s' \<and> P s'" and "P s"
  shows "\<exists>s'. fold_opt f xs s = Some s' \<and> P s'"
  using assms
proof (induction xs arbitrary: s)
  case (Cons x xs)
  then obtain s' where "f x s = Some s'" "P s'" by (metis list.set_intros(1))
  with Cons show ?case by auto
qed simp

lemma fold_opt_invariant:
  assumes "fold_opt f xs s = Some s'" and "P s"
    and "\<And>x s s'. x \<in> set xs \<Longrightarrow> P s \<Longrightarrow> f x s = Some s' \<Longrightarrow> P s'"
  shows "P s'"
  using assms
proof (induction xs arbitrary: s)
  case (Cons x xs)
  from Cons.prems(1) obtain u where u: "f x s = Some u" "fold_opt f xs u = Some s'"
    by (auto simp: bind_eq_Some_conv)
  have "P u" using Cons.prems(3) [OF _ Cons.prems(2) u(1)] by simp
  with Cons.IH [OF u(2)] Cons.prems(3) show ?case by (meson list.set_intros(2))
qed simp

lemma fold_opt_append: "fold_opt f (xs @ ys) s = Option.bind (fold_opt f xs s) (fold_opt f ys)"
  by (induction xs arbitrary: s) (auto split: Option.bind_splits)

end
