(* ===== verification/GoFloat.thy ===== *)
theory GoFloat imports Complex_Main Prelude begin

text \<open>
  Go's \<open>float64\<close>: a finite value is the rational it denotes, and every arithmetic
  operation is the exact operation followed by \<open>f64\<close>, rounding to nearest with ties to
  even at 53 bits of precision. Infinities, NaN and the subnormal range are outside the
  model. \<open>f64\<close> is executable. The locale \<open>rounding\<close> is the interface the components rely
  on: a monotone, odd map that fixes 0 and 1.
\<close>

section \<open>The exponent\<close>

lemma floor_half_less: "1 \<le> (y::rat) \<Longrightarrow> nat \<lfloor>y / 2\<rfloor> < nat \<lfloor>y\<rfloor>"
proof -
  assume y: "1 \<le> y"
  have "y / 2 < of_int \<lfloor>y\<rfloor>"
  proof (cases "y < 2")
    case True
    then have "\<lfloor>y\<rfloor> = 1" using y by (simp add: floor_eq_iff)
    then show ?thesis using True by simp
  next
    case False
    then show ?thesis using floor_correct [of y] by linarith
  qed
  then have "\<lfloor>y / 2\<rfloor> < \<lfloor>y\<rfloor>" by (simp add: floor_less_iff)
  moreover have "1 \<le> \<lfloor>y\<rfloor>" using y by simp
  ultimately show ?thesis by linarith
qed

function ilog2 :: "rat \<Rightarrow> int" where
  "ilog2 x = (if x \<le> 0 then 0 else if 2 \<le> x then 1 + ilog2 (x / 2)
     else if x < 1 then ilog2 (2 * x) - 1 else 0)"
  by pat_completeness auto

termination
proof (relation "measure (\<lambda>x::rat. if 2 \<le> x then nat \<lfloor>x\<rfloor> else if x < 1 then nat \<lfloor>1 / x\<rfloor> else 0)")
  fix x :: rat
  assume "\<not> x \<le> 0" "2 \<le> x"
  then show "(x / 2, x) \<in> measure (\<lambda>x::rat. if 2 \<le> x then nat \<lfloor>x\<rfloor> else if x < 1 then nat \<lfloor>1 / x\<rfloor> else 0)"
    using floor_half_less [of x] by auto
next
  fix x :: rat
  assume a: "\<not> x \<le> 0" "\<not> 2 \<le> x" "x < 1"
  have "1 / (2 * x) = (1 / x) / 2" by simp
  moreover have "1 \<le> 1 / x" using a by simp
  ultimately show "(2 * x, x) \<in> measure (\<lambda>x::rat. if 2 \<le> x then nat \<lfloor>x\<rfloor> else if x < 1 then nat \<lfloor>1 / x\<rfloor> else 0)"
    using a floor_half_less [of "1 / x"] by (auto simp: mult.commute)
qed simp

declare ilog2.simps [simp del]

lemma ilog2_bounds: "0 < x \<Longrightarrow> 2 powi ilog2 x \<le> x \<and> x < 2 powi (ilog2 x + 1)"
proof (induction x rule: ilog2.induct)
  case (1 x)
  consider "2 \<le> x" | "x < 1" | "1 \<le> x" "x < 2" by linarith
  then show ?case
  proof cases
    case 1
    then have e: "ilog2 x = 1 + ilog2 (x / 2)" using "1.prems" ilog2.simps [of x] by simp
    have "2 powi ilog2 (x / 2) \<le> x / 2" "x / 2 < 2 powi (ilog2 (x / 2) + 1)"
      using "1.IH"(1) 1 "1.prems" by auto
    then show ?thesis by (simp add: e power_int_add add.commute)
  next
    case 2
    then have e: "ilog2 x = ilog2 (2 * x) - 1" using "1.prems" ilog2.simps [of x] by simp
    have "2 powi ilog2 (2 * x) \<le> 2 * x" "2 * x < 2 powi (ilog2 (2 * x) + 1)"
      using "1.IH"(2) 2 "1.prems" by auto
    then show ?thesis by (simp add: e power_int_diff power_int_add)
  next
    case 3
    then show ?thesis using "1.prems" ilog2.simps [of x] by simp
  qed
qed

lemma ilog2_less: "0 < x \<Longrightarrow> x < 2 powi k \<Longrightarrow> ilog2 x < k"
proof -
  assume "0 < x" "x < 2 powi k"
  then have "(2::rat) powi ilog2 x < 2 powi k" using ilog2_bounds [of x] by linarith
  then show ?thesis using power_int_increasing [of k "ilog2 x" "2::rat"] by (simp add: not_le [symmetric], linarith)
qed

lemma ilog2_mono: "0 < x \<Longrightarrow> x \<le> y \<Longrightarrow> ilog2 x \<le> ilog2 y"
  using ilog2_less [of x "ilog2 y + 1"] ilog2_bounds [of y] by simp

section \<open>Rounding\<close>

definition half_even :: "rat \<Rightarrow> int" where
  "half_even x = (let n = \<lfloor>x\<rfloor>; d = x - of_int n in
     if d < 1 / 2 then n else if 1 / 2 < d then n + 1 else if even n then n else n + 1)"

lemma half_even_cases: "half_even x = \<lfloor>x\<rfloor> \<or> half_even x = \<lfloor>x\<rfloor> + 1"
  by (auto simp: half_even_def Let_def)

lemma half_even_of_int [simp]: "half_even (of_int n) = n"
  by (simp add: half_even_def)

lemma half_even_error: "\<bar>of_int (half_even x) - x\<bar> \<le> 1 / 2"
  using floor_correct [of x] by (auto simp: half_even_def Let_def abs_le_iff)

lemma half_even_mono: "x \<le> y \<Longrightarrow> half_even x \<le> half_even y"
proof -
  assume xy: "x \<le> y"
  then have fl: "\<lfloor>x\<rfloor> \<le> \<lfloor>y\<rfloor>" by (rule floor_mono)
  show ?thesis
  proof (cases "\<lfloor>x\<rfloor> = \<lfloor>y\<rfloor>")
    case True
    then show ?thesis using xy by (auto simp: half_even_def Let_def)
  next
    case False
    then show ?thesis using fl half_even_cases [of x] half_even_cases [of y] by linarith
  qed
qed

lemma half_even_minus: "half_even (- x) = - half_even x"
proof (cases "x = of_int \<lfloor>x\<rfloor>")
  case True
  then show ?thesis by (metis half_even_of_int of_int_minus)
next
  case False
  then have "of_int \<lfloor>x\<rfloor> < x" "x < of_int \<lfloor>x\<rfloor> + 1" using floor_correct [of x] by linarith+
  then have "\<lfloor>- x\<rfloor> = - \<lfloor>x\<rfloor> - 1" by (simp add: floor_eq_iff)
  then show ?thesis by (auto simp: half_even_def Let_def)
qed

definition ulp :: "rat \<Rightarrow> rat" where
  "ulp x = 2 powi (ilog2 \<bar>x\<bar> - 52)"

definition f64 :: "rat \<Rightarrow> rat" where
  "f64 x = (if x = 0 then 0 else of_int (half_even (x / ulp x)) * ulp x)"

lemma ulp_pos [simp]: "0 < ulp x"
  by (simp add: ulp_def)

lemma f64_0 [simp]: "f64 0 = 0"
  by (simp add: f64_def)

lemma f64_minus: "f64 (- x) = - f64 x"
  by (simp add: f64_def ulp_def half_even_minus)

text \<open>A dyadic number with a significand of at most 53 bits is a \<open>float64\<close>.\<close>

lemma f64_dyadic_less:
  assumes "\<bar>m\<bar> < 2 ^ 53" shows "f64 (of_int m * 2 powi k) = of_int m * 2 powi k"
proof (cases "m = 0")
  case False
  let ?x = "of_int m * 2 powi k :: rat"
  have x: "0 < \<bar>?x\<bar>" using False by simp
  have "\<bar>?x\<bar> = of_int \<bar>m\<bar> * 2 powi k" by (simp add: abs_mult)
  also have "\<dots> < of_int (2 ^ 53) * 2 powi k" using assms 
    by (intro mult_strict_right_mono zero_less_power_int) (simp_all only: of_int_less_iff zero_less_numeral)
  also have "\<dots> = 2 powi (53 + k)" by (simp add: power_int_add)
  finally have "ilog2 \<bar>?x\<bar> < 53 + k" using ilog2_less [OF x] by simp
  then have j: "0 \<le> k - (ilog2 \<bar>?x\<bar> - 52)" by simp
  define n where "n = nat (k - (ilog2 \<bar>?x\<bar> - 52))"
  have "?x / ulp ?x = of_int m * (2 powi k / 2 powi (ilog2 \<bar>?x\<bar> - 52))" by (simp add: ulp_def)
  also have "\<dots> = of_int m * 2 powi (int n)" using j by (simp add: n_def power_int_diff)
  finally have q: "?x / ulp ?x = of_int (m * 2 ^ n)" by simp
  then have "of_int (half_even (?x / ulp ?x)) * ulp ?x = ?x / ulp ?x * ulp ?x"
    by (metis half_even_of_int)
  also have "\<dots> = ?x" using ulp_pos [of ?x] by (simp del: ulp_pos)
  finally show ?thesis using x by (simp add: f64_def)
qed simp

lemma f64_dyadic:
  assumes "\<bar>m\<bar> \<le> 2 ^ 53" shows "f64 (of_int m * 2 powi k) = of_int m * 2 powi k"
proof (cases "\<bar>m\<bar> < 2 ^ 53")
  case False
  with assms have "m = 2 * 2 ^ 52 \<or> m = 2 * (- (2 ^ 52))" by auto
  then obtain m' where m': "m = 2 * m'" "\<bar>m'\<bar> < 2 ^ 53" by fastforce
  have "of_int m * 2 powi k = (of_int m' * 2 powi (k + 1) :: rat)" by (simp add: m' power_int_add)
  with f64_dyadic_less [OF m'(2), of "k + 1"] show ?thesis by simp
qed (rule f64_dyadic_less)

lemma f64_of_int [simp]: "\<bar>n\<bar> \<le> 2 ^ 53 \<Longrightarrow> f64 (of_int n) = of_int n"
  using f64_dyadic [of n 0] by simp

lemma f64_1 [simp]: "f64 1 = 1"
  using f64_of_int [of 1] by simp

lemma half_even_bounds:
  "of_int a \<le> x \<Longrightarrow> x \<le> of_int b \<Longrightarrow> a \<le> half_even x \<and> half_even x \<le> b"
  by (metis half_even_mono half_even_of_int)

lemma f64_pos_binade:
  assumes "0 < x" shows "2 powi ilog2 x \<le> f64 x" and "f64 x \<le> 2 powi (ilog2 x + 1)"
proof -
  let ?e = "ilog2 x"
  have u: "ulp x = 2 powi ?e / 2 ^ 52" using assms by (simp add: ulp_def power_int_diff)
  have "2 powi ?e / ulp x = of_int (2 ^ 52)" "2 powi (?e + 1) / ulp x = of_int (2 ^ 53)"
    by (simp_all add: u power_int_add)
  moreover have "2 powi ?e / ulp x \<le> x / ulp x" "x / ulp x \<le> 2 powi (?e + 1) / ulp x"
    using ilog2_bounds [OF assms] by (simp_all add: divide_right_mono less_imp_le)
  ultimately have h: "2 ^ 52 \<le> half_even (x / ulp x)" "half_even (x / ulp x) \<le> 2 ^ 53"
    using half_even_bounds by metis+
  have "of_int (2 ^ 52) * ulp x \<le> of_int (half_even (x / ulp x)) * ulp x"
    "of_int (half_even (x / ulp x)) * ulp x \<le> of_int (2 ^ 53) * ulp x"
    using h by (simp_all only: mult_right_mono of_int_le_iff less_imp_le [OF ulp_pos])
  then show "2 powi ?e \<le> f64 x" "f64 x \<le> 2 powi (?e + 1)"
    using assms by (simp_all add: f64_def u power_int_add)
qed

lemma f64_mono_pos: "0 < x \<Longrightarrow> x \<le> y \<Longrightarrow> f64 x \<le> f64 y"
proof -
  assume x: "0 < x" "x \<le> y"
  show ?thesis
  proof (cases "ilog2 x = ilog2 y")
    case True
    then have "ulp x = ulp y" using x by (simp add: ulp_def)
    moreover have "x / ulp y \<le> y / ulp y" using x by (simp add: divide_right_mono less_imp_le)
    ultimately show ?thesis using x half_even_mono
      by (auto simp: f64_def intro!: mult_right_mono less_imp_le [OF ulp_pos])
  next
    case False
    then have "ilog2 x + 1 \<le> ilog2 y" using ilog2_mono [OF x] by simp
    then have "(2::rat) powi (ilog2 x + 1) \<le> 2 powi ilog2 y" by (simp add: power_int_increasing)
    then show ?thesis using f64_pos_binade(2) [OF x(1)] f64_pos_binade(1) [of y] x by linarith
  qed
qed

lemma f64_pos: "0 < x \<Longrightarrow> 0 < f64 x"
  using f64_pos_binade(1) [of x] by (meson less_le_trans zero_less_numeral zero_less_power_int)

lemma f64_nonneg: "0 \<le> x \<Longrightarrow> 0 \<le> f64 x"
proof (cases "x = 0")
  case False
  assume "0 \<le> x"
  with False have "2 powi ilog2 x \<le> f64 x" by (intro f64_pos_binade(1)) simp
  moreover have "(0::rat) < 2 powi ilog2 x" by simp
  ultimately show ?thesis by linarith
qed simp

theorem f64_mono: "x \<le> y \<Longrightarrow> f64 x \<le> f64 y"
proof -
  assume xy: "x \<le> y"
  consider "0 < x" | "x \<le> 0" "0 \<le> y" | "y < 0" by linarith
  then show ?thesis
  proof cases
    case 1
    then show ?thesis using xy by (rule f64_mono_pos)
  next
    case 2
    then have "0 \<le> f64 (- x)" "0 \<le> f64 y" by (simp_all add: f64_nonneg)
    then show ?thesis by (simp add: f64_minus)
  next
    case 3
    then have "f64 (- y) \<le> f64 (- x)" using xy by (intro f64_mono_pos) auto
    then show ?thesis by (simp add: f64_minus)
  qed
qed

theorem f64_error: "\<bar>f64 x - x\<bar> \<le> \<bar>x\<bar> / 2 ^ 53"
proof (cases "x = 0")
  case False
  have "f64 x - x = (of_int (half_even (x / ulp x)) - x / ulp x) * ulp x"
    using False ulp_pos [of x] by (simp add: f64_def left_diff_distrib del: ulp_pos)
  then have "\<bar>f64 x - x\<bar> \<le> 1 / 2 * ulp x"
    using half_even_error [of "x / ulp x"] by (simp add: abs_mult mult_right_mono less_imp_le del: times_divide_eq_left)
  also have "\<dots> = 2 powi ilog2 \<bar>x\<bar> / 2 ^ 53" by (simp add: ulp_def power_int_diff)
  also have "\<dots> \<le> \<bar>x\<bar> / 2 ^ 53" using ilog2_bounds [of "\<bar>x\<bar>"] False by (simp add: divide_right_mono)
  finally show ?thesis .
qed simp

lemma f64_idem_pos: "0 < x \<Longrightarrow> f64 (f64 x) = f64 x"
proof -
  assume x: "0 < x"
  have "2 powi (ilog2 x + 1) / ulp x = of_int (2 ^ 53)"
    using x by (simp add: ulp_def power_int_diff power_int_add)
  moreover have "x / ulp x \<le> 2 powi (ilog2 x + 1) / ulp x" "of_int 0 \<le> x / ulp x"
    using ilog2_bounds [OF x] x by (simp_all add: divide_right_mono less_imp_le)
  ultimately have "\<bar>half_even (x / ulp x)\<bar> \<le> 2 ^ 53" using half_even_bounds by (metis abs_of_nonneg)
  from f64_dyadic [OF this, of "ilog2 \<bar>x\<bar> - 52"] show ?thesis using x by (simp add: f64_def [of x] ulp_def)
qed

theorem f64_idem [simp]: "f64 (f64 x) = f64 x"
  using f64_idem_pos [of x] f64_idem_pos [of "- x"]
  by (cases "x = 0"; cases "0 < x") (auto simp: f64_minus)

text \<open>Evaluating a rounding on closed numerals.\<close>

lemmas f64_eval = f64_def ulp_def ilog2.simps half_even_def Let_def power_int_def power_one_over

section \<open>The interface of a rounded arithmetic\<close>

locale rounding =
  fixes rnd :: "rat \<Rightarrow> rat"
  assumes rnd_mono: "x \<le> y \<Longrightarrow> rnd x \<le> rnd y"
    and rnd_idem: "rnd (rnd x) = rnd x"
    and rnd_minus: "rnd (- x) = - rnd x"
    and rnd_one: "rnd 1 = 1"
begin

lemma rnd_zero: "rnd 0 = 0"
  using rnd_minus [of 0] by simp

lemma nonneg: "0 \<le> x \<Longrightarrow> 0 \<le> rnd x"
  using rnd_mono [of 0 x] rnd_zero by simp

lemma nonpos: "x \<le> 0 \<Longrightarrow> rnd x \<le> 0"
  using rnd_mono [of x 0] rnd_zero by simp

lemma unit_interval: "0 \<le> x \<Longrightarrow> x \<le> 1 \<Longrightarrow> 0 \<le> rnd x \<and> rnd x \<le> 1"
  using rnd_mono [of x 1] nonneg rnd_one by simp

lemma mult_unit: "0 \<le> a \<Longrightarrow> a \<le> 1 \<Longrightarrow> 0 \<le> b \<Longrightarrow> b \<le> 1 \<Longrightarrow> 0 \<le> rnd (a * b) \<and> rnd (a * b) \<le> 1"
  by (intro unit_interval) (simp_all add: mult_le_one)

lemma mult_shrinks: "rnd a = a \<Longrightarrow> 0 \<le> a \<Longrightarrow> b \<le> 1 \<Longrightarrow> rnd (a * b) \<le> a"
  using rnd_mono [of "a * b" a] mult_left_mono [of b 1 a] by simp

lemma div_unit: "0 \<le> a \<Longrightarrow> a \<le> b \<Longrightarrow> 0 \<le> rnd (a / b) \<and> rnd (a / b) \<le> 1"
  by (intro unit_interval) (cases "b = 0"; simp add: divide_le_eq)+

lemma diff_nonneg: "rnd a \<le> rnd b \<Longrightarrow> rnd a = a \<Longrightarrow> rnd b = b \<Longrightarrow> 0 \<le> rnd (b - a)"
  by (intro nonneg) simp

end

interpretation f64: rounding f64
  by unfold_locales (simp_all add: f64_mono f64_minus)

section \<open>Conversions and \<open>math.Round\<close>\<close>

definition i2f :: "int \<Rightarrow> rat" where
  "i2f n = f64 (of_int n)"

definition go_round :: "rat \<Rightarrow> int" where
  "go_round x = (if 0 \<le> x then \<lfloor>x + 1 / 2\<rfloor> else - \<lfloor>- x + 1 / 2\<rfloor>)"

text \<open>
  A conversion of an out-of-range \<open>float64\<close> to \<open>int64\<close> is implementation-defined in Go;
  the value here is what amd64 produces.
\<close>

definition to_int64 :: "int \<Rightarrow> int" where
  "to_int64 n = (if int64 n then n else - (2 ^ 63))"

definition f2i :: "rat \<Rightarrow> int" where
  "f2i x = to_int64 (if 0 \<le> x then \<lfloor>x\<rfloor> else \<lceil>x\<rceil>)"

lemma int64_to_int64 [simp, intro]: "int64 (to_int64 n)"
  by (simp add: to_int64_def int64_def)

lemma to_int64_id [simp]: "int64 n \<Longrightarrow> to_int64 n = n"
  by (simp add: to_int64_def)

lemma go_round_of_int [simp]: "go_round (of_int n) = n"
  by (simp add: go_round_def floor_add_int [symmetric] add.commute floor_eq_iff)

lemma go_round_0 [simp]: "go_round 0 = 0"
  using go_round_of_int [of 0] by simp

lemma go_round_error: "\<bar>of_int (go_round x) - x\<bar> \<le> 1 / 2"
proof (cases "0 \<le> x")
  case True
  have "of_int \<lfloor>x + 1 / 2\<rfloor> \<le> x + 1 / 2" "x + 1 / 2 < of_int \<lfloor>x + 1 / 2\<rfloor> + 1"
    using floor_correct [of "x + 1 / 2"] by simp_all
  then have "of_int \<lfloor>x + 1 / 2\<rfloor> - x \<le> 1 / 2 \<and> - (of_int \<lfloor>x + 1 / 2\<rfloor> - x) \<le> 1 / 2" by linarith
  then show ?thesis using True by (simp only: go_round_def if_True abs_le_iff)
next
  case False
  have "of_int \<lfloor>- x + 1 / 2\<rfloor> \<le> - x + 1 / 2" "- x + 1 / 2 < of_int \<lfloor>- x + 1 / 2\<rfloor> + 1"
    using floor_correct [of "- x + 1 / 2"] by simp_all
  then have "of_int (- \<lfloor>- x + 1 / 2\<rfloor>) - x \<le> 1 / 2 \<and> - (of_int (- \<lfloor>- x + 1 / 2\<rfloor>) - x) \<le> 1 / 2"
    unfolding of_int_minus by linarith
  then show ?thesis using False by (simp only: go_round_def if_False abs_le_iff)
qed

lemma go_round_nonneg: "0 \<le> x \<Longrightarrow> 0 \<le> go_round x"
  by (simp add: go_round_def)

lemma go_round_mono: "x \<le> y \<Longrightarrow> go_round x \<le> go_round y"
proof -
  assume xy: "x \<le> y"
  consider "0 \<le> x" | "x < 0" "0 \<le> y" | "y < 0" by linarith
  then show ?thesis
  proof cases
    case 1
    then show ?thesis using xy by (simp add: go_round_def floor_mono)
  next
    case 2
    then have "0 \<le> \<lfloor>- x + 1 / 2\<rfloor>" "0 \<le> go_round y" by (simp_all add: go_round_nonneg)
    moreover have "go_round x = - \<lfloor>- x + 1 / 2\<rfloor>" using 2 by (simp add: go_round_def)
    ultimately show ?thesis by linarith
  next
    case 3
    then show ?thesis using xy by (simp add: go_round_def floor_mono)
  qed
qed

lemma i2f_exact [simp]: "\<bar>n\<bar> \<le> 2 ^ 53 \<Longrightarrow> i2f n = of_int n"
  by (simp add: i2f_def)

lemma i2f_mono: "a \<le> b \<Longrightarrow> i2f a \<le> i2f b"
  by (simp add: i2f_def f64_mono)

lemma i2f_nonneg: "0 \<le> n \<Longrightarrow> 0 \<le> i2f n"
  by (simp add: i2f_def f64_nonneg)

lemma i2f_0 [simp]: "i2f 0 = 0"
  by (simp add: i2f_def)

lemma i2f_eq_0 [simp]: "i2f n = 0 \<longleftrightarrow> n = 0"
proof
  assume z: "i2f n = 0"
  show "n = 0"
  proof (rule ccontr)
    assume "n \<noteq> 0"
    then consider "1 \<le> n" | "n \<le> - 1" by linarith
    then have "i2f 1 \<le> i2f n \<or> i2f n \<le> i2f (- 1)" by cases (auto dest: i2f_mono)
    then show False using z by simp
  qed
qed simp

lemma rep_i2f [simp]: "f64 (i2f n) = i2f n"
  by (simp add: i2f_def)

section \<open>Common literals\<close>

lemma f64_numeral [simp]: "(numeral n :: int) \<le> 2 ^ 53 \<Longrightarrow> f64 (numeral n) = numeral n"
  using f64_of_int [of "numeral n"] by simp

lemma f64_half [simp]: "f64 (1 / 2) = 1 / 2"
  using f64_dyadic [of 1 "- 1"] by (simp add: power_int_minus)

lemma f64_quarter [simp]: "f64 (1 / 4) = 1 / 4"
  using f64_dyadic [of 1 "- 2"] by (simp add: power_int_minus)

lemma f64_three_quarters [simp]: "f64 (3 / 4) = 3 / 4"
proof -
  have "of_int 3 * 2 powi (- 2) = (3 / 4 :: rat)" by (simp add: power_int_minus)
  then show ?thesis using f64_dyadic [of 3 "- 2"] by (simp only:) simp
qed

lemma f64_three_halves [simp]: "f64 (3 / 2) = 3 / 2"
proof -
  have "of_int 3 * 2 powi (- 1) = (3 / 2 :: rat)" by (simp add: power_int_minus)
  then show ?thesis using f64_dyadic [of 3 "- 1"] by (simp only:) simp
qed

end
