(* ===== verification/Money.thy ===== *)
theory Money imports GoFloat begin

text \<open>
  \<open>internal/domain/core/money.go\<close>: an amount is integer micro-units (an \<open>int64\<close>, so
  every sum wraps) and a currency code, the empty code standing for USD. \<open>Add\<close> and
  \<open>Sub\<close> return Go's error as \<open>Inl\<close>; the \<open>Must\<close> variants panic, which is \<open>None\<close>.
  Factors and ratios are \<open>float64\<close>, modelled by \<open>GoFloat\<close>.
\<close>

type_synonym Currency_code = string

record Money =
  micros :: int
  currency :: Currency_code

datatype money_error = ErrCurrencyMismatch Currency_code Currency_code

definition USD :: Currency_code where "USD = ''USD''"
definition EUR :: Currency_code where "EUR = ''EUR''"
definition GBP :: Currency_code where "GBP = ''GBP''"
definition INR :: Currency_code where "INR = ''INR''"

definition MicrosPerUnit :: int where
  "MicrosPerUnit = 1000000"

definition round_to_int64 :: "rat \<Rightarrow> int" where
  "round_to_int64 x = to_int64 (go_round x)"

definition NewMoney :: "rat \<Rightarrow> Currency_code \<Rightarrow> Money" where
  "NewMoney units ccy = \<lparr>micros = round_to_int64 (f64 (units * i2f MicrosPerUnit)),
     currency = (if ccy = '''' then USD else ccy)\<rparr>"

definition USDollars :: "rat \<Rightarrow> Money" where
  "USDollars units = NewMoney units USD"

definition MoneyFromMicros :: "int \<Rightarrow> Currency_code \<Rightarrow> Money" where
  "MoneyFromMicros n ccy = \<lparr>micros = n, currency = (if ccy = '''' then USD else ccy)\<rparr>"

definition ZeroUSD :: Money where
  "ZeroUSD = \<lparr>micros = 0, currency = USD\<rparr>"

text \<open>The zero value of the Go struct, which an unset field holds.\<close>

definition zero_money :: Money where
  "zero_money = \<lparr>micros = 0, currency = ''''\<rparr>"

definition Currency :: "Money \<Rightarrow> Currency_code" where
  "Currency m = (if currency m = '''' then USD else currency m)"

definition Units :: "Money \<Rightarrow> rat" where
  "Units m = f64 (i2f (micros m) / i2f MicrosPerUnit)"

definition IsZero :: "Money \<Rightarrow> bool" where
  "IsZero m \<longleftrightarrow> micros m = 0"

definition IsNegative :: "Money \<Rightarrow> bool" where
  "IsNegative m \<longleftrightarrow> micros m < 0"

definition compatible :: "Money \<Rightarrow> Money \<Rightarrow> money_error + unit" where
  "compatible m other = (if Currency m \<noteq> Currency other
     then Inl (ErrCurrencyMismatch (Currency m) (Currency other)) else Inr ())"

definition Add :: "Money \<Rightarrow> Money \<Rightarrow> money_error + Money" where
  "Add m other = (case compatible m other of Inl e \<Rightarrow> Inl e
     | Inr _ \<Rightarrow> Inr \<lparr>micros = wrap64 (micros m + micros other), currency = Currency m\<rparr>)"

definition MustAdd :: "Money \<Rightarrow> Money \<Rightarrow> Money option" where
  "MustAdd m other = (case Add m other of Inl e \<Rightarrow> None | Inr s \<Rightarrow> Some s)"

definition Sub :: "Money \<Rightarrow> Money \<Rightarrow> money_error + Money" where
  "Sub m other = (case compatible m other of Inl e \<Rightarrow> Inl e
     | Inr _ \<Rightarrow> Inr \<lparr>micros = wrap64 (micros m - micros other), currency = Currency m\<rparr>)"

definition MustSub :: "Money \<Rightarrow> Money \<Rightarrow> Money option" where
  "MustSub m other = (case Sub m other of Inl e \<Rightarrow> None | Inr s \<Rightarrow> Some s)"

definition Scale :: "Money \<Rightarrow> rat \<Rightarrow> Money" where
  "Scale m factor = \<lparr>micros = round_to_int64 (f64 (i2f (micros m) * factor)), currency = Currency m\<rparr>"

definition Div :: "Money \<Rightarrow> rat \<Rightarrow> Money" where
  "Div m divisor = (if divisor = 0 then \<lparr>micros = 0, currency = Currency m\<rparr>
     else \<lparr>micros = round_to_int64 (f64 (i2f (micros m) / divisor)), currency = Currency m\<rparr>)"

definition Ratio :: "Money \<Rightarrow> Money \<Rightarrow> rat" where
  "Ratio m other = (if micros other = 0 then 0 else f64 (i2f (micros m) / i2f (micros other)))"

definition Cmp :: "Money \<Rightarrow> Money \<Rightarrow> int" where
  "Cmp m other = (if micros m < micros other then -1 else if micros other < micros m then 1 else 0)"

definition GreaterThan :: "Money \<Rightarrow> Money \<Rightarrow> bool" where
  "GreaterThan m other \<longleftrightarrow> 0 < Cmp m other"

definition LessThan :: "Money \<Rightarrow> Money \<Rightarrow> bool" where
  "LessThan m other \<longleftrightarrow> Cmp m other < 0"

definition Abs :: "Money \<Rightarrow> Money" where
  "Abs m = (if micros m < 0 then \<lparr>micros = wrap64 (- micros m), currency = Currency m\<rparr> else m)"

definition Annualized :: "Money \<Rightarrow> Money" where
  "Annualized m = Scale m 12"

definition AverageDaysPerMonth :: rat where
  "AverageDaysPerMonth = 304375 / 10000"

definition Monthly :: "Money \<Rightarrow> Money" where
  "Monthly m = Scale m AverageDaysPerMonth"

fun sum_loop :: "Money \<Rightarrow> Money list \<Rightarrow> money_error + Money" where
  "sum_loop tot [] = Inr tot"
| "sum_loop tot (it # its) = (case Add tot it of Inl e \<Rightarrow> Inl e | Inr t \<Rightarrow> sum_loop t its)"

definition SumMoney :: "Money list \<Rightarrow> money_error + Money" where
  "SumMoney items = (case items of [] \<Rightarrow> Inr ZeroUSD
     | it # _ \<Rightarrow> sum_loop \<lparr>micros = 0, currency = Currency it\<rparr> items)"

definition is_ascii_letter :: "char \<Rightarrow> bool" where
  "is_ascii_letter c = (let n = (of_char c :: nat) in (65 \<le> n \<and> n \<le> 90) \<or> (97 \<le> n \<and> n \<le> 122))"

definition isCurrencyCode :: "string \<Rightarrow> bool" where
  "isCurrencyCode s \<longleftrightarrow> length s = 3 \<and> list_all is_ascii_letter s"

section \<open>Unfolding rules\<close>

abbreviation usd :: "Money \<Rightarrow> bool" where
  "usd m \<equiv> Currency m = USD"

lemma USD_ne_Nil [simp]: "USD \<noteq> ''''" "'''' \<noteq> USD"
  by (simp_all add: USD_def)

lemma Currency_ne_Nil [simp]: "Currency m \<noteq> ''''"
  by (simp add: Currency_def)

lemma Currency_make [money_simps]:
  "Currency \<lparr>micros = n, currency = c\<rparr> = (if c = '''' then USD else c)"
  by (simp add: Currency_def)

lemma ZeroUSD_fields [simp]: "micros ZeroUSD = 0" "Currency ZeroUSD = USD" "usd zero_money" "micros zero_money = 0"
  by (simp_all add: ZeroUSD_def zero_money_def Currency_def)

lemma Add_Inr_iff:
  "Add a b = Inr s \<longleftrightarrow> Currency a = Currency b \<and>
     s = \<lparr>micros = wrap64 (micros a + micros b), currency = Currency a\<rparr>"
  by (auto simp: Add_def compatible_def)

lemma Add_Inl_iff: "(\<exists>e. Add a b = Inl e) \<longleftrightarrow> Currency a \<noteq> Currency b"
  by (auto simp: Add_def compatible_def)

lemma Sub_Inr_iff:
  "Sub a b = Inr s \<longleftrightarrow> Currency a = Currency b \<and>
     s = \<lparr>micros = wrap64 (micros a - micros b), currency = Currency a\<rparr>"
  by (auto simp: Sub_def compatible_def)

lemma MustAdd_Some_iff [panic_simps]:
  "MustAdd a b = Some s \<longleftrightarrow> Currency a = Currency b \<and>
     s = \<lparr>micros = wrap64 (micros a + micros b), currency = Currency a\<rparr>"
  by (auto simp: MustAdd_def Add_def compatible_def)

lemma MustSub_Some_iff [panic_simps]:
  "MustSub a b = Some s \<longleftrightarrow> Currency a = Currency b \<and>
     s = \<lparr>micros = wrap64 (micros a - micros b), currency = Currency a\<rparr>"
  by (auto simp: MustSub_def Sub_def compatible_def)

lemma MustAdd_None_iff [panic_simps]: "MustAdd a b = None \<longleftrightarrow> Currency a \<noteq> Currency b"
  by (auto simp: MustAdd_def Add_def compatible_def)

lemma MustSub_None_iff [panic_simps]: "MustSub a b = None \<longleftrightarrow> Currency a \<noteq> Currency b"
  by (auto simp: MustSub_def Sub_def compatible_def)

lemma GreaterThan_iff [simp]: "GreaterThan a b \<longleftrightarrow> micros b < micros a"
  by (simp add: GreaterThan_def Cmp_def)

lemma LessThan_iff [simp]: "LessThan a b \<longleftrightarrow> micros a < micros b"
  by (simp add: LessThan_def Cmp_def)

lemma int64_round_to_int64 [simp]: "int64 (round_to_int64 x)"
  by (simp add: round_to_int64_def)

lemma int64_Scale [simp]: "int64 (micros (Scale m f))" "int64 (micros (Div m f))"
  by (simp_all add: Scale_def Div_def)

lemma Currency_Scale [simp]: "Currency (Scale m f) = Currency m" "Currency (Div m f) = Currency m"
  "Currency (Annualized m) = Currency m" "Currency (Abs m) = Currency m"
  by (simp_all add: Scale_def Div_def Annualized_def Abs_def Currency_def)

lemma round_to_int64_of_int: "int64 n \<Longrightarrow> round_to_int64 (of_int n) = n"
  by (simp add: round_to_int64_def)

lemma Ratio_nonneg: "0 \<le> micros a \<Longrightarrow> 0 \<le> micros b \<Longrightarrow> 0 \<le> Ratio a b"
  by (simp add: Ratio_def f64.nonneg i2f_nonneg)

lemma Ratio_unit:
  "0 \<le> micros a \<Longrightarrow> micros a \<le> micros b \<Longrightarrow> 0 \<le> Ratio a b \<and> Ratio a b \<le> 1"
  using f64.div_unit [of "i2f (micros a)" "i2f (micros b)"]
  by (simp add: Ratio_def i2f_nonneg i2f_mono)

lemma f64_Ratio [simp]: "f64 (Ratio a b) = Ratio a b"
  by (simp add: Ratio_def)

section \<open>Properties\<close>

lemma sum_loop_correct:
  "(\<exists>m. sum_loop t its = Inr m) \<longleftrightarrow> (\<forall>it \<in> set its. Currency it = Currency t)"
proof (induction its arbitrary: t)
  case (Cons it its)
  show ?case
  proof (cases "Currency t = Currency it")
    case True
    then obtain s where s: "Add t it = Inr s" "Currency s = Currency t"
      by (auto simp: Add_Inr_iff money_simps)
    then show ?thesis using Cons.IH [of s] True by auto
  next
    case False
    then obtain e where "Add t it = Inl e" using Add_Inl_iff by blast
    then show ?thesis using False by auto
  qed
qed simp

lemma sum_loop_value:
  "sum_loop t its = Inr m \<Longrightarrow> int64 (micros t) \<Longrightarrow>
   micros m = wrap64 (micros t + sum_list (map micros its)) \<and> Currency m = Currency t"
proof (induction its arbitrary: t)
  case (Cons it its)
  then obtain s where s: "Add t it = Inr s" "sum_loop s its = Inr m" by (auto split: sum.splits)
  then have "micros s = wrap64 (micros t + micros it)" "Currency s = Currency t"
    by (auto simp: Add_Inr_iff money_simps)
  then show ?case using Cons.IH [OF s(2)] by (simp add: add.assoc)
qed simp

text \<open>Subtraction undoes addition exactly, in the same currency, even when the addition
  wrapped around the 64-bit range.\<close>

theorem Add_Sub_roundtrip:
  assumes "int64 (micros a)" and "Add a b = Inr s"
  shows "\<exists>d. Sub s b = Inr d \<and> micros d = micros a \<and> Currency d = Currency a"
  using assms by (auto simp: Add_Inr_iff Sub_Inr_iff money_simps)

theorem Add_Sub_roundtrip_witness:
  "\<exists>d. Sub \<lparr>micros = - (2 ^ 63), currency = EUR\<rparr> \<lparr>micros = 1, currency = EUR\<rparr> = Inr d \<and>
     micros d = 2 ^ 63 - 1 \<and> Currency d = Currency \<lparr>micros = 2 ^ 63 - 1, currency = EUR\<rparr>"
proof -
  have "Add \<lparr>micros = 2 ^ 63 - 1, currency = EUR\<rparr> \<lparr>micros = 1, currency = EUR\<rparr> =
      Inr \<lparr>micros = - (2 ^ 63), currency = EUR\<rparr>"
    by (simp add: Add_Inr_iff money_simps EUR_def wrap64_def)
  from Add_Sub_roundtrip [OF _ this] show ?thesis by (simp add: int64_def)
qed

text \<open>\<open>SumMoney\<close> succeeds exactly on single-currency input and then returns the 64-bit sum
  of the amounts in that currency; on mixed currencies it is an error, never a conversion.\<close>

theorem SumMoney_correct:
  "((\<exists>m. SumMoney items = Inr m) = (\<forall>a \<in> set items. \<forall>b \<in> set items. Currency a = Currency b)) \<and>
   (\<forall>m. SumMoney items = Inr m \<longrightarrow> micros m = wrap64 (sum_list (map micros items)) \<and>
      (\<forall>a \<in> set items. Currency a = Currency m))"
proof (cases items)
  case Nil
  then show ?thesis by (auto simp: SumMoney_def)
next
  case (Cons it its)
  let ?t = "\<lparr>micros = 0, currency = Currency it\<rparr>"
  have eq: "SumMoney items = sum_loop ?t items" and t: "Currency ?t = Currency it"
    by (simp_all add: SumMoney_def Cons money_simps)
  have val: "micros m = wrap64 (sum_list (map micros items))" "Currency m = Currency it"
    if "SumMoney items = Inr m" for m
    using sum_loop_value [of ?t items m] that unfolding eq t by simp_all
  have ok: "(\<exists>m. SumMoney items = Inr m) = (\<forall>a \<in> set items. Currency a = Currency it)"
    using sum_loop_correct [of ?t items] unfolding eq t .
  have it: "it \<in> set items" by (simp add: Cons)
  have same: "Currency a = Currency m" if "SumMoney items = Inr m" "a \<in> set items" for m a
    using ok that val(2) by metis
  show ?thesis
    unfolding ok using it val same by (intro conjI allI impI ballI ball_same_iff)
qed

theorem SumMoney_correct_witness:
  "SumMoney [\<lparr>micros = 5, currency = ''''\<rparr>, \<lparr>micros = 7, currency = USD\<rparr>] = Inr \<lparr>micros = 12, currency = USD\<rparr> \<and>
   \<not> (\<exists>m. SumMoney [\<lparr>micros = 5, currency = EUR\<rparr>, \<lparr>micros = 7, currency = USD\<rparr>] = Inr m)"
  using SumMoney_correct [of "[\<lparr>micros = 5, currency = EUR\<rparr>, \<lparr>micros = 7, currency = USD\<rparr>]"]
  by (simp add: SumMoney_def Add_def compatible_def Currency_def USD_def EUR_def int64_def)

text \<open>Scaling an amount by a factor is off by at most half a micro-unit plus one part in
  \<open>2 ^ 53\<close> of the exact product, as long as the product stays clear of the 64-bit bounds.\<close>

theorem Scale_error:
  assumes m: "\<bar>micros m\<bar> \<le> 2 ^ 53" and p: "\<bar>of_int (micros m) * f\<bar> \<le> 2 ^ 62"
  shows "\<bar>of_int (micros (Scale m f)) - of_int (micros m) * f\<bar>
    \<le> 1 / 2 + \<bar>of_int (micros m) * f\<bar> / 2 ^ 53"
proof -
  define x where "x = of_int (micros m) * f"
  have e: "\<bar>f64 x - x\<bar> \<le> \<bar>x\<bar> / 2 ^ 53" by (rule f64_error)
  have r: "\<bar>of_int (go_round (f64 x)) - f64 x\<bar> \<le> 1 / 2" by (rule go_round_error)
  have x: "\<bar>x\<bar> \<le> 2 ^ 62" using p by (simp add: x_def)
  have "\<bar>of_int (go_round (f64 x)) :: rat\<bar> \<le> of_int (2 ^ 62 + 2 ^ 10)"
  proof -
    have "\<bar>f64 x - x\<bar> \<le> 512" using e x by simp
    moreover have "\<bar>x\<bar> \<le> 4611686018427387904" using x by simp
    ultimately have "\<bar>of_int (go_round (f64 x)) :: rat\<bar> \<le> 4611686018427388928"
      using r by linarith
    then show ?thesis by simp
  qed
  then have "\<bar>go_round (f64 x)\<bar> \<le> 2 ^ 62 + 2 ^ 10" by (simp only: of_int_abs [symmetric] of_int_le_iff)
  then have "int64 (go_round (f64 x))" by (simp add: int64_def, linarith)
  then have "micros (Scale m f) = go_round (f64 x)" using m by (simp add: Scale_def round_to_int64_def x_def)
  then show ?thesis using e r unfolding x_def by linarith
qed

theorem Scale_error_witness:
  "micros (Scale \<lparr>micros = 10, currency = USD\<rparr> (1 / 4)) = 3 \<and>
   \<bar>of_int (micros (Scale \<lparr>micros = 10, currency = USD\<rparr> (1 / 4))) - (10::rat) * (1 / 4)\<bar> \<le> 1 / 2 + \<bar>10 * (1 / 4)\<bar> / 2 ^ 53"
proof -
  have e: "f64 (5 / 2) = 5 / 2" by (simp add: f64_eval)
  have "micros (Scale \<lparr>micros = 10, currency = USD\<rparr> (1 / 4)) = 3"
    by (simp add: Scale_def round_to_int64_def go_round_def int64_def e)
  then show ?thesis using Scale_error [of "\<lparr>micros = 10, currency = USD\<rparr>" "1 / 4"] by simp
qed

end
