(* ===== verification/Errors.thy ===== *)
theory Errors imports Prelude begin

text \<open>
  \<open>internal/domain/core/errors.go\<close>: the sentinel errors, the structured error with its
  wrapped cause, \<open>errors.Is\<close> over the chain, the mapping to HTTP status codes and retry
  decisions, and the validation results. Message texts are not modelled.
\<close>

datatype sentinel = ErrNotFound | ErrAlreadyExists | ErrInvalidInput | ErrUnauthenticated
  | ErrForbidden | ErrConflict | ErrPreconditionOff | ErrUnavailable | ErrThrottled | ErrTimeout
  | ErrNotImplemented | ErrTenantMismatch | ErrPolicyDenied | ErrGrounding

text \<open>An \<open>error\<close> value: a sentinel, an error of another package, or a structured \<open>*Error\<close>
  with its code, its sentinel (nil is None) and its wrapped cause.\<close>

datatype err = Sentinel sentinel | Foreign string
  | Error (Code: string) (ESentinel: "sentinel option") (Err: "err option")

text \<open>
  \<open>errors.Is\<close>: compare, ask the value's own \<open>Is\<close> method (which consults the sentinel and the
  cause), then follow \<open>Unwrap\<close> (the cause when there is one, the sentinel otherwise).
\<close>

fun errors_is :: "err \<Rightarrow> sentinel \<Rightarrow> bool" where
  "errors_is (Sentinel s) t = (s = t)"
| "errors_is (Foreign _) t = False"
| "errors_is (Error c s None) t = ((s \<noteq> None \<and> the s = t) \<or> (s \<noteq> None \<and> the s = t))"
| "errors_is (Error c s (Some e)) t = ((s \<noteq> None \<and> the s = t) \<or> errors_is e t \<or> errors_is e t)"

definition NewError :: "sentinel \<Rightarrow> string \<Rightarrow> err" where
  "NewError s code = Error code (Some s) None"

definition Wrap :: "err \<Rightarrow> err \<Rightarrow> err" where
  "Wrap e cause = (case e of Error c s _ \<Rightarrow> Error c s (Some cause) | other \<Rightarrow> other)"

definition NotFound :: err where "NotFound = NewError ErrNotFound ''not_found''"
definition Invalid :: err where "Invalid = NewError ErrInvalidInput ''invalid_input''"
definition Forbidden :: err where "Forbidden = NewError ErrForbidden ''forbidden''"
definition Conflict :: err where "Conflict = NewError ErrConflict ''conflict''"

definition HTTPStatus :: "err option \<Rightarrow> nat" where
  "HTTPStatus err = (case err of None \<Rightarrow> 200 | Some e \<Rightarrow>
     if errors_is e ErrNotFound then 404
     else if errors_is e ErrAlreadyExists \<or> errors_is e ErrConflict then 409
     else if errors_is e ErrInvalidInput \<or> errors_is e ErrGrounding then 400
     else if errors_is e ErrUnauthenticated then 401
     else if errors_is e ErrTenantMismatch then 404
     else if errors_is e ErrForbidden \<or> errors_is e ErrPolicyDenied then 403
     else if errors_is e ErrPreconditionOff then 412
     else if errors_is e ErrThrottled then 429
     else if errors_is e ErrTimeout then 504
     else if errors_is e ErrUnavailable then 503
     else if errors_is e ErrNotImplemented then 501
     else 500)"

definition Retryable :: "err option \<Rightarrow> bool" where
  "Retryable err = (case err of None \<Rightarrow> False | Some e \<Rightarrow>
     errors_is e ErrThrottled \<or> errors_is e ErrTimeout \<or> errors_is e ErrUnavailable)"

section \<open>Severity and validation results\<close>

text \<open>\<open>Severity\<close> of assessment.go; it is declared here because issues carry one.\<close>

datatype Severity = SeverityInfo | SeverityLow | SeverityMedium | SeverityHigh | SeverityCritical
  | SeverityOther string

fun Severity_Order :: "Severity \<Rightarrow> int" where
  "Severity_Order SeverityInfo = 0"
| "Severity_Order SeverityLow = 1"
| "Severity_Order SeverityMedium = 2"
| "Severity_Order SeverityHigh = 3"
| "Severity_Order SeverityCritical = 4"
| "Severity_Order (SeverityOther _) = 0"

record ValidationIssue =
  Path :: string
  ICode :: string
  ISeverity :: Severity

type_synonym ValidationResult = "ValidationIssue list"

definition add_issue :: "ValidationResult \<Rightarrow> string \<Rightarrow> string \<Rightarrow> Severity \<Rightarrow> ValidationResult" where
  "add_issue v path code sev = v @ [\<lparr>Path = path, ICode = code, ISeverity = sev\<rparr>]"

definition Merge :: "ValidationResult \<Rightarrow> ValidationResult \<Rightarrow> ValidationResult" where
  "Merge v other = v @ other"

definition HasBlocking :: "ValidationResult \<Rightarrow> bool" where
  "HasBlocking v \<longleftrightarrow> (\<exists>i \<in> set v. Severity_Order SeverityHigh \<le> Severity_Order (ISeverity i))"

definition issue_Count :: "ValidationResult \<Rightarrow> Severity \<Rightarrow> nat" where
  "issue_Count v m = length (filter (\<lambda>i. Severity_Order m \<le> Severity_Order (ISeverity i)) v)"

definition result_Err :: "ValidationResult \<Rightarrow> err option" where
  "result_Err v = (if \<not> HasBlocking v then None else Some Invalid)"

text \<open>A conditional report, the shape of every check in the validators.\<close>

definition report :: "bool \<Rightarrow> string \<Rightarrow> string \<Rightarrow> Severity \<Rightarrow> ValidationResult" where
  "report c path code sev = (if c then [\<lparr>Path = path, ICode = code, ISeverity = sev\<rparr>] else [])"

lemma HasBlocking_append [simp]: "HasBlocking (v @ w) \<longleftrightarrow> HasBlocking v \<or> HasBlocking w"
  by (auto simp: HasBlocking_def)

lemma HasBlocking_Nil [simp]: "\<not> HasBlocking []"
  by (simp add: HasBlocking_def)

lemma HasBlocking_report [simp]:
  "HasBlocking (report c p k s) \<longleftrightarrow> c \<and> 3 \<le> Severity_Order s"
  by (simp add: HasBlocking_def report_def)

lemma HasBlocking_concat [simp]: "HasBlocking (concat vs) \<longleftrightarrow> (\<exists>v \<in> set vs. HasBlocking v)"
  by (induction vs) auto

lemma result_Err_None [simp]: "result_Err v = None \<longleftrightarrow> \<not> HasBlocking v"
  by (simp add: result_Err_def)

section \<open>The sentinels of an error\<close>

fun sentinels :: "err \<Rightarrow> sentinel set" where
  "sentinels (Sentinel s) = {s}"
| "sentinels (Foreign _) = {}"
| "sentinels (Error c s None) = set_option s"
| "sentinels (Error c s (Some e)) = set_option s \<union> sentinels e"

lemma errors_is_sentinels: "errors_is e t \<longleftrightarrow> t \<in> sentinels e"
  by (induction e rule: sentinels.induct) (auto split: option.splits)

lemma errors_is_NewError [simp]: "errors_is (NewError s c) t \<longleftrightarrow> s = t"
  by (simp add: NewError_def)

text \<open>Wrapping a cause neither hides the error's own sentinel nor the cause's: \<open>errors.Is\<close>
  on the wrapped error answers yes exactly for the sentinels of either.\<close>

theorem Wrap_keeps_sentinels:
  "errors_is (Wrap (NewError s code) cause) t = (t = s \<or> errors_is cause t)"
  by (auto simp: Wrap_def NewError_def)

text \<open>A cross-tenant access is answered with the same status as a missing object, so the
  status never reveals that the object exists in another tenant; and no error at all that
  carries the tenant-mismatch sentinel is ever answered with 403.\<close>

theorem tenant_mismatch_not_revealed:
  "HTTPStatus (Some (NewError ErrTenantMismatch code)) = HTTPStatus (Some NotFound) \<and>
   (\<forall>e. errors_is e ErrTenantMismatch \<longrightarrow> HTTPStatus (Some e) \<noteq> 403)"
  by (simp add: HTTPStatus_def NotFound_def)

theorem tenant_mismatch_not_revealed_witness:
  "HTTPStatus (Some (Error ''forbidden'' (Some ErrForbidden) (Some (Sentinel ErrTenantMismatch)))) = 404 \<and>
   HTTPStatus (Some (NewError ErrTenantMismatch ''x'')) = HTTPStatus (Some NotFound)"
  using tenant_mismatch_not_revealed [of "''x''"] by (simp add: HTTPStatus_def)

end
