(* ===== verification/GoSort.thy ===== *)
theory GoSort imports Prelude begin

text \<open>
  Go's \<open>sort.SliceStable\<close> as an insertion sort that keeps equal elements in order, and
  the laws a comparator must satisfy for the sort to be meaningful (the locale
  \<open>strict_weak_order\<close>). The components interpret it on their own comparators.
  The second half is the fold "keep the first element of strictly greatest rank", which
  policy evaluation and report finalisation share.
\<close>

section \<open>Stable sorting by a comparator\<close>

fun insert_by :: "('a \<Rightarrow> 'a \<Rightarrow> bool) \<Rightarrow> 'a \<Rightarrow> 'a list \<Rightarrow> 'a list" where
  "insert_by lt x [] = [x]"
| "insert_by lt x (y # ys) = (if lt y x then y # insert_by lt x ys else x # y # ys)"

fun stable_sort :: "('a \<Rightarrow> 'a \<Rightarrow> bool) \<Rightarrow> 'a list \<Rightarrow> 'a list" where
  "stable_sort lt [] = []"
| "stable_sort lt (x # xs) = insert_by lt x (stable_sort lt xs)"

definition sorted_by :: "('a \<Rightarrow> 'a \<Rightarrow> bool) \<Rightarrow> 'a list \<Rightarrow> bool" where
  "sorted_by lt xs \<longleftrightarrow> sorted_wrt (\<lambda>x y. \<not> lt y x) xs"

lemma mset_insert_by [simp]: "mset (insert_by lt x xs) = add_mset x (mset xs)"
  by (induction xs) auto

lemma mset_stable_sort [simp]: "mset (stable_sort lt xs) = mset xs"
  by (induction xs) auto

lemma set_stable_sort [simp]: "set (stable_sort lt xs) = set xs"
  by (metis mset_stable_sort set_mset_mset)

lemma length_stable_sort [simp]: "length (stable_sort lt xs) = length xs"
  by (metis mset_stable_sort size_mset)

lemma distinct_stable_sort [simp]: "distinct (stable_sort lt xs) = distinct xs"
  by (metis mset_stable_sort mset_eq_imp_distinct_iff)

lemma stable_sort_Nil_iff [simp]: "stable_sort lt xs = [] \<longleftrightarrow> xs = []"
  by (metis length_0_conv length_stable_sort)

lemma set_insert_by [simp]: "set (insert_by lt x xs) = insert x (set xs)"
  by (metis mset_insert_by set_mset_add_mset_insert set_mset_mset)

lemma insert_by_sorted_front:
  "(\<And>y. y \<in> set ys \<Longrightarrow> \<not> lt y x) \<Longrightarrow> insert_by lt x ys = x # ys"
  by (cases ys) auto

lemma stable_sort_sorted_id: "sorted_by lt xs \<Longrightarrow> stable_sort lt xs = xs"
  by (induction xs) (auto simp: sorted_by_def insert_by_sorted_front)

lemma map_insert_by:
  "(\<And>y. y \<in> set xs \<Longrightarrow> lt' (f y) (f x) = lt y x) \<Longrightarrow>
   map f (insert_by lt x xs) = insert_by lt' (f x) (map f xs)"
  by (induction xs) auto

lemma map_stable_sort:
  "(\<And>x y. x \<in> set xs \<Longrightarrow> y \<in> set xs \<Longrightarrow> lt' (f x) (f y) = lt x y) \<Longrightarrow>
   map f (stable_sort lt xs) = stable_sort lt' (map f xs)"
proof (induction xs)
  case (Cons a xs)
  have "map f (insert_by lt a (stable_sort lt xs)) = insert_by lt' (f a) (map f (stable_sort lt xs))"
    by (rule map_insert_by) (use Cons.prems in auto)
  with Cons show ?case by simp
qed simp

locale strict_weak_order =
  fixes lt :: "'a \<Rightarrow> 'a \<Rightarrow> bool"
  assumes asym: "lt x y \<Longrightarrow> \<not> lt y x"
    and split: "lt x y \<Longrightarrow> lt x z \<or> lt z y"
begin

lemma irrefl: "\<not> lt x x"
  using asym by blast

lemma trans: "lt x y \<Longrightarrow> lt y z \<Longrightarrow> lt x z"
  using split asym by blast

lemma not_less_trans: "\<not> lt y x \<Longrightarrow> \<not> lt z y \<Longrightarrow> \<not> lt z x"
  using split by blast

lemma sorted_insert_by: "sorted_by lt xs \<Longrightarrow> sorted_by lt (insert_by lt x xs)"
proof (induction xs)
  case (Cons y ys)
  show ?case
  proof (cases "lt y x")
    case True
    then show ?thesis using Cons asym by (auto simp: sorted_by_def)
  next
    case False
    then show ?thesis using Cons.prems not_less_trans by (auto simp: sorted_by_def)
  qed
qed (simp add: sorted_by_def)

lemma sorted_stable_sort: "sorted_by lt (stable_sort lt xs)"
  by (induction xs) (simp add: sorted_by_def, simp add: sorted_insert_by)

lemma hd_least: "y \<in> set xs \<Longrightarrow> \<not> lt y (hd (stable_sort lt xs))"
proof -
  assume y: "y \<in> set xs"
  obtain z zs where z: "stable_sort lt xs = z # zs"
    using y by (cases "stable_sort lt xs") auto
  have "y \<in> set (z # zs)" using y z by (metis set_stable_sort)
  then show ?thesis using sorted_stable_sort [of xs] irrefl by (auto simp: z sorted_by_def)
qed

text \<open>Equivalent elements keep their input order.\<close>

lemma insert_by_stable:
  "sorted_by lt xs \<Longrightarrow> (\<And>u v. P u \<Longrightarrow> P v \<Longrightarrow> \<not> lt u v) \<Longrightarrow>
   filter P (insert_by lt x xs) = filter P (x # xs)"
proof (induction xs)
  case (Cons y ys)
  then have "sorted_by lt ys" by (simp add: sorted_by_def)
  with Cons have "filter P (insert_by lt x ys) = filter P (x # ys)" by blast
  then show ?case using Cons.prems(2) by auto
qed simp

lemma stable_sort_stable:
  "(\<And>u v. P u \<Longrightarrow> P v \<Longrightarrow> \<not> lt u v) \<Longrightarrow> filter P (stable_sort lt xs) = filter P xs"
  by (induction xs) (simp_all add: insert_by_stable sorted_stable_sort)

text \<open>A total comparator leaves one possible result, whatever the algorithm.\<close>

lemma sorted_unique:
  assumes "sorted_by lt xs" "sorted_by lt ys" "mset xs = mset ys"
    and total: "\<And>u v. u \<in> set xs \<Longrightarrow> v \<in> set xs \<Longrightarrow> u \<noteq> v \<Longrightarrow> lt u v \<or> lt v u"
  shows "xs = ys"
  using assms
proof (induction xs arbitrary: ys)
  case (Cons x xs)
  then obtain y ys' where ys: "ys = y # ys'" by (cases ys) auto
  have "y \<in> set (x # xs)" "x \<in> set ys" using Cons.prems(3) ys by (metis list.set_intros(1) set_mset_mset)+
  then have "x = y"
    using Cons.prems(1,2) Cons.prems(4) [of x y] ys by (auto simp: sorted_by_def)
  with Cons ys show ?case by (auto simp: sorted_by_def)
qed simp

end

text \<open>Comparators built from keys: compare one key, then another on ties.\<close>

definition by_desc :: "('a \<Rightarrow> 'k::linorder) \<Rightarrow> 'a \<Rightarrow> 'a \<Rightarrow> bool" where
  "by_desc k x y \<longleftrightarrow> k y < k x"

definition by_asc :: "('a \<Rightarrow> 'k::linorder) \<Rightarrow> 'a \<Rightarrow> 'a \<Rightarrow> bool" where
  "by_asc k x y \<longleftrightarrow> k x < k y"

definition then_by :: "('a \<Rightarrow> 'a \<Rightarrow> bool) \<Rightarrow> ('a \<Rightarrow> 'a \<Rightarrow> bool) \<Rightarrow> 'a \<Rightarrow> 'a \<Rightarrow> bool" where
  "then_by less1 less2 x y \<longleftrightarrow> less1 x y \<or> (\<not> less1 y x \<and> less2 x y)"

lemma swo_by_desc: "strict_weak_order (by_desc k)"
  by unfold_locales (auto simp: by_desc_def)

lemma swo_by_asc: "strict_weak_order (by_asc k)"
  by unfold_locales (auto simp: by_asc_def)

lemma swo_then_by:
  "strict_weak_order l1 \<Longrightarrow> strict_weak_order l2 \<Longrightarrow> strict_weak_order (then_by l1 l2)"
  unfolding strict_weak_order_def then_by_def by (intro conjI allI impI) (meson)+

section \<open>Keeping the first element of greatest rank\<close>

fun first_greatest :: "('a \<Rightarrow> nat) \<Rightarrow> 'a option \<Rightarrow> 'a list \<Rightarrow> 'a option" where
  "first_greatest rank cur [] = cur"
| "first_greatest rank cur (x # xs) = first_greatest rank
     (case cur of None \<Rightarrow> Some x | Some c \<Rightarrow> if rank c < rank x then Some x else Some c) xs"

lemma first_greatest_Some:
  "\<exists>y. first_greatest rank (Some c) xs = Some y \<and> y \<in> set (c # xs) \<and> (\<forall>x \<in> set (c # xs). rank x \<le> rank y)"
proof (induction xs arbitrary: c)
  case (Cons x xs)
  define c' where "c' = (if rank c < rank x then x else c)"
  obtain y where y: "first_greatest rank (Some c') xs = Some y" "y \<in> set (c' # xs)"
    "\<forall>z \<in> set (c' # xs). rank z \<le> rank y"
    using Cons.IH by blast
  have "rank c \<le> rank c'" "rank x \<le> rank c'" by (simp_all add: c'_def)
  then have "\<forall>z \<in> set (c # x # xs). rank z \<le> rank y" using y(3) by (auto intro: order_trans)
  moreover have "y \<in> set (c # x # xs)" using y(2) by (auto simp: c'_def split: if_splits)
  ultimately show ?case using y(1) by (auto simp: c'_def split: if_splits)
qed simp

lemma first_greatest_None_iff: "first_greatest rank None xs = None \<longleftrightarrow> xs = []"
  using first_greatest_Some [of rank] by (cases xs) (auto, metis option.simps(3))

lemma first_greatest_max:
  "first_greatest rank None xs = Some y \<Longrightarrow> y \<in> set xs \<and> (\<forall>x \<in> set xs. rank x \<le> rank y)"
  using first_greatest_Some [of rank "hd xs" "tl xs"] by (cases xs) auto

end
