(* ===== verification/Assessment.thy ===== *)
theory Assessment imports Errors GoFloat GoSort begin

text \<open>
  \<open>internal/domain/core/assessment.go\<close>: provenance, risk bands, confidence, criticality,
  half-open periods and the quantile that every rule reads. A Go string type with a closed
  set of constants is a datatype whose last constructor stands for every other string.
\<close>

datatype Provenance = ProvenanceConfirmed | ProvenanceInferred | ProvenanceUnknown
  | ProvenanceRequiresConfirmation | ProvenanceOther string

fun Provenance_Valid :: "Provenance \<Rightarrow> bool" where
  "Provenance_Valid (ProvenanceOther _) = False"
| "Provenance_Valid _ = True"

definition Actionable :: "Provenance \<Rightarrow> bool" where
  "Actionable p \<longleftrightarrow> p = ProvenanceConfirmed"

datatype RiskLevel = RiskNone | RiskLow | RiskMedium | RiskHigh | RiskCritical | RiskOther string

fun RiskLevel_Order :: "RiskLevel \<Rightarrow> int" where
  "RiskLevel_Order RiskNone = 0"
| "RiskLevel_Order RiskLow = 1"
| "RiskLevel_Order RiskMedium = 2"
| "RiskLevel_Order RiskHigh = 3"
| "RiskLevel_Order RiskCritical = 4"
| "RiskLevel_Order (RiskOther _) = 2"

definition AtLeast :: "RiskLevel \<Rightarrow> RiskLevel \<Rightarrow> bool" where
  "AtLeast r other \<longleftrightarrow> RiskLevel_Order other \<le> RiskLevel_Order r"

definition RiskLevelFromScore :: "rat \<Rightarrow> RiskLevel" where
  "RiskLevelFromScore score =
    (if score \<le> f64 (5 / 100) then RiskNone
     else if score < f64 (25 / 100) then RiskLow
     else if score < f64 (55 / 100) then RiskMedium
     else if score < f64 (80 / 100) then RiskHigh
     else RiskCritical)"

type_synonym Confidence = rat

definition Clamp :: "Confidence \<Rightarrow> Confidence" where
  "Clamp c = (if c < 0 then 0 else if 1 < c then 1 else c)"

definition Percent :: "Confidence \<Rightarrow> int" where
  "Percent c = to_int64 (go_round (f64 (Clamp c * 100)))"

definition Band :: "Confidence \<Rightarrow> string" where
  "Band c = (let v = Clamp c in
     if f64 (90 / 100) \<le> v then ''VERY_HIGH''
     else if f64 (75 / 100) \<le> v then ''HIGH''
     else if f64 (55 / 100) \<le> v then ''MODERATE''
     else if f64 (35 / 100) \<le> v then ''LOW''
     else ''VERY_LOW'')"

datatype Criticality = CriticalityTier0 | CriticalityTier1 | CriticalityTier2 | CriticalityTier3
  | CriticalityUnset | CriticalityOther string

fun Weight :: "Criticality \<Rightarrow> rat" where
  "Weight CriticalityTier0 = 1"
| "Weight CriticalityTier1 = 3 / 4"
| "Weight CriticalityTier2 = f64 (45 / 100)"
| "Weight CriticalityTier3 = f64 (2 / 10)"
| "Weight _ = f64 (6 / 10)"

section \<open>Periods\<close>

record Period =
  Start :: gotime
  End :: gotime

text \<open>\<open>Time.Sub\<close> saturates at the bounds of a 64-bit nanosecond count.\<close>

definition time_Sub :: "gotime \<Rightarrow> gotime \<Rightarrow> int" where
  "time_Sub t u = max (- (2 ^ 63)) (min (2 ^ 63 - 1) (t - u))"

definition PeriodOfDays :: "gotime \<Rightarrow> int \<Rightarrow> Period" where
  "PeriodOfDays now days = \<lparr>Start = now - days * nanos_per_day, End = now\<rparr>"

definition Duration :: "Period \<Rightarrow> int" where
  "Duration p = time_Sub (End p) (Start p)"

text \<open>\<open>Duration.Hours\<close>: whole hours plus the fractional remainder, each a \<open>float64\<close>.\<close>

definition Hours :: "Period \<Rightarrow> rat" where
  "Hours p = (let d = Duration p; h = (if 0 \<le> d then d div nanos_per_hour else - ((- d) div nanos_per_hour));
     r = d - h * nanos_per_hour in f64 (i2f h + f64 (i2f r / i2f nanos_per_hour)))"

definition Days :: "Period \<Rightarrow> rat" where
  "Days p = f64 (Hours p / 24)"

definition Contains :: "Period \<Rightarrow> gotime \<Rightarrow> bool" where
  "Contains p t \<longleftrightarrow> \<not> t < Start p \<and> t < End p"

definition Overlaps :: "Period \<Rightarrow> Period \<Rightarrow> bool" where
  "Overlaps p o' \<longleftrightarrow> Start p < End o' \<and> Start o' < End p"

definition Period_IsZero :: "Period \<Rightarrow> bool" where
  "Period_IsZero p \<longleftrightarrow> Start p = 0 \<and> End p = 0"

section \<open>Quantiles\<close>

text \<open>The summary of a sample; its unit and the raw values are not kept.\<close>

record Percentiles =
  pc_Min :: rat
  pc_P50 :: rat
  pc_P90 :: rat
  pc_P95 :: rat
  pc_P99 :: rat
  pc_Max :: rat
  pc_Mean :: rat
  pc_StdDev :: rat
  pc_Samples :: int
  pc_Coverage :: rat
  pc_Stability :: rat
  pc_Trend :: rat
  pc_Seasonal :: bool
  pc_PeakHours :: "int list"

text \<open>\<open>xs\<close> is the sorted sample; the two reads are in range, which \<open>quantile_reads\<close> shows.\<close>

definition quantile :: "rat list \<Rightarrow> rat \<Rightarrow> rat" where
  "quantile xs q = (if xs = [] then 0 else if length xs = 1 then xs ! 0
     else let pos = f64 (q * i2f (int (length xs) - 1)); lo = \<lfloor>pos\<rfloor>; hi = \<lceil>pos\<rceil> in
       if lo = hi then xs ! nat lo
       else let frac = f64 (pos - i2f lo) in
         f64 (f64 (xs ! nat lo * f64 (1 - frac)) + f64 (xs ! nat hi * frac)))"

definition Headroom :: "rat \<Rightarrow> rat" where
  "Headroom pct = max 0 (f64 (1 - f64 (pct / 100)))"

definition Normalize :: "string \<Rightarrow> string" where
  "Normalize s = to_lower (trim_space s)"

section \<open>Properties\<close>

lemma Clamp_bounds [simp]: "0 \<le> Clamp c" "Clamp c \<le> 1"
  by (simp_all add: Clamp_def)

lemma Clamp_mono: "a \<le> b \<Longrightarrow> Clamp a \<le> Clamp b"
  by (auto simp: Clamp_def)

lemma Clamp_id: "0 \<le> c \<Longrightarrow> c \<le> 1 \<Longrightarrow> Clamp c = c"
  by (simp add: Clamp_def)

text \<open>The risk banding is monotone in the score: a higher score never gets a milder level.\<close>

theorem RiskLevelFromScore_mono:
  "s \<le> t \<Longrightarrow> RiskLevel_Order (RiskLevelFromScore s) \<le> RiskLevel_Order (RiskLevelFromScore t)"
proof -
  assume st: "s \<le> t"
  have "f64 (5 / 100) \<le> f64 (25 / 100)" "f64 (25 / 100) \<le> f64 (55 / 100)" "f64 (55 / 100) \<le> f64 (80 / 100)"
    by (rule f64_mono, simp)+
  with st show ?thesis by (auto simp: RiskLevelFromScore_def)
qed

theorem RiskLevelFromScore_mono_witness:
  "RiskLevelFromScore 0 = RiskNone \<and> RiskLevelFromScore 1 = RiskCritical \<and>
   RiskLevel_Order (RiskLevelFromScore 0) \<le> RiskLevel_Order (RiskLevelFromScore 1)"
  using RiskLevelFromScore_mono [of 0 1] f64.nonneg [of "1 / 20"] f64_mono [of "1 / 20" "1 / 4"]
    f64_mono [of "1 / 4" "11 / 20"] f64_mono [of "11 / 20" 1] f64_mono [of "4 / 5" 1]
  by (simp add: RiskLevelFromScore_def)

text \<open>The quantile of a non-empty sample reads inside the slice for every \<open>q\<close> in \<open>[0, 1]\<close>.\<close>

lemma quantile_reads:
  assumes "0 \<le> q" "q \<le> 1" "1 < length xs" "int (length xs) \<le> 2 ^ 53"
  shows "0 \<le> \<lfloor>f64 (q * i2f (int (length xs) - 1))\<rfloor>"
    and "\<lceil>f64 (q * i2f (int (length xs) - 1))\<rceil> \<le> int (length xs) - 1"
proof -
  let ?n = "int (length xs) - 1"
  have n: "i2f ?n = of_int ?n" using assms(3,4) by (intro i2f_exact) simp
  have "q * of_int ?n \<le> of_int ?n" using assms by (simp add: mult_left_le_one_le)
  then have "f64 (q * i2f ?n) \<le> f64 (of_int ?n)" by (simp only: n f64_mono)
  also have "\<dots> = of_int ?n" using assms by (intro f64_of_int) simp
  finally show "\<lceil>f64 (q * i2f ?n)\<rceil> \<le> ?n" by (simp only: ceiling_le_iff)
  have "0 \<le> f64 (q * i2f ?n)" using assms by (simp add: n f64_nonneg)
  then show "0 \<le> \<lfloor>f64 (q * i2f ?n)\<rfloor>" by simp
qed

end
