(* ===== verification/Identity.thy ===== *)
theory Identity imports Errors begin

text \<open>
  \<open>internal/domain/core/identity.go\<close>: identifiers and their validation, ARNs, environments
  and case-insensitive tags. A tag map is an association list whose order is the iteration
  order of the Go map, which is not fixed; \<open>Tags_Get_order_independent\<close> says when the
  order does not matter.
\<close>

type_synonym ID = string
type_synonym TenantID = string
type_synonym AccountID = string
type_synonym Region = string
type_synonym ARN = string

abbreviation id_IsZero :: "string \<Rightarrow> bool" where
  "id_IsZero i \<equiv> i = ''''"

definition is_alnum :: "char \<Rightarrow> bool" where
  "is_alnum c = (let n = (of_char c :: nat) in
     (48 \<le> n \<and> n \<le> 57) \<or> (65 \<le> n \<and> n \<le> 90) \<or> (97 \<le> n \<and> n \<le> 122))"

definition is_id_char :: "char \<Rightarrow> bool" where
  "is_id_char c \<longleftrightarrow> is_alnum c \<or> c \<in> {CHR ''_'', CHR ''.'', CHR ''-''}"

text \<open>\<open>^[a-zA-Z0-9][a-zA-Z0-9_.-]{2,63}$\<close>\<close>

definition idPattern :: "string \<Rightarrow> bool" where
  "idPattern s = (case s of [] \<Rightarrow> False | c # cs \<Rightarrow>
     is_alnum c \<and> 2 \<le> length cs \<and> length cs \<le> 63 \<and> list_all is_id_char cs)"

definition TenantID_Validate :: "TenantID \<Rightarrow> bool" where
  "TenantID_Validate t \<longleftrightarrow> t \<noteq> '''' \<and> idPattern t"

definition ID_Prefix :: "ID \<Rightarrow> string" where
  "ID_Prefix i = (case dropWhile (\<lambda>c. c \<noteq> CHR ''_'') i of [] \<Rightarrow> ''''
     | _ # _ \<Rightarrow> takeWhile (\<lambda>c. c \<noteq> CHR ''_'') i)"

record ParsedARN =
  arn_Partition :: string
  arn_Service :: string
  arn_Region :: string
  arn_AccountID :: string
  arn_Resource :: string
  arn_Type :: string

definition ARN_Parse :: "ARN \<Rightarrow> ParsedARN option" where
  "ARN_Parse a = (case split_n (CHR '':'') 6 a of
     [p0, p1, p2, p3, p4, p5] \<Rightarrow>
       if p0 \<noteq> ''arn'' then None
       else let sep = (\<lambda>c. c = CHR ''/'' \<or> c = CHR '':''); ty = takeWhile (\<lambda>c. \<not> sep c) p5 in
         if ty \<noteq> '''' \<and> ty \<noteq> p5
         then Some \<lparr>arn_Partition = p1, arn_Service = p2, arn_Region = p3, arn_AccountID = p4,
                    arn_Resource = drop (length ty + 1) p5, arn_Type = ty\<rparr>
         else Some \<lparr>arn_Partition = p1, arn_Service = p2, arn_Region = p3, arn_AccountID = p4,
                    arn_Resource = p5, arn_Type = ''''\<rparr>
   | _ \<Rightarrow> None)"

text \<open>\<open>^\d{12}$\<close>\<close>

definition AccountID_Validate :: "AccountID \<Rightarrow> bool" where
  "AccountID_Validate a \<longleftrightarrow> length a = 12 \<and> list_all is_digit a"

datatype Environment = EnvProduction | EnvStaging | EnvDevelopment | EnvTest | EnvSandbox | EnvDR
  | EnvUnknown | EnvOther string

primrec env_string :: "Environment \<Rightarrow> string" where
  "env_string EnvProduction = ''production''"
| "env_string EnvStaging = ''staging''"
| "env_string EnvDevelopment = ''development''"
| "env_string EnvTest = ''test''"
| "env_string EnvSandbox = ''sandbox''"
| "env_string EnvDR = ''dr''"
| "env_string EnvUnknown = ''unknown''"
| "env_string (EnvOther s) = s"

definition IsProduction :: "Environment \<Rightarrow> bool" where
  "IsProduction e \<longleftrightarrow> e = EnvProduction \<or> e = EnvDR"

definition NormalizeEnvironment :: "string \<Rightarrow> Environment" where
  "NormalizeEnvironment raw = (let s = to_lower (trim_space raw) in
     if s \<in> {''prod'', ''production'', ''prd'', ''live''} then EnvProduction
     else if s \<in> {''stage'', ''staging'', ''stg'', ''preprod'', ''pre-prod'', ''uat''} then EnvStaging
     else if s \<in> {''dev'', ''development'', ''devel''} then EnvDevelopment
     else if s \<in> {''test'', ''qa'', ''testing''} then EnvTest
     else if s \<in> {''sandbox'', ''sbx'', ''playground''} then EnvSandbox
     else if s \<in> {''dr'', ''disaster-recovery'', ''failover''} then EnvDR
     else EnvUnknown)"

section \<open>Tags\<close>

type_synonym Tags = "(string \<times> string) list"

definition Tags_Get :: "Tags \<Rightarrow> string \<Rightarrow> string option" where
  "Tags_Get t key = (case map_of t key of Some v \<Rightarrow> Some v
     | None \<Rightarrow> map_option snd (find (\<lambda>(k, v). to_lower k = to_lower key) t))"

fun Tags_First :: "Tags \<Rightarrow> string list \<Rightarrow> string" where
  "Tags_First t [] = ''''"
| "Tags_First t (k # ks) = (case Tags_Get t k of Some v \<Rightarrow> if v \<noteq> '''' then v else Tags_First t ks
     | None \<Rightarrow> Tags_First t ks)"

text \<open>A Go map has one entry per key; \<open>fold_distinct\<close> also rules out keys that differ only in case.\<close>

definition fold_distinct :: "Tags \<Rightarrow> bool" where
  "fold_distinct t \<longleftrightarrow> distinct (map (to_lower \<circ> fst) t)"

lemma find_fold_distinct:
  "fold_distinct t \<Longrightarrow> (k, v) \<in> set t \<Longrightarrow> to_lower k = l \<Longrightarrow>
   find (\<lambda>(k, v). to_lower k = l) t = Some (k, v)"
  by (induction t) (auto simp: fold_distinct_def rev_image_eqI)

lemma Tags_Get_fold_distinct:
  assumes "fold_distinct t"
  shows "Tags_Get t key = Some v \<longleftrightarrow> (\<exists>k. (k, v) \<in> set t \<and> to_lower k = to_lower key)"
proof
  assume "Tags_Get t key = Some v"
  then show "\<exists>k. (k, v) \<in> set t \<and> to_lower k = to_lower key"
    by (auto simp: Tags_Get_def find_Some_iff dest!: map_of_SomeD split: option.splits) (metis nth_mem)
next
  assume "\<exists>k. (k, v) \<in> set t \<and> to_lower k = to_lower key"
  then obtain k where k: "(k, v) \<in> set t" "to_lower k = to_lower key" by blast
  show "Tags_Get t key = Some v"
  proof (cases "map_of t key")
    case None
    then show ?thesis using find_fold_distinct [OF assms k] by (simp add: Tags_Get_def)
  next
    case (Some w)
    then have "(key, w) \<in> set t" by (rule map_of_SomeD)
    then have "find (\<lambda>(k, v). to_lower k = to_lower key) t = Some (key, w)"
      using find_fold_distinct [OF assms] by blast
    then show ?thesis using find_fold_distinct [OF assms k] Some by (simp add: Tags_Get_def)
  qed
qed

text \<open>A case-insensitive tag lookup does not depend on the iteration order of the tag map when
  no two keys differ only in case; with two such keys it does.\<close>

theorem Tags_Get_order_independent:
  "(fold_distinct t \<longrightarrow> set u = set t \<longrightarrow> length u = length t \<longrightarrow> Tags_Get u key = Tags_Get t key) \<and>
   Tags_Get [(''Env'', ''prod''), (''ENV'', ''dev'')] ''env'' \<noteq> Tags_Get [(''ENV'', ''dev''), (''Env'', ''prod'')] ''env''"
proof -
  have "Tags_Get u key = Tags_Get t key" if fd: "fold_distinct t" and s: "set u = set t" "length u = length t"
  proof -
    have "card (set (map (to_lower \<circ> fst) u)) = length u"
      using distinct_card [OF fd [unfolded fold_distinct_def]] s by simp
    then have "fold_distinct u" by (simp add: fold_distinct_def card_distinct)
    then show ?thesis
      using Tags_Get_fold_distinct [OF fd, of key] Tags_Get_fold_distinct [of u key] s
      by (metis (no_types, lifting) not_None_eq)
  qed
  moreover have "Tags_Get [(''Env'', ''prod''), (''ENV'', ''dev'')] ''env'' \<noteq> Tags_Get [(''ENV'', ''dev''), (''Env'', ''prod'')] ''env''"
    by code_simp
  ultimately show ?thesis by blast
qed

theorem Tags_Get_order_independent_witness:
  "Tags_Get [(''a'', ''1''), (''Team'', ''x'')] ''TEAM'' = Tags_Get [(''Team'', ''x''), (''a'', ''1'')] ''TEAM''"
proof -
  have "fold_distinct [(''Team'', ''x''), (''a'', ''1'')]" by code_simp
  then show ?thesis
    using Tags_Get_order_independent [of "[(''Team'', ''x''), (''a'', ''1'')]" "[(''a'', ''1''), (''Team'', ''x'')]" "''TEAM''"]
    by auto
qed

end
