(* ===== verification/Principal.thy ===== *)
theory Principal imports Identity begin

text \<open>
  \<open>internal/domain/core/principal.go\<close>: roles, the permission table, and the two guards every
  service calls: \<open>Authorize\<close> for capabilities and \<open>GuardTenant\<close> for tenant isolation. The
  context's principal is an optional argument.
\<close>

datatype Role = RolePlatformAdmin | RoleTenantAdmin | RoleArchitect | RoleFinOpsAnalyst | RoleSRE
  | RoleDeveloper | RoleAuditor | RoleViewer | RoleSystem | RoleOther string

datatype Permission = PermSpecRead | PermSpecWrite | PermSpecApprove | PermAWSConnect
  | PermDiscoveryRun | PermResourceRead | PermCostRead | PermEconomicsRead | PermRecommendRead
  | PermRecommendRun | PermSimulationRun | PermCompilerRun | PermPolicyRead | PermPolicyWrite
  | PermApprovalRead | PermApprovalDecide | PermExecutionRead | PermExecutionStart
  | PermExecutionCancel | PermRollbackStart | PermAutomationWrite | PermAuditRead | PermTenantAdmin
  | PermPlatformAdmin | PermCopilotUse | PermSLOWrite | PermOther string

definition readOnlyBundle :: "Permission list" where
  "readOnlyBundle = [PermSpecRead, PermResourceRead, PermCostRead, PermEconomicsRead,
     PermRecommendRead, PermApprovalRead, PermExecutionRead, PermPolicyRead]"

text \<open>The table; \<open>None\<close> is a role without an entry.\<close>

fun rolePermissions :: "Role \<Rightarrow> Permission list option" where
  "rolePermissions RolePlatformAdmin = Some [PermPlatformAdmin, PermTenantAdmin, PermAuditRead]"
| "rolePermissions RoleTenantAdmin = Some (readOnlyBundle @ [PermSpecWrite, PermSpecApprove,
     PermAWSConnect, PermDiscoveryRun, PermRecommendRun, PermSimulationRun, PermCompilerRun,
     PermPolicyWrite, PermApprovalDecide, PermExecutionStart, PermExecutionCancel,
     PermRollbackStart, PermAutomationWrite, PermAuditRead, PermTenantAdmin, PermCopilotUse,
     PermSLOWrite])"
| "rolePermissions RoleArchitect = Some (readOnlyBundle @ [PermSpecWrite, PermSimulationRun,
     PermCompilerRun, PermRecommendRun, PermCopilotUse, PermSLOWrite])"
| "rolePermissions RoleFinOpsAnalyst = Some (readOnlyBundle @ [PermSimulationRun, PermCompilerRun,
     PermRecommendRun, PermCopilotUse, PermSLOWrite])"
| "rolePermissions RoleSRE = Some (readOnlyBundle @ [PermDiscoveryRun, PermRecommendRun,
     PermSimulationRun, PermExecutionStart, PermExecutionCancel, PermRollbackStart, PermCopilotUse])"
| "rolePermissions RoleDeveloper = Some (readOnlyBundle @ [PermCompilerRun, PermSimulationRun,
     PermCopilotUse])"
| "rolePermissions RoleAuditor = Some (readOnlyBundle @ [PermAuditRead])"
| "rolePermissions RoleViewer = Some readOnlyBundle"
| "rolePermissions RoleSystem = Some [PermDiscoveryRun, PermRecommendRun, PermResourceRead,
     PermCostRead, PermEconomicsRead, PermExecutionRead, PermExecutionStart, PermRollbackStart,
     PermSpecRead, PermPolicyRead, PermApprovalRead]"
| "rolePermissions (RoleOther _) = None"

definition Role_Permissions :: "Role \<Rightarrow> Permission list" where
  "Role_Permissions r = (case rolePermissions r of Some ps \<Rightarrow> ps | None \<Rightarrow> [])"

definition Role_Valid :: "Role \<Rightarrow> bool" where
  "Role_Valid r \<longleftrightarrow> rolePermissions r \<noteq> None"

record Principal =
  pr_Subject :: string
  pr_TenantID :: TenantID
  pr_Email :: string
  pr_Name :: string
  pr_Roles :: "Role list"
  pr_IssuedAt :: gotime
  pr_ExpiresAt :: gotime
  pr_Machine :: bool

fun can_roles :: "Role list \<Rightarrow> Permission \<Rightarrow> bool" where
  "can_roles [] perm = False"
| "can_roles (r # rs) perm =
    (if r = RolePlatformAdmin \<and> perm \<noteq> PermExecutionStart \<and> perm \<noteq> PermRollbackStart then True
     else if perm \<in> set (Role_Permissions r) then True
     else can_roles rs perm)"

definition Can :: "Principal \<Rightarrow> Permission \<Rightarrow> bool" where
  "Can p perm = can_roles (pr_Roles p) perm"

definition HasRole :: "Principal \<Rightarrow> Role \<Rightarrow> bool" where
  "HasRole p r \<longleftrightarrow> r \<in> set (pr_Roles p)"

definition Authorize :: "Principal \<Rightarrow> Permission \<Rightarrow> err option" where
  "Authorize p perm = (if Can p perm then None else Some Forbidden)"

definition Describe :: "Principal \<Rightarrow> string" where
  "Describe p = (if pr_Machine p then ''system:'' @ pr_Subject p
     else if pr_Email p \<noteq> '''' then pr_Email p else pr_Subject p)"

definition SystemPrincipal :: "TenantID \<Rightarrow> string \<Rightarrow> gotime \<Rightarrow> Principal" where
  "SystemPrincipal tenant component now = \<lparr>pr_Subject = ''cloudoptix/'' @ component,
     pr_TenantID = tenant, pr_Email = '''', pr_Name = '''', pr_Roles = [RoleSystem],
     pr_IssuedAt = now, pr_ExpiresAt = 0, pr_Machine = True\<rparr>"

definition TenantFrom :: "Principal option \<Rightarrow> TenantID option" where
  "TenantFrom ctx = (case ctx of None \<Rightarrow> None
     | Some p \<Rightarrow> if id_IsZero (pr_TenantID p) then None else Some (pr_TenantID p))"

definition GuardTenant :: "Principal option \<Rightarrow> TenantID \<Rightarrow> err option" where
  "GuardTenant ctx objectTenant = (case ctx of
     None \<Rightarrow> Some (NewError ErrUnauthenticated ''no_principal'')
   | Some p \<Rightarrow>
     if HasRole p RolePlatformAdmin then None
     else (case TenantFrom ctx of
       None \<Rightarrow> Some (NewError ErrUnauthenticated ''no_tenant_scope'')
     | Some caller \<Rightarrow>
       if caller = objectTenant then None
       else Some (NewError ErrTenantMismatch ''tenant_mismatch'')))"

lemma can_roles_iff:
  "can_roles rs perm \<longleftrightarrow> (\<exists>r \<in> set rs. perm \<in> set (Role_Permissions r) \<or>
     (r = RolePlatformAdmin \<and> perm \<noteq> PermExecutionStart \<and> perm \<noteq> PermRollbackStart))"
  by (induction rs) auto

text \<open>Who may start an execution or a rollback: exactly the holders of tenant_admin, sre or
  the internal system role; a platform operator's blanket access does not include them.\<close>

theorem Can_start_execution:
  assumes "perm \<in> {PermExecutionStart, PermRollbackStart}"
  shows "Can p perm \<longleftrightarrow>
     RoleTenantAdmin \<in> set (pr_Roles p) \<or> RoleSRE \<in> set (pr_Roles p) \<or> RoleSystem \<in> set (pr_Roles p)"
proof -
  have h: "PermExecutionStart \<in> set (Role_Permissions r) \<longleftrightarrow> r \<in> {RoleTenantAdmin, RoleSRE, RoleSystem}"
    and h2: "PermRollbackStart \<in> set (Role_Permissions r) \<longleftrightarrow> r \<in> {RoleTenantAdmin, RoleSRE, RoleSystem}" for r
    by (cases r; simp add: Role_Permissions_def readOnlyBundle_def)+
  show ?thesis using assms by (auto simp: Can_def can_roles_iff h h2)
qed

theorem Can_start_execution_witness:
  "\<not> Can \<lparr>pr_Subject = ''ops'', pr_TenantID = '''', pr_Email = '''', pr_Name = '''',
     pr_Roles = [RolePlatformAdmin, RoleAuditor], pr_IssuedAt = 0, pr_ExpiresAt = 0, pr_Machine = False\<rparr> PermExecutionStart \<and>
   Can (SystemPrincipal ''acme'' ''worker'' 0) PermRollbackStart"
  using Can_start_execution [of PermExecutionStart] Can_start_execution [of PermRollbackStart]
  by (simp add: SystemPrincipal_def)

text \<open>Tenant isolation: a caller who is not a platform operator passes the guard only for the
  tenant its session is scoped to, and is otherwise answered with 401 or with the 404 of a
  missing object.\<close>

theorem GuardTenant_isolation:
  "(GuardTenant ctx t = None \<longleftrightarrow>
     (\<exists>p. ctx = Some p \<and> (RolePlatformAdmin \<in> set (pr_Roles p) \<or> (pr_TenantID p \<noteq> '''' \<and> pr_TenantID p = t)))) \<and>
   (\<forall>e. GuardTenant ctx t = Some e \<longrightarrow> HTTPStatus (Some e) \<in> {401, 404})"
  by (auto simp: GuardTenant_def TenantFrom_def HasRole_def HTTPStatus_def split: option.splits if_splits)

theorem GuardTenant_isolation_witness:
  "HTTPStatus (Some (NewError ErrTenantMismatch ''tenant_mismatch'')) \<in> {401, 404 :: nat}"
proof -
  have "GuardTenant (Some (SystemPrincipal ''acme'' ''worker'' 0)) ''other'' =
      Some (NewError ErrTenantMismatch ''tenant_mismatch'')"
    by (simp add: GuardTenant_def TenantFrom_def HasRole_def SystemPrincipal_def)
  then show ?thesis using GuardTenant_isolation by blast
qed

end
