(* ===== verification/Resource.thy ===== *)
theory Resource imports Assessment Identity Money begin

text \<open>
  \<open>internal/domain/cloud/resource.go\<close>: the closed set of resource kinds with their wire
  names, categories and mutability, the normalized resource with its validation, and the
  inventory with its four indexes. An index maps a key to positions of the resource slice.
\<close>

datatype (plugins only: code) Kind = KindEC2Instance | KindEBSVolume | KindEBSSnapshot | KindElasticIP | KindAMI
  | KindAutoScalingGroup | KindRDSInstance | KindRDSCluster | KindRDSSnapshot | KindDynamoDBTable
  | KindS3Bucket | KindLambdaFunction | KindECSCluster | KindECSService | KindECSTaskDef
  | KindEKSCluster | KindEKSNodeGroup | KindK8sWorkload | KindK8sNamespace | KindALB | KindNLB
  | KindTargetGroup | KindCloudFront | KindAPIGateway | KindNATGateway | KindVPC | KindSubnet
  | KindSecurityGroup | KindVPCEndpoint | KindTransitGateway | KindRoute53Zone | KindElastiCache
  | KindMSKCluster | KindSQSQueue | KindSNSTopic | KindKinesisStream | KindEventBus | KindLogGroup
  | KindCloudTrail | KindConfigRecorder | KindKMSKey | KindSecret | KindUnknown | KindOther string

primrec kind_string :: "Kind \<Rightarrow> string" where
  "kind_string KindEC2Instance = ''aws.ec2.instance''"
| "kind_string KindEBSVolume = ''aws.ebs.volume''"
| "kind_string KindEBSSnapshot = ''aws.ebs.snapshot''"
| "kind_string KindElasticIP = ''aws.ec2.elastic_ip''"
| "kind_string KindAMI = ''aws.ec2.image''"
| "kind_string KindAutoScalingGroup = ''aws.autoscaling.group''"
| "kind_string KindRDSInstance = ''aws.rds.instance''"
| "kind_string KindRDSCluster = ''aws.rds.cluster''"
| "kind_string KindRDSSnapshot = ''aws.rds.snapshot''"
| "kind_string KindDynamoDBTable = ''aws.dynamodb.table''"
| "kind_string KindS3Bucket = ''aws.s3.bucket''"
| "kind_string KindLambdaFunction = ''aws.lambda.function''"
| "kind_string KindECSCluster = ''aws.ecs.cluster''"
| "kind_string KindECSService = ''aws.ecs.service''"
| "kind_string KindECSTaskDef = ''aws.ecs.task_definition''"
| "kind_string KindEKSCluster = ''aws.eks.cluster''"
| "kind_string KindEKSNodeGroup = ''aws.eks.nodegroup''"
| "kind_string KindK8sWorkload = ''k8s.workload''"
| "kind_string KindK8sNamespace = ''k8s.namespace''"
| "kind_string KindALB = ''aws.elbv2.application''"
| "kind_string KindNLB = ''aws.elbv2.network''"
| "kind_string KindTargetGroup = ''aws.elbv2.target_group''"
| "kind_string KindCloudFront = ''aws.cloudfront.distribution''"
| "kind_string KindAPIGateway = ''aws.apigateway.api''"
| "kind_string KindNATGateway = ''aws.ec2.nat_gateway''"
| "kind_string KindVPC = ''aws.ec2.vpc''"
| "kind_string KindSubnet = ''aws.ec2.subnet''"
| "kind_string KindSecurityGroup = ''aws.ec2.security_group''"
| "kind_string KindVPCEndpoint = ''aws.ec2.vpc_endpoint''"
| "kind_string KindTransitGateway = ''aws.ec2.transit_gateway''"
| "kind_string KindRoute53Zone = ''aws.route53.hosted_zone''"
| "kind_string KindElastiCache = ''aws.elasticache.cluster''"
| "kind_string KindMSKCluster = ''aws.msk.cluster''"
| "kind_string KindSQSQueue = ''aws.sqs.queue''"
| "kind_string KindSNSTopic = ''aws.sns.topic''"
| "kind_string KindKinesisStream = ''aws.kinesis.stream''"
| "kind_string KindEventBus = ''aws.events.event_bus''"
| "kind_string KindLogGroup = ''aws.logs.log_group''"
| "kind_string KindCloudTrail = ''aws.cloudtrail.trail''"
| "kind_string KindConfigRecorder = ''aws.config.recorder''"
| "kind_string KindKMSKey = ''aws.kms.key''"
| "kind_string KindSecret = ''aws.secretsmanager.secret''"
| "kind_string KindUnknown = ''unknown''"
| "kind_string (KindOther s) = s"

datatype cloud_Category = CategoryCompute | CategoryDatabase | CategoryCloudStorage
  | CategoryCloudNetwork | CategoryMessaging | CategoryCloudObservability | CategorySecurity
  | CategoryOther

definition Kind_Category :: "Kind \<Rightarrow> cloud_Category" where
  "Kind_Category k =
    (if k \<in> {KindEC2Instance, KindAutoScalingGroup, KindLambdaFunction, KindECSCluster,
        KindECSService, KindECSTaskDef, KindEKSCluster, KindEKSNodeGroup, KindK8sWorkload}
     then CategoryCompute
     else if k \<in> {KindRDSInstance, KindRDSCluster, KindRDSSnapshot, KindDynamoDBTable, KindElastiCache}
     then CategoryDatabase
     else if k \<in> {KindEBSVolume, KindEBSSnapshot, KindS3Bucket, KindAMI} then CategoryCloudStorage
     else if k \<in> {KindALB, KindNLB, KindTargetGroup, KindCloudFront, KindAPIGateway,
        KindNATGateway, KindVPC, KindSubnet, KindSecurityGroup, KindVPCEndpoint,
        KindTransitGateway, KindRoute53Zone, KindElasticIP} then CategoryCloudNetwork
     else if k \<in> {KindSQSQueue, KindSNSTopic, KindKinesisStream, KindMSKCluster, KindEventBus}
     then CategoryMessaging
     else if k \<in> {KindLogGroup, KindCloudTrail, KindConfigRecorder} then CategoryCloudObservability
     else if k \<in> {KindKMSKey, KindSecret} then CategorySecurity
     else CategoryOther)"

text \<open>\<open>strings.Split(s, ".")\<close>: at least one part.\<close>

definition split_dot :: "string \<Rightarrow> string list" where
  "split_dot s = split_n (CHR ''.'') (Suc (length s)) s"

definition Kind_Service :: "Kind \<Rightarrow> string" where
  "Kind_Service k = (case split_dot (kind_string k) of
     p0 # p1 # _ \<Rightarrow> if p0 = ''aws'' then p1 else p0
   | [p0] \<Rightarrow> p0
   | [] \<Rightarrow> ''unknown'')"

definition Kind_Mutable :: "Kind \<Rightarrow> bool" where
  "Kind_Mutable k \<longleftrightarrow> k \<in> {KindEC2Instance, KindEBSVolume, KindEBSSnapshot, KindElasticIP,
     KindRDSInstance, KindRDSCluster, KindS3Bucket, KindLambdaFunction, KindAutoScalingGroup,
     KindEKSNodeGroup, KindECSService, KindDynamoDBTable, KindLogGroup, KindAMI}"

datatype State = StateRunning | StateStopped | StateAvailable | StateInUse | StateIdle
  | StateTerminated | StatePending | StateModifying | StateFailed | StateUnknown | StateOther string

definition State_Active :: "State \<Rightarrow> bool" where
  "State_Active s \<longleftrightarrow> s \<in> {StateRunning, StateAvailable, StateInUse, StateModifying, StateIdle}"

datatype PurchaseModel = PurchaseOnDemand | PurchaseSpot | PurchaseReserved | PurchaseSavingsPlan
  | PurchaseServerless | PurchaseUnknown | PurchaseOther string

record Capacity =
  ca_VCPU :: rat
  ca_MemoryGiB :: rat
  ca_StorageGiB :: rat
  ca_ProvisionedIOPS :: int
  ca_ThroughputMiBps :: rat
  ca_NetworkGbps :: rat
  ca_InstanceCount :: int
  ca_DesiredCount :: int
  ca_MinCount :: int
  ca_MaxCount :: int
  ca_ReadReplicas :: int
  ca_ShardCount :: int
  ca_MemoryMB :: int
  ca_TimeoutSeconds :: int
  ca_Concurrency :: int
  ca_ObjectCount :: int
  ca_RetentionDays :: int
  ca_WriteCapacityRCU :: rat
  ca_ReadCapacityWCU :: rat

definition no_capacity :: Capacity where
  "no_capacity = \<lparr>ca_VCPU = 0, ca_MemoryGiB = 0, ca_StorageGiB = 0, ca_ProvisionedIOPS = 0, ca_ThroughputMiBps = 0,
     ca_NetworkGbps = 0, ca_InstanceCount = 0, ca_DesiredCount = 0, ca_MinCount = 0, ca_MaxCount = 0, ca_ReadReplicas = 0,
     ca_ShardCount = 0, ca_MemoryMB = 0, ca_TimeoutSeconds = 0, ca_Concurrency = 0, ca_ObjectCount = 0, ca_RetentionDays = 0,
     ca_WriteCapacityRCU = 0, ca_ReadCapacityWCU = 0\<rparr>"

text \<open>Cost centre, engine version, the name of the discovering adapter and the source of the cost are left out: no
  operation of the model reads them.\<close>

record Resource =
  res_ID :: ID
  res_TenantID :: TenantID
  res_AccountID :: AccountID
  res_Region :: Region
  res_AZ :: string
  res_Kind :: Kind
  res_ARN :: ARN
  res_NativeID :: string
  res_Name :: string
  res_State :: State
  res_InstanceType :: string
  res_Engine :: string
  res_Capacity :: Capacity
  res_Purchase :: PurchaseModel
  res_Tags :: Tags
  res_Environment :: Environment
  res_EnvironmentSource :: "Provenance option"
  res_ApplicationID :: ID
  res_WorkloadID :: ID
  res_Owner :: string
  res_Criticality :: Criticality
  res_Attributes :: "(string \<times> string) list"
  res_CreatedAt :: gotime
  res_FirstSeenAt :: gotime
  res_LastSeenAt :: gotime
  res_Deleted :: bool
  res_MonthlyCost :: Money

text \<open>A small resource, for examples.\<close>

definition no_resource :: Resource where
  "no_resource = \<lparr>res_ID = ''i'', res_TenantID = ''t'', res_AccountID = ''a'', res_Region = ''r'', res_AZ = '''',
     res_Kind = KindEC2Instance, res_ARN = '''', res_NativeID = ''i-1'', res_Name = '''', res_State = StateRunning,
     res_InstanceType = '''', res_Engine = '''', res_Capacity = no_capacity, res_Purchase = PurchaseOnDemand, res_Tags = [],
     res_Environment = EnvDevelopment, res_EnvironmentSource = None, res_ApplicationID = '''', res_WorkloadID = '''',
     res_Owner = '''', res_Criticality = CriticalityTier3, res_Attributes = [], res_CreatedAt = 1, res_FirstSeenAt = 1,
     res_LastSeenAt = 1, res_Deleted = False, res_MonthlyCost = zero_money\<rparr>"

definition Attr :: "Resource \<Rightarrow> string \<Rightarrow> string \<Rightarrow> string" where
  "Attr r key def = (case map_of (res_Attributes r) key of
     Some v \<Rightarrow> if v \<noteq> '''' then v else def | None \<Rightarrow> def)"

definition AttrBool :: "Resource \<Rightarrow> string \<Rightarrow> bool \<Rightarrow> bool" where
  "AttrBool r key def = (let s = to_lower (Attr r key '''') in
     if s \<in> {''true'', ''yes'', ''enabled'', ''1''} then True
     else if s \<in> {''false'', ''no'', ''disabled'', ''0''} then False else def)"

definition DisplayName :: "Resource \<Rightarrow> string" where
  "DisplayName r = (if res_Name r \<noteq> '''' then res_Name r
     else case Tags_Get (res_Tags r) ''Name'' of
       Some n \<Rightarrow> if n \<noteq> '''' then n else res_NativeID r
     | None \<Rightarrow> res_NativeID r)"

definition Resource_Key :: "Resource \<Rightarrow> string" where
  "Resource_Key r = res_TenantID r @ ''/'' @ res_AccountID r @ ''/'' @ res_Region r @ ''/''
     @ kind_string (res_Kind r) @ ''/'' @ res_NativeID r"

definition Resource_IsProduction :: "Resource \<Rightarrow> bool" where
  "Resource_IsProduction r = IsProduction (res_Environment r)"

definition Age :: "Resource \<Rightarrow> gotime \<Rightarrow> int" where
  "Age r now = (if res_CreatedAt r = 0 then 0 else time_Sub now (res_CreatedAt r))"

definition Resource_Validate :: "Resource \<Rightarrow> err option" where
  "Resource_Validate r = result_Err (concat [
     report (id_IsZero (res_TenantID r)) ''tenant_id'' ''required'' SeverityCritical,
     report (res_NativeID r = '''') ''native_id'' ''required'' SeverityCritical,
     report (kind_string (res_Kind r) = '''') ''kind'' ''required'' SeverityCritical,
     report (res_Region r = '''' \<and> res_Kind r \<noteq> KindS3Bucket \<and> res_Kind r \<noteq> KindCloudFront
       \<and> res_Kind r \<noteq> KindRoute53Zone) ''region'' ''required'' SeverityHigh,
     report (\<not> AccountID_Validate (res_AccountID r) \<and> res_AccountID r \<noteq> '''')
       ''account_id'' ''invalid'' SeverityHigh,
     report (\<exists>p. res_EnvironmentSource r = Some p \<and> \<not> Provenance_Valid p)
       ''environment_source'' ''invalid'' SeverityMedium])"

section \<open>Inventory\<close>

record Inventory =
  resources :: "Resource list"
  byID :: "ID \<rightharpoonup> nat"
  byKind :: "Kind \<Rightarrow> nat list"
  byARN :: "ARN \<rightharpoonup> nat"
  byNative :: "string \<rightharpoonup> nat"

definition index_one :: "Inventory \<Rightarrow> nat \<times> Resource \<Rightarrow> Inventory" where
  "index_one iv ir = (let (i, r) = ir in
     iv\<lparr>byID := (byID iv)(res_ID r \<mapsto> i),
         byKind := (byKind iv)(res_Kind r := byKind iv (res_Kind r) @ [i]),
         byARN := (if res_ARN r \<noteq> '''' then (byARN iv)(res_ARN r \<mapsto> i) else byARN iv),
         byNative := (byNative iv)(res_NativeID r \<mapsto> i)\<rparr>)"

definition NewInventory :: "Resource list \<Rightarrow> Inventory" where
  "NewInventory rs = foldl index_one
     \<lparr>resources = rs, byID = Map.empty, byKind = (\<lambda>_. []), byARN = Map.empty, byNative = Map.empty\<rparr>
     (List.enumerate 0 rs)"

definition ByID :: "Inventory \<Rightarrow> ID \<Rightarrow> Resource option" where
  "ByID i k = map_option ((!) (resources i)) (byID i k)"

definition ByARN :: "Inventory \<Rightarrow> ARN \<Rightarrow> Resource option" where
  "ByARN i k = map_option ((!) (resources i)) (byARN i k)"

definition ByNativeID :: "Inventory \<Rightarrow> string \<Rightarrow> Resource option" where
  "ByNativeID i k = map_option ((!) (resources i)) (byNative i k)"

definition OfKind :: "Inventory \<Rightarrow> Kind \<Rightarrow> Resource list" where
  "OfKind i k = map ((!) (resources i)) (byKind i k)"

definition OfKinds :: "Inventory \<Rightarrow> Kind list \<Rightarrow> Resource list" where
  "OfKinds i ks = concat (map (OfKind i) ks)"

definition Filter :: "Inventory \<Rightarrow> (Resource \<Rightarrow> bool) \<Rightarrow> Resource list" where
  "Filter i pred = filter pred (resources i)"

definition TotalMonthlyCost :: "Inventory \<Rightarrow> Money option" where
  "TotalMonthlyCost i = fold_opt (\<lambda>r tot. MustAdd tot (res_MonthlyCost r)) (resources i) ZeroUSD"

definition KindCounts :: "Inventory \<Rightarrow> Kind \<Rightarrow> nat" where
  "KindCounts i k = length (byKind i k)"

section \<open>The indexes agree with the slice\<close>

lemma foldl_index_one:
  "let iv' = foldl index_one iv irs in
     resources iv' = resources iv \<and>
     byID iv' = byID iv ++ map_of (rev (map (\<lambda>(i, r). (res_ID r, i)) irs)) \<and>
     byNative iv' = byNative iv ++ map_of (rev (map (\<lambda>(i, r). (res_NativeID r, i)) irs)) \<and>
     byKind iv' k = byKind iv k @ map fst (filter (\<lambda>(i, r). res_Kind r = k) irs)"
  by (induction irs arbitrary: iv) (auto simp: index_one_def Let_def)

lemma map_of_rev_enumerate:
  "map_option ((!) rs) (map_of (rev (map (\<lambda>(i, r). (f r, i)) (List.enumerate 0 rs))) k) =
   find (\<lambda>r. f r = k) (rev rs)"
proof (induction rs rule: rev_induct)
  case (snoc x rs)
  let ?m = "map_of (rev (map (\<lambda>(i, r). (f r, i)) (List.enumerate 0 rs)))"
  have "i < length rs" if "?m k = Some i" for i
    using map_of_SomeD [OF that] by (auto simp: enumerate_eq_zip dest: set_zip_leftD)
  then have "map_option ((!) (rs @ [x])) (?m k) = map_option ((!) rs) (?m k)"
    by (cases "?m k") (auto simp: nth_append)
  with snoc show ?case by (simp add: enumerate_append_eq)
qed simp

lemma filter_enumerate:
  "map ((!) rs) (map fst (filter (\<lambda>(i, r). P r) (List.enumerate 0 rs))) = filter P rs"
proof (induction rs rule: rev_induct)
  case (snoc x rs)
  have "map ((!) (rs @ [x])) (map fst (filter (\<lambda>(i, r). P r) (List.enumerate 0 rs))) =
      map ((!) rs) (map fst (filter (\<lambda>(i, r). P r) (List.enumerate 0 rs)))"
    by (auto simp: nth_append enumerate_eq_zip dest: set_zip_leftD)
  with snoc show ?case by (simp add: enumerate_append_eq)
qed simp

text \<open>C40: the inventory's indexes implement searches of the resource slice: a lookup by identifier
  or by provider id finds the last resource that carries it, and \<open>OfKind\<close> lists exactly the
  resources of the kind in slice order, their number being \<open>KindCounts\<close>.\<close>

theorem Inventory_refines_slice:
  "ByID (NewInventory rs) i = find (\<lambda>r. res_ID r = i) (rev rs) \<and>
   ByNativeID (NewInventory rs) n = find (\<lambda>r. res_NativeID r = n) (rev rs) \<and>
   OfKind (NewInventory rs) k = filter (\<lambda>r. res_Kind r = k) rs \<and>
   KindCounts (NewInventory rs) k = length (filter (\<lambda>r. res_Kind r = k) rs)"
proof -
  note idx = foldl_index_one [of "\<lparr>resources = rs, byID = Map.empty, byKind = (\<lambda>_. []),
     byARN = Map.empty, byNative = Map.empty\<rparr>" "List.enumerate 0 rs" k, folded NewInventory_def]
  have "length (map fst (filter (\<lambda>(i, r). res_Kind r = k) (List.enumerate 0 rs))) =
      length (filter (\<lambda>r. res_Kind r = k) rs)"
    using arg_cong [OF filter_enumerate [of rs "\<lambda>r. res_Kind r = k"], of length] by simp
  then show ?thesis
    using idx filter_enumerate [of rs "\<lambda>r. res_Kind r = k"]
      map_of_rev_enumerate [of rs res_ID i] map_of_rev_enumerate [of rs res_NativeID n]
    by (simp add: Let_def ByID_def ByNativeID_def OfKind_def KindCounts_def)
qed

end
