(* ===== verification/Topology.thy ===== *)
theory Topology imports Resource begin

text \<open>
  \<open>internal/domain/cloud/topology.go\<close>: the typed relationships between resources, their
  adjacency indexes and the three traversals. \<open>Dependents\<close> and \<open>Dependencies\<close> are the same
  breadth-first loop over the inbound and the outbound edges; \<open>bfs\<close> is that loop, with the
  queue, the visited map and the depth bound of the code, and it terminates on every graph.
\<close>

datatype RelationKind = RelContains | RelRunsOn | RelRoutesTo | RelDependsOn | RelAttachedTo
  | RelReplicaOf | RelProducesTo | RelConsumesFrom | RelEgressVia | RelSharedBy | RelOther string

definition TraversesRequestPath :: "RelationKind \<Rightarrow> bool" where
  "TraversesRequestPath r \<longleftrightarrow>
     r \<in> {RelRoutesTo, RelDependsOn, RelRunsOn, RelAttachedTo, RelReplicaOf}"

definition CarriesCost :: "RelationKind \<Rightarrow> bool" where
  "CarriesCost r \<longleftrightarrow> r \<in> {RelContains, RelRunsOn, RelAttachedTo, RelEgressVia, RelSharedBy}"

record Relationship =
  FromID :: ID
  ToID :: ID
  RKind :: RelationKind
  RWeight :: rat
  RConfidence :: Confidence

definition EffectiveWeight :: "Relationship \<Rightarrow> rat" where
  "EffectiveWeight r = (if RWeight r \<le> 0 then 1 else RWeight r)"

record Topology =
  edges :: "Relationship list"
  outbound :: "ID \<Rightarrow> nat list"
  inbound :: "ID \<Rightarrow> nat list"

definition index_edge :: "Topology \<Rightarrow> nat \<times> Relationship \<Rightarrow> Topology" where
  "index_edge t ie = (let (i, e) = ie in
     t\<lparr>outbound := (outbound t)(FromID e := outbound t (FromID e) @ [i]),
       inbound := (inbound t)(ToID e := inbound t (ToID e) @ [i])\<rparr>)"

definition NewTopology :: "Relationship list \<Rightarrow> Topology" where
  "NewTopology es = foldl index_edge \<lparr>edges = es, outbound = (\<lambda>_. []), inbound = (\<lambda>_. [])\<rparr>
     (List.enumerate 0 es)"

definition Topology_Len :: "Topology \<Rightarrow> nat" where
  "Topology_Len t = length (edges t)"

definition collect :: "Topology \<Rightarrow> nat list \<Rightarrow> RelationKind list \<Rightarrow> Relationship list" where
  "collect t idxs kinds =
     filter (\<lambda>e. kinds = [] \<or> RKind e \<in> set kinds) (map ((!) (edges t)) idxs)"

definition Outbound :: "Topology \<Rightarrow> ID \<Rightarrow> RelationKind list \<Rightarrow> Relationship list" where
  "Outbound t i kinds = collect t (outbound t i) kinds"

definition Inbound :: "Topology \<Rightarrow> ID \<Rightarrow> RelationKind list \<Rightarrow> Relationship list" where
  "Inbound t i kinds = collect t (inbound t i) kinds"

section \<open>Traversal\<close>

text \<open>An unrated edge counts as likely. A step lists the request-path neighbours of a node.\<close>

definition edge_confidence :: "Relationship \<Rightarrow> rat" where
  "edge_confidence e = (if RConfidence e \<le> 0 then f64 (8 / 10) else RConfidence e)"

definition inbound_step :: "Topology \<Rightarrow> ID \<Rightarrow> (ID \<times> rat) list" where
  "inbound_step t i = map (\<lambda>e. (FromID e, edge_confidence e))
     (filter (\<lambda>e. TraversesRequestPath (RKind e)) (Inbound t i []))"

definition outbound_step :: "Topology \<Rightarrow> ID \<Rightarrow> (ID \<times> rat) list" where
  "outbound_step t i = map (\<lambda>e. (ToID e, edge_confidence e))
     (filter (\<lambda>e. TraversesRequestPath (RKind e)) (Outbound t i []))"

record frame =
  fr_id :: ID
  fr_depth :: int
  fr_conf :: rat

text \<open>The body of the inner loop: skip a decayed path, skip a node already reached at least as
  confidently, otherwise record the node and queue it. It returns the new frames.\<close>

fun visit :: "frame \<Rightarrow> (ID \<times> rat) list \<Rightarrow> (ID \<rightharpoonup> rat) \<Rightarrow> frame list \<times> (ID \<rightharpoonup> rat)" where
  "visit cur [] found = ([], found)"
| "visit cur ((n, ec) # es) found = (let conf = f64 (fr_conf cur * ec) in
     if conf < f64 (5 / 100) then visit cur es found
     else if (case found n of Some prev \<Rightarrow> conf \<le> prev | None \<Rightarrow> False) then visit cur es found
     else let (fs, found') = visit cur es (found(n \<mapsto> conf)) in
       (\<lparr>fr_id = n, fr_depth = fr_depth cur + 1, fr_conf = conf\<rparr> # fs, found'))"

lemma visit_depth: "f \<in> set (fst (visit cur es found)) \<Longrightarrow> fr_depth f = fr_depth cur + 1"
  by (induction cur es found rule: visit.induct) (auto simp: Let_def split: if_splits prod.splits)

text \<open>Termination: a frame is replaced by frames that are one level deeper: the multiset of remaining depths
  decreases.\<close>

function bfs :: "(ID \<Rightarrow> (ID \<times> rat) list) \<Rightarrow> int \<Rightarrow> frame list \<Rightarrow> (ID \<rightharpoonup> rat) \<Rightarrow> (ID \<rightharpoonup> rat)" where
  "bfs step maxDepth [] found = found"
| "bfs step maxDepth (cur # queue) found =
     (if maxDepth \<le> fr_depth cur then bfs step maxDepth queue found
      else let (fs, found') = visit cur (step (fr_id cur)) found in
        bfs step maxDepth (queue @ fs) found')"
  by pat_completeness auto

termination
proof (relation "inv_image (mult {(x :: nat, y). x < y})
    (\<lambda>(step, maxDepth, queue, found). mset (map (\<lambda>f. nat (maxDepth - fr_depth f)) queue))")
  show "wf (inv_image (mult {(x :: nat, y). x < y})
    (\<lambda>(step :: ID \<Rightarrow> (ID \<times> rat) list, maxDepth, queue, found :: ID \<rightharpoonup> rat).
       mset (map (\<lambda>f. nat (maxDepth - fr_depth f)) queue)))"
    by (intro wf_inv_image wf_mult wf_less)
next
  fix step :: "ID \<Rightarrow> (ID \<times> rat) list" and maxDepth :: int and cur :: frame
    and queue :: "frame list" and found :: "ID \<rightharpoonup> rat"
  show "((step, maxDepth, queue, found), (step, maxDepth, cur # queue, found)) \<in>
    inv_image (mult {(x :: nat, y). x < y})
      (\<lambda>(step, maxDepth, queue, found). mset (map (\<lambda>f. nat (maxDepth - fr_depth f)) queue))"
    by (simp add: subset_implies_mult)
next
  fix step :: "ID \<Rightarrow> (ID \<times> rat) list" and maxDepth :: int and cur :: frame
    and queue :: "frame list" and found :: "ID \<rightharpoonup> rat" and p fs found'
  assume d: "\<not> maxDepth \<le> fr_depth cur" and p: "p = visit cur (step (fr_id cur)) found"
    and pe: "(fs, found') = p"
  let ?r = "\<lambda>f. nat (maxDepth - fr_depth f)"
  have "\<forall>f \<in> set fs. ?r f < ?r cur"
    using visit_depth [of _ cur "step (fr_id cur)" found] d p pe by (metis fst_conv nat_mono_iff diff_gt_0_iff_gt diff_strict_left_mono less_add_one not_le)
  then have "(mset (map ?r queue) + mset (map ?r fs), mset (map ?r queue) + {# ?r cur #}) \<in>
      mult {(x :: nat, y). x < y}"
    by (intro one_step_implies_mult) auto
  then show "((step, maxDepth, queue @ fs, found'), (step, maxDepth, cur # queue, found)) \<in>
    inv_image (mult {(x :: nat, y). x < y})
      (\<lambda>(step, maxDepth, queue, found). mset (map (\<lambda>f. nat (maxDepth - fr_depth f)) queue))"
    by simp
qed

definition start_frame :: "ID \<Rightarrow> frame" where
  "start_frame i = \<lparr>fr_id = i, fr_depth = 0, fr_conf = 1\<rparr>"

definition Dependents :: "Topology \<Rightarrow> ID \<Rightarrow> int \<Rightarrow> (ID \<rightharpoonup> Confidence)" where
  "Dependents t i maxDepth = (bfs (inbound_step t) maxDepth [start_frame i] Map.empty)(i := None)"

definition Dependencies :: "Topology \<Rightarrow> ID \<Rightarrow> int \<Rightarrow> (ID \<rightharpoonup> Confidence)" where
  "Dependencies t i maxDepth = (bfs (outbound_step t) maxDepth [start_frame i] Map.empty)(i := None)"

definition Consumers :: "Topology \<Rightarrow> ID \<Rightarrow> (ID \<rightharpoonup> rat)" where
  "Consumers t i = (let es = Inbound t i [RelSharedBy, RelRunsOn, RelEgressVia, RelAttachedTo] in
     if es = [] then Map.empty
     else let tot = foldl (\<lambda>s e. f64 (s + EffectiveWeight e)) 0 es in
       if tot = 0 then Map.empty
       else foldl (\<lambda>out e. out(FromID e \<mapsto>
         f64 ((case out (FromID e) of Some x \<Rightarrow> x | None \<Rightarrow> 0) + f64 (EffectiveWeight e / tot)))) Map.empty es)"

section \<open>What the traversal computes\<close>

text \<open>A live path is a walk of request-path edges whose confidence, the rounded product of the
  edge confidences, stays at or above the decay limit at every step.\<close>

inductive live_path :: "(ID \<Rightarrow> (ID \<times> rat) set) \<Rightarrow> ID \<Rightarrow> nat \<Rightarrow> ID \<Rightarrow> rat \<Rightarrow> bool" for adj i where
  start: "live_path adj i 0 i 1"
| extend: "live_path adj i k m c \<Longrightarrow> (n, ec) \<in> adj m \<Longrightarrow> f64 (5 / 100) \<le> f64 (c * ec) \<Longrightarrow>
    live_path adj i (Suc k) n (f64 (c * ec))"

inductive_cases live_path_SucE: "live_path adj i (Suc k) n c"

lemma visit_mono: "found n = Some v \<Longrightarrow> \<exists>v' \<ge> v. snd (visit cur es found) n = Some v'"
proof (induction es arbitrary: v found)
  case (Cons e es)
  obtain m ec where e: "e = (m, ec)" by fastforce
  let ?conf = "f64 (fr_conf cur * ec)"
  show ?case
  proof (cases "?conf < f64 (5 / 100) \<or> (case found m of Some prev \<Rightarrow> ?conf \<le> prev | None \<Rightarrow> False)")
    case True
    then show ?thesis using Cons e by (auto simp: Let_def)
  next
    case False
    obtain w where w: "v \<le> w" "(found(m \<mapsto> ?conf)) n = Some w"
      using False Cons.prems by (cases "n = m") auto
    have "\<exists>v' \<ge> w. snd (visit cur es (found(m \<mapsto> ?conf))) n = Some v'"
      using w(2) by (rule Cons.IH)
    then show ?thesis using False w(1) e by (auto simp: Let_def split: prod.splits)
  qed
qed auto

lemma visit_covers:
  "(n, ec) \<in> set es \<Longrightarrow> f64 (5 / 100) \<le> f64 (fr_conf cur * ec) \<Longrightarrow>
   \<exists>v \<ge> f64 (fr_conf cur * ec). snd (visit cur es found) n = Some v"
proof (induction es arbitrary: found)
  case (Cons e es)
  obtain m ec' where e: "e = (m, ec')" by fastforce
  let ?conf = "f64 (fr_conf cur * ec')"
  show ?case
  proof (cases "(n, ec) = (m, ec')")
    case True
    with Cons.prems have "\<not> ?conf < f64 (5 / 100)" by simp
    moreover have "\<exists>v' \<ge> ?conf. snd (visit cur es (found(m \<mapsto> ?conf))) m = Some v'"
      by (rule visit_mono) simp
    moreover have "\<exists>v' \<ge> ?conf. snd (visit cur es found) m = Some v'" if p: "found m = Some p" "?conf \<le> p" for p
      using visit_mono [where found = found and n = m and cur = cur and es = es, OF p(1)] p(2)
      by (meson order_trans)
    ultimately show ?thesis using True e by (auto simp: Let_def split: prod.splits option.splits)
  next
    case False
    then have n: "(n, ec) \<in> set es" using Cons.prems e by auto
    show ?thesis using Cons.IH [OF n Cons.prems(2)] e
      by (auto simp: Let_def split: prod.splits option.splits) (metis snd_conv)+
  qed
qed auto

lemma visit_origin:
  "snd (visit cur es found) n = Some v \<Longrightarrow>
   found n = Some v \<or> \<lparr>fr_id = n, fr_depth = fr_depth cur + 1, fr_conf = v\<rparr> \<in> set (fst (visit cur es found))"
proof (induction es arbitrary: found)
  case (Cons e es)
  obtain m ec where e: "e = (m, ec)" by fastforce
  let ?conf = "f64 (fr_conf cur * ec)"
  show ?case
  proof (cases "?conf < f64 (5 / 100) \<or> (case found m of Some prev \<Rightarrow> ?conf \<le> prev | None \<Rightarrow> False)")
    case True
    then have "visit cur (e # es) found = visit cur es found" using e by (auto simp: Let_def)
    then show ?thesis using Cons.IH [of found] Cons.prems by (simp only:)
  next
    case False
    define f' where "f' = found(m \<mapsto> ?conf)"
    have eq: "visit cur (e # es) found =
        (\<lparr>fr_id = m, fr_depth = fr_depth cur + 1, fr_conf = ?conf\<rparr> # fst (visit cur es f'), snd (visit cur es f'))"
      using False e by (auto simp: f'_def Let_def split: prod.splits)
    then have "snd (visit cur es f') n = Some v" using Cons.prems by simp
    from Cons.IH [OF this] have "f' n = Some v \<or>
        \<lparr>fr_id = n, fr_depth = fr_depth cur + 1, fr_conf = v\<rparr> \<in> set (fst (visit cur es f'))" .
    moreover have "f' n = (if n = m then Some ?conf else found n)" by (simp add: f'_def)
    ultimately show ?thesis using eq by (auto split: if_splits)
  qed
qed auto

lemma visit_frames:
  "f \<in> set (fst (visit cur es found)) \<Longrightarrow> \<exists>ec. (fr_id f, ec) \<in> set es \<and>
     fr_conf f = f64 (fr_conf cur * ec) \<and> f64 (5 / 100) \<le> f64 (fr_conf cur * ec)"
  by (induction cur es found rule: visit.induct)
    (auto simp: Let_def split: if_splits prod.splits; blast?)+

text \<open>The loop invariant, in four parts. \<open>P\<close> is the set of frames already taken from the queue
  and \<open>A\<close> the set of all frames: every frame is reached by a live path within the bound; every
  recorded confidence belongs to a frame; the queue holds at most two adjacent levels, in order; and
  the successors of a processed frame are recorded and dominated by some frame.\<close>

definition frames_live :: "(ID \<Rightarrow> (ID \<times> rat) list) \<Rightarrow> ID \<Rightarrow> int \<Rightarrow> frame set \<Rightarrow> bool" where
  "frames_live step i maxDepth A \<longleftrightarrow> start_frame i \<in> A \<and>
     (\<forall>f \<in> A. 0 \<le> fr_depth f \<and> (fr_depth f = 0 \<or> fr_depth f \<le> maxDepth) \<and>
        live_path (set \<circ> step) i (nat (fr_depth f)) (fr_id f) (fr_conf f))"

definition found_framed :: "frame set \<Rightarrow> (ID \<rightharpoonup> rat) \<Rightarrow> bool" where
  "found_framed A found \<longleftrightarrow>
     (\<forall>n v. found n = Some v \<longrightarrow> (\<exists>f \<in> A. fr_id f = n \<and> fr_conf f = v \<and> 0 < fr_depth f))"

definition fifo :: "frame set \<Rightarrow> frame list \<Rightarrow> bool" where
  "fifo P queue \<longleftrightarrow> sorted (map fr_depth queue) \<and>
     (\<forall>p \<in> P. \<forall>f \<in> set queue. fr_depth p \<le> fr_depth f) \<and>
     (\<forall>f \<in> set queue. \<forall>g \<in> set queue. fr_depth g \<le> fr_depth f + 1)"

definition dominated :: "(ID \<rightharpoonup> rat) \<Rightarrow> frame set \<Rightarrow> ID \<Rightarrow> rat \<Rightarrow> int \<Rightarrow> bool" where
  "dominated found A n c d \<longleftrightarrow> (\<exists>v \<ge> c. found n = Some v) \<and>
     (\<exists>f \<in> A. fr_id f = n \<and> c \<le> fr_conf f \<and> fr_depth f \<le> d)"

definition closed_under_step :: "(ID \<Rightarrow> (ID \<times> rat) list) \<Rightarrow> int \<Rightarrow> frame set \<Rightarrow> frame set \<Rightarrow> (ID \<rightharpoonup> rat) \<Rightarrow> bool" where
  "closed_under_step step maxDepth P A found \<longleftrightarrow>
     (\<forall>p \<in> P. fr_depth p < maxDepth \<longrightarrow> (\<forall>(n, ec) \<in> set (step (fr_id p)).
        f64 (5 / 100) \<le> f64 (fr_conf p * ec) \<longrightarrow>
        dominated found A n (f64 (fr_conf p * ec)) (fr_depth p + 1)))"

definition bfs_inv :: "(ID \<Rightarrow> (ID \<times> rat) list) \<Rightarrow> ID \<Rightarrow> int \<Rightarrow> frame set \<Rightarrow> frame list \<Rightarrow> (ID \<rightharpoonup> rat) \<Rightarrow> bool" where
  "bfs_inv step i maxDepth P queue found \<longleftrightarrow> (let A = P \<union> set queue in
     frames_live step i maxDepth A \<and> found_framed A found \<and> fifo P queue \<and>
     closed_under_step step maxDepth P A found)"

lemma bfs_inv_start: "bfs_inv step i maxDepth {} [start_frame i] Map.empty"
  by (simp add: bfs_inv_def frames_live_def found_framed_def fifo_def closed_under_step_def
      start_frame_def live_path.start)

lemma bfs_inv_skip:
  assumes "maxDepth \<le> fr_depth cur" and "bfs_inv step i maxDepth P (cur # queue) found"
  shows "bfs_inv step i maxDepth (insert cur P) queue found"
proof -
  have "insert cur P \<union> set queue = P \<union> set (cur # queue)" by auto
  then show ?thesis using assms by (auto simp: bfs_inv_def closed_under_step_def fifo_def Let_def)
qed

lemma fifo_step:
  assumes "fifo P (cur # queue)" and dep: "\<And>f. f \<in> set fs \<Longrightarrow> fr_depth f = fr_depth cur + 1"
  shows "fifo (insert cur P) (queue @ fs)"
proof -
  have s: "sorted (map fr_depth queue)" "\<forall>f \<in> set queue. fr_depth cur \<le> fr_depth f"
    "\<forall>p \<in> P. fr_depth p \<le> fr_depth cur" "\<forall>f \<in> set queue. fr_depth f \<le> fr_depth cur + 1"
    using assms(1) by (auto simp: fifo_def)
  have "sorted (map fr_depth fs)" using dep by (induction fs) auto
  with s dep have "sorted (map fr_depth (queue @ fs))" by (auto simp: sorted_append)
  moreover have lv: "fr_depth cur \<le> fr_depth f \<and> fr_depth f \<le> fr_depth cur + 1" if "f \<in> set (queue @ fs)" for f
    using that s dep [of f] by auto
  moreover have "fr_depth p \<le> fr_depth cur" if "p \<in> insert cur P" for p
    using that s by auto
  ultimately show ?thesis unfolding fifo_def by (metis add_mono_thms_linordered_semiring(3) order_trans)
qed

lemma bfs_inv_step:
  assumes I: "bfs_inv step i maxDepth P (cur # queue) found" and d: "fr_depth cur < maxDepth"
    and v: "visit cur (step (fr_id cur)) found = (fs, found')"
  shows "bfs_inv step i maxDepth (insert cur P) (queue @ fs) found'"
proof -
  define A where "A = P \<union> set (cur # queue)"
  define B where "B = insert cur P \<union> set (queue @ fs)"
  have AB: "B = A \<union> set fs" "A \<subseteq> B" "cur \<in> A" by (auto simp: A_def B_def)
  have i1: "frames_live step i maxDepth A" and i2: "found_framed A found"
    and i3: "fifo P (cur # queue)" and i4: "closed_under_step step maxDepth P A found"
    using I by (simp_all add: bfs_inv_def A_def Let_def)
  have dep: "fr_depth f = fr_depth cur + 1" if "f \<in> set fs" for f
    using visit_depth [of f cur "step (fr_id cur)" found] that v by simp
  have c: "0 \<le> fr_depth cur" "live_path (set \<circ> step) i (nat (fr_depth cur)) (fr_id cur) (fr_conf cur)"
    using i1 AB(3) by (simp_all add: frames_live_def)
  have near: "fr_depth f \<le> fr_depth cur + 1" if "f \<in> B" for f
    using that i3 dep [of f] by (auto simp: B_def fifo_def)
  have "0 \<le> fr_depth f \<and> (fr_depth f = 0 \<or> fr_depth f \<le> maxDepth) \<and>
      live_path (set \<circ> step) i (nat (fr_depth f)) (fr_id f) (fr_conf f)" if f: "f \<in> set fs" for f
  proof -
    obtain ec where ec: "(fr_id f, ec) \<in> set (step (fr_id cur))" "fr_conf f = f64 (fr_conf cur * ec)"
        "f64 (5 / 100) \<le> f64 (fr_conf cur * ec)"
      using visit_frames [of f cur "step (fr_id cur)" found] v f by auto
    have "nat (fr_depth f) = Suc (nat (fr_depth cur))" using dep [OF f] c(1) by simp
    with live_path.extend [OF c(2), of "fr_id f" ec] ec dep [OF f] d c(1) show ?thesis by simp
  qed
  then have j1: "frames_live step i maxDepth B"
    using i1 unfolding frames_live_def AB(1) by blast
  have j2: "found_framed B found'" unfolding found_framed_def
  proof (intro allI impI)
    fix n w assume "found' n = Some w"
    then have "found n = Some w \<or> \<lparr>fr_id = n, fr_depth = fr_depth cur + 1, fr_conf = w\<rparr> \<in> set fs"
      using visit_origin [of cur "step (fr_id cur)" found n w] v by simp
    then show "\<exists>f \<in> B. fr_id f = n \<and> fr_conf f = w \<and> 0 < fr_depth f"
    proof
      assume "found n = Some w"
      with i2 AB(2) show ?thesis unfolding found_framed_def by blast
    next
      assume f: "\<lparr>fr_id = n, fr_depth = fr_depth cur + 1, fr_conf = w\<rparr> \<in> set fs"
      with c(1) AB(1) show ?thesis
        by (intro bexI [of _ "\<lparr>fr_id = n, fr_depth = fr_depth cur + 1, fr_conf = w\<rparr>"]) auto
    qed
  qed
  have j4: "dominated found' B n (f64 (fr_conf p * ec)) (fr_depth p + 1)"
    if p: "p \<in> insert cur P" "fr_depth p < maxDepth" "(n, ec) \<in> set (step (fr_id p))"
      "f64 (5 / 100) \<le> f64 (fr_conf p * ec)" for p n ec
  proof (cases "p = cur")
    case True
    then obtain w where w: "f64 (fr_conf p * ec) \<le> w" "found' n = Some w"
      using visit_covers [of n ec "step (fr_id cur)" cur found] p v by auto
    then obtain f where "f \<in> B" "fr_id f = n" "fr_conf f = w" using j2 unfolding found_framed_def by blast
    with w near True show ?thesis unfolding dominated_def by blast
  next
    case False
    then have "dominated found A n (f64 (fr_conf p * ec)) (fr_depth p + 1)"
      using i4 p unfolding closed_under_step_def by blast
    then obtain w f where w: "f64 (fr_conf p * ec) \<le> w" "found n = Some w"
      and f: "f \<in> A" "fr_id f = n" "f64 (fr_conf p * ec) \<le> fr_conf f" "fr_depth f \<le> fr_depth p + 1"
      unfolding dominated_def by blast
    obtain w' where w': "w \<le> w'" "found' n = Some w'"
      using visit_mono [of found n w cur "step (fr_id cur)"] w(2) v by auto
    have "f64 (fr_conf p * ec) \<le> w'" using w(1) w'(1) by simp
    with w'(2) f AB(2) show ?thesis unfolding dominated_def by blast
  qed
  have "closed_under_step step maxDepth (insert cur P) B found'"
    unfolding closed_under_step_def using j4 by blast
  with j1 j2 fifo_step [OF i3 dep] show ?thesis by (simp add: bfs_inv_def B_def Let_def)
qed

lemma bfs_inv_end:
  "bfs_inv step i maxDepth P queue found \<Longrightarrow>
   \<exists>P'. bfs_inv step i maxDepth P' [] (bfs step maxDepth queue found)"
proof (induction step maxDepth queue found arbitrary: P rule: bfs.induct)
  case (2 step maxDepth cur queue found)
  show ?case
  proof (cases "maxDepth \<le> fr_depth cur")
    case True
    then show ?thesis using 2(1) [OF True bfs_inv_skip [OF True 2(3)]] by simp
  next
    case False
    obtain fs found' where v: "visit cur (step (fr_id cur)) found = (fs, found')" by fastforce
    from bfs_inv_step [OF 2(3) _ v] False have "bfs_inv step i maxDepth (insert cur P) (queue @ fs) found'" by simp
    from 2(2) [OF False v [symmetric] refl this] False v show ?thesis by simp
  qed
qed auto

section \<open>The search as an interface\<close>

text \<open>Any step function whose edge confidences are positive gives the strongest live path to every
  node within the bound. Both directions of the graph are instances.\<close>

locale search =
  fixes step :: "ID \<Rightarrow> (ID \<times> rat) list"
  assumes positive: "(n, ec) \<in> set (step m) \<Longrightarrow> 0 < ec"
begin

lemma bfs_sound:
  assumes "bfs step maxDepth [start_frame i] Map.empty n = Some c"
  shows "\<exists>k > 0. int k \<le> maxDepth \<and> live_path (set \<circ> step) i k n c"
proof -
  obtain P where "bfs_inv step i maxDepth P [] (bfs step maxDepth [start_frame i] Map.empty)"
    using bfs_inv_end [OF bfs_inv_start] by blast
  then have P: "frames_live step i maxDepth P" "found_framed P (bfs step maxDepth [start_frame i] Map.empty)"
    by (simp_all add: bfs_inv_def)
  then obtain f where f: "f \<in> P" "fr_id f = n" "fr_conf f = c" "0 < fr_depth f"
    using assms unfolding found_framed_def by blast
  then have "fr_depth f \<le> maxDepth" "live_path (set \<circ> step) i (nat (fr_depth f)) n c"
    using P(1) unfolding frames_live_def by auto
  with f(4) show ?thesis by (intro exI [of _ "nat (fr_depth f)"]) auto
qed

lemma bfs_complete:
  assumes "live_path (set \<circ> step) i k n c" "0 < k" "int k \<le> maxDepth"
  shows "\<exists>v \<ge> c. bfs step maxDepth [start_frame i] Map.empty n = Some v"
proof -
  define R where "R = bfs step maxDepth [start_frame i] Map.empty"
  obtain P where "bfs_inv step i maxDepth P [] R"
    using bfs_inv_end [OF bfs_inv_start] unfolding R_def by blast
  then have P: "start_frame i \<in> P" "closed_under_step step maxDepth P P R"
    by (simp_all add: bfs_inv_def frames_live_def)
  have "(\<exists>f \<in> P. fr_id f = n \<and> c \<le> fr_conf f \<and> fr_depth f \<le> int k) \<and> (0 < k \<longrightarrow> (\<exists>v \<ge> c. R n = Some v))"
    if "live_path (set \<circ> step) i k n c" "int k \<le> maxDepth" for k n c
    using that
  proof (induction rule: live_path.induct)
    case start
    with P(1) show ?case by (auto simp: start_frame_def intro!: bexI [of _ "start_frame i"])
  next
    case (extend k m c n ec)
    then obtain f where f: "f \<in> P" "fr_id f = m" "c \<le> fr_conf f" "fr_depth f \<le> int k" by auto
    have e: "(n, ec) \<in> set (step (fr_id f))" using extend f by simp
    then have "c * ec \<le> fr_conf f * ec" using f(3) positive [OF e] by (simp add: mult_right_mono)
    then have le: "f64 (c * ec) \<le> f64 (fr_conf f * ec)" by (rule f64_mono)
    then have "dominated R P n (f64 (fr_conf f * ec)) (fr_depth f + 1)"
      using P(2) f e extend unfolding closed_under_step_def by fastforce
    then obtain v g where vg: "f64 (fr_conf f * ec) \<le> v" "R n = Some v" "g \<in> P" "fr_id g = n"
        "f64 (fr_conf f * ec) \<le> fr_conf g" "fr_depth g \<le> fr_depth f + 1"
      unfolding dominated_def by blast
    have "f64 (c * ec) \<le> v" "f64 (c * ec) \<le> fr_conf g" "fr_depth g \<le> int (Suc k)"
      using le vg f(4) by simp_all
    with vg show ?case by blast
  qed
  with assms show ?thesis unfolding R_def by blast
qed

lemma bfs_strongest:
  "bfs step maxDepth [start_frame i] Map.empty n = Some c \<longleftrightarrow>
   (\<exists>k > 0. int k \<le> maxDepth \<and> live_path (set \<circ> step) i k n c) \<and>
   (\<forall>k c'. 0 < k \<longrightarrow> int k \<le> maxDepth \<longrightarrow> live_path (set \<circ> step) i k n c' \<longrightarrow> c' \<le> c)"
proof (intro iffI conjI allI impI)
  assume r: "bfs step maxDepth [start_frame i] Map.empty n = Some c"
  show "\<exists>k > 0. int k \<le> maxDepth \<and> live_path (set \<circ> step) i k n c" using bfs_sound [OF r] .
  fix k c' assume k: "0 < k" "int k \<le> maxDepth" "live_path (set \<circ> step) i k n c'"
  obtain v where "c' \<le> v" "bfs step maxDepth [start_frame i] Map.empty n = Some v"
    using bfs_complete [OF k(3,1,2)] by blast
  with r show "c' \<le> c" by simp
next
  assume a: "(\<exists>k > 0. int k \<le> maxDepth \<and> live_path (set \<circ> step) i k n c) \<and>
    (\<forall>k c'. 0 < k \<longrightarrow> int k \<le> maxDepth \<longrightarrow> live_path (set \<circ> step) i k n c' \<longrightarrow> c' \<le> c)"
  then obtain k where k: "0 < k" "int k \<le> maxDepth" "live_path (set \<circ> step) i k n c" by blast
  obtain v where v: "c \<le> v" "bfs step maxDepth [start_frame i] Map.empty n = Some v"
    using bfs_complete [OF k(3,1,2)] by blast
  obtain k' where "0 < k'" "int k' \<le> maxDepth" "live_path (set \<circ> step) i k' n v"
    using bfs_sound [OF v(2)] by blast
  with a have "v \<le> c" by blast
  with v show "bfs step maxDepth [start_frame i] Map.empty n = Some c" by simp
qed

end

lemma edge_confidence_pos: "0 < edge_confidence e"
proof -
  have "f64 (1 / 2) \<le> f64 (8 / 10)" by (intro f64_mono) simp
  moreover have "f64 (1 / 2) = 1 / 2" using f64_dyadic [of 1 "- 1"] by simp
  ultimately show ?thesis by (auto simp: edge_confidence_def)
qed

interpretation inb: search "inbound_step t" for t
  by unfold_locales (auto simp: inbound_step_def edge_confidence_pos)

interpretation outb: search "outbound_step t" for t
  by unfold_locales (auto simp: outbound_step_def edge_confidence_pos)

section \<open>The indexes and the main properties\<close>

lemma foldl_index_edge:
  "edges (foldl index_edge t ies) = edges t \<and>
   outbound (foldl index_edge t ies) n = outbound t n @ map fst (filter (\<lambda>(i, e). FromID e = n) ies) \<and>
   inbound (foldl index_edge t ies) n = inbound t n @ map fst (filter (\<lambda>(i, e). ToID e = n) ies)"
  by (induction ies arbitrary: t) (auto simp: index_edge_def Let_def)

lemma Outbound_NewTopology:
  "Outbound (NewTopology es) n ks = filter (\<lambda>e. FromID e = n \<and> (ks = [] \<or> RKind e \<in> set ks)) es"
  by (simp add: Outbound_def collect_def NewTopology_def foldl_index_edge filter_enumerate conj_commute
      flip: filter_filter del: map_map)

lemma Inbound_NewTopology:
  "Inbound (NewTopology es) n ks = filter (\<lambda>e. ToID e = n \<and> (ks = [] \<or> RKind e \<in> set ks)) es"
  by (simp add: Inbound_def collect_def NewTopology_def foldl_index_edge filter_enumerate conj_commute
      flip: filter_filter del: map_map)

text \<open>The request-path edges into and out of a node, read off the edge list.\<close>

definition callers :: "Relationship list \<Rightarrow> ID \<Rightarrow> (ID \<times> rat) set" where
  "callers es m = {(FromID e, edge_confidence e) | e. e \<in> set es \<and> ToID e = m \<and> TraversesRequestPath (RKind e)}"

definition callees :: "Relationship list \<Rightarrow> ID \<Rightarrow> (ID \<times> rat) set" where
  "callees es m = {(ToID e, edge_confidence e) | e. e \<in> set es \<and> FromID e = m \<and> TraversesRequestPath (RKind e)}"

lemma set_steps: "set \<circ> inbound_step (NewTopology es) = callers es"
  "set \<circ> outbound_step (NewTopology es) = callees es"
  by (auto simp: fun_eq_iff inbound_step_def outbound_step_def Inbound_NewTopology Outbound_NewTopology
      callers_def callees_def)

text \<open>C12: \<open>Dependents\<close> returns a node with a confidence exactly when that confidence is the
  largest over the live request paths of at most \<open>maxDepth\<close> edges from the node to the start: the
  breadth-first loop, which skips a node already reached at least as confidently, misses no stronger
  path. The start itself is never reported.\<close>

theorem Dependents_strongest_path:
  "Dependents (NewTopology es) i maxDepth n = Some c \<longleftrightarrow> n \<noteq> i \<and>
   (\<exists>k > 0. int k \<le> maxDepth \<and> live_path (callers es) i k n c) \<and>
   (\<forall>k c'. 0 < k \<longrightarrow> int k \<le> maxDepth \<longrightarrow> live_path (callers es) i k n c' \<longrightarrow> c' \<le> c)"
  using inb.bfs_strongest [of "NewTopology es" maxDepth i n c]
  by (simp add: Dependents_def set_steps)

theorem Dependents_strongest_path_witness:
  "let es = [\<lparr>FromID = ''api'', ToID = ''db'', RKind = RelDependsOn, RWeight = 1, RConfidence = 1\<rparr>] in
     Dependents (NewTopology es) ''db'' 3 ''api'' = Some 1 \<and> \<not> live_path (callers es) ''db'' 1 ''api'' 2"
proof -
  let ?es = "[\<lparr>FromID = ''api'', ToID = ''db'', RKind = RelDependsOn, RWeight = 1, RConfidence = 1\<rparr>]"
  have "inbound_step (NewTopology ?es) ''db'' = [(''api'', 1)]" "inbound_step (NewTopology ?es) ''api'' = []"
    by (simp_all add: inbound_step_def Inbound_NewTopology TraversesRequestPath_def edge_confidence_def)
  moreover have "\<not> 1 < f64 (5 / 100)" using f64_mono [of "5 / 100" 1] by simp
  ultimately have d: "Dependents (NewTopology ?es) ''db'' 3 ''api'' = Some 1"
    by (simp add: Dependents_def start_frame_def Let_def)
  then have "\<forall>k c'. 0 < k \<longrightarrow> int k \<le> 3 \<longrightarrow> live_path (callers ?es) ''db'' k ''api'' c' \<longrightarrow> c' \<le> 1"
    using Dependents_strongest_path [of ?es "''db''" 3 "''api''" 1] by simp
  then have "live_path (callers ?es) ''db'' 1 ''api'' 2 \<Longrightarrow> (2 :: rat) \<le> 1"
    by (metis int_ops(2) one_le_numeral zero_less_one)
  with d show ?thesis by (auto simp: Let_def)
qed

definition reverse_edge :: "Relationship \<Rightarrow> Relationship" where
  "reverse_edge e = e\<lparr>FromID := ToID e, ToID := FromID e\<rparr>"

text \<open>\<open>Dependencies\<close> is \<open>Dependents\<close> on the reversed graph.\<close>

theorem Dependencies_reversed:
  "Dependencies (NewTopology es) i maxDepth = Dependents (NewTopology (map reverse_edge es)) i maxDepth"
proof -
  have "outbound_step (NewTopology es) = inbound_step (NewTopology (map reverse_edge es))"
    by (rule ext) (induction es; simp add: inbound_step_def outbound_step_def Inbound_NewTopology
        Outbound_NewTopology reverse_edge_def edge_confidence_def)
  then show ?thesis by (simp add: Dependencies_def Dependents_def)
qed

lemma sum_pos_f64: "f64 a = a \<Longrightarrow> a \<le> foldl (\<lambda>s e. f64 (s + EffectiveWeight e)) a es"
proof (induction es arbitrary: a)
  case (Cons e es)
  let ?b = "f64 (a + EffectiveWeight e)"
  have "0 \<le> EffectiveWeight e" by (simp add: EffectiveWeight_def)
  then have "f64 a \<le> ?b" by (intro f64_mono) simp
  moreover have "?b \<le> foldl (\<lambda>s e. f64 (s + EffectiveWeight e)) ?b es"
    by (rule Cons.IH) (rule f64.rnd_idem)
  ultimately show ?case using Cons.prems by simp
qed simp

lemma EffectiveWeight_pos: "0 < EffectiveWeight e"
  by (simp add: EffectiveWeight_def)

lemma shares_dom:
  "dom (foldl (\<lambda>out e. out(FromID e \<mapsto> g out e)) out es) = dom out \<union> FromID ` set es"
  by (induction es arbitrary: out) auto

lemma shares_pos:
  assumes "\<And>n v. out n = Some v \<Longrightarrow> 0 < v" and "0 < tot"
    and "foldl (\<lambda>out e. out(FromID e \<mapsto> f64 ((case out (FromID e) of Some x \<Rightarrow> x | None \<Rightarrow> 0)
           + f64 (EffectiveWeight e / tot)))) out es n = Some (v :: rat)"
  shows "0 < v"
  using assms
proof (induction es arbitrary: out)
  case (Cons e es)
  let ?o = "out(FromID e \<mapsto> f64 ((case out (FromID e) of Some x \<Rightarrow> x | None \<Rightarrow> 0) + f64 (EffectiveWeight e / tot)))"
  have "0 < f64 (EffectiveWeight e / tot)" using Cons.prems(2) EffectiveWeight_pos by (simp add: f64_pos)
  then have "0 < f64 ((case out (FromID e) of Some x \<Rightarrow> x | None \<Rightarrow> 0) + f64 (EffectiveWeight e / tot))"
    using Cons.prems(1) by (intro f64_pos) (auto split: option.split intro: add_pos_pos)
  then have o: "0 < w" if "?o m = Some w" for m w
    using that Cons.prems(1) by (cases "m = FromID e") auto
  show ?case using Cons.prems(3) by (intro Cons.IH [OF o Cons.prems(2)]) simp_all
qed simp

text \<open>\<open>Consumers\<close> splits the cost of a shared component over exactly the nodes that have a
  sharing edge into it, each with a positive share; it is empty only when there is no such edge, so
  the division by the sum of the weights is never skipped for a component that has consumers.\<close>

theorem Consumers_shares:
  "dom (Consumers (NewTopology es) i) =
     FromID ` {e \<in> set es. ToID e = i \<and> RKind e \<in> {RelSharedBy, RelRunsOn, RelEgressVia, RelAttachedTo}} \<and>
   (\<forall>share \<in> ran (Consumers (NewTopology es) i). 0 < share)"
proof -
  define xs where "xs = Inbound (NewTopology es) i [RelSharedBy, RelRunsOn, RelEgressVia, RelAttachedTo]"
  define tot where "tot = foldl (\<lambda>s e. f64 (s + EffectiveWeight e)) 0 xs"
  have xs: "set xs = {e \<in> set es. ToID e = i \<and> RKind e \<in> {RelSharedBy, RelRunsOn, RelEgressVia, RelAttachedTo}}"
    by (auto simp: xs_def Inbound_NewTopology)
  show ?thesis
  proof (cases xs)
    case Nil
    then show ?thesis using xs by (auto simp: Consumers_def Let_def xs_def [symmetric])
  next
    case (Cons e ys)
    have "0 < f64 (EffectiveWeight e)" by (intro f64_pos EffectiveWeight_pos)
    also have "\<dots> \<le> tot" using sum_pos_f64 [of "f64 (EffectiveWeight e)" ys] by (simp add: tot_def Cons f64.rnd_idem)
    finally have "0 < tot" .
    with Cons have "Consumers (NewTopology es) i = foldl (\<lambda>out e. out(FromID e \<mapsto>
        f64 ((case out (FromID e) of Some x \<Rightarrow> x | None \<Rightarrow> 0) + f64 (EffectiveWeight e / tot)))) Map.empty xs"
      unfolding Consumers_def Let_def xs_def [symmetric] tot_def [symmetric] by (metis less_irrefl list.distinct(1))
    with \<open>0 < tot\<close> shares_pos [of Map.empty tot xs] xs show ?thesis
      by (auto simp: shares_dom ran_def)
  qed
qed

theorem Consumers_shares_witness:
  "let es = [\<lparr>FromID = ''a'', ToID = ''nat'', RKind = RelEgressVia, RWeight = 1, RConfidence = 1\<rparr>] in
     dom (Consumers (NewTopology es) ''nat'') = {''a''}"
  using Consumers_shares [of "[\<lparr>FromID = ''a'', ToID = ''nat'', RKind = RelEgressVia, RWeight = 1, RConfidence = 1\<rparr>]" "''nat''"]
  by (auto simp: Let_def image_def)

end
