(* ===== verification/Estate.thy ===== *)
theory Estate imports Resource begin

text \<open>
  \<open>internal/domain/cloud/estate.go\<close>: onboarded accounts with their connection state, role scopes
  and validation, workload objectives, and the declarative attribution rules that claim resources
  for an application.
\<close>

datatype AccessMode = AccessAssumeRole | AccessSimulated | AccessOther string

datatype ConnectionState = ConnPending | ConnVerifying | ConnConnected | ConnDegraded | ConnFailed
  | ConnSuspended | ConnOther string

datatype RoleScope = ScopeRead | ScopeAnalyze | ScopePlan | ScopeExecute | ScopeOther string

record AWSAccount =
  acc_TenantID :: TenantID
  acc_AccountID :: AccountID
  acc_Regions :: "Region list"
  acc_AccessMode :: AccessMode
  acc_RoleARNs :: "(RoleScope \<times> ARN) list"
  acc_ExternalID :: string
  acc_State :: ConnectionState
  acc_GrantedScopes :: "RoleScope list"

text \<open>Reading a missing key of a Go map gives the zero value.\<close>

definition RoleARN :: "AWSAccount \<Rightarrow> RoleScope \<Rightarrow> ARN" where
  "RoleARN a s = (case map_of (acc_RoleARNs a) s of Some arn \<Rightarrow> arn | None \<Rightarrow> '''')"

definition HasScope :: "AWSAccount \<Rightarrow> RoleScope \<Rightarrow> bool" where
  "HasScope a s \<longleftrightarrow> s \<in> set (acc_GrantedScopes a)"

definition CanExecute :: "AWSAccount \<Rightarrow> bool" where
  "CanExecute a \<longleftrightarrow> acc_State a = ConnConnected \<and> HasScope a ScopeExecute \<and> RoleARN a ScopeExecute \<noteq> ''''"

definition AWSAccount_Validate :: "AWSAccount \<Rightarrow> err option" where
  "AWSAccount_Validate a = result_Err (concat [
     report (id_IsZero (acc_TenantID a)) ''tenant_id'' ''required'' SeverityCritical,
     report (\<not> AccountID_Validate (acc_AccountID a)) ''account_id'' ''invalid'' SeverityCritical,
     report (acc_Regions a = []) ''regions'' ''required'' SeverityHigh,
     (case acc_AccessMode a of
        AccessAssumeRole \<Rightarrow>
          report (RoleARN a ScopeRead = '''') ''role_arns.read'' ''required'' SeverityCritical
          @ report (acc_ExternalID a = '''') ''external_id'' ''required'' SeverityCritical
      | AccessSimulated \<Rightarrow> []
      | AccessOther _ \<Rightarrow> report True ''access_mode'' ''invalid'' SeverityCritical)])"

record WorkloadSLO =
  AvailabilityTarget :: rat
  LatencyP95MS :: rat
  LatencyP99MS :: rat
  ErrorRateMax :: rat
  ThroughputMinRPS :: rat

definition IsSet :: "WorkloadSLO \<Rightarrow> bool" where
  "IsSet s \<longleftrightarrow> AvailabilityTarget s > 0 \<or> LatencyP95MS s > 0 \<or> LatencyP99MS s > 0
     \<or> ErrorRateMax s > 0 \<or> ThroughputMinRPS s > 0"

record AttributionRule =
  ar_TagKey :: string
  ar_TagValue :: string
  ar_NamePrefix :: string
  ar_AccountID :: AccountID
  ar_Region :: Region
  ar_Kinds :: "Kind list"
  ar_Namespace :: string
  ar_Cluster :: string

definition hasPrefixFold :: "string \<Rightarrow> string \<Rightarrow> bool" where
  "hasPrefixFold s prefix = (if length prefix > length s then False
     else Normalize (take (length prefix) s) = Normalize prefix)"

definition AttributionRule_Matches :: "AttributionRule \<Rightarrow> Resource \<Rightarrow> bool" where
  "AttributionRule_Matches r res =
    (if ar_TagKey r \<noteq> '''' \<and> (case Tags_Get (res_Tags res) (ar_TagKey r) of None \<Rightarrow> True
          | Some v \<Rightarrow> ar_TagValue r \<noteq> '''' \<and> Normalize v \<noteq> Normalize (ar_TagValue r)) then False
     else if ar_NamePrefix r \<noteq> '''' \<and> \<not> hasPrefixFold (DisplayName res) (ar_NamePrefix r) then False
     else if ar_AccountID r \<noteq> '''' \<and> res_AccountID res \<noteq> ar_AccountID r then False
     else if ar_Region r \<noteq> '''' \<and> res_Region res \<noteq> ar_Region r then False
     else if ar_Namespace r \<noteq> '''' \<and> Attr res ''namespace'' '''' \<noteq> ar_Namespace r then False
     else if ar_Cluster r \<noteq> '''' \<and> Attr res ''cluster'' '''' \<noteq> ar_Cluster r then False
     else if ar_Kinds r \<noteq> [] \<and> res_Kind res \<notin> set (ar_Kinds r) then False
     else ar_TagKey r \<noteq> '''' \<or> ar_NamePrefix r \<noteq> '''' \<or> ar_AccountID r \<noteq> '''' \<or>
       ar_Region r \<noteq> '''' \<or> ar_Namespace r \<noteq> '''' \<or> ar_Cluster r \<noteq> '''' \<or> ar_Kinds r \<noteq> [])"

text \<open>An account that passes validation is tenant-scoped and is reached by an assumed role with
  an external id, or by the simulator: there is no third way in.\<close>

theorem AWSAccount_Validate_access:
  "AWSAccount_Validate a = None \<longleftrightarrow>
     acc_TenantID a \<noteq> '''' \<and> AccountID_Validate (acc_AccountID a) \<and> acc_Regions a \<noteq> [] \<and>
     (acc_AccessMode a = AccessSimulated \<or>
      acc_AccessMode a = AccessAssumeRole \<and> RoleARN a ScopeRead \<noteq> '''' \<and> acc_ExternalID a \<noteq> '''')"
  by (cases "acc_AccessMode a") (auto simp: AWSAccount_Validate_def)

end
