(* ===== verification/Recommendation.thy ===== *)
theory Recommendation imports Resource begin

text \<open>
  \<open>internal/domain/optimize/recommendation.go\<close>: the closed set of actions, findings and their
  validation, the recommendation lifecycle, the priority formula and the ranking. \<open>math.Pow\<close> on
  non-integral exponents is a parameter \<open>pw\<close> of the formula.
\<close>

type_synonym RuleID = string

datatype optimize_Category = CategoryRightsizing | CategoryWaste | CategoryStorage | CategoryCommitment
  | CategoryNetwork | CategoryArchitecture | CategoryScheduling | CategoryLicensing
  | CategoryDataLifecycle | CategoryObservability | optimize_CategoryOther string

datatype (plugins only: code) ActionType = ActionResizeInstance | ActionStopInstance
  | ActionTerminateInstance | ActionDeleteVolume | ActionResizeVolume | ActionModifyVolumeType
  | ActionDeleteSnapshot | ActionDeregisterAMI | ActionReleaseElasticIP | ActionResizeRDS
  | ActionModifyRDSStorage | ActionRemoveRDSReplica | ActionStopRDS | ActionApplyS3Lifecycle
  | ActionAbortMultipartUploads | ActionSetLogRetention | ActionResizeLambdaMemory
  | ActionRemoveProvisionedConcurrency | ActionSwitchLambdaArch | ActionResizeNodeGroup
  | ActionAdjustPodResources | ActionEnableSpot | ActionCreateVPCEndpoint | ActionRemoveNATGateway
  | ActionScheduleShutdown | ActionPurchaseCommitment | ActionSwitchDynamoBilling
  | ActionAdvisoryOnly | ActionOther string

definition Mutating :: "ActionType \<Rightarrow> bool" where
  "Mutating a \<longleftrightarrow> a \<noteq> ActionAdvisoryOnly"

definition Destructive :: "ActionType \<Rightarrow> bool" where
  "Destructive a \<longleftrightarrow> a \<in> {ActionTerminateInstance, ActionDeleteVolume, ActionDeleteSnapshot,
     ActionDeregisterAMI, ActionRemoveRDSReplica, ActionRemoveNATGateway}"

datatype Reversibility = ReversibilityInstant | ReversibilityFast | ReversibilitySlow
  | ReversibilityNone | ReversibilityOther string

fun Reversibility_Factor :: "Reversibility \<Rightarrow> rat" where
  "Reversibility_Factor ReversibilityInstant = 1"
| "Reversibility_Factor ReversibilityFast = f64 (8 / 10)"
| "Reversibility_Factor ReversibilitySlow = f64 (45 / 100)"
| "Reversibility_Factor ReversibilityNone = f64 (15 / 100)"
| "Reversibility_Factor (ReversibilityOther _) = 1 / 2"

datatype Complexity = ComplexityTrivial | ComplexityLow | ComplexityMedium | ComplexityHigh
  | ComplexityProject | ComplexityOther string

fun Complexity_Factor :: "Complexity \<Rightarrow> rat" where
  "Complexity_Factor ComplexityTrivial = 1"
| "Complexity_Factor ComplexityLow = f64 (85 / 100)"
| "Complexity_Factor ComplexityMedium = f64 (6 / 10)"
| "Complexity_Factor ComplexityHigh = f64 (35 / 100)"
| "Complexity_Factor ComplexityProject = f64 (15 / 100)"
| "Complexity_Factor (ComplexityOther _) = 1 / 2"

section \<open>Findings\<close>

text \<open>The text of an evidence and its window are not modelled.\<close>

record Evidence =
  ev_Kind :: string
  ev_Label :: string
  ev_Source :: string
  ev_Percentiles :: "Percentiles option"

record Finding =
  fi_ID :: ID
  fi_TenantID :: TenantID
  fi_RuleID :: RuleID
  fi_Category :: optimize_Category
  fi_ResourceID :: ID
  fi_ResourceKind :: Kind
  fi_AccountID :: AccountID
  fi_Region :: Region
  fi_Environment :: Environment
  fi_Severity :: Severity
  fi_Evidence :: "Evidence list"
  fi_CurrentMonthlyCost :: Money
  fi_EstimatedMonthlySaving :: Money

definition Finding_Validate :: "Finding \<Rightarrow> err option" where
  "Finding_Validate f = result_Err (concat [
     report (fi_RuleID f = '''') ''rule_id'' ''required'' SeverityCritical,
     report (id_IsZero (fi_ResourceID f)) ''resource_id'' ''required'' SeverityCritical,
     report (fi_Evidence f = []) ''evidence'' ''required'' SeverityCritical,
     report (GreaterThan (fi_EstimatedMonthlySaving f) (fi_CurrentMonthlyCost f))
       ''estimated_monthly_saving'' ''implausible'' SeverityHigh])"

datatype (plugins only: code) Status = StatusOpen | StatusUnderReview | StatusApproved | StatusRejected
  | StatusScheduled | StatusExecuting | StatusExecuted | StatusValidating | StatusValidated
  | StatusFailed | StatusRolledBack | StatusSuperseded | StatusSnoozed | StatusDismissed
  | StatusOther string

definition Status_Terminal :: "Status \<Rightarrow> bool" where
  "Status_Terminal s \<longleftrightarrow>
     s \<in> {StatusValidated, StatusRejected, StatusRolledBack, StatusSuperseded, StatusDismissed}"

section \<open>Recommendations\<close>

record BlastRadius =
  br_ResourcesAffected :: int
  br_ServicesAffected :: int
  br_CriticalServices :: int
  br_APIsAffected :: int
  br_TransactionsAffected :: "string list"
  br_EstimatedUsers :: int
  br_EnvironmentsAffected :: "Environment list"
  br_CrossAccount :: bool
  br_Score :: rat
  br_Level :: RiskLevel
  br_Completeness :: rat

text \<open>A factor is its name and its contribution; mitigation texts are not modelled.\<close>

record RiskAssessment =
  ra_Score :: rat
  ra_Level :: RiskLevel
  ra_AvailabilityRisk :: RiskLevel
  ra_PerformanceRisk :: RiskLevel
  ra_SecurityRisk :: RiskLevel
  ra_DataLossRisk :: RiskLevel
  ra_Factors :: "(string \<times> rat) list"

record ConfidenceInput =
  ci_Name :: string
  ci_Value :: rat
  ci_Weight :: rat

datatype ConflictDomain = ConflictDomainNone | ConflictDomainComputeCapacity
  | ConflictDomainNodeGroupCapacity | ConflictDomainServiceCapacity | ConflictDomainVolumeCapacity
  | ConflictDomainObjectLifetime | ConflictDomainRDSCompute | ConflictDomainRDSStorage
  | ConflictDomainRDSBackupStorage | ConflictDomainObjectStorageClass
  | ConflictDomainNoncurrentVersions | ConflictDomainIncompleteUploads | ConflictDomainLambdaCompute
  | ConflictDomainLambdaProvisioned | ConflictDomainNATTraffic | ConflictDomainLogRetention
  | ConflictDomainTableBilling | ConflictDomainOther string

record StateSnapshot =
  ss_InstanceType :: string
  ss_VolumeType :: string
  ss_SizeGiB :: rat
  ss_IOPS :: int
  ss_MemoryMB :: int
  ss_Count :: int
  ss_VCPU :: rat
  ss_MemoryGiB :: rat
  ss_MonthlyCost :: Money
  ss_Attributes :: "(string \<times> string) list"

text \<open>The value of a parameter, by its dynamic type.\<close>

datatype param = PString string | PFloat rat | PInt int | PBool bool | PStrings "string list"

record Recommendation =
  rc_ID :: ID
  rc_TenantID :: TenantID
  rc_Finding :: Finding
  rc_Action :: ActionType
  rc_Parameters :: "(string \<times> param) list"
  rc_CurrentState :: StateSnapshot
  rc_ProposedState :: StateSnapshot
  rc_EstimatedMonthlySaving :: Money
  rc_EstimatedAnnualSaving :: Money
  rc_Confidence :: Confidence
  rc_ConfidenceBasis :: "ConfidenceInput list"
  rc_Risk :: RiskAssessment
  rc_BlastRadius :: BlastRadius
  rc_Reversibility :: Reversibility
  rc_Complexity :: Complexity
  rc_PriorityScore :: rat
  rc_Rank :: int
  rc_ConflictDomain :: ConflictDomain
  rc_ConflictGroupID :: string
  rc_MutuallyExclusive :: bool
  rc_AlternativeIDs :: "ID list"
  rc_PreferredAlternativeID :: ID
  rc_Status :: Status
  rc_SnoozedUntil :: "gotime option"
  rc_RequiresApproval :: bool
  rc_PolicyDecisionID :: ID
  rc_AutoExecutable :: bool
  rc_CreatedAt :: gotime
  rc_UpdatedAt :: gotime

record PriorityFormula =
  SavingsWeight :: rat
  ConfidenceWeight :: rat
  ReversibilityWeight :: rat
  RiskPenalty :: rat
  BlastPenalty :: rat
  ComplexityWeight :: rat
  CriticalityPenalty :: rat
  SavingsNormalizer :: Money

definition DefaultPriorityFormula :: PriorityFormula where
  "DefaultPriorityFormula = \<lparr>SavingsWeight = 1, ConfidenceWeight = 1, ReversibilityWeight = f64 (7 / 10),
     RiskPenalty = 1, BlastPenalty = f64 (6 / 10), ComplexityWeight = 1 / 2,
     CriticalityPenalty = f64 (4 / 10), SavingsNormalizer = USDollars 5000\<rparr>"

definition saturate :: "rat \<Rightarrow> rat" where
  "saturate x = (if x \<le> 0 then 0 else f64 (f64 (x / f64 (1 + x)) * 2))"

definition pow :: "(rat \<Rightarrow> rat \<Rightarrow> rat) \<Rightarrow> rat \<Rightarrow> rat \<Rightarrow> rat" where
  "pow pw base e = (if base \<le> 0 then 0 else if e = 1 then base else pw base e)"

definition Score :: "(rat \<Rightarrow> rat \<Rightarrow> rat) \<Rightarrow> PriorityFormula \<Rightarrow> Recommendation \<Rightarrow> rat" where
  "Score pw f r = (let
     norm = (if IsZero (SavingsNormalizer f) then USDollars 5000 else SavingsNormalizer f);
     savingsAxis = saturate (Ratio (rc_EstimatedMonthlySaving r) norm);
     confAxis = Clamp (rc_Confidence r);
     revAxis = Reversibility_Factor (rc_Reversibility r);
     cxAxis = Complexity_Factor (rc_Complexity r);
     numerator = f64 (f64 (f64 (pow pw savingsAxis (SavingsWeight f)
       * pow pw confAxis (ConfidenceWeight f)) * pow pw revAxis (ReversibilityWeight f))
       * pow pw cxAxis (ComplexityWeight f));
     riskTerm = f64 (1 + f64 (RiskPenalty f * ra_Score (rc_Risk r)));
     blastTerm = f64 (1 + f64 (BlastPenalty f * br_Score (rc_BlastRadius r)));
     critTerm = (if IsProduction (fi_Environment (rc_Finding r)) then f64 (1 + CriticalityPenalty f) else 1);
     denominator = f64 (f64 (riskTerm * blastTerm) * critTerm)
   in if denominator = 0 then 0 else f64 (f64 (100 * numerator) / denominator))"

text \<open>The ranking: score every recommendation, sort stably by score and then by saving, number.\<close>

definition rank_lt :: "Recommendation \<Rightarrow> Recommendation \<Rightarrow> bool" where
  "rank_lt = then_by (by_desc rc_PriorityScore) (by_desc (\<lambda>r. micros (rc_EstimatedMonthlySaving r)))"

definition scored :: "(rat \<Rightarrow> rat \<Rightarrow> rat) \<Rightarrow> PriorityFormula \<Rightarrow> Recommendation \<Rightarrow> Recommendation" where
  "scored pw f r = r\<lparr>rc_PriorityScore := Score pw f r\<rparr>"

definition Rank :: "(rat \<Rightarrow> rat \<Rightarrow> rat) \<Rightarrow> Recommendation list \<Rightarrow> PriorityFormula \<Rightarrow> Recommendation list" where
  "Rank pw recs f = map (\<lambda>(i, r). r\<lparr>rc_Rank := int i + 1\<rparr>)
     (List.enumerate 0 (stable_sort rank_lt (map (scored pw f) recs)))"

text \<open>The counting rule of conflict.go, which the total needs.\<close>

definition IsPrimary :: "Recommendation \<Rightarrow> bool" where
  "IsPrimary r \<longleftrightarrow> id_IsZero (rc_PreferredAlternativeID r)"

definition CountsTowardTotal :: "Recommendation \<Rightarrow> bool" where
  "CountsTowardTotal r = IsPrimary r"

definition TotalPotentialSaving :: "Recommendation list \<Rightarrow> Money option" where
  "TotalPotentialSaving recs = fold_opt (\<lambda>r tot.
     if \<not> CountsTowardTotal r then Some tot else MustAdd tot (rc_EstimatedMonthlySaving r)) recs ZeroUSD"

section \<open>Scores\<close>

lemma f64_literal_unit: "0 \<le> x \<Longrightarrow> x \<le> 1 \<Longrightarrow> 0 \<le> f64 x \<and> f64 x \<le> 1"
  by (rule f64.unit_interval)

lemma Factor_unit:
  "0 \<le> Reversibility_Factor v \<and> Reversibility_Factor v \<le> 1"
  "0 \<le> Complexity_Factor c \<and> Complexity_Factor c \<le> 1"
  by (cases v; simp add: f64.nonneg f64_mono [of _ 1, simplified])
    (cases c; simp add: f64.nonneg f64_mono [of _ 1, simplified])

lemma saturate_bounds: "f64 x = x \<Longrightarrow> 0 \<le> saturate x \<and> saturate x \<le> 2"
proof (cases "x \<le> 0")
  case False
  assume x: "f64 x = x"
  have "f64 x \<le> f64 (1 + x)" by (rule f64_mono) simp
  then have u: "0 \<le> f64 (x / f64 (1 + x))" "f64 (x / f64 (1 + x)) \<le> 1"
    using f64.div_unit [of x "f64 (1 + x)"] x False by simp_all
  then have "f64 (f64 (x / f64 (1 + x)) * 2) \<le> f64 2" by (intro f64_mono) simp
  moreover have "f64 2 = 2" using f64_of_int [of 2] by simp
  ultimately show ?thesis using False u by (simp add: saturate_def f64.nonneg)
qed (simp add: saturate_def)

text \<open>What the formula relies on of \<open>math.Pow\<close> for positive bases.\<close>

definition pow_monotone :: "(rat \<Rightarrow> rat \<Rightarrow> rat) \<Rightarrow> bool" where
  "pow_monotone pw \<longleftrightarrow> (\<forall>a b e. 0 < a \<longrightarrow> a \<le> b \<longrightarrow> 0 \<le> e \<longrightarrow> 0 \<le> pw a e \<and> pw a e \<le> pw b e)"

lemma pow_nonneg: "pow_monotone pw \<Longrightarrow> 0 \<le> e \<Longrightarrow> 0 \<le> pow pw a e"
  by (auto simp: pow_def pow_monotone_def) (meson order_refl not_le)

lemma pow_mono: "pow_monotone pw \<Longrightarrow> 0 \<le> e \<Longrightarrow> a \<le> b \<Longrightarrow> pow pw a e \<le> pow pw b e"
  by (auto simp: pow_def pow_monotone_def intro: order_trans) (meson order_refl not_le)

lemma pow_1: "0 \<le> a \<Longrightarrow> pow pw a 1 = a"
  by (simp add: pow_def)

definition weights_nonneg :: "PriorityFormula \<Rightarrow> bool" where
  "weights_nonneg f \<longleftrightarrow> 0 \<le> SavingsWeight f \<and> 0 \<le> ConfidenceWeight f \<and> 0 \<le> ReversibilityWeight f \<and>
     0 \<le> ComplexityWeight f \<and> 0 \<le> RiskPenalty f \<and> 0 \<le> BlastPenalty f \<and> 0 \<le> CriticalityPenalty f"

lemma penalty_term: "0 \<le> p \<Longrightarrow> 0 \<le> s \<Longrightarrow> s \<le> t \<Longrightarrow> 1 \<le> f64 (1 + f64 (p * s)) \<and>
    f64 (1 + f64 (p * s)) \<le> f64 (1 + f64 (p * t))"
  using f64_mono [of 1 "1 + f64 (p * s)"] f64.nonneg [of "p * s"]
  by (auto intro!: f64_mono mult_left_mono)

text \<open>The priority score rewards confidence and penalises risk and blast radius: with
  non-negative weights, a recommendation that is at least as confident and at most as risky as
  another one that it otherwise equals never scores lower, whatever the rounding does.\<close>

theorem Score_monotone:
  assumes pw: "pow_monotone pw" and w: "weights_nonneg f"
    and c: "rc_Confidence r \<le> c'"
    and k: "0 \<le> k'" "k' \<le> ra_Score (rc_Risk r)" and b: "0 \<le> b'" "b' \<le> br_Score (rc_BlastRadius r)"
  shows "Score pw f r \<le> Score pw f (r\<lparr>rc_Confidence := c', rc_Risk := (rc_Risk r)\<lparr>ra_Score := k'\<rparr>,
    rc_BlastRadius := (rc_BlastRadius r)\<lparr>br_Score := b'\<rparr>\<rparr>)"
proof -
  define sa where "sa = pow pw (saturate (Ratio (rc_EstimatedMonthlySaving r)
    (if IsZero (SavingsNormalizer f) then USDollars 5000 else SavingsNormalizer f))) (SavingsWeight f)"
  define ca ca' where "ca = pow pw (Clamp (rc_Confidence r)) (ConfidenceWeight f)"
    and "ca' = pow pw (Clamp c') (ConfidenceWeight f)"
  define ra where "ra = pow pw (Reversibility_Factor (rc_Reversibility r)) (ReversibilityWeight f)"
  define xa where "xa = pow pw (Complexity_Factor (rc_Complexity r)) (ComplexityWeight f)"
  define n n' where "n = f64 (f64 (f64 (sa * ca) * ra) * xa)" and "n' = f64 (f64 (f64 (sa * ca') * ra) * xa)"
  define rt rt' where "rt = f64 (1 + f64 (RiskPenalty f * ra_Score (rc_Risk r)))"
    and "rt' = f64 (1 + f64 (RiskPenalty f * k'))"
  define bt bt' where "bt = f64 (1 + f64 (BlastPenalty f * br_Score (rc_BlastRadius r)))"
    and "bt' = f64 (1 + f64 (BlastPenalty f * b'))"
  define ct where "ct = (if IsProduction (fi_Environment (rc_Finding r)) then f64 (1 + CriticalityPenalty f) else 1)"
  define d d' where "d = f64 (f64 (rt * bt) * ct)" and "d' = f64 (f64 (rt' * bt') * ct)"
  have nn: "0 \<le> sa" "0 \<le> ca" "0 \<le> ra" "0 \<le> xa"
    using w pw by (simp_all add: sa_def ca_def ra_def xa_def pow_nonneg weights_nonneg_def)
  have "ca \<le> ca'" using w pw c by (simp add: ca_def ca'_def pow_mono Clamp_mono weights_nonneg_def)
  then have n: "n \<le> n'" using nn by (auto simp: n_def n'_def intro!: f64_mono mult_right_mono mult_left_mono)
  have n0: "0 \<le> n" using nn by (simp add: n_def f64.nonneg)
  have rt: "1 \<le> rt'" "rt' \<le> rt" and bt: "1 \<le> bt'" "bt' \<le> bt"
    using penalty_term [of "RiskPenalty f" k' "ra_Score (rc_Risk r)"] k
      penalty_term [of "BlastPenalty f" b' "br_Score (rc_BlastRadius r)"] b w
    by (simp_all add: rt_def rt'_def bt_def bt'_def weights_nonneg_def)
  have ct: "1 \<le> ct" using f64_mono [of 1 "1 + CriticalityPenalty f"] w by (simp add: ct_def weights_nonneg_def)
  have "1 * 1 \<le> rt' * bt'" using rt bt by (intro mult_mono) auto
  then have "1 \<le> f64 (rt' * bt')" using f64_mono [of 1 "rt' * bt'"] by simp
  then have "1 * 1 \<le> f64 (rt' * bt') * ct" using ct by (intro mult_mono) auto
  then have d1: "1 \<le> d'" using f64_mono [of 1 "f64 (rt' * bt') * ct"] by (simp add: d'_def)
  have "rt' * bt' \<le> rt * bt" using rt bt by (intro mult_mono) auto
  then have d: "d' \<le> d" using ct by (auto simp: d_def d'_def intro!: f64_mono mult_right_mono)
  have "f64 (100 * n) / d \<le> f64 (100 * n') / d'"
    using n n0 d d1 by (intro frac_le) (auto intro!: f64_mono f64.nonneg)
  then have "f64 (f64 (100 * n) / d) \<le> f64 (f64 (100 * n') / d')" by (rule f64_mono)
  moreover have "Score pw f r = f64 (f64 (100 * n) / d)" using d d1
    by (simp add: Score_def Let_def n_def d_def sa_def ca_def ra_def xa_def rt_def bt_def ct_def)
  moreover have "Score pw f (r\<lparr>rc_Confidence := c', rc_Risk := (rc_Risk r)\<lparr>ra_Score := k'\<rparr>,
      rc_BlastRadius := (rc_BlastRadius r)\<lparr>br_Score := b'\<rparr>\<rparr>) = f64 (f64 (100 * n') / d')" using d1
    by (simp add: Score_def Let_def n'_def d'_def sa_def ca'_def ra_def xa_def rt'_def bt'_def ct_def)
  ultimately show ?thesis by simp
qed

text \<open>A concrete recommendation for the witnesses: 15000 dollars a month, certain, instantly
  reversible, trivial, without risk.\<close>

definition sample_finding :: Finding where
  "sample_finding = \<lparr>fi_ID = ''f'', fi_TenantID = ''t'', fi_RuleID = ''rule'', fi_Category = CategoryWaste,
     fi_ResourceID = ''vol'', fi_ResourceKind = KindEBSVolume, fi_AccountID = ''a'', fi_Region = ''r'',
     fi_Environment = EnvDevelopment, fi_Severity = SeverityHigh, fi_Evidence = [],
     fi_CurrentMonthlyCost = \<lparr>micros = 20000000000, currency = USD\<rparr>,
     fi_EstimatedMonthlySaving = \<lparr>micros = 15000000000, currency = USD\<rparr>\<rparr>"

definition zero_snapshot :: StateSnapshot where
  "zero_snapshot = \<lparr>ss_InstanceType = [], ss_VolumeType = [], ss_SizeGiB = 0, ss_IOPS = 0, ss_MemoryMB = 0,
     ss_Count = 0, ss_VCPU = 0, ss_MemoryGiB = 0, ss_MonthlyCost = zero_money, ss_Attributes = []\<rparr>"

definition sample_recommendation :: Recommendation where
  "sample_recommendation = \<lparr>rc_ID = ''r'', rc_TenantID = ''t'', rc_Finding = sample_finding,
     rc_Action = ActionDeleteVolume, rc_Parameters = [], rc_CurrentState = zero_snapshot, rc_ProposedState = zero_snapshot,
     rc_EstimatedMonthlySaving = \<lparr>micros = 15000000000, currency = USD\<rparr>,
     rc_EstimatedAnnualSaving = \<lparr>micros = 180000000000, currency = USD\<rparr>,
     rc_Confidence = 1, rc_ConfidenceBasis = [],
     rc_Risk = \<lparr>ra_Score = 0, ra_Level = RiskNone, ra_AvailabilityRisk = RiskNone, ra_PerformanceRisk = RiskNone,
       ra_SecurityRisk = RiskNone, ra_DataLossRisk = RiskNone, ra_Factors = []\<rparr>,
     rc_BlastRadius = \<lparr>br_ResourcesAffected = 1, br_ServicesAffected = 0, br_CriticalServices = 0, br_APIsAffected = 0,
       br_TransactionsAffected = [], br_EstimatedUsers = 0, br_EnvironmentsAffected = [EnvDevelopment],
       br_CrossAccount = False, br_Score = 0, br_Level = RiskNone, br_Completeness = 1\<rparr>,
     rc_Reversibility = ReversibilityInstant, rc_Complexity = ComplexityTrivial, rc_PriorityScore = 0,
     rc_Rank = 0, rc_ConflictDomain = ConflictDomainVolumeCapacity, rc_ConflictGroupID = '''',
     rc_MutuallyExclusive = False, rc_AlternativeIDs = [], rc_PreferredAlternativeID = '''',
     rc_Status = StatusOpen, rc_SnoozedUntil = None, rc_RequiresApproval = False, rc_PolicyDecisionID = [],
     rc_AutoExecutable = False, rc_CreatedAt = 1, rc_UpdatedAt = 1\<rparr>"

lemma USDollars_5000: "USDollars 5000 = \<lparr>micros = 5000000000, currency = USD\<rparr>"
  using round_to_int64_of_int [of 5000000000]
  by (simp add: USDollars_def NewMoney_def MicrosPerUnit_def int64_def)

lemma saturate_3: "saturate 3 = 3 / 2"
  by (simp add: saturate_def)

lemma f64_dollars_ratio: "Ratio \<lparr>micros = 15000000000, currency = USD\<rparr> \<lparr>micros = 5000000000, currency = USD\<rparr> = 3"
  by (simp add: Ratio_def)

text \<open>One is a power function for positive bases as far as the formula is concerned.\<close>

lemma pow_monotone_one: "pow_monotone (\<lambda>_ _. 1)"
  by (simp add: pow_monotone_def)

lemma Score_sample:
  "Score (\<lambda>_ _. 1) DefaultPriorityFormula sample_recommendation = 150"
  by (simp add: Score_def sample_recommendation_def sample_finding_def DefaultPriorityFormula_def
      USDollars_5000 IsZero_def f64_dollars_ratio saturate_3 pow_def Clamp_def IsProduction_def Let_def)

theorem Score_monotone_witness:
  "Score (\<lambda>_ _. 1) DefaultPriorityFormula (sample_recommendation\<lparr>rc_Confidence := 1 / 2\<rparr>) \<le> 150"
proof -
  have "weights_nonneg DefaultPriorityFormula"
    by (simp add: weights_nonneg_def DefaultPriorityFormula_def f64.nonneg)
  then show ?thesis
    using Score_monotone [OF pow_monotone_one, of DefaultPriorityFormula
        "sample_recommendation\<lparr>rc_Confidence := 1 / 2\<rparr>" 1 0 0] Score_sample
    by (simp add: sample_recommendation_def)
qed

text \<open>The default formula scores every recommendation between 0 and 200; the bound of 100 that
  the documentation gives is not one, because the savings curve saturates at 2.\<close>

theorem Score_default_range:
  assumes "pow_monotone pw" and "\<And>a e. 0 < a \<Longrightarrow> a \<le> 1 \<Longrightarrow> 0 \<le> e \<Longrightarrow> pw a e \<le> 1"
    and "0 \<le> ra_Score (rc_Risk r)" "0 \<le> br_Score (rc_BlastRadius r)"
  shows "0 \<le> Score pw DefaultPriorityFormula r \<and> Score pw DefaultPriorityFormula r \<le> 200"
proof -
  define sa where "sa = saturate (Ratio (rc_EstimatedMonthlySaving r) (USDollars 5000))"
  define ca where "ca = Clamp (rc_Confidence r)"
  define ra where "ra = pow pw (Reversibility_Factor (rc_Reversibility r)) (f64 (7 / 10))"
  define xa where "xa = pow pw (Complexity_Factor (rc_Complexity r)) (1 / 2)"
  define n where "n = f64 (f64 (f64 (sa * ca) * ra) * xa)"
  define rt where "rt = f64 (1 + f64 (1 * ra_Score (rc_Risk r)))"
  define bt where "bt = f64 (1 + f64 (f64 (6 / 10) * br_Score (rc_BlastRadius r)))"
  define ct where "ct = (if IsProduction (fi_Environment (rc_Finding r)) then f64 (1 + f64 (4 / 10)) else 1)"
  define d where "d = f64 (f64 (rt * bt) * ct)"
  have two: "f64 2 = 2" using f64_of_int [of 2] by simp
  have u: "0 \<le> pow pw a e \<and> pow pw a e \<le> 1" if "0 \<le> a \<and> a \<le> 1" "0 \<le> e" for a e
    using that assms(1,2) pow_nonneg [OF assms(1), of e a] by (auto simp: pow_def)
  have sa: "0 \<le> sa" "sa \<le> 2" using saturate_bounds by (simp_all add: sa_def)
  have ra: "0 \<le> ra" "ra \<le> 1" using u Factor_unit by (simp_all add: ra_def f64.nonneg)
  have xa: "0 \<le> xa" "xa \<le> 1" using u Factor_unit by (simp_all add: xa_def)
  have step: "0 \<le> f64 (x * y) \<and> f64 (x * y) \<le> 2" if "0 \<le> x" "x \<le> 2" "0 \<le> y" "y \<le> 1" for x y
  proof -
    have "x * y \<le> 2 * 1" using that by (intro mult_mono) auto
    then show ?thesis using that f64_mono [of "x * y" 2] two by (simp add: f64.nonneg)
  qed
  have n: "0 \<le> n" "n \<le> 2" unfolding n_def using step sa ra xa by (simp_all add: ca_def)
  have rt: "1 \<le> rt" and bt: "1 \<le> bt"
    using penalty_term [of 1 "ra_Score (rc_Risk r)" "ra_Score (rc_Risk r)"] assms(3,4)
      penalty_term [of "f64 (6 / 10)" "br_Score (rc_BlastRadius r)" "br_Score (rc_BlastRadius r)"]
    by (simp_all add: rt_def bt_def f64.nonneg)
  have ct: "1 \<le> ct" using f64_mono [of 1 "1 + f64 (4 / 10)"] f64.nonneg [of "4 / 10"] by (simp add: ct_def)
  have ge1: "1 \<le> f64 (x * y)" if "1 \<le> x" "1 \<le> y" for x y
    using that mult_mono [of 1 x 1 y] f64_mono [of 1 "x * y"] by simp
  have d: "1 \<le> d" unfolding d_def using ge1 rt bt ct by simp
  have h: "f64 200 = 200" using f64_of_int [of 200] by simp
  have "f64 (100 * n) \<le> 200" using f64_mono [of "100 * n" 200] n h by simp
  then have "f64 (100 * n) / d \<le> 200 / 1" using n d by (intro frac_le) (auto intro: f64.nonneg)
  then have "f64 (f64 (100 * n) / d) \<le> 200" using f64_mono [of "f64 (100 * n) / d" 200] h by simp
  moreover have "0 \<le> f64 (f64 (100 * n) / d)" using n d by (simp add: f64.nonneg)
  moreover have "Score pw DefaultPriorityFormula r = f64 (f64 (100 * n) / d)"
    using d sa(1) pow_1 [of sa pw] pow_1 [of ca pw]
    by (cases "IsProduction (fi_Environment (rc_Finding r))")
      (simp_all add: Score_def Let_def DefaultPriorityFormula_def IsZero_def USDollars_5000 n_def d_def
        sa_def ca_def ra_def xa_def rt_def bt_def ct_def)
  ultimately show ?thesis by simp
qed

theorem Score_default_range_witness:
  "100 < Score (\<lambda>_ _. 1) DefaultPriorityFormula sample_recommendation \<and>
   Score (\<lambda>_ _. 1) DefaultPriorityFormula sample_recommendation \<le> 200"
  using Score_default_range [OF pow_monotone_one, of sample_recommendation] Score_sample
  by (simp add: sample_recommendation_def)

section \<open>Ranking\<close>

interpretation ranking: strict_weak_order rank_lt
  unfolding rank_lt_def by (intro swo_then_by swo_by_desc)

text \<open>\<open>Rank\<close> returns exactly the scored input, by descending score and then descending saving,
  numbered from one; recommendations that tie on both keep their input order.\<close>

theorem Rank_correct:
  "mset (map (rc_Rank_update (\<lambda>_. 0)) (Rank pw recs f)) = mset (map (rc_Rank_update (\<lambda>_. 0) \<circ> scored pw f) recs) \<and>
   sorted_by rank_lt (Rank pw recs f) \<and>
   map rc_Rank (Rank pw recs f) = map int [1..<length recs + 1] \<and>
   filter (\<lambda>r. rc_PriorityScore r = s \<and> micros (rc_EstimatedMonthlySaving r) = m) (map (rc_Rank_update (\<lambda>_. 0)) (Rank pw recs f)) =
     filter (\<lambda>r. rc_PriorityScore r = s \<and> micros (rc_EstimatedMonthlySaving r) = m) (map (rc_Rank_update (\<lambda>_. 0) \<circ> scored pw f) recs)"
proof -
  let ?srt = "stable_sort rank_lt (map (scored pw f) recs)"
  let ?P = "\<lambda>r. rc_PriorityScore r = s \<and> micros (rc_EstimatedMonthlySaving r) = m"
  have lt: "rank_lt (r\<lparr>rc_Rank := i\<rparr>) (r'\<lparr>rc_Rank := j\<rparr>) = rank_lt r r'" for r r' i j
    by (simp add: rank_lt_def then_by_def by_desc_def)
  have strip: "map (rc_Rank_update (\<lambda>_. 0)) (Rank pw recs f) = map (rc_Rank_update (\<lambda>_. 0)) ?srt"
    by (rule nth_equalityI) (simp_all add: Rank_def nth_enumerate_eq)
  have ranks: "map rc_Rank (Rank pw recs f) = map int [1..<length recs + 1]"
    by (rule nth_equalityI) (simp_all add: Rank_def nth_enumerate_eq del: upt_Suc)
  have srt: "sorted_by rank_lt (Rank pw recs f)"
    using ranking.sorted_stable_sort [of "map (scored pw f) recs"]
    by (simp add: sorted_by_def sorted_wrt_iff_nth_less Rank_def nth_enumerate_eq lt)
  have "filter ?P (map (rc_Rank_update (\<lambda>_. 0)) ?srt) = map (rc_Rank_update (\<lambda>_. 0)) (filter ?P ?srt)"
    by (simp add: filter_map comp_def)
  also have "filter ?P ?srt = filter ?P (map (scored pw f) recs)"
    by (rule ranking.stable_sort_stable) (simp add: rank_lt_def then_by_def by_desc_def)
  finally have stab: "filter ?P (map (rc_Rank_update (\<lambda>_. 0)) ?srt) = filter ?P (map (rc_Rank_update (\<lambda>_. 0) \<circ> scored pw f) recs)"
    by (simp add: filter_map comp_def)
  show ?thesis using strip ranks srt stab by (simp add: multiset.map_comp)
qed

end
