(* ===== verification/Conflict.thy ===== *)
theory Conflict imports Recommendation begin

text \<open>
  \<open>internal/domain/optimize/conflict.go\<close>: recommendations that compete for the same money. A
  conflict group is one resource and one domain; \<open>GroupConflicts\<close> marks the best member of every
  group with at least two members as its primary. The loop over the groups ranges over a Go map,
  whose order is not fixed: the order is an argument here, and the result is shown not to depend
  on it.
\<close>

definition DefaultConflictDomain :: "ActionType \<Rightarrow> ConflictDomain" where
  "DefaultConflictDomain a =
    (if a \<in> {ActionResizeInstance, ActionStopInstance, ActionTerminateInstance, ActionScheduleShutdown,
        ActionEnableSpot, ActionPurchaseCommitment} then ConflictDomainComputeCapacity
     else if a \<in> {ActionResizeNodeGroup, ActionAdjustPodResources} then ConflictDomainNodeGroupCapacity
     else if a \<in> {ActionDeleteVolume, ActionResizeVolume, ActionModifyVolumeType} then ConflictDomainVolumeCapacity
     else if a \<in> {ActionDeleteSnapshot, ActionDeregisterAMI, ActionReleaseElasticIP} then ConflictDomainObjectLifetime
     else if a \<in> {ActionResizeRDS, ActionStopRDS, ActionRemoveRDSReplica} then ConflictDomainRDSCompute
     else if a = ActionModifyRDSStorage then ConflictDomainRDSStorage
     else if a = ActionApplyS3Lifecycle then ConflictDomainObjectStorageClass
     else if a = ActionAbortMultipartUploads then ConflictDomainIncompleteUploads
     else if a = ActionSetLogRetention then ConflictDomainLogRetention
     else if a \<in> {ActionResizeLambdaMemory, ActionSwitchLambdaArch} then ConflictDomainLambdaCompute
     else if a = ActionRemoveProvisionedConcurrency then ConflictDomainLambdaProvisioned
     else if a \<in> {ActionCreateVPCEndpoint, ActionRemoveNATGateway} then ConflictDomainNATTraffic
     else if a = ActionSwitchDynamoBilling then ConflictDomainTableBilling
     else ConflictDomainNone)"

primrec domain_string :: "ConflictDomain \<Rightarrow> string" where
  "domain_string ConflictDomainNone = ''''"
| "domain_string ConflictDomainComputeCapacity = ''compute_capacity''"
| "domain_string ConflictDomainNodeGroupCapacity = ''node_group_capacity''"
| "domain_string ConflictDomainServiceCapacity = ''service_capacity''"
| "domain_string ConflictDomainVolumeCapacity = ''volume_capacity''"
| "domain_string ConflictDomainObjectLifetime = ''object_lifetime''"
| "domain_string ConflictDomainRDSCompute = ''rds_compute''"
| "domain_string ConflictDomainRDSStorage = ''rds_storage''"
| "domain_string ConflictDomainRDSBackupStorage = ''rds_backup_storage''"
| "domain_string ConflictDomainObjectStorageClass = ''object_storage_class''"
| "domain_string ConflictDomainNoncurrentVersions = ''noncurrent_versions''"
| "domain_string ConflictDomainIncompleteUploads = ''incomplete_uploads''"
| "domain_string ConflictDomainLambdaCompute = ''lambda_compute''"
| "domain_string ConflictDomainLambdaProvisioned = ''lambda_provisioned_concurrency''"
| "domain_string ConflictDomainNATTraffic = ''nat_traffic''"
| "domain_string ConflictDomainLogRetention = ''log_retention''"
| "domain_string ConflictDomainTableBilling = ''table_billing''"
| "domain_string (ConflictDomainOther s) = s"

definition ConflictGroupKey :: "string \<Rightarrow> ConflictDomain \<Rightarrow> string" where
  "ConflictGroupKey resourceID d = (if resourceID = '''' \<or> domain_string d = '''' then ''''
     else ''cg:'' @ resourceID @ '':'' @ domain_string d)"

definition group_key :: "Recommendation \<Rightarrow> string" where
  "group_key r = ConflictGroupKey (fi_ResourceID (rc_Finding r)) (rc_ConflictDomain r)"

definition clear_group :: "Recommendation \<Rightarrow> Recommendation" where
  "clear_group r = r\<lparr>rc_ConflictGroupID := '''', rc_MutuallyExclusive := False,
     rc_AlternativeIDs := [], rc_PreferredAlternativeID := ''''\<rparr>"

definition byGroup :: "Recommendation list \<Rightarrow> string \<Rightarrow> nat list" where
  "byGroup recs key = filter (\<lambda>i. group_key (recs ! i) = key) [0..<length recs]"

definition conflict_lt :: "Recommendation \<Rightarrow> Recommendation \<Rightarrow> bool" where
  "conflict_lt = then_by (by_desc rc_PriorityScore)
     (then_by (by_desc (\<lambda>r. micros (rc_EstimatedMonthlySaving r))) (by_asc rc_ID))"

definition otherIDs :: "Recommendation list \<Rightarrow> nat list \<Rightarrow> nat \<Rightarrow> ID list" where
  "otherIDs recs members skip =
     map (\<lambda>(pos, idx). rc_ID (recs ! idx)) (filter (\<lambda>(pos, idx). pos \<noteq> skip) (List.enumerate 0 members))"

definition annotate_member :: "string \<Rightarrow> nat list \<Rightarrow> ID \<Rightarrow> Recommendation list \<Rightarrow> nat \<times> nat \<Rightarrow> Recommendation list" where
  "annotate_member key members primary recs m = (let (pos, idx) = m in
     recs[idx := (recs ! idx)\<lparr>rc_ConflictGroupID := key, rc_MutuallyExclusive := True,
       rc_AlternativeIDs := otherIDs recs members pos,
       rc_PreferredAlternativeID := (if pos > 0 then primary else rc_PreferredAlternativeID (recs ! idx))\<rparr>])"

definition annotate_group :: "(string \<Rightarrow> nat list) \<Rightarrow> Recommendation list \<Rightarrow> string \<Rightarrow> Recommendation list" where
  "annotate_group groups recs key = (if length (groups key) < 2 then recs
     else let members = stable_sort (\<lambda>a b. conflict_lt (recs ! a) (recs ! b)) (groups key);
       primary = rc_ID (recs ! hd members) in
     foldl (annotate_member key members primary) recs (List.enumerate 0 members))"

text \<open>\<open>keys\<close> is the iteration order of the map.\<close>

definition GroupConflicts_in :: "string list \<Rightarrow> Recommendation list \<Rightarrow> Recommendation list" where
  "GroupConflicts_in keys recs = (let cleared = map clear_group recs in
     foldl (annotate_group (byGroup cleared)) cleared keys)"

definition group_keys :: "Recommendation list \<Rightarrow> string list" where
  "group_keys recs = remdups (filter (\<lambda>k. k \<noteq> '''') (map group_key recs))"

definition GroupConflicts :: "Recommendation list \<Rightarrow> Recommendation list" where
  "GroupConflicts recs = GroupConflicts_in (group_keys recs) recs"

definition Primaries :: "Recommendation list \<Rightarrow> Recommendation list" where
  "Primaries recs = filter CountsTowardTotal recs"

definition CountAlternatives :: "Recommendation list \<Rightarrow> nat" where
  "CountAlternatives recs = length (filter (\<lambda>r. \<not> CountsTowardTotal r) recs)"

section \<open>The closed form of the grouping\<close>

interpretation conflict: strict_weak_order conflict_lt
  unfolding conflict_lt_def by (intro swo_then_by swo_by_desc swo_by_asc)

lemma swo_map: "strict_weak_order lt \<Longrightarrow> strict_weak_order (\<lambda>a b. lt (f a) (f b))"
  unfolding strict_weak_order_def by blast

text \<open>The ranked members of a group, and the annotation a member receives.\<close>

definition ranked_group :: "Recommendation list \<Rightarrow> string \<Rightarrow> nat list" where
  "ranked_group recs key = stable_sort (\<lambda>a b. conflict_lt (recs ! a) (recs ! b)) (byGroup recs key)"

definition grouped :: "Recommendation list \<Rightarrow> nat \<Rightarrow> Recommendation" where
  "grouped recs i = (let r = clear_group (recs ! i); ms = ranked_group recs (group_key (recs ! i)) in
     if group_key (recs ! i) = '''' \<or> length ms < 2 then r
     else r\<lparr>rc_ConflictGroupID := group_key (recs ! i), rc_MutuallyExclusive := True,
       rc_AlternativeIDs := map (\<lambda>j. rc_ID (recs ! j)) (filter (\<lambda>j. j \<noteq> i) ms),
       rc_PreferredAlternativeID := (if hd ms = i then '''' else rc_ID (recs ! hd ms))\<rparr>)"

lemma clear_group_keeps [simp]:
  "group_key (clear_group r) = group_key r" "rc_ID (clear_group r) = rc_ID r"
  "rc_PriorityScore (clear_group r) = rc_PriorityScore r"
  "rc_EstimatedMonthlySaving (clear_group r) = rc_EstimatedMonthlySaving r"
  "rc_PreferredAlternativeID (clear_group r) = ''''"
  "clear_group (clear_group r) = clear_group r"
  by (simp_all add: clear_group_def group_key_def)

lemma conflict_lt_cong:
  "rc_PriorityScore x = rc_PriorityScore x' \<Longrightarrow> micros (rc_EstimatedMonthlySaving x) = micros (rc_EstimatedMonthlySaving x') \<Longrightarrow>
   rc_ID x = rc_ID x' \<Longrightarrow> rc_PriorityScore y = rc_PriorityScore y' \<Longrightarrow>
   micros (rc_EstimatedMonthlySaving y) = micros (rc_EstimatedMonthlySaving y') \<Longrightarrow> rc_ID y = rc_ID y' \<Longrightarrow>
   conflict_lt x y = conflict_lt x' y'"
  by (simp add: conflict_lt_def then_by_def by_desc_def by_asc_def)

lemma set_byGroup: "set (byGroup recs key) = {i. i < length recs \<and> group_key (recs ! i) = key}"
  by (auto simp: byGroup_def)

lemma set_ranked_group [simp]: "set (ranked_group recs key) = {i. i < length recs \<and> group_key (recs ! i) = key}"
  by (simp add: ranked_group_def set_byGroup)

lemma distinct_ranked_group [simp]: "distinct (ranked_group recs key)"
  by (simp add: ranked_group_def byGroup_def)

lemma length_ranked_group [simp]: "length (ranked_group recs key) = length (byGroup recs key)"
  by (simp add: ranked_group_def)

lemma byGroup_clear [simp]: "byGroup (map clear_group recs) key = byGroup recs key"
  by (auto simp: byGroup_def intro!: filter_cong)

lemma otherIDs_distinct:
  "distinct ms \<Longrightarrow> p < length ms \<Longrightarrow>
   otherIDs recs ms p = map (\<lambda>j. rc_ID (recs ! j)) (filter (\<lambda>j. j \<noteq> ms ! p) ms)"
proof -
  assume ms: "distinct ms" "p < length ms"
  have "map snd (filter (\<lambda>(pos, idx). pos \<noteq> p) (List.enumerate 0 ms)) =
      map snd (filter (\<lambda>(pos, idx). idx \<noteq> ms ! p) (List.enumerate 0 ms))"
    using ms by (intro arg_cong [where f = "map snd"] filter_cong)
      (auto simp: enumerate_eq_zip in_set_zip nth_eq_iff_index_eq)
  also have "\<dots> = filter (\<lambda>idx. idx \<noteq> ms ! p) (map snd (List.enumerate 0 ms))"
    using filter_map [of "\<lambda>idx. idx \<noteq> ms ! p" snd "List.enumerate 0 ms"]
    by (simp only: comp_def case_prod_unfold)
  finally have "map snd (filter (\<lambda>(pos, idx). pos \<noteq> p) (List.enumerate 0 ms)) = filter (\<lambda>idx. idx \<noteq> ms ! p) ms"
    by simp
  then have "map (\<lambda>j. rc_ID (recs ! j)) (map snd (filter (\<lambda>(pos, idx). pos \<noteq> p) (List.enumerate 0 ms))) =
      map (\<lambda>j. rc_ID (recs ! j)) (filter (\<lambda>idx. idx \<noteq> ms ! p) ms)" by (rule arg_cong)
  then show ?thesis by (simp add: otherIDs_def comp_def case_prod_unfold)
qed

text \<open>Two recommendation lists that agree on everything the grouping reads.\<close>

definition same_input :: "Recommendation list \<Rightarrow> Recommendation list \<Rightarrow> bool" where
  "same_input xs ys \<longleftrightarrow> length xs = length ys \<and> (\<forall>i < length xs. clear_group (xs ! i) = clear_group (ys ! i))"

lemma same_input_refl [simp]: "same_input xs xs"
  by (simp add: same_input_def)

lemma same_input_reads:
  assumes "same_input xs ys" "i < length xs"
  shows "rc_ID (xs ! i) = rc_ID (ys ! i)" "rc_PriorityScore (xs ! i) = rc_PriorityScore (ys ! i)"
    "rc_EstimatedMonthlySaving (xs ! i) = rc_EstimatedMonthlySaving (ys ! i)"
    "group_key (xs ! i) = group_key (ys ! i)"
proof -
  have c: "clear_group (xs ! i) = clear_group (ys ! i)" using assms by (simp add: same_input_def)
  show "rc_ID (xs ! i) = rc_ID (ys ! i)" using arg_cong [OF c, of rc_ID] by simp
  show "rc_PriorityScore (xs ! i) = rc_PriorityScore (ys ! i)" using arg_cong [OF c, of rc_PriorityScore] by simp
  show "rc_EstimatedMonthlySaving (xs ! i) = rc_EstimatedMonthlySaving (ys ! i)"
    using arg_cong [OF c, of rc_EstimatedMonthlySaving] by simp
  show "group_key (xs ! i) = group_key (ys ! i)" using arg_cong [OF c, of group_key] by simp
qed

lemma same_input_byGroup: "same_input xs ys \<Longrightarrow> byGroup xs key = byGroup ys key"
  unfolding byGroup_def
  by (intro filter_cong) (simp add: same_input_def, simp add: same_input_reads(4) [of xs ys] same_input_def)

lemma stable_sort_cong:
  "(\<And>x y. x \<in> set xs \<Longrightarrow> y \<in> set xs \<Longrightarrow> lt x y = lt' x y) \<Longrightarrow> stable_sort lt xs = stable_sort lt' xs"
  using map_stable_sort [of xs lt' id lt] by simp

lemma same_input_ranked_group: "same_input xs ys \<Longrightarrow> ranked_group xs key = ranked_group ys key"
proof -
  assume s: "same_input xs ys"
  have "conflict_lt (xs ! a) (xs ! b) = conflict_lt (ys ! a) (ys ! b)"
    if "a \<in> set (byGroup ys key)" "b \<in> set (byGroup ys key)" for a b
    using that s by (intro conflict_lt_cong) (auto simp: set_byGroup same_input_def same_input_reads [OF s])
  then show ?thesis
    unfolding ranked_group_def same_input_byGroup [OF s] by (intro stable_sort_cong) auto
qed

lemma same_input_otherIDs:
  "same_input xs ys \<Longrightarrow> (\<And>i. i \<in> set ms \<Longrightarrow> i < length xs) \<Longrightarrow> otherIDs xs ms p = otherIDs ys ms p"
  unfolding otherIDs_def
  by (intro map_cong) (auto simp: same_input_reads enumerate_eq_zip dest!: set_zip_rightD)

definition annotated :: "Recommendation list \<Rightarrow> string \<Rightarrow> nat list \<Rightarrow> nat \<Rightarrow> Recommendation \<Rightarrow> Recommendation" where
  "annotated recs key ms i r = r\<lparr>rc_ConflictGroupID := key, rc_MutuallyExclusive := True,
     rc_AlternativeIDs := map (\<lambda>j. rc_ID (recs ! j)) (filter (\<lambda>j. j \<noteq> i) ms),
     rc_PreferredAlternativeID := (if hd ms = i then rc_PreferredAlternativeID r else rc_ID (recs ! hd ms))\<rparr>"

lemma clear_group_annotated [simp]: "clear_group (annotated recs key ms i r) = clear_group r"
  by (simp add: annotated_def clear_group_def)

lemma annotate_loop:
  assumes "distinct ms" and "\<And>i. i \<in> set ms \<Longrightarrow> i < length recs"
    and "same_input rs recs" and "ms = pre @ suf"
  shows "foldl (annotate_member key ms (rc_ID (recs ! hd ms))) rs (List.enumerate (length pre) suf) =
    map (\<lambda>i. if i \<in> set suf then annotated recs key ms i (rs ! i) else rs ! i) [0..<length rs]"
  using assms(3,4)
proof (induction suf arbitrary: rs pre)
  case Nil
  then show ?case by (simp add: map_nth)
next
  case (Cons idx suf)
  have len: "length rs = length recs" using Cons.prems(1) by (simp add: same_input_def)
  have p: "length pre < length ms" "ms ! length pre = idx" "idx < length rs"
    using Cons.prems(2) assms(2) [of idx] len by auto
  have "otherIDs rs ms (length pre) = otherIDs recs ms (length pre)"
    using Cons.prems(1) assms(2) len by (intro same_input_otherIDs) auto
  also have "\<dots> = map (\<lambda>j. rc_ID (recs ! j)) (filter (\<lambda>j. j \<noteq> idx) ms)"
    using otherIDs_distinct [OF assms(1) p(1)] p(2) by simp
  finally have alt: "otherIDs rs ms (length pre) = map (\<lambda>j. rc_ID (recs ! j)) (filter (\<lambda>j. j \<noteq> idx) ms)" .
  have hd: "hd ms = idx \<longleftrightarrow> length pre = 0"
    using assms(1) Cons.prems(2) by (cases pre) auto
  let ?rs = "rs[idx := annotated recs key ms idx (rs ! idx)]"
  have step: "annotate_member key ms (rc_ID (recs ! hd ms)) rs (length pre, idx) = ?rs"
    by (simp add: annotate_member_def annotated_def alt hd)
  have same: "same_input ?rs recs"
    using Cons.prems(1) p(3) by (auto simp: same_input_def) (metis clear_group_annotated nth_list_update)
  have "foldl (annotate_member key ms (rc_ID (recs ! hd ms))) ?rs (List.enumerate (length (pre @ [idx])) suf) =
      map (\<lambda>i. if i \<in> set suf then annotated recs key ms i (?rs ! i) else ?rs ! i) [0..<length ?rs]"
    using Cons.prems(2) by (intro Cons.IH same) simp
  moreover have "idx \<notin> set suf" using assms(1) Cons.prems(2) by auto
  ultimately show ?case using step by (auto simp: nth_list_update p(3) intro!: nth_equalityI)
qed

text \<open>The state of the outer loop once the groups of \<open>K\<close> are done.\<close>

definition progress_to :: "Recommendation list \<Rightarrow> string set \<Rightarrow> Recommendation list" where
  "progress_to recs K = map (\<lambda>i. if group_key (recs ! i) \<in> K then grouped recs i else clear_group (recs ! i)) [0..<length recs]"

lemma progress_to_empty: "progress_to recs {} = map clear_group recs"
  by (rule nth_equalityI) (simp_all add: progress_to_def)

lemma clear_group_grouped [simp]: "clear_group (grouped recs i) = clear_group (recs ! i)"
  by (simp add: grouped_def Let_def clear_group_def)

lemma same_input_progress: "same_input (progress_to recs K) recs"
  by (simp add: same_input_def progress_to_def)

lemma annotate_group_step:
  assumes "key \<noteq> ''''"
  shows "annotate_group (byGroup recs) (progress_to recs K) key = progress_to recs (insert key K)"
proof (cases "length (byGroup recs key) < 2")
  case True
  then have "grouped recs i = clear_group (recs ! i)" if "group_key (recs ! i) = key" for i
    using that by (simp add: grouped_def Let_def)
  with True show ?thesis by (auto simp: annotate_group_def progress_to_def)
next
  case False
  let ?rs = "progress_to recs K" and ?ms = "ranked_group recs key"
  have same: "same_input ?rs recs" by (rule same_input_progress)
  have len: "length ?rs = length recs" by (simp add: progress_to_def)
  have ms: "stable_sort (\<lambda>a b. conflict_lt (?rs ! a) (?rs ! b)) (byGroup recs key) = ?ms"
    using same_input_ranked_group [OF same, of key] by (simp add: ranked_group_def same_input_byGroup [OF same])
  have "0 < length ?ms" using False by (simp only: length_ranked_group)
  then have "hd ?ms \<in> set ?ms" by (intro hd_in_set) (metis length_0_conv less_irrefl)
  then have hd: "hd ?ms < length recs" by simp
  then have prim: "rc_ID (?rs ! hd ?ms) = rc_ID (recs ! hd ?ms)"
    using same_input_reads(1) [OF same] len by simp
  have "annotate_group (byGroup recs) ?rs key =
      map (\<lambda>i. if i \<in> set ?ms then annotated recs key ?ms i (?rs ! i) else ?rs ! i) [0..<length ?rs]"
    using False annotate_loop [of ?ms recs ?rs "[]" ?ms key] same
    by (simp add: annotate_group_def ms prim Let_def)
  also have "\<dots> = progress_to recs (insert key K)"
    using False assms
    by (auto simp: progress_to_def len annotated_def grouped_def Let_def clear_group_def intro!: nth_equalityI)
  finally show ?thesis .
qed

lemma GroupConflicts_in_progress:
  assumes "'''' \<notin> set keys"
  shows "GroupConflicts_in keys recs = progress_to recs (set keys)"
proof -
  have "foldl (annotate_group (byGroup recs)) (progress_to recs K) ks = progress_to recs (K \<union> set ks)"
    if "'''' \<notin> set ks" for K ks
    using that
  proof (induction ks arbitrary: K)
    case (Cons k ks)
    then have "k \<noteq> ''''" "'''' \<notin> set ks" by auto
    with Cons.IH [of "insert k K"] show ?case by (simp add: annotate_group_step)
  qed simp
  from this [OF assms, of "{}"] show ?thesis
    by (simp add: GroupConflicts_in_def Let_def progress_to_empty byGroup_clear [abs_def])
qed

text \<open>The result of \<open>GroupConflicts\<close> does not depend on the order in which the Go map of groups
  is iterated: every order over the same groups annotates every recommendation the same way.\<close>

theorem GroupConflicts_deterministic:
  assumes "set keys = set (group_keys recs)"
  shows "GroupConflicts_in keys recs = GroupConflicts recs"
proof -
  have "'''' \<notin> set (group_keys recs)" by (auto simp: group_keys_def)
  then show ?thesis using assms by (simp add: GroupConflicts_def GroupConflicts_in_progress)
qed

lemma GroupConflicts_grouped:
  "GroupConflicts recs = map (grouped recs) [0..<length recs]"
proof -
  have "GroupConflicts recs = progress_to recs (set (group_keys recs))"
    unfolding GroupConflicts_def by (rule GroupConflicts_in_progress) (auto simp: group_keys_def)
  also have "\<dots> = map (grouped recs) [0..<length recs]"
    by (auto simp: progress_to_def group_keys_def grouped_def Let_def)
  finally show ?thesis .
qed

theorem GroupConflicts_deterministic_witness:
  "let recs = [sample_recommendation, sample_recommendation\<lparr>rc_ID := ''s'', rc_ConflictDomain := ConflictDomainLogRetention\<rparr>,
     sample_recommendation\<lparr>rc_ID := ''q''\<rparr>] in
   group_keys recs = [''cg:vol:log_retention'', ''cg:vol:volume_capacity''] \<and>
   GroupConflicts_in [''cg:vol:volume_capacity'', ''cg:vol:log_retention''] recs = GroupConflicts recs"
proof -
  let ?recs = "[sample_recommendation, sample_recommendation\<lparr>rc_ID := ''s'', rc_ConflictDomain := ConflictDomainLogRetention\<rparr>,
     sample_recommendation\<lparr>rc_ID := ''q''\<rparr>]"
  have k: "group_keys ?recs = [''cg:vol:log_retention'', ''cg:vol:volume_capacity'']"
    by (simp add: group_keys_def group_key_def ConflictGroupKey_def sample_recommendation_def sample_finding_def)
  show ?thesis
    using GroupConflicts_deterministic [of "[''cg:vol:volume_capacity'', ''cg:vol:log_retention'']" ?recs] k
    by (simp add: Let_def insert_commute)
qed

section \<open>One primary per group\<close>

lemma length_GroupConflicts [simp]: "length (GroupConflicts recs) = length recs"
  by (simp add: GroupConflicts_grouped)

lemma nth_GroupConflicts: "i < length recs \<Longrightarrow> GroupConflicts recs ! i = grouped recs i"
  by (simp add: GroupConflicts_grouped)

lemma group_key_grouped [simp]: "group_key (grouped recs i) = group_key (recs ! i)"
  by (simp add: grouped_def Let_def group_key_def clear_group_def)

lemma hd_ranked_group:
  assumes "i < length recs"
  shows "hd (ranked_group recs (group_key (recs ! i))) < length recs \<and>
    group_key (recs ! hd (ranked_group recs (group_key (recs ! i)))) = group_key (recs ! i)"
proof -
  have "i \<in> set (ranked_group recs (group_key (recs ! i)))" using assms by simp
  then have "hd (ranked_group recs (group_key (recs ! i))) \<in> set (ranked_group recs (group_key (recs ! i)))"
    by (intro hd_in_set) (metis empty_iff list.set(1))
  then show ?thesis by simp
qed

text \<open>A grouped member is primary exactly when it is the head of its ranked group.\<close>

lemma grouped_primary_iff:
  assumes "i < length recs" and ids: "\<And>r. r \<in> set recs \<Longrightarrow> rc_ID r \<noteq> ''''" and k: "group_key (recs ! i) \<noteq> ''''"
  shows "CountsTowardTotal (grouped recs i) \<longleftrightarrow> i = hd (ranked_group recs (group_key (recs ! i)))"
proof -
  let ?ms = "ranked_group recs (group_key (recs ! i))"
  have i: "i \<in> set ?ms" using assms(1) by simp
  have "rc_ID (recs ! hd ?ms) \<noteq> ''''" using hd_ranked_group [OF assms(1)] ids by simp
  moreover have "hd ?ms = i" if "length ?ms < 2" using that i by (cases ?ms) auto
  ultimately show ?thesis using k by (auto simp: grouped_def Let_def CountsTowardTotal_def IsPrimary_def)
qed

text \<open>C11: after grouping, every conflict group has exactly one member that counts toward a total, and
  no other member of the group ranks above it by priority, then saving, then id. Recommendations
  outside every group all count. So the primaries claim each resource and domain at most once.\<close>

theorem GroupConflicts_one_primary:
  assumes "\<And>r. r \<in> set recs \<Longrightarrow> rc_ID r \<noteq> ''''" and "i < length recs"
  shows "(group_key (recs ! i) \<noteq> '''' \<longrightarrow>
      (\<exists>!p. p < length recs \<and> group_key (recs ! p) = group_key (recs ! i) \<and> CountsTowardTotal (GroupConflicts recs ! p))) \<and>
    (group_key (recs ! i) = '''' \<longrightarrow> CountsTowardTotal (GroupConflicts recs ! i)) \<and>
    (\<forall>p < length recs. CountsTowardTotal (GroupConflicts recs ! p) \<longrightarrow> group_key (recs ! p) \<noteq> '''' \<longrightarrow>
       group_key (recs ! p) = group_key (recs ! i) \<longrightarrow> \<not> conflict_lt (recs ! i) (recs ! p))"
proof (intro conjI impI allI)
  let ?hd = "hd (ranked_group recs (group_key (recs ! i)))"
  assume k: "group_key (recs ! i) \<noteq> ''''"
  show "\<exists>!p. p < length recs \<and> group_key (recs ! p) = group_key (recs ! i) \<and> CountsTowardTotal (GroupConflicts recs ! p)"
  proof (rule ex1I [of _ ?hd])
    show "?hd < length recs \<and> group_key (recs ! ?hd) = group_key (recs ! i) \<and> CountsTowardTotal (GroupConflicts recs ! ?hd)"
      using hd_ranked_group [OF assms(2)] grouped_primary_iff [of ?hd recs] assms(1) k by (simp add: nth_GroupConflicts)
    fix p assume "p < length recs \<and> group_key (recs ! p) = group_key (recs ! i) \<and> CountsTowardTotal (GroupConflicts recs ! p)"
    then show "p = ?hd" using grouped_primary_iff [of p recs] assms(1) k by (auto simp: nth_GroupConflicts)
  qed
next
  assume "group_key (recs ! i) = ''''"
  then show "CountsTowardTotal (GroupConflicts recs ! i)"
    using assms(2) by (simp add: nth_GroupConflicts grouped_def Let_def CountsTowardTotal_def IsPrimary_def)
next
  fix p assume p: "p < length recs" "CountsTowardTotal (GroupConflicts recs ! p)" "group_key (recs ! p) \<noteq> ''''"
    "group_key (recs ! p) = group_key (recs ! i)"
  then have "p = hd (ranked_group recs (group_key (recs ! i)))"
    using grouped_primary_iff [of p recs] assms(1) by (simp add: nth_GroupConflicts)
  moreover have "i \<in> set (byGroup recs (group_key (recs ! i)))" using assms(2) by (simp add: set_byGroup)
  ultimately show "\<not> conflict_lt (recs ! i) (recs ! p)"
    using strict_weak_order.hd_least [OF swo_map [OF conflict.strict_weak_order_axioms, of "(!) recs"]]
    by (simp add: ranked_group_def)
qed

theorem GroupConflicts_one_primary_witness:
  "let recs = [sample_recommendation\<lparr>rc_ID := ''s''\<rparr>, sample_recommendation] in
     \<exists>!p. p < length recs \<and> group_key (recs ! p) = ''cg:vol:volume_capacity'' \<and> CountsTowardTotal (GroupConflicts recs ! p)"
proof -
  let ?recs = "[sample_recommendation\<lparr>rc_ID := ''s''\<rparr>, sample_recommendation]"
  have "group_key (?recs ! 0) = ''cg:vol:volume_capacity''"
    by (simp add: group_key_def ConflictGroupKey_def sample_recommendation_def sample_finding_def)
  moreover have "rc_ID r \<noteq> []" if "r \<in> set ?recs" for r
    using that by (auto simp: sample_recommendation_def)
  ultimately show ?thesis
    using GroupConflicts_one_primary [of ?recs 0] unfolding Let_def by (metis list.distinct(1) list.size(3) length_Cons zero_less_Suc)
qed

text \<open>Every action of the closed set that changes infrastructure has a default conflict domain,
  and the advisory action has none: no mutating recommendation escapes the grouping by default.\<close>

theorem DefaultConflictDomain_exhaustive:
  "(\<nexists>s. a = ActionOther s) \<longrightarrow> (DefaultConflictDomain a \<noteq> ConflictDomainNone) = Mutating a"
  by (cases a) (simp_all add: DefaultConflictDomain_def Mutating_def)

theorem DefaultConflictDomain_exhaustive_witness:
  "DefaultConflictDomain ActionStopRDS \<noteq> ConflictDomainNone"
  using DefaultConflictDomain_exhaustive [of ActionStopRDS] by (simp add: Mutating_def)

text \<open>Grouping an already grouped set again changes nothing.\<close>

theorem GroupConflicts_idempotent: "GroupConflicts (GroupConflicts recs) = GroupConflicts recs"
proof -
  have same: "same_input (GroupConflicts recs) recs"
    by (simp add: same_input_def nth_GroupConflicts)
  have "grouped (GroupConflicts recs) i = grouped recs i" if i: "i < length recs" for i
  proof -
    let ?k = "group_key (recs ! i)"
    have r: "ranked_group (GroupConflicts recs) ?k = ranked_group recs ?k"
      by (rule same_input_ranked_group [OF same])
    have ids: "map (\<lambda>j. rc_ID (GroupConflicts recs ! j)) (filter (\<lambda>j. j \<noteq> i) (ranked_group recs ?k)) =
        map (\<lambda>j. rc_ID (recs ! j)) (filter (\<lambda>j. j \<noteq> i) (ranked_group recs ?k))"
      using same_input_reads(1) [OF same] by (intro map_cong) auto
    have "clear_group (GroupConflicts recs ! i) = clear_group (recs ! i)" "group_key (GroupConflicts recs ! i) = ?k"
      "rc_ID (GroupConflicts recs ! hd (ranked_group recs ?k)) = rc_ID (recs ! hd (ranked_group recs ?k))"
      using i hd_ranked_group [OF i] same_input_reads [OF same] same by (simp_all add: same_input_def)
    with r ids show ?thesis by (simp add: grouped_def Let_def same_input_byGroup [OF same])
  qed
  then show ?thesis
    by (intro nth_equalityI) (simp_all add: nth_GroupConflicts)
qed

end
