(* ===== verification/Contract.thy ===== *)
theory Contract imports Recommendation begin

text \<open>
  \<open>internal/domain/optimize/action_contract.go\<close>: what an executor reads of a recommendation's
  parameters. An empty string is no value. The
  reason text of a refusal is not modelled.
\<close>

record ParameterContract =
  Required :: "string list"
  AnyOf :: "string list"
  Together :: "string list list"

definition present :: "(string \<rightharpoonup> param) \<Rightarrow> string \<Rightarrow> bool" where
  "present params k = (case params k of None \<Rightarrow> False
     | Some (PString s) \<Rightarrow> trim_space s \<noteq> '''' | Some _ \<Rightarrow> True)"

definition Satisfied :: "ParameterContract \<Rightarrow> (string \<rightharpoonup> param) \<Rightarrow> bool" where
  "Satisfied c params =
    (let missing = filter (\<lambda>k. \<not> present params k) (Required c) in
     if missing \<noteq> [] then False
     else if AnyOf c \<noteq> [] \<and> \<not> list_ex (present params) (AnyOf c) then False
     else if list_ex (\<lambda>g. list_ex (present params) g \<and> \<not> list_all (present params) g) (Together c) then False
     else True)"

abbreviation requires :: "string list \<Rightarrow> ParameterContract" where
  "requires ks \<equiv> \<lparr>Required = ks, AnyOf = [], Together = []\<rparr>"

definition actionParameterContracts :: "(ActionType \<times> ParameterContract) list" where
  "actionParameterContracts = [
     (ActionResizeInstance, requires [''instance_type'']),
     (ActionStopInstance, requires []),
     (ActionScheduleShutdown, requires [''schedule'']),
     (ActionDeleteVolume, requires []),
     (ActionResizeVolume, requires [''size_gib'']),
     (ActionModifyVolumeType, requires [''volume_type'']),
     (ActionDeleteSnapshot, requires []),
     (ActionReleaseElasticIP, requires []),
     (ActionResizeRDS, requires [''instance_class'']),
     (ActionModifyRDSStorage, \<lparr>Required = [], AnyOf = [''allocated_storage_gb'', ''storage_type'', ''iops''],
        Together = []\<rparr>),
     (ActionResizeNodeGroup, requires [''desired_size'']),
     (ActionApplyS3Lifecycle, \<lparr>Required = [],
        AnyOf = [''transition_days'', ''expiration_days'', ''noncurrent_expiration_days'', ''abort_incomplete_multipart_days''],
        Together = [[''transition_days'', ''transition_storage_class'']]\<rparr>),
     (ActionAbortMultipartUploads, requires [''older_than_days'']),
     (ActionSetLogRetention, requires [''retention_days'']),
     (ActionResizeLambdaMemory, requires [''memory_mb'']),
     (ActionRemoveProvisionedConcurrency, requires []),
     (ActionCreateVPCEndpoint, requires [''service_name''])]"

definition ParameterContractFor :: "ActionType \<Rightarrow> ParameterContract option" where
  "ParameterContractFor a = map_of actionParameterContracts a"

primrec action_string :: "ActionType \<Rightarrow> string" where
  "action_string ActionResizeInstance = ''resize_instance''"
| "action_string ActionStopInstance = ''stop_instance''"
| "action_string ActionTerminateInstance = ''terminate_instance''"
| "action_string ActionDeleteVolume = ''delete_volume''"
| "action_string ActionResizeVolume = ''resize_volume''"
| "action_string ActionModifyVolumeType = ''modify_volume_type''"
| "action_string ActionDeleteSnapshot = ''delete_snapshot''"
| "action_string ActionDeregisterAMI = ''deregister_ami''"
| "action_string ActionReleaseElasticIP = ''release_elastic_ip''"
| "action_string ActionResizeRDS = ''resize_rds_instance''"
| "action_string ActionModifyRDSStorage = ''modify_rds_storage''"
| "action_string ActionRemoveRDSReplica = ''remove_rds_replica''"
| "action_string ActionStopRDS = ''stop_rds_instance''"
| "action_string ActionApplyS3Lifecycle = ''apply_s3_lifecycle''"
| "action_string ActionAbortMultipartUploads = ''abort_multipart_uploads''"
| "action_string ActionSetLogRetention = ''set_log_retention''"
| "action_string ActionResizeLambdaMemory = ''resize_lambda_memory''"
| "action_string ActionRemoveProvisionedConcurrency = ''remove_provisioned_concurrency''"
| "action_string ActionSwitchLambdaArch = ''switch_lambda_architecture''"
| "action_string ActionResizeNodeGroup = ''resize_node_group''"
| "action_string ActionAdjustPodResources = ''adjust_pod_resources''"
| "action_string ActionEnableSpot = ''enable_spot_capacity''"
| "action_string ActionCreateVPCEndpoint = ''create_vpc_endpoint''"
| "action_string ActionRemoveNATGateway = ''remove_nat_gateway''"
| "action_string ActionScheduleShutdown = ''schedule_shutdown''"
| "action_string ActionPurchaseCommitment = ''purchase_commitment''"
| "action_string ActionSwitchDynamoBilling = ''switch_dynamodb_billing_mode''"
| "action_string ActionAdvisoryOnly = ''advisory_only''"
| "action_string (ActionOther s) = s"

definition ExecutableActions :: "ActionType list" where
  "ExecutableActions = stable_sort (by_asc action_string) (map fst actionParameterContracts)"

text \<open>Whether a parameter map meets a contract depends on the contract only through three
  conditions: every required key is there, some alternative is there when there are alternatives,
  and every group is all there or not at all; a key whose value is a blank string is not there.\<close>

lemma Satisfied_iff:
  "Satisfied c params =
     ((\<forall>k \<in> set (Required c). present params k) \<and>
      (AnyOf c = [] \<or> (\<exists>k \<in> set (AnyOf c). present params k)) \<and>
      (\<forall>g \<in> set (Together c). (\<forall>k \<in> set g. present params k) \<or> (\<forall>k \<in> set g. \<not> present params k)))"
  by (auto simp: Satisfied_def filter_empty_conv list_ex_iff list_all_iff Let_def)

end
