(* ===== verification/Policy.thy ===== *)
theory Policy imports Principal Recommendation begin

text \<open>
  \<open>internal/domain/govern/policy.go\<close>: policy-as-code. A policy is an ordered list of rules with a
  selector, numeric guards and an effect; evaluation takes the most restrictive matching rule and
  then applies the platform guards. Explanations and reasons are texts and are not modelled; the
  rendering of numbers and the checksum are parameters of the input digest.
\<close>

datatype Effect = EffectAutoExecute | EffectRequireApproval | EffectProhibit | EffectAdvisory
  | EffectOther string

fun Effect_Rank :: "Effect \<Rightarrow> nat" where
  "Effect_Rank EffectAutoExecute = 0"
| "Effect_Rank EffectRequireApproval = 1"
| "Effect_Rank EffectAdvisory = 2"
| "Effect_Rank EffectProhibit = 3"
| "Effect_Rank (EffectOther _) = 3"

record Match =
  ma_Actions :: "ActionType list"
  ma_Categories :: "optimize_Category list"
  ma_RuleIDs :: "RuleID list"
  ma_Environments :: "Environment list"
  ma_AccountIDs :: "AccountID list"
  ma_Regions :: "Region list"
  ma_ResourceKinds :: "string list"
  ma_ApplicationIDs :: "ID list"
  ma_TagSelector :: "(string \<times> string) list"
  ma_MinConfidence :: rat
  ma_MaxRiskLevel :: RiskLevel
  ma_MaxBlastScore :: rat
  ma_MaxCriticalServices :: int
  ma_MaxMonthlySavingImpact :: Money
  ma_MinReversibility :: Reversibility
  ma_RequireMaintenanceWindow :: bool

record Rule =
  ru_ID :: string
  ru_Match :: Match
  ru_Effect :: Effect
  ru_Approvers :: "string list"
  ru_MinApprovals :: int
  ru_RequireDistinctApprover :: bool
  ru_MaintenanceWindows :: "string list"

record Policy =
  po_ID :: ID
  po_TenantID :: TenantID
  po_Name :: string
  po_Version :: int
  po_Rules :: "Rule list"
  po_DefaultEffect :: Effect
  po_Enabled :: bool
  po_Checksum :: string
  po_CreatedBy :: string
  po_CreatedAt :: gotime
  po_ActivatedAt :: gotime

record Input =
  in_TenantID :: TenantID
  in_RecommendationID :: ID
  in_RuleID :: RuleID
  in_Category :: optimize_Category
  in_Action :: ActionType
  in_ResourceID :: ID
  in_ResourceKind :: string
  in_AccountID :: AccountID
  in_Region :: Region
  in_Environment :: Environment
  in_ApplicationID :: ID
  in_Tags :: Tags
  in_Confidence :: Confidence
  in_RiskLevel :: RiskLevel
  in_RiskScore :: rat
  in_BlastScore :: rat
  in_CriticalServices :: int
  in_Reversibility :: Reversibility
  in_Destructive :: bool
  in_MonthlySaving :: Money
  in_MonthlyCostDelta :: Money
  in_InMaintenanceWindow :: bool
  in_BudgetFreeze :: bool
  in_BudgetRequiresApproval :: bool
  in_AutomationEnabled :: bool
  in_Now :: gotime

record Decision =
  de_TenantID :: TenantID
  de_RecommendationID :: ID
  de_PolicyID :: ID
  de_PolicyVersion :: int
  de_PolicyChecksum :: string
  de_Effect :: Effect
  de_MatchedRules :: "string list"
  de_DecidingRule :: string
  de_RequiresApproval :: bool
  de_Approvers :: "string list"
  de_MinApprovals :: int
  de_RequireDistinctApprover :: bool
  de_MaintenanceWindows :: "string list"
  de_DecidedAt :: gotime

definition Allowed :: "Decision \<Rightarrow> bool" where
  "Allowed d \<longleftrightarrow> de_Effect d = EffectAutoExecute \<or> de_Effect d = EffectRequireApproval"

section \<open>Matching\<close>

definition containsString :: "string list \<Rightarrow> string \<Rightarrow> bool" where
  "containsString xs v \<longleftrightarrow> (\<exists>x \<in> set xs. equal_fold x v)"

definition tag_ok :: "Tags \<Rightarrow> string \<times> string \<Rightarrow> bool" where
  "tag_ok tags kw = (let (k, want) = kw in
     case Tags_Get tags k of None \<Rightarrow> False
     | Some got \<Rightarrow> \<not> (want \<noteq> '''' \<and> want \<noteq> ''*'' \<and> \<not> equal_fold got want))"

definition Matches :: "Match \<Rightarrow> Input \<Rightarrow> bool" where
  "Matches m i =
    (if ma_Actions m \<noteq> [] \<and> in_Action i \<notin> set (ma_Actions m) then False
     else if ma_Categories m \<noteq> [] \<and> in_Category i \<notin> set (ma_Categories m) then False
     else if ma_RuleIDs m \<noteq> [] \<and> in_RuleID i \<notin> set (ma_RuleIDs m) then False
     else if ma_Environments m \<noteq> [] \<and> in_Environment i \<notin> set (ma_Environments m) then False
     else if ma_AccountIDs m \<noteq> [] \<and> in_AccountID i \<notin> set (ma_AccountIDs m) then False
     else if ma_Regions m \<noteq> [] \<and> in_Region i \<notin> set (ma_Regions m) then False
     else if ma_ResourceKinds m \<noteq> [] \<and> \<not> containsString (ma_ResourceKinds m) (in_ResourceKind i) then False
     else if ma_ApplicationIDs m \<noteq> [] \<and> in_ApplicationID i \<notin> set (ma_ApplicationIDs m) then False
     else if \<not> list_all (tag_ok (in_Tags i)) (ma_TagSelector m) then False
     else if ma_MinConfidence m > 0 \<and> in_Confidence i < ma_MinConfidence m then False
     else if ma_MaxRiskLevel m \<noteq> RiskOther '''' \<and> RiskLevel_Order (in_RiskLevel i) > RiskLevel_Order (ma_MaxRiskLevel m) then False
     else if ma_MaxBlastScore m > 0 \<and> in_BlastScore i > ma_MaxBlastScore m then False
     else if ma_MaxCriticalServices m > 0 \<and> in_CriticalServices i > ma_MaxCriticalServices m then False
     else if \<not> IsZero (ma_MaxMonthlySavingImpact m) \<and> GreaterThan (in_MonthlySaving i) (ma_MaxMonthlySavingImpact m) then False
     else if ma_MinReversibility m \<noteq> ReversibilityOther '''' \<and>
        Reversibility_Factor (in_Reversibility i) < Reversibility_Factor (ma_MinReversibility m) then False
     else if ma_RequireMaintenanceWindow m \<and> \<not> in_InMaintenanceWindow i then False
     else True)"

section \<open>Validation\<close>

definition rule_path :: "nat \<Rightarrow> string" where
  "rule_path i = ''rules['' @ itoa i @ '']''"

definition validate_auto :: "string \<Rightarrow> Match \<Rightarrow> ValidationResult" where
  "validate_auto path m =
     concat (map (\<lambda>a. report (Destructive a) (path @ ''.effect'') ''destructive_auto_execute'' SeverityCritical) (ma_Actions m))
     @ report (ma_Actions m = [] \<and> ma_Categories m = [] \<and> ma_RuleIDs m = [])
         (path @ ''.match'') ''overbroad_auto_execute'' SeverityCritical
     @ (let prod = list_ex IsProduction (ma_Environments m) in
        report ((prod \<or> ma_Environments m = []) \<and> ma_MinConfidence m < f64 (85 / 100))
          (path @ ''.match.min_confidence'') ''weak_production_guard'' SeverityHigh)"

definition validate_rule :: "string list \<Rightarrow> nat \<Rightarrow> Rule \<Rightarrow> ValidationResult" where
  "validate_rule seen i r = (let path = rule_path i in
     (if ru_ID r = '''' then report True (path @ ''.id'') ''required'' SeverityHigh
      else report (ru_ID r \<in> set seen) (path @ ''.id'') ''duplicate'' SeverityHigh)
     @ report (ru_Effect r \<notin> {EffectAutoExecute, EffectRequireApproval, EffectProhibit, EffectAdvisory})
         (path @ ''.effect'') ''invalid'' SeverityHigh
     @ (if ru_Effect r = EffectAutoExecute then validate_auto path (ru_Match r) else [])
     @ report (ru_Effect r = EffectRequireApproval \<and> ru_MinApprovals r < 0)
         (path @ ''.min_approvals'') ''invalid'' SeverityMedium)"

fun validate_rules :: "string list \<Rightarrow> nat \<Rightarrow> Rule list \<Rightarrow> ValidationResult" where
  "validate_rules seen i [] = []"
| "validate_rules seen i (r # rs) = validate_rule seen i r @ validate_rules (ru_ID r # seen) (Suc i) rs"

definition Policy_Validate :: "Policy \<Rightarrow> ValidationResult" where
  "Policy_Validate p =
     report (po_Name p = '''') ''name'' ''required'' SeverityHigh
     @ report (po_DefaultEffect p = EffectAutoExecute) ''default_effect'' ''unsafe_default'' SeverityCritical
     @ report (po_DefaultEffect p = EffectOther '''') ''default_effect'' ''required'' SeverityHigh
     @ validate_rules [] 0 (po_Rules p)"

section \<open>Evaluation\<close>

text \<open>The loop: the ids of the matching rules and the first matching rule of greatest rank.\<close>

definition eval_rule :: "Input \<Rightarrow> Rule \<Rightarrow> string list \<times> Rule option \<Rightarrow> string list \<times> Rule option" where
  "eval_rule i r st = (let (ids, best) = st in
     if \<not> Matches (ru_Match r) i then (ids, best)
     else (ids @ [ru_ID r],
       (case best of None \<Rightarrow> Some r
        | Some b \<Rightarrow> if Effect_Rank (ru_Effect b) < Effect_Rank (ru_Effect r) then Some r else Some b)))"

definition default_effect :: "Policy \<Rightarrow> Effect" where
  "default_effect p = (if po_DefaultEffect p = EffectOther '''' then EffectRequireApproval else po_DefaultEffect p)"

text \<open>The guards that no policy overrides, on the effect and the name of the deciding rule.\<close>

definition platform_guards :: "Input \<Rightarrow> Effect \<times> string \<Rightarrow> Effect \<times> string" where
  "platform_guards i ed = (let
     (e, d) = ed;
     (e, d) = (if e = EffectAutoExecute \<and> in_Destructive i
               then (EffectRequireApproval, ''__platform_destructive_guard__'') else (e, d));
     (e, d) = (if e = EffectAutoExecute \<and> \<not> in_AutomationEnabled i
               then (EffectRequireApproval, ''__tenant_automation_disabled__'') else (e, d));
     costIncreasing = GreaterThan (in_MonthlyCostDelta i) ZeroUSD in
     if in_BudgetFreeze i \<and> costIncreasing then (EffectProhibit, ''__economic_error_budget_freeze__'')
     else if in_BudgetRequiresApproval i \<and> costIncreasing \<and> e = EffectAutoExecute
       then (EffectRequireApproval, ''__economic_error_budget_escalation__'')
     else (e, d))"

definition Evaluate :: "gotime \<Rightarrow> Policy \<Rightarrow> Input \<Rightarrow> Decision" where
  "Evaluate wall p i = (let
     (ids, best) = fold (eval_rule i) (po_Rules p) ([], None);
     (eff, deciding) = platform_guards i (case best of
        None \<Rightarrow> (default_effect p, ''__default__'') | Some r \<Rightarrow> (ru_Effect r, ru_ID r));
     requires = (eff = EffectRequireApproval);
     base = \<lparr>de_TenantID = in_TenantID i, de_RecommendationID = in_RecommendationID i, de_PolicyID = po_ID p,
       de_PolicyVersion = po_Version p, de_PolicyChecksum = po_Checksum p, de_Effect = eff,
       de_MatchedRules = ids, de_DecidingRule = deciding, de_RequiresApproval = requires,
       de_Approvers = [], de_MinApprovals = 0, de_RequireDistinctApprover = False,
       de_MaintenanceWindows = [], de_DecidedAt = (if in_Now i = 0 then wall else in_Now i)\<rparr>;
     d = (case best of
        Some r \<Rightarrow> if eff = ru_Effect r
          then base\<lparr>de_Approvers := ru_Approvers r, de_MinApprovals := ru_MinApprovals r,
            de_RequireDistinctApprover := ru_RequireDistinctApprover r,
            de_MaintenanceWindows := ru_MaintenanceWindows r\<rparr>
          else base
      | None \<Rightarrow> base)
   in if de_RequiresApproval d \<and> de_MinApprovals d = 0 then d\<lparr>de_MinApprovals := 1\<rparr> else d)"

section \<open>The matching rules\<close>

definition matching :: "Policy \<Rightarrow> Input \<Rightarrow> Rule list" where
  "matching p i = filter (\<lambda>r. Matches (ru_Match r) i) (po_Rules p)"

definition rule_rank :: "Rule \<Rightarrow> nat" where
  "rule_rank r = Effect_Rank (ru_Effect r)"

lemma fold_eval_rule:
  "fold (eval_rule i) rs (ids, best) =
     (ids @ map ru_ID (filter (\<lambda>r. Matches (ru_Match r) i) rs),
      first_greatest rule_rank best (filter (\<lambda>r. Matches (ru_Match r) i) rs))"
  by (induction rs arbitrary: ids best) (auto simp: eval_rule_def rule_rank_def split: option.splits)

definition tenant_effect :: "Policy \<Rightarrow> Input \<Rightarrow> Effect" where
  "tenant_effect p i = (case first_greatest rule_rank None (matching p i) of
     None \<Rightarrow> default_effect p | Some r \<Rightarrow> ru_Effect r)"

lemma platform_guards_effect:
  "fst (platform_guards i (e, d)) =
    (if in_BudgetFreeze i \<and> GreaterThan (in_MonthlyCostDelta i) ZeroUSD then EffectProhibit
     else if e = EffectAutoExecute \<and> (in_Destructive i \<or> \<not> in_AutomationEnabled i \<or>
        in_BudgetRequiresApproval i \<and> GreaterThan (in_MonthlyCostDelta i) ZeroUSD) then EffectRequireApproval
     else e)"
  by (auto simp: platform_guards_def Let_def)

lemma Evaluate_effect:
  "de_Effect (Evaluate wall p i) = fst (platform_guards i (tenant_effect p i, d))"
proof -
  have "fst (platform_guards i (e, x)) = fst (platform_guards i (e, y))" for e x y
    by (simp only: platform_guards_effect)
  then show ?thesis
    by (auto simp: Evaluate_def fold_eval_rule tenant_effect_def matching_def Let_def
        split: option.splits prod.splits) (metis fst_conv)+
qed

lemma Evaluate_matched: "de_MatchedRules (Evaluate wall p i) = map ru_ID (matching p i)"
  by (simp add: Evaluate_def fold_eval_rule matching_def Let_def split: option.splits prod.splits)

lemma tenant_effect_ge: "r \<in> set (matching p i) \<Longrightarrow> Effect_Rank (ru_Effect r) \<le> Effect_Rank (tenant_effect p i)"
proof -
  assume r: "r \<in> set (matching p i)"
  then obtain y where y: "first_greatest rule_rank None (matching p i) = Some y"
    using first_greatest_None_iff [of rule_rank "matching p i"] by (cases "first_greatest rule_rank None (matching p i)") auto
  then have "rule_rank r \<le> rule_rank y" using first_greatest_max r by fastforce
  with y show ?thesis by (simp add: tenant_effect_def rule_rank_def)
qed

lemma tenant_effect_from:
  "matching p i \<noteq> [] \<Longrightarrow> \<exists>r \<in> set (matching p i). tenant_effect p i = ru_Effect r"
  using first_greatest_None_iff [of rule_rank "matching p i"] first_greatest_max [of rule_rank "matching p i"]
  by (cases "first_greatest rule_rank None (matching p i)") (auto simp: tenant_effect_def)

lemma guards_tighten: "Effect_Rank e \<le> Effect_Rank (fst (platform_guards i (e, d)))"
  by (cases e) (simp_all add: platform_guards_effect)

section \<open>Properties\<close>

text \<open>C10: evaluation is deny-biased: the decision is at least as restrictive as every matching rule
  and, when nothing matches, as the default; no rule, guard or flag can widen a prohibition.\<close>

theorem Evaluate_deny_biased:
  "(\<forall>r \<in> set (po_Rules p). Matches (ru_Match r) i \<longrightarrow>
      Effect_Rank (ru_Effect r) \<le> Effect_Rank (de_Effect (Evaluate wall p i))) \<and>
   (de_MatchedRules (Evaluate wall p i) = [] \<longrightarrow>
      Effect_Rank (default_effect p) \<le> Effect_Rank (de_Effect (Evaluate wall p i)))"
proof -
  have le: "Effect_Rank (tenant_effect p i) \<le> Effect_Rank (de_Effect (Evaluate wall p i))"
    using guards_tighten [of "tenant_effect p i" i "[]"] by (simp add: Evaluate_effect [of wall p i "[]"])
  have "Effect_Rank (ru_Effect r) \<le> Effect_Rank (tenant_effect p i)"
    if "r \<in> set (po_Rules p)" "Matches (ru_Match r) i" for r
    using that by (intro tenant_effect_ge) (simp add: matching_def)
  moreover have "tenant_effect p i = default_effect p" if "de_MatchedRules (Evaluate wall p i) = []"
    using that by (simp add: Evaluate_matched tenant_effect_def)
  ultimately show ?thesis using le by (metis order_trans)
qed
text \<open>Concrete policies and inputs for the witnesses.\<close>

definition any_match :: Match where
  "any_match = \<lparr>ma_Actions = [], ma_Categories = [], ma_RuleIDs = [], ma_Environments = [], ma_AccountIDs = [],
     ma_Regions = [], ma_ResourceKinds = [], ma_ApplicationIDs = [], ma_TagSelector = [], ma_MinConfidence = 0,
     ma_MaxRiskLevel = RiskOther '''', ma_MaxBlastScore = 0, ma_MaxCriticalServices = 0,
     ma_MaxMonthlySavingImpact = zero_money, ma_MinReversibility = ReversibilityOther '''',
     ma_RequireMaintenanceWindow = False\<rparr>"

definition auto_rule :: Rule where
  "auto_rule = \<lparr>ru_ID = ''auto-stop'', ru_Match = any_match\<lparr>ma_Actions := [ActionStopInstance], ma_MinConfidence := 1\<rparr>,
     ru_Effect = EffectAutoExecute, ru_Approvers = [], ru_MinApprovals = 0, ru_RequireDistinctApprover = False,
     ru_MaintenanceWindows = []\<rparr>"

definition prod_rule :: Rule where
  "prod_rule = \<lparr>ru_ID = ''prod-approval'', ru_Match = any_match\<lparr>ma_Environments := [EnvProduction]\<rparr>,
     ru_Effect = EffectRequireApproval, ru_Approvers = [''sre''], ru_MinApprovals = 2,
     ru_RequireDistinctApprover = True, ru_MaintenanceWindows = []\<rparr>"

definition sample_policy :: Policy where
  "sample_policy = \<lparr>po_ID = ''pol'', po_TenantID = ''t'', po_Name = ''balanced'', po_Version = 1,
     po_Rules = [auto_rule, prod_rule], po_DefaultEffect = EffectRequireApproval, po_Enabled = True, po_Checksum = '''',
     po_CreatedBy = ''admin'', po_CreatedAt = 1, po_ActivatedAt = 1\<rparr>"

definition sample_input :: Input where
  "sample_input = \<lparr>in_TenantID = ''t'', in_RecommendationID = ''r'', in_RuleID = ''idle'', in_Category = CategoryWaste,
     in_Action = ActionStopInstance, in_ResourceID = ''i'', in_ResourceKind = ''aws.ec2.instance'', in_AccountID = ''a'',
     in_Region = ''us'', in_Environment = EnvDevelopment, in_ApplicationID = '''', in_Tags = [], in_Confidence = 1,
     in_RiskLevel = RiskLow, in_RiskScore = 0, in_BlastScore = 0, in_CriticalServices = 0,
     in_Reversibility = ReversibilityFast, in_Destructive = False, in_MonthlySaving = ZeroUSD,
     in_MonthlyCostDelta = ZeroUSD, in_InMaintenanceWindow = False, in_BudgetFreeze = False,
     in_BudgetRequiresApproval = False, in_AutomationEnabled = True, in_Now = 1\<rparr>"

lemmas policy_samples = any_match_def auto_rule_def prod_rule_def sample_policy_def sample_input_def

lemma sample_matches:
  "Matches (ru_Match auto_rule) sample_input" "\<not> Matches (ru_Match prod_rule) sample_input"
  "Matches (ru_Match auto_rule) (sample_input\<lparr>in_Environment := EnvProduction\<rparr>)"
  "Matches (ru_Match prod_rule) (sample_input\<lparr>in_Environment := EnvProduction\<rparr>)"
  by (simp_all add: Matches_def policy_samples IsZero_def)

lemma sample_decision: "de_Effect (Evaluate 0 sample_policy sample_input) = EffectAutoExecute"
  using sample_matches
  by (simp add: Evaluate_effect [of _ _ _ "[]"] platform_guards_effect tenant_effect_def matching_def
      sample_policy_def) (simp add: policy_samples)

theorem Evaluate_deny_biased_witness:
  "Effect_Rank EffectRequireApproval \<le> Effect_Rank (de_Effect (Evaluate 0 sample_policy (sample_input\<lparr>in_Environment := EnvProduction\<rparr>)))"
proof -
  have "prod_rule \<in> set (po_Rules sample_policy)" by (simp add: sample_policy_def)
  with Evaluate_deny_biased [of sample_policy "sample_input\<lparr>in_Environment := EnvProduction\<rparr>" 0] sample_matches(4)
  have "Effect_Rank (ru_Effect prod_rule) \<le> Effect_Rank (de_Effect (Evaluate 0 sample_policy (sample_input\<lparr>in_Environment := EnvProduction\<rparr>)))"
    by blast
  then show ?thesis by (simp add: prod_rule_def)
qed

text \<open>Validation reports every rule on its own.\<close>

lemma validate_rules_blocking:
  "r \<in> set rs \<Longrightarrow> \<not> HasBlocking (validate_rules seen i rs) \<Longrightarrow> \<exists>seen' i'. \<not> HasBlocking (validate_rule seen' i' r)"
  by (induction seen i rs rule: validate_rules.induct) auto

lemma validated_auto_rule:
  assumes "\<not> HasBlocking (Policy_Validate p)" "r \<in> set (po_Rules p)" "ru_Effect r = EffectAutoExecute"
  shows "(\<forall>a \<in> set (ma_Actions (ru_Match r)). \<not> Destructive a) \<and>
    (ma_Actions (ru_Match r) \<noteq> [] \<or> ma_Categories (ru_Match r) \<noteq> [] \<or> ma_RuleIDs (ru_Match r) \<noteq> []) \<and>
    (list_ex IsProduction (ma_Environments (ru_Match r)) \<or> ma_Environments (ru_Match r) = [] \<longrightarrow>
       f64 (85 / 100) \<le> ma_MinConfidence (ru_Match r))"
proof -
  obtain seen i where "\<not> HasBlocking (validate_rule seen i r)"
    using validate_rules_blocking [OF assms(2), of "[]" 0] assms(1) by (auto simp: Policy_Validate_def)
  then have "\<not> HasBlocking (validate_auto (rule_path i) (ru_Match r))"
    using assms(3) by (simp add: validate_rule_def Let_def)
  then show ?thesis by (auto simp: validate_auto_def Let_def)
qed

lemma Matches_selectors:
  assumes "Matches m i"
  shows "ma_Environments m \<noteq> [] \<Longrightarrow> in_Environment i \<in> set (ma_Environments m)"
    and "ma_Actions m \<noteq> [] \<Longrightarrow> in_Action i \<in> set (ma_Actions m)"
    and "0 < ma_MinConfidence m \<Longrightarrow> ma_MinConfidence m \<le> in_Confidence i"
  using assms by (auto simp: Matches_def not_less split: if_splits)

lemma auto_execute_facts:
  assumes "\<not> HasBlocking (Policy_Validate p)"
    and "de_Effect (Evaluate wall p i) = EffectAutoExecute"
  shows "\<not> in_Destructive i \<and> in_AutomationEnabled i \<and>
    \<not> (GreaterThan (in_MonthlyCostDelta i) ZeroUSD \<and> (in_BudgetFreeze i \<or> in_BudgetRequiresApproval i)) \<and>
    (\<exists>r \<in> set (po_Rules p). Matches (ru_Match r) i \<and> ru_Effect r = EffectAutoExecute \<and>
       (ma_Actions (ru_Match r) \<noteq> [] \<or> ma_Categories (ru_Match r) \<noteq> [] \<or> ma_RuleIDs (ru_Match r) \<noteq> []) \<and>
       (ma_Actions (ru_Match r) \<noteq> [] \<longrightarrow> \<not> Destructive (in_Action i)) \<and>
       (IsProduction (in_Environment i) \<longrightarrow> f64 (85 / 100) \<le> in_Confidence i)) \<and>
    (\<forall>r \<in> set (po_Rules p). Matches (ru_Match r) i \<longrightarrow> ru_Effect r = EffectAutoExecute)"
proof -
  have t: "tenant_effect p i = EffectAutoExecute" and g: "\<not> in_Destructive i" "in_AutomationEnabled i"
    "\<not> (GreaterThan (in_MonthlyCostDelta i) ZeroUSD \<and> (in_BudgetFreeze i \<or> in_BudgetRequiresApproval i))"
    using assms(2) by (auto simp: Evaluate_effect [of _ _ _ "[]"] platform_guards_effect split: if_splits)
  have all: "ru_Effect r = EffectAutoExecute" if "r \<in> set (po_Rules p)" "Matches (ru_Match r) i" for r
  proof -
    have "Effect_Rank (ru_Effect r) \<le> Effect_Rank (tenant_effect p i)"
      using that by (intro tenant_effect_ge) (simp add: matching_def)
    then show ?thesis using t by (cases "ru_Effect r") simp_all
  qed
  have "po_DefaultEffect p \<noteq> EffectAutoExecute" using assms(1) by (simp add: Policy_Validate_def)
  then have "matching p i \<noteq> []"
    using t by (auto simp: tenant_effect_def default_effect_def split: if_splits)
  then obtain r where r: "r \<in> set (po_Rules p)" "Matches (ru_Match r) i"
    using hd_in_set [of "matching p i"] by (auto simp: matching_def)
  note auto = all [OF r]
  note v = validated_auto_rule [OF assms(1) r(1) auto]
  have "f64 (85 / 100) \<le> in_Confidence i" if "IsProduction (in_Environment i)"
  proof -
    have "list_ex IsProduction (ma_Environments (ru_Match r)) \<or> ma_Environments (ru_Match r) = []"
      using that Matches_selectors(1) [OF r(2)] by (auto simp: list_ex_iff)
    with v have m: "f64 (85 / 100) \<le> ma_MinConfidence (ru_Match r)" by blast
    moreover have "0 < f64 (85 / 100)" using f64_mono [of "1 / 2" "85 / 100"] by simp
    ultimately show ?thesis using Matches_selectors(3) [OF r(2)] by (meson less_le_trans order_trans)
  qed
  moreover have "\<not> Destructive (in_Action i)" if "ma_Actions (ru_Match r) \<noteq> []"
    using Matches_selectors(2) [OF r(2) that] v by blast
  ultimately show ?thesis using g r auto v all by blast
qed

text \<open>C9: a policy that passes validation authorises autonomous execution only of a change that is
  not destructive, in a tenant with automation enabled, outside a budget freeze, under a rule that
  names actions, categories or rules, with every other matching rule agreeing; and in production
  only at a confidence of at least 0.85.\<close>

theorem Evaluate_auto_execute_safe:
  assumes "\<not> HasBlocking (Policy_Validate p)"
    and "de_Effect (Evaluate wall p i) = EffectAutoExecute"
  shows "\<not> in_Destructive i \<and> in_AutomationEnabled i \<and>
    \<not> (GreaterThan (in_MonthlyCostDelta i) ZeroUSD \<and> (in_BudgetFreeze i \<or> in_BudgetRequiresApproval i)) \<and>
    (\<exists>r \<in> set (po_Rules p). Matches (ru_Match r) i \<and> ru_Effect r = EffectAutoExecute \<and>
       (ma_Actions (ru_Match r) \<noteq> [] \<or> ma_Categories (ru_Match r) \<noteq> [] \<or> ma_RuleIDs (ru_Match r) \<noteq> []) \<and>
       (ma_Actions (ru_Match r) \<noteq> [] \<longrightarrow> \<not> Destructive (in_Action i)) \<and>
       (IsProduction (in_Environment i) \<longrightarrow> f64 (85 / 100) \<le> in_Confidence i)) \<and>
    (\<forall>r \<in> set (po_Rules p). Matches (ru_Match r) i \<longrightarrow> ru_Effect r = EffectAutoExecute)"
  by (rule auto_execute_facts [OF assms])

theorem Evaluate_auto_execute_safe_witness:
  "\<not> in_Destructive sample_input \<and> \<not> HasBlocking (Policy_Validate sample_policy) \<and>
   de_Effect (Evaluate 0 sample_policy sample_input) = EffectAutoExecute"
proof -
  have "\<not> 1 < f64 (85 / 100)" using f64_mono [of "85 / 100" 1] by simp
  then have "\<not> HasBlocking (validate_rule [] 0 auto_rule)"
    by (simp add: validate_rule_def validate_auto_def Let_def Destructive_def policy_samples)
  moreover have "\<not> HasBlocking (validate_rule [ru_ID auto_rule] 1 prod_rule)"
    by (simp add: validate_rule_def Let_def policy_samples)
  ultimately have v: "\<not> HasBlocking (Policy_Validate sample_policy)"
    by (simp add: Policy_Validate_def sample_policy_def)
  from Evaluate_auto_execute_safe [OF v sample_decision] v sample_decision show ?thesis by blast
qed

text \<open>An exhausted budget freezes every cost-increasing change, whatever the policy says, and
  never blocks a change that does not increase cost.\<close>

theorem Evaluate_budget_freeze:
  "(in_BudgetFreeze i \<and> 0 < micros (in_MonthlyCostDelta i) \<longrightarrow> de_Effect (Evaluate wall p i) = EffectProhibit) \<and>
   (micros (in_MonthlyCostDelta i) \<le> 0 \<longrightarrow>
      de_Effect (Evaluate wall p i) = de_Effect (Evaluate wall p (i\<lparr>in_BudgetFreeze := False, in_BudgetRequiresApproval := False\<rparr>)))"
proof -
  have "Matches m (i\<lparr>in_BudgetFreeze := False, in_BudgetRequiresApproval := False\<rparr>) = Matches m i" for m
    by (simp add: Matches_def cong: if_cong split del: if_split)
  then have "tenant_effect p (i\<lparr>in_BudgetFreeze := False, in_BudgetRequiresApproval := False\<rparr>) = tenant_effect p i"
    by (simp add: tenant_effect_def matching_def)
  then show ?thesis by (simp add: Evaluate_effect [of _ _ _ "[]"] platform_guards_effect)
qed

theorem Evaluate_budget_freeze_witness:
  "de_Effect (Evaluate 0 sample_policy (sample_input\<lparr>in_BudgetFreeze := True, in_MonthlyCostDelta := \<lparr>micros = 5, currency = USD\<rparr>\<rparr>))
     = EffectProhibit"
  using Evaluate_budget_freeze [of "sample_input\<lparr>in_BudgetFreeze := True, in_MonthlyCostDelta := \<lparr>micros = 5, currency = USD\<rparr>\<rparr>"]
  by simp

section \<open>The input digest\<close>

primrec risk_string :: "RiskLevel \<Rightarrow> string" where
  "risk_string RiskNone = ''NONE''"
| "risk_string RiskLow = ''LOW''"
| "risk_string RiskMedium = ''MEDIUM''"
| "risk_string RiskHigh = ''HIGH''"
| "risk_string RiskCritical = ''CRITICAL''"
| "risk_string (RiskOther s) = s"

primrec reversibility_string :: "Reversibility \<Rightarrow> string" where
  "reversibility_string ReversibilityInstant = ''instant''"
| "reversibility_string ReversibilityFast = ''fast''"
| "reversibility_string ReversibilitySlow = ''slow''"
| "reversibility_string ReversibilityNone = ''none''"
| "reversibility_string (ReversibilityOther s) = s"

definition fmt_d :: "int \<Rightarrow> string" where
  "fmt_d n = (if n < 0 then ''-'' @ itoa (nat (- n)) else itoa (nat n))"

definition fmt_t :: "bool \<Rightarrow> string" where
  "fmt_t b = (if b then ''true'' else ''false'')"

fun join :: "string \<Rightarrow> string list \<Rightarrow> string" where
  "join sep [] = ''''"
| "join sep [x] = x"
| "join sep (x # xs) = x @ sep @ join sep xs"

text \<open>\<open>f4\<close> is the \<open>%.4f\<close> rendering, \<open>act\<close> the wire name of an action, \<open>checksum\<close> the truncated
  SHA-256 of approval.go. Parts three to five are sorted in place.\<close>

definition digest_parts :: "(rat \<Rightarrow> string) \<Rightarrow> (ActionType \<Rightarrow> string) \<Rightarrow> Input \<Rightarrow> string list" where
  "digest_parts f4 act i =
     [in_RuleID i, act (in_Action i), env_string (in_Environment i)]
     @ stable_sort (<) [in_AccountID i, in_Region i, in_ResourceKind i]
     @ [''conf='' @ f4 (in_Confidence i),
        ''risk='' @ risk_string (in_RiskLevel i) @ ''/'' @ f4 (in_RiskScore i),
        ''blast='' @ f4 (in_BlastScore i) @ ''/'' @ fmt_d (in_CriticalServices i),
        ''rev='' @ reversibility_string (in_Reversibility i),
        ''save='' @ fmt_d (micros (in_MonthlySaving i)),
        ''delta='' @ fmt_d (micros (in_MonthlyCostDelta i)),
        ''auto='' @ fmt_t (in_AutomationEnabled i) @ '',freeze='' @ fmt_t (in_BudgetFreeze i)
          @ '',esc='' @ fmt_t (in_BudgetRequiresApproval i) @ '',mw='' @ fmt_t (in_InMaintenanceWindow i)]"

definition digestInput :: "(string \<Rightarrow> string) \<Rightarrow> (rat \<Rightarrow> string) \<Rightarrow> (ActionType \<Rightarrow> string) \<Rightarrow> Input \<Rightarrow> string" where
  "digestInput checksum f4 act i = checksum (join ''|'' (digest_parts f4 act i))"

text \<open>The digest does not determine the decision: it ignores the category, the tags, the
  application and the destructive flag, all of which evaluation reads, so two inputs with the same
  digest can be decided differently.\<close>

theorem digestInput_incomplete:
  "digestInput checksum f4 act (i\<lparr>in_Category := c, in_Tags := t, in_ApplicationID := a, in_Destructive := d\<rparr>) =
     digestInput checksum f4 act i \<and>
   de_Effect (Evaluate wall sample_policy (sample_input\<lparr>in_Category := CategoryWaste, in_Tags := [], in_ApplicationID := [], in_Destructive := True\<rparr>))
     \<noteq> de_Effect (Evaluate wall sample_policy sample_input)"
proof -
  have "de_Effect (Evaluate wall p i) = de_Effect (Evaluate 0 p i)" for p i
    by (simp add: Evaluate_effect [of _ _ _ "[]"])
  moreover have "de_Effect (Evaluate 0 p (sample_input\<lparr>in_Category := CategoryWaste, in_Tags := [], in_ApplicationID := [], in_Destructive := True\<rparr>)) \<noteq> EffectAutoExecute" for p
    by (auto simp: Evaluate_effect [of _ _ _ "[]"] platform_guards_effect)
  ultimately show ?thesis using sample_decision by (simp add: digestInput_def digest_parts_def)
qed

end
