(* ===== verification/Approval.thy ===== *)
theory Approval imports Policy begin

text \<open>
  \<open>internal/domain/govern/approval.go\<close>: the approval request as a state machine. \<open>Decide\<close> returns the
  error and the request, because an expired request changes state and reports an error at once.
  The approval context and the texts are not modelled.
\<close>

datatype ApprovalState = ApprovalPending | ApprovalApproved | ApprovalRejected | ApprovalExpired
  | ApprovalCancelled | ApprovalOther string

datatype SubjectKind = SubjectRecommendation | SubjectExecutionPlan | SubjectSpec | SubjectPolicy
  | SubjectAWSConnection | SubjectCommitment | SubjectKindOther string

record Response =
  rs_Principal :: string
  rs_Role :: Role
  rs_Approved :: bool
  rs_At :: gotime

record Request =
  rq_ID :: ID
  rq_TenantID :: TenantID
  rq_SubjectKind :: SubjectKind
  rq_SubjectID :: ID
  rq_PolicyDecisionID :: ID
  rq_RequiredRoles :: "string list"
  rq_MinApprovals :: int
  rq_RequireDistinctApprover :: bool
  rq_State :: ApprovalState
  rq_Responses :: "Response list"
  rq_RequestedBy :: string
  rq_RequestedAt :: gotime
  rq_ExpiresAt :: gotime
  rq_DecidedAt :: "gotime option"
  rq_ExecuteAfter :: "gotime option"

definition ApprovalCount :: "Request \<Rightarrow> nat" where
  "ApprovalCount r = length (filter rs_Approved (rq_Responses r))"

definition required_approvals :: "Request \<Rightarrow> int" where
  "required_approvals r = (if rq_MinApprovals r \<le> 0 then 1 else rq_MinApprovals r)"

text \<open>\<open>wall\<close> is the wall clock, read only when the response carries no time.\<close>

definition Decide :: "gotime \<Rightarrow> Request \<Rightarrow> Response \<Rightarrow> err option \<times> Request" where
  "Decide wall r resp0 =
    (if rq_State r \<noteq> ApprovalPending then (Some Conflict, r)
     else let resp = (if rs_At resp0 = 0 then resp0\<lparr>rs_At := wall\<rparr> else resp0) in
       if rq_ExpiresAt r \<noteq> 0 \<and> rs_At resp > rq_ExpiresAt r
       then (Some (NewError ErrPreconditionOff ''approval_expired''), r\<lparr>rq_State := ApprovalExpired\<rparr>)
       else if list_ex (\<lambda>x. rs_Principal x = rs_Principal resp) (rq_Responses r) then (Some Conflict, r)
       else if rq_RequireDistinctApprover r \<and> rs_Principal resp = rq_RequestedBy r \<and> rs_Approved resp
       then (Some Forbidden, r)
       else let r = r\<lparr>rq_Responses := rq_Responses r @ [resp]\<rparr> in
         if \<not> rs_Approved resp
         then (None, r\<lparr>rq_State := ApprovalRejected, rq_DecidedAt := Some (rs_At resp)\<rparr>)
         else if int (ApprovalCount r) \<ge> required_approvals r
         then (None, r\<lparr>rq_State := ApprovalApproved, rq_DecidedAt := Some (rs_At resp)\<rparr>)
         else (None, r))"

definition Approved :: "Request \<Rightarrow> bool" where
  "Approved r \<longleftrightarrow> rq_State r = ApprovalApproved"

section \<open>Reachable requests\<close>

text \<open>A request starts pending and without responses; every call of \<open>Decide\<close> is a step, whether or
  not it reports an error.\<close>

inductive reachable :: "Request \<Rightarrow> bool" where
  fresh: "rq_State r = ApprovalPending \<Longrightarrow> rq_Responses r = [] \<Longrightarrow> rq_DecidedAt r = None \<Longrightarrow> reachable r"
| decided: "reachable r \<Longrightarrow> Decide wall r resp = (e, r') \<Longrightarrow> reachable r'"

inductive_cases reachable_stepE: "reachable r"

lemma Decide_cases:
  assumes "Decide wall r resp = (e, r')"
  obtains (rejected_call) "r' = r" "e \<noteq> None"
    | (expired) "rq_State r = ApprovalPending" "r' = r\<lparr>rq_State := ApprovalExpired\<rparr>" "e \<noteq> None"
    | (vote) x where "rq_State r = ApprovalPending" "e = None" "rs_Principal x = rs_Principal resp"
        "rs_Approved x = rs_Approved resp" "rs_Principal x \<notin> rs_Principal ` set (rq_Responses r)"
        "\<not> (rq_RequireDistinctApprover r \<and> rs_Principal x = rq_RequestedBy r \<and> rs_Approved x)"
        "rq_ExpiresAt r = 0 \<or> rs_At x \<le> rq_ExpiresAt r"
        "r' = r\<lparr>rq_Responses := rq_Responses r @ [x],
            rq_State := (if \<not> rs_Approved x then ApprovalRejected
              else if required_approvals r \<le> 1 + int (ApprovalCount r) then ApprovalApproved else ApprovalPending),
            rq_DecidedAt := (if \<not> rs_Approved x \<or> required_approvals r \<le> 1 + int (ApprovalCount r) then Some (rs_At x)
              else rq_DecidedAt r)\<rparr>"
proof -
  define x where "x = (if rs_At resp = 0 then resp\<lparr>rs_At := wall\<rparr> else resp)"
  have x: "rs_Principal x = rs_Principal resp" "rs_Approved x = rs_Approved resp" by (simp_all add: x_def)
  consider (a) "rq_State r \<noteq> ApprovalPending"
    | (b) "rq_State r = ApprovalPending" "rq_ExpiresAt r \<noteq> 0 \<and> rs_At x > rq_ExpiresAt r"
    | (c) "rq_State r = ApprovalPending" "rq_ExpiresAt r = 0 \<or> rs_At x \<le> rq_ExpiresAt r"
      "rs_Principal x \<in> rs_Principal ` set (rq_Responses r) \<or>
        (rq_RequireDistinctApprover r \<and> rs_Principal x = rq_RequestedBy r \<and> rs_Approved x)"
    | (d) "rq_State r = ApprovalPending" "rq_ExpiresAt r = 0 \<or> rs_At x \<le> rq_ExpiresAt r"
      "rs_Principal x \<notin> rs_Principal ` set (rq_Responses r)"
      "\<not> (rq_RequireDistinctApprover r \<and> rs_Principal x = rq_RequestedBy r \<and> rs_Approved x)"
    by (meson not_le)
  then show thesis
  proof cases
    case a
    then show ?thesis using assms rejected_call by (auto simp: Decide_def)
  next
    case b
    then show ?thesis using assms expired by (auto simp: Decide_def x_def [symmetric] Let_def)
  next
    case c
    then have "e \<noteq> None \<and> r' = r" using assms
      by (auto simp: Decide_def x_def [symmetric] Let_def list_ex_iff split: if_splits)
    then show ?thesis using rejected_call by blast
  next
    case d
    then have ne: "\<not> list_ex (\<lambda>y. rs_Principal y = rs_Principal x) (rq_Responses r)"
      by (auto simp: list_ex_iff image_iff)
    let ?r = "r\<lparr>rq_Responses := rq_Responses r @ [x]\<rparr>"
    have n: "required_approvals ?r = required_approvals r"
        "ApprovalCount ?r = ApprovalCount r + (if rs_Approved x then 1 else 0)"
      by (simp_all add: required_approvals_def ApprovalCount_def)
    have "Decide wall r resp = (if \<not> rs_Approved x
        then (None, ?r\<lparr>rq_State := ApprovalRejected, rq_DecidedAt := Some (rs_At x)\<rparr>)
        else if required_approvals r \<le> int (ApprovalCount ?r)
        then (None, ?r\<lparr>rq_State := ApprovalApproved, rq_DecidedAt := Some (rs_At x)\<rparr>) else (None, ?r))"
      using d(1,2,4) ne n(1) by (auto simp: Decide_def x_def [symmetric] Let_def)
    then have "e = None \<and> r' = r\<lparr>rq_Responses := rq_Responses r @ [x],
            rq_State := (if \<not> rs_Approved x then ApprovalRejected
              else if required_approvals r \<le> 1 + int (ApprovalCount r) then ApprovalApproved else ApprovalPending),
            rq_DecidedAt := (if \<not> rs_Approved x \<or> required_approvals r \<le> 1 + int (ApprovalCount r) then Some (rs_At x)
              else rq_DecidedAt r)\<rparr>"
      using assms d(1) n(2) by (cases "rs_Approved x"; cases "required_approvals r \<le> 1 + int (ApprovalCount r)") auto
    then show ?thesis using vote [of x] d x by blast
  qed
qed

text \<open>The invariant: one response per principal, no approving requester when the policy demands a
  distinct approver, and a state that agrees with the votes.\<close>

definition request_inv :: "Request \<Rightarrow> bool" where
  "request_inv r \<longleftrightarrow> distinct (map rs_Principal (rq_Responses r)) \<and>
     (rq_RequireDistinctApprover r \<longrightarrow> (\<forall>x \<in> set (rq_Responses r). rs_Approved x \<longrightarrow> rs_Principal x \<noteq> rq_RequestedBy r)) \<and>
     (rq_State r \<in> {ApprovalPending, ApprovalApproved, ApprovalExpired} \<longrightarrow> (\<forall>x \<in> set (rq_Responses r). rs_Approved x)) \<and>
     (rq_State r = ApprovalApproved \<longrightarrow> required_approvals r \<le> int (ApprovalCount r)) \<and>
     (rq_State r = ApprovalPending \<longrightarrow> int (ApprovalCount r) < required_approvals r) \<and>
     (rq_State r \<in> {ApprovalPending, ApprovalApproved, ApprovalRejected, ApprovalExpired}) \<and>
     (rq_State r \<in> {ApprovalApproved, ApprovalRejected} \<longleftrightarrow> rq_DecidedAt r \<noteq> None) \<and>
     (\<forall>x \<in> set (rq_Responses r). rq_ExpiresAt r = 0 \<or> rs_At x \<le> rq_ExpiresAt r)"

lemma required_approvals_pos: "1 \<le> required_approvals r"
  by (simp add: required_approvals_def)

lemma Decide_inv: "Decide wall r resp = (e, r') \<Longrightarrow> request_inv r \<Longrightarrow> request_inv r'"
proof (elim Decide_cases)
  fix x
  assume I: "request_inv r" and v: "rq_State r = ApprovalPending" "e = None" "rs_Principal x = rs_Principal resp"
    "rs_Approved x = rs_Approved resp" "rs_Principal x \<notin> rs_Principal ` set (rq_Responses r)"
    "\<not> (rq_RequireDistinctApprover r \<and> rs_Principal x = rq_RequestedBy r \<and> rs_Approved x)"
    "rq_ExpiresAt r = 0 \<or> rs_At x \<le> rq_ExpiresAt r"
    "r' = r\<lparr>rq_Responses := rq_Responses r @ [x],
        rq_State := (if \<not> rs_Approved x then ApprovalRejected
          else if required_approvals r \<le> 1 + int (ApprovalCount r) then ApprovalApproved else ApprovalPending),
        rq_DecidedAt := (if \<not> rs_Approved x \<or> required_approvals r \<le> 1 + int (ApprovalCount r) then Some (rs_At x)
          else rq_DecidedAt r)\<rparr>"
  have n: "required_approvals r' = required_approvals r" "ApprovalCount r' = ApprovalCount r + (if rs_Approved x then 1 else 0)"
    using v(8) by (simp_all add: required_approvals_def ApprovalCount_def)
  show ?thesis unfolding request_inv_def n using I v by (auto simp: request_inv_def)
next
  assume "request_inv r" "rq_State r = ApprovalPending" "r' = r\<lparr>rq_State := ApprovalExpired\<rparr>"
  then show ?thesis by (auto simp: request_inv_def)
qed simp

lemma reachable_inv: "reachable r \<Longrightarrow> request_inv r"
proof (induction rule: reachable.induct)
  case (fresh r)
  then show ?case using required_approvals_pos [of r] by (simp add: request_inv_def ApprovalCount_def)
next
  case (decided r wall resp e r')
  then show ?case using Decide_inv by blast
qed

lemma inv_approved:
  assumes "request_inv r" and "rq_State r = ApprovalApproved"
  shows "required_approvals r \<le> int (card (rs_Principal ` {x \<in> set (rq_Responses r). rs_Approved x})) \<and>
    (\<forall>x \<in> set (rq_Responses r). rs_Approved x \<and> (rq_ExpiresAt r = 0 \<or> rs_At x \<le> rq_ExpiresAt r)) \<and>
    (rq_RequireDistinctApprover r \<longrightarrow> rq_RequestedBy r \<notin> rs_Principal ` set (rq_Responses r))"
proof -
  note I = assms(1)
  have d: "distinct (map rs_Principal (rq_Responses r))" and all: "\<forall>x \<in> set (rq_Responses r). rs_Approved x"
    using I assms(2) by (simp_all add: request_inv_def)
  have "{x \<in> set (rq_Responses r). rs_Approved x} = set (rq_Responses r)" using all by auto
  moreover have "card (rs_Principal ` set (rq_Responses r)) = length (rq_Responses r)"
    using distinct_card [OF d] by simp
  moreover have "ApprovalCount r = length (rq_Responses r)" using all by (simp add: ApprovalCount_def)
  ultimately show ?thesis using I assms(2) all by (auto simp: request_inv_def)
qed

text \<open>Segregation of duties: a request that reached the approved state holds approvals from at
  least the required number of distinct principals, every one in time, not a single rejection, and,
  when a distinct approver is demanded, none from the requester.\<close>

theorem Approved_segregation:
  assumes "reachable r" and "Approved r"
  shows "required_approvals r \<le> int (card (rs_Principal ` {x \<in> set (rq_Responses r). rs_Approved x})) \<and>
    (\<forall>x \<in> set (rq_Responses r). rs_Approved x \<and> (rq_ExpiresAt r = 0 \<or> rs_At x \<le> rq_ExpiresAt r)) \<and>
    (rq_RequireDistinctApprover r \<longrightarrow> rq_RequestedBy r \<notin> rs_Principal ` set (rq_Responses r))"
  by (rule inv_approved [OF reachable_inv [OF assms(1)]]) (use assms(2) in \<open>simp add: Approved_def\<close>)

text \<open>A decided request is final: once a request has left the pending state no further call of
  \<open>Decide\<close> changes anything, and each call fails with a conflict; a rejection ends it at once.\<close>

theorem Decide_final:
  "(rq_State r \<noteq> ApprovalPending \<longrightarrow> Decide wall r resp = (Some Conflict, r)) \<and>
   (\<forall>r'. Decide wall r resp = (None, r') \<longrightarrow> \<not> rs_Approved resp \<longrightarrow> rq_State r' = ApprovalRejected)"
  by (auto simp: Decide_def Let_def split: if_splits)

text \<open>The roles a policy names as approvers are carried by the request but never consulted: the
  outcome of a vote is the same whatever the required roles and whatever the role of the voter.\<close>

theorem Decide_ignores_roles:
  "Decide wall (r\<lparr>rq_RequiredRoles := roles\<rparr>) (resp\<lparr>rs_Role := role\<rparr>) =
     (let (e, r') = Decide wall r resp in
      (e, r'\<lparr>rq_RequiredRoles := roles, rq_Responses := (if length (rq_Responses r') = length (rq_Responses r)
         then rq_Responses r' else butlast (rq_Responses r') @ [(last (rq_Responses r'))\<lparr>rs_Role := role\<rparr>])\<rparr>))"
  by (simp add: Decide_def Let_def ApprovalCount_def required_approvals_def)

text \<open>A two-person approval for the witnesses.\<close>

definition sample_request :: Request where
  "sample_request = \<lparr>rq_ID = ''apr'', rq_TenantID = ''t'', rq_SubjectKind = SubjectRecommendation, rq_SubjectID = ''r'',
     rq_PolicyDecisionID = '''', rq_RequiredRoles = [''sre''],
     rq_MinApprovals = 2, rq_RequireDistinctApprover = True, rq_State = ApprovalPending, rq_Responses = [],
     rq_RequestedBy = ''ann'', rq_RequestedAt = 1, rq_ExpiresAt = 100, rq_DecidedAt = None,
     rq_ExecuteAfter = None\<rparr>"

definition vote_of :: "string \<Rightarrow> bool \<Rightarrow> Response" where
  "vote_of who yes = \<lparr>rs_Principal = who, rs_Role = RoleSRE, rs_Approved = yes, rs_At = 5\<rparr>"

theorem Approved_segregation_witness:
  "let r = snd (Decide 0 (snd (Decide 0 sample_request (vote_of ''bob'' True))) (vote_of ''cyd'' True)) in
     Approved r \<and> rq_RequestedBy r \<notin> rs_Principal ` set (rq_Responses r)"
proof -
  let ?r1 = "snd (Decide 0 sample_request (vote_of ''bob'' True))"
  let ?r = "snd (Decide 0 ?r1 (vote_of ''cyd'' True))"
  have r0: "reachable sample_request" by (rule reachable.fresh) (simp_all add: sample_request_def)
  have r1: "reachable ?r1" by (rule reachable.decided [OF r0 surjective_pairing])
  have r: "reachable ?r" by (rule reachable.decided [OF r1 surjective_pairing])
  have a: "Approved ?r" and d: "rq_RequireDistinctApprover ?r"
    by (simp_all add: Decide_def Approved_def sample_request_def vote_of_def ApprovalCount_def required_approvals_def Let_def)
  from Approved_segregation [OF r a] a d show ?thesis by (simp only: Let_def simp_thms)
qed

theorem Decide_final_witness:
  "let r = snd (Decide 0 sample_request (vote_of ''bob'' False)) in
     rq_State r = ApprovalRejected \<and> Decide 0 r (vote_of ''cyd'' True) = (Some Conflict, r)"
proof -
  let ?r = "snd (Decide 0 sample_request (vote_of ''bob'' False))"
  have s: "rq_State ?r = ApprovalRejected"
    by (simp add: Decide_def sample_request_def vote_of_def Let_def)
  with Decide_final [of ?r 0 "vote_of ''cyd'' True"] show ?thesis by (simp only: Let_def ApprovalState.distinct simp_thms)
qed

end
