(* ===== verification/Plan.thy ===== *)
theory Plan imports Recommendation begin

text \<open>
  \<open>internal/domain/execute/plan.go\<close>: execution plans and their start condition, the verdict of the
  observation window, and the split of a measured reduction into an attributed and an unattributed
  part. Refusal reasons, explanations and other texts, parameters and outputs of the steps and the times of single
  steps are not modelled.
\<close>

datatype PlanState = PlanDraft | PlanAwaitingApproval | PlanApproved | PlanScheduled | PlanPreflight
  | PlanExecuting | PlanExecuted | PlanValidating | PlanValidated | PlanFailed | PlanRollingBack
  | PlanRolledBack | PlanRollbackFailed | PlanCancelled | PlanOther string

definition PlanState_Terminal :: "PlanState \<Rightarrow> bool" where
  "PlanState_Terminal s \<longleftrightarrow> s \<in> {PlanValidated, PlanRolledBack, PlanCancelled, PlanRollbackFailed}"

datatype StepKind = StepPrecondition | StepSnapshot | StepMutate | StepWait | StepVerify | StepKindOther string

datatype StepState = StepPending | StepRunning | StepSucceeded | StepFailed | StepSkipped
  | StepRolledBack | StepStateOther string

record Step =
  st_ID :: ID
  st_Ordinal :: int
  st_Kind :: StepKind
  st_Name :: string
  st_IdempotencyKey :: string
  st_State :: StepState
  st_Attempts :: int
  st_MaxRetries :: int
  st_AbortOnFailure :: bool

record Snapshot =
  sn_ID :: ID
  sn_TenantID :: TenantID
  sn_PlanID :: ID
  sn_ResourceID :: ID
  sn_CapturedAt :: gotime
  sn_Digest :: string

record RollbackPlan =
  rb_Steps :: "Step list"
  rb_Feasible :: bool
  rb_DataLossRisk :: RiskLevel

text \<open>A \<open>time.Duration\<close> is a count of nanoseconds.\<close>

record ValidationCheck =
  vc_Name :: string
  vc_Metric :: string
  vc_Statistic :: string
  vc_Comparison :: string
  vc_Threshold :: rat
  vc_Critical :: bool

record ValidationPlan =
  vp_ObservationWindow :: int
  vp_BaselineWindow :: int
  vp_Checks :: "ValidationCheck list"
  vp_AutoRollbackOn :: "string list"
  vp_MinSamples :: int

record Plan =
  pl_ID :: ID
  pl_TenantID :: TenantID
  pl_RecommendationID :: ID
  pl_Action :: ActionType
  pl_AccountID :: string
  pl_ResourceIDs :: "ID list"
  pl_Steps :: "Step list"
  pl_Snapshots :: "Snapshot list"
  pl_Rollback :: "RollbackPlan option"
  pl_Validation :: ValidationPlan
  pl_ExpectedMonthlySaving :: Money
  pl_State :: PlanState
  pl_ApprovalID :: ID
  pl_PolicyDecisionID :: ID
  pl_ScheduledFor :: "gotime option"
  pl_DryRun :: bool
  pl_RequestedBy :: string
  pl_CreatedAt :: gotime
  pl_StartedAt :: "gotime option"
  pl_FinishedAt :: "gotime option"

definition Executable :: "Plan \<Rightarrow> gotime \<Rightarrow> bool" where
  "Executable p now =
    (if pl_State p \<notin> {PlanApproved, PlanScheduled} then False
     else if pl_Rollback p = None then False
     else if pl_Steps p = [] then False
     else if (case pl_ScheduledFor p of Some t \<Rightarrow> now < t | None \<Rightarrow> False) then False
     else let hasSnapshot = list_ex (\<lambda>s. st_Kind s = StepSnapshot) (pl_Steps p);
       hasMutation = list_ex (\<lambda>s. st_Kind s = StepMutate) (pl_Steps p) in
       if hasMutation \<and> \<not> hasSnapshot then False else True)"

definition Progress :: "Plan \<Rightarrow> nat \<times> nat" where
  "Progress p = fold (\<lambda>s (d, n). (if st_State s = StepSucceeded \<or> st_State s = StepSkipped then d + 1 else d, n + 1))
     (pl_Steps p) (0, 0)"

section \<open>Validation verdicts\<close>

datatype Verdict = VerdictSuccess | VerdictPartialSuccess | VerdictFailure | VerdictInconclusive | VerdictOther string

record CheckOutcome =
  co_Name :: string
  co_Metric :: string
  co_Baseline :: rat
  co_Observed :: rat
  co_Threshold :: rat
  co_ChangePct :: rat
  co_Passed :: bool
  co_Critical :: bool
  co_Samples :: int

record execute_ValidationResult =
  vr_ID :: ID
  vr_TenantID :: TenantID
  vr_PlanID :: ID
  vr_Verdict :: Verdict
  vr_BaselineWindow :: Period
  vr_ObservedWindow :: Period
  vr_Checks :: "CheckOutcome list"
  vr_PredictedMonthlySaving :: Money
  vr_ObservedMonthlySaving :: Money
  vr_SavingAccuracy :: rat
  vr_UnattributedDelta :: Money
  vr_RollbackTriggered :: bool
  vr_EvaluatedAt :: gotime

text \<open>The counting loop: critical failures, other failures, checks without enough samples.\<close>

definition count_check :: "int \<Rightarrow> CheckOutcome \<Rightarrow> nat \<times> nat \<times> nat \<Rightarrow> nat \<times> nat \<times> nat" where
  "count_check minSamples c st = (let (crit, non, ins) = st in
     if co_Samples c < minSamples then (crit, non, ins + 1)
     else if \<not> co_Passed c then (if co_Critical c then (crit + 1, non, ins) else (crit, non + 1, ins))
     else (crit, non, ins))"

definition ValidationResult_Decide :: "execute_ValidationResult \<Rightarrow> int \<Rightarrow> execute_ValidationResult" where
  "ValidationResult_Decide r minSamples =
    (if vr_Checks r = [] then r\<lparr>vr_Verdict := VerdictInconclusive\<rparr>
     else let (crit, non, ins) = fold (count_check minSamples) (vr_Checks r) (0, 0, 0);
       r = r\<lparr>vr_Verdict := (if crit > 0 then VerdictFailure
         else if ins = length (vr_Checks r) then VerdictInconclusive
         else if non > 0 then VerdictPartialSuccess else VerdictSuccess)\<rparr> in
       if \<not> IsZero (vr_PredictedMonthlySaving r)
       then r\<lparr>vr_SavingAccuracy := Ratio (vr_ObservedMonthlySaving r) (vr_PredictedMonthlySaving r)\<rparr> else r)"

section \<open>Attribution\<close>

definition FavourableVarianceTolerance :: rat where
  "FavourableVarianceTolerance = 5 / 4"

text \<open>\<open>None\<close> is the panic of \<open>MustSub\<close> on different currencies.\<close>

definition AttributableSaving :: "Money \<Rightarrow> Money \<Rightarrow> (Money \<times> Money) option" where
  "AttributableSaving predicted measured =
    (if IsNegative measured then Some (ZeroUSD, ZeroUSD)
     else if IsZero predicted then Some (measured, ZeroUSD)
     else let ceil = Scale predicted FavourableVarianceTolerance in
       if \<not> GreaterThan measured ceil then Some (measured, ZeroUSD)
       else Option.bind (MustSub measured ceil) (\<lambda>excess. Some (ceil, excess)))"

section \<open>Properties\<close>

lemma fold_count_check:
  "fold (count_check n) cs (a, b, c) =
    (a + length (filter (\<lambda>x. n \<le> co_Samples x \<and> \<not> co_Passed x \<and> co_Critical x) cs),
     b + length (filter (\<lambda>x. n \<le> co_Samples x \<and> \<not> co_Passed x \<and> \<not> co_Critical x) cs),
     c + length (filter (\<lambda>x. co_Samples x < n) cs))"
  by (induction cs arbitrary: a b c) (auto simp: count_check_def)

lemma all_filtered: "length (filter P xs) = length xs \<longleftrightarrow> (\<forall>x \<in> set xs. P x)"
  by (metis length_filter_less less_irrefl filter_True)

lemma Decide_verdict:
  "(vr_Verdict (ValidationResult_Decide r n) = VerdictFailure) =
     (\<exists>c \<in> set (vr_Checks r). n \<le> co_Samples c \<and> \<not> co_Passed c \<and> co_Critical c) \<and>
   (vr_Verdict (ValidationResult_Decide r n) = VerdictSuccess) =
     ((\<exists>c \<in> set (vr_Checks r). n \<le> co_Samples c) \<and> (\<forall>c \<in> set (vr_Checks r). n \<le> co_Samples c \<longrightarrow> co_Passed c)) \<and>
   (vr_Verdict (ValidationResult_Decide r n) = VerdictInconclusive) =
     (\<forall>c \<in> set (vr_Checks r). co_Samples c < n)"
proof (cases "vr_Checks r = []")
  case False
  let ?crit = "filter (\<lambda>x. n \<le> co_Samples x \<and> \<not> co_Passed x \<and> co_Critical x) (vr_Checks r)"
  let ?non = "filter (\<lambda>x. n \<le> co_Samples x \<and> \<not> co_Passed x \<and> \<not> co_Critical x) (vr_Checks r)"
  let ?ins = "filter (\<lambda>x. co_Samples x < n) (vr_Checks r)"
  have v: "vr_Verdict (ValidationResult_Decide r n) = (if ?crit \<noteq> [] then VerdictFailure
      else if length ?ins = length (vr_Checks r) then VerdictInconclusive
      else if ?non \<noteq> [] then VerdictPartialSuccess else VerdictSuccess)"
    using False by (simp add: ValidationResult_Decide_def fold_count_check Let_def)
  show ?thesis unfolding v all_filtered filter_empty_conv
    by (auto simp: not_less) (use False in \<open>meson hd_in_set not_le\<close>)?
qed (simp add: ValidationResult_Decide_def)

text \<open>The verdict of the observation window: a sufficiently sampled critical failure always
  fails the change whatever money was saved; success means that no sufficiently sampled check failed
  and at least one check had enough samples. A check without enough samples is left out, so a
  critical one does not stand in the way of success.\<close>

theorem ValidationResult_Decide_verdict:
  "(vr_Verdict (ValidationResult_Decide r n) = VerdictFailure) =
     (\<exists>c \<in> set (vr_Checks r). n \<le> co_Samples c \<and> \<not> co_Passed c \<and> co_Critical c) \<and>
   (vr_Verdict (ValidationResult_Decide r n) = VerdictSuccess) =
     ((\<exists>c \<in> set (vr_Checks r). n \<le> co_Samples c) \<and> (\<forall>c \<in> set (vr_Checks r). n \<le> co_Samples c \<longrightarrow> co_Passed c)) \<and>
   (vr_Verdict (ValidationResult_Decide r n) = VerdictInconclusive) =
     (\<forall>c \<in> set (vr_Checks r). co_Samples c < n)"
  by (rule Decide_verdict)

definition quiet_checks :: "CheckOutcome list" where
  "quiet_checks =
     [\<lparr>co_Name = ''p99'', co_Metric = ''latency_p99_ms'', co_Baseline = 0, co_Observed = 0, co_Threshold = 1, co_ChangePct = 0,
       co_Passed = False, co_Critical = True, co_Samples = 0\<rparr>,
      \<lparr>co_Name = ''cpu'', co_Metric = ''cpu_utilization'', co_Baseline = 0, co_Observed = 0, co_Threshold = 1, co_ChangePct = 0,
       co_Passed = True, co_Critical = False, co_Samples = 30\<rparr>]"

definition quiet_result :: execute_ValidationResult where
  "quiet_result = \<lparr>vr_ID = ''val'', vr_TenantID = ''t'', vr_PlanID = ''p'', vr_Verdict = VerdictOther [],
     vr_BaselineWindow = \<lparr>Start = 0, End = 1\<rparr>, vr_ObservedWindow = \<lparr>Start = 1, End = 2\<rparr>, vr_Checks = quiet_checks,
     vr_PredictedMonthlySaving = ZeroUSD, vr_ObservedMonthlySaving = ZeroUSD, vr_SavingAccuracy = 0,
     vr_UnattributedDelta = ZeroUSD, vr_RollbackTriggered = False, vr_EvaluatedAt = 2\<rparr>"

theorem ValidationResult_Decide_verdict_witness:
  "vr_Verdict (ValidationResult_Decide quiet_result 20) = VerdictSuccess"
  using ValidationResult_Decide_verdict [of quiet_result 20] by (simp add: quiet_result_def quiet_checks_def)

text \<open>The start condition of a plan does not depend on the order of its steps: it asks for an
  approved plan with a rollback and, if it mutates, for a snapshot step somewhere, so a plan whose
  snapshot comes after its mutation is as executable as one that takes it first.\<close>

theorem Executable_order_blind:
  assumes "mset steps = mset (pl_Steps p)"
  shows "Executable (p\<lparr>pl_Steps := steps\<rparr>) now = Executable p now \<and>
    (Executable p now \<longrightarrow> pl_Rollback p \<noteq> None \<and> pl_State p \<in> {PlanApproved, PlanScheduled} \<and>
      (StepMutate \<in> st_Kind ` set (pl_Steps p) \<longrightarrow> StepSnapshot \<in> st_Kind ` set (pl_Steps p)))"
proof -
  have "set steps = set (pl_Steps p)" using assms by (metis set_mset_mset)
  then have "list_ex P steps = list_ex P (pl_Steps p)" for P by (simp add: list_ex_iff)
  moreover have "(steps = []) = (pl_Steps p = [])" using assms by (metis mset_zero_iff)
  ultimately have same: "Executable (p\<lparr>pl_Steps := steps\<rparr>) now = Executable p now"
    by (simp add: Executable_def)
  have "pl_Rollback p \<noteq> None \<and> pl_State p \<in> {PlanApproved, PlanScheduled} \<and>
      (list_ex (\<lambda>s. st_Kind s = StepMutate) (pl_Steps p) \<longrightarrow> list_ex (\<lambda>s. st_Kind s = StepSnapshot) (pl_Steps p))"
    if "Executable p now"
    using that unfolding Executable_def Let_def by (auto split: if_splits)
  moreover have "list_ex (\<lambda>s. st_Kind s = k) (pl_Steps p) \<longleftrightarrow> k \<in> st_Kind ` set (pl_Steps p)" for k
    by (auto simp: list_ex_iff)
  ultimately show ?thesis using same by simp
qed

definition sample_step :: "StepKind \<Rightarrow> Step" where
  "sample_step k = \<lparr>st_ID = ''s'', st_Ordinal = 0, st_Kind = k, st_Name = ''step'', st_IdempotencyKey = ''k'',
     st_State = StepPending, st_Attempts = 0, st_MaxRetries = 0, st_AbortOnFailure = True\<rparr>"

definition sample_plan :: Plan where
  "sample_plan = \<lparr>pl_ID = ''p'', pl_TenantID = ''t'', pl_RecommendationID = ''r'', pl_Action = ActionResizeInstance,
     pl_AccountID = ''acct'', pl_ResourceIDs = [''i''],
     pl_Steps = [sample_step StepSnapshot, sample_step StepMutate], pl_Snapshots = [],
     pl_Rollback = Some \<lparr>rb_Steps = [], rb_Feasible = True, rb_DataLossRisk = RiskNone\<rparr>,
     pl_Validation = \<lparr>vp_ObservationWindow = 0, vp_BaselineWindow = 0, vp_Checks = [], vp_AutoRollbackOn = [], vp_MinSamples = 1\<rparr>,
     pl_ExpectedMonthlySaving = ZeroUSD, pl_State = PlanApproved, pl_ApprovalID = '''', pl_PolicyDecisionID = '''',
     pl_ScheduledFor = None, pl_DryRun = False, pl_RequestedBy = '''', pl_CreatedAt = 1, pl_StartedAt = None,
     pl_FinishedAt = None\<rparr>"

theorem Executable_order_blind_witness:
  "Executable (sample_plan\<lparr>pl_Steps := [sample_step StepMutate, sample_step StepSnapshot]\<rparr>) 7"
  using Executable_order_blind [of "[sample_step StepMutate, sample_step StepSnapshot]" sample_plan 7]
  by (simp add: sample_plan_def sample_step_def Executable_def)

text \<open>C30: attribution conserves money and is bounded: for a positive prediction and a measured
  reduction in the same currency the two parts add up to the measurement, neither is negative, and
  the attributed part never exceeds the prediction plus the variance tolerance.\<close>

theorem AttributableSaving_conserves:
  assumes "Currency predicted = Currency measured" and "0 < micros predicted" "micros predicted \<le> 2 ^ 62"
    and "0 \<le> micros measured" and "int64 (micros measured)"
  shows "\<exists>a u. AttributableSaving predicted measured = Some (a, u) \<and> micros a + micros u = micros measured \<and>
    0 \<le> micros a \<and> 0 \<le> micros u \<and> micros a \<le> micros (Scale predicted FavourableVarianceTolerance)"
proof -
  let ?c = "Scale predicted FavourableVarianceTolerance"
  let ?x = "f64 (i2f (micros predicted) * FavourableVarianceTolerance)"
  have "0 \<le> ?x" using assms(2) by (intro f64.nonneg) (simp add: FavourableVarianceTolerance_def i2f_nonneg)
  then have "0 \<le> go_round ?x" by (rule go_round_nonneg)
  moreover have "go_round ?x \<le> 5 * 2 ^ 60"
  proof -
    have "i2f (micros predicted) \<le> i2f (2 ^ 62)" using assms(3) by (rule i2f_mono)
    also have "i2f (2 ^ 62) = 2 ^ 62" using f64_dyadic [of 1 62] by (simp add: i2f_def)
    finally have "?x \<le> f64 (of_int 5 * 2 powi 60)"
      by (intro f64_mono) (simp add: FavourableVarianceTolerance_def)
    also have "\<dots> = of_int (5 * 2 ^ 60)" using f64_dyadic [of 5 60] by simp
    finally show ?thesis using go_round_mono [of ?x "of_int (5 * 2 ^ 60)"] by (simp only: go_round_of_int)
  qed
  ultimately have c: "0 \<le> micros ?c"
    by (simp add: Scale_def round_to_int64_def int64_def)
  have sub: "MustSub measured ?c = Some \<lparr>micros = wrap64 (micros measured - micros ?c), currency = Currency measured\<rparr>"
    using assms(1) by (simp add: MustSub_Some_iff)
  show ?thesis
  proof (cases "micros ?c < micros measured")
    case True
    then have "int64 (micros measured - micros ?c)" using assms(5) c by (simp add: int64_def)
    with sub show ?thesis using assms True c
      by (simp add: AttributableSaving_def IsNegative_def IsZero_def Let_def)
  qed (use assms in \<open>simp add: AttributableSaving_def IsNegative_def IsZero_def Let_def\<close>)
qed

theorem AttributableSaving_conserves_witness:
  "AttributableSaving \<lparr>micros = 100, currency = USD\<rparr> \<lparr>micros = 200, currency = USD\<rparr> =
     Some (\<lparr>micros = 125, currency = USD\<rparr>, \<lparr>micros = 75, currency = USD\<rparr>) \<and>
   (\<exists>a u. AttributableSaving \<lparr>micros = 100, currency = USD\<rparr> \<lparr>micros = 200, currency = USD\<rparr> = Some (a, u) \<and>
     micros a + micros u = 200)"
proof -
  have "Scale \<lparr>micros = 100, currency = USD\<rparr> FavourableVarianceTolerance = \<lparr>micros = 125, currency = USD\<rparr>"
    using round_to_int64_of_int [of 125]
    by (simp add: Scale_def FavourableVarianceTolerance_def int64_def Currency_def)
  moreover have "MustSub \<lparr>micros = 200, currency = USD\<rparr> \<lparr>micros = 125, currency = USD\<rparr> = Some \<lparr>micros = 75, currency = USD\<rparr>"
    by (simp add: MustSub_Some_iff int64_def Currency_def)
  ultimately have "AttributableSaving \<lparr>micros = 100, currency = USD\<rparr> \<lparr>micros = 200, currency = USD\<rparr> =
     Some (\<lparr>micros = 125, currency = USD\<rparr>, \<lparr>micros = 75, currency = USD\<rparr>)"
    by (simp add: AttributableSaving_def IsNegative_def IsZero_def Let_def wrap64_id [of 75] int64_def Currency_def)
  then show ?thesis
    using AttributableSaving_conserves [of "\<lparr>micros = 100, currency = USD\<rparr>" "\<lparr>micros = 200, currency = USD\<rparr>"]
    by (auto simp: int64_def)
qed

end
