(* ===== verification/Savings.thy ===== *)
theory Savings imports Plan Assessment begin

text \<open>
  \<open>internal/domain/execute/savings.go\<close>: the savings ladder, the funnel that aggregates it and the
  calibration of a rule from its track record. A panic of the money arithmetic is \<open>None\<close>.
\<close>

datatype SavingsStage = StagePotential | StageApproved | StagePlanned | StageExecuted | StageValidated
  | StageRealized | StageOther string

fun Stage_Order :: "SavingsStage \<Rightarrow> int" where
  "Stage_Order StagePotential = 0"
| "Stage_Order StageApproved = 1"
| "Stage_Order StagePlanned = 2"
| "Stage_Order StageExecuted = 3"
| "Stage_Order StageValidated = 4"
| "Stage_Order StageRealized = 5"
| "Stage_Order (StageOther _) = 0"

record StageTransition =
  tr_From :: SavingsStage
  tr_To :: SavingsStage
  tr_Amount :: Money
  tr_Actor :: string
  tr_Reason :: string
  tr_At :: gotime

record SavingsRecord =
  sr_ID :: ID
  sr_TenantID :: TenantID
  sr_RecommendationID :: ID
  sr_PlanID :: ID
  sr_RuleID :: RuleID
  sr_Stage :: SavingsStage
  sr_PotentialMonthly :: Money
  sr_ApprovedMonthly :: Money
  sr_ExecutedMonthly :: Money
  sr_ValidatedMonthly :: Money
  sr_RealizedMonthly :: Money
  sr_StageHistory :: "StageTransition list"
  sr_Lost :: bool
  sr_LostReason :: string
  sr_CreatedAt :: gotime
  sr_UpdatedAt :: gotime

definition Advance :: "SavingsRecord \<Rightarrow> SavingsStage \<Rightarrow> Money \<Rightarrow> string \<Rightarrow> string \<Rightarrow> gotime \<Rightarrow> SavingsRecord" where
  "Advance r to amount actor reason t =
    (if Stage_Order to \<le> Stage_Order (sr_Stage r) then r
     else let
       r = r\<lparr>sr_StageHistory := sr_StageHistory r @ [\<lparr>tr_From = sr_Stage r, tr_To = to, tr_Amount = amount,
         tr_Actor = actor, tr_Reason = reason, tr_At = t\<rparr>]\<rparr>;
       r = r\<lparr>sr_Stage := to\<rparr>;
       r = (case to of
           StageApproved \<Rightarrow> r\<lparr>sr_ApprovedMonthly := amount\<rparr>
         | StageExecuted \<Rightarrow> r\<lparr>sr_ExecutedMonthly := amount\<rparr>
         | StageValidated \<Rightarrow> r\<lparr>sr_ValidatedMonthly := amount\<rparr>
         | StageRealized \<Rightarrow> r\<lparr>sr_RealizedMonthly := amount\<rparr>
         | _ \<Rightarrow> r)
       in r\<lparr>sr_UpdatedAt := t\<rparr>)"

definition MarkLost :: "SavingsRecord \<Rightarrow> string \<Rightarrow> gotime \<Rightarrow> SavingsRecord" where
  "MarkLost r reason t = r\<lparr>sr_Lost := True, sr_LostReason := reason, sr_UpdatedAt := t\<rparr>"

section \<open>The ladder\<close>

inductive on_ladder :: "SavingsRecord \<Rightarrow> bool" where
  start: "sr_Stage r = StagePotential \<Longrightarrow> sr_StageHistory r = [] \<Longrightarrow> on_ladder r"
| advance: "on_ladder r \<Longrightarrow> on_ladder (Advance r to amount actor reason t)"
| lost: "on_ladder r \<Longrightarrow> on_ladder (MarkLost r reason t)"

fun chain :: "SavingsStage \<Rightarrow> StageTransition list \<Rightarrow> SavingsStage \<Rightarrow> bool" where
  "chain s [] u \<longleftrightarrow> s = u"
| "chain s (x # xs) u \<longleftrightarrow> tr_From x = s \<and> Stage_Order (tr_From x) < Stage_Order (tr_To x) \<and> chain (tr_To x) xs u"

lemma chain_append: "chain s (xs @ [x]) u \<longleftrightarrow>
  chain s xs (tr_From x) \<and> Stage_Order (tr_From x) < Stage_Order (tr_To x) \<and> tr_To x = u"
  by (induction xs arbitrary: s) auto

lemma Advance_fields:
  assumes "Stage_Order (sr_Stage r) < Stage_Order to"
  shows "sr_Stage (Advance r to amount actor reason t) = to"
    and "sr_StageHistory (Advance r to amount actor reason t) = sr_StageHistory r @ [\<lparr>tr_From = sr_Stage r,
      tr_To = to, tr_Amount = amount, tr_Actor = actor, tr_Reason = reason, tr_At = t\<rparr>]"
  using assms by (cases to; simp add: Advance_def Let_def)+

lemma Advance_stays: "Stage_Order to \<le> Stage_Order (sr_Stage r) \<Longrightarrow> Advance r to amount actor reason t = r"
  by (simp add: Advance_def)

lemma chain_length: "chain s xs u \<Longrightarrow> int (length xs) + Stage_Order s \<le> Stage_Order u"
  by (induction s xs u rule: chain.induct) auto

lemma Stage_Order_range: "0 \<le> Stage_Order s \<and> Stage_Order s \<le> 5"
  by (cases s) auto

text \<open>C14: the ladder is only climbed: however stages are advanced and records marked lost, the history
  is an unbroken chain of strictly ascending transitions from the potential stage to the current one,
  so no rung is entered twice and at most five transitions are recorded.\<close>

theorem ladder_history:
  assumes "on_ladder r"
  shows "chain StagePotential (sr_StageHistory r) (sr_Stage r) \<and> length (sr_StageHistory r) \<le> 5"
proof -
  have "chain StagePotential (sr_StageHistory r) (sr_Stage r)" using assms
  proof (induction rule: on_ladder.induct)
    case (advance r to amount actor reason t)
    then show ?case
      by (cases "Stage_Order to \<le> Stage_Order (sr_Stage r)")
        (simp_all add: Advance_stays Advance_fields chain_append not_le)
  qed (simp_all add: MarkLost_def)
  with chain_length [OF this] Stage_Order_range [of "sr_Stage r"] show ?thesis by auto
qed

definition new_record :: "Money \<Rightarrow> SavingsRecord" where
  "new_record m = \<lparr>sr_ID = ''s'', sr_TenantID = ''t'', sr_RecommendationID = ''r'', sr_PlanID = '''', sr_RuleID = ''rule'', sr_Stage = StagePotential,
     sr_PotentialMonthly = m, sr_ApprovedMonthly = zero_money, sr_ExecutedMonthly = zero_money,
     sr_ValidatedMonthly = zero_money, sr_RealizedMonthly = zero_money, sr_StageHistory = [], sr_Lost = False,
     sr_LostReason = '''', sr_CreatedAt = 0, sr_UpdatedAt = 0\<rparr>"

theorem ladder_history_witness:
  "let r = Advance (Advance (new_record ZeroUSD) StageExecuted ZeroUSD ''a'' ''b'' 1) StageApproved ZeroUSD ''a'' ''b'' 2 in
     chain StagePotential (sr_StageHistory r) StageExecuted \<and> length (sr_StageHistory r) = 1"
proof -
  let ?r = "Advance (Advance (new_record ZeroUSD) StageExecuted ZeroUSD ''a'' ''b'' 1) StageApproved ZeroUSD ''a'' ''b'' 2"
  have "on_ladder ?r" by (intro on_ladder.intros) (simp_all add: new_record_def)
  from ladder_history [OF this] show ?thesis
    by (simp add: Advance_stays Advance_fields Let_def new_record_def)
qed

section \<open>The funnel\<close>

record LeakagePoint =
  lk_From :: SavingsStage
  lk_To :: SavingsStage
  lk_Amount :: Money
  lk_Count :: int
  lk_Rate :: rat
  lk_TopReasons :: "string list"

record Funnel =
  fn_Potential :: Money
  fn_Approved :: Money
  fn_Planned :: Money
  fn_Executed :: Money
  fn_Validated :: Money
  fn_Realized :: Money
  fn_RealizedAnnual :: Money
  fn_Counts :: "SavingsStage \<Rightarrow> int"
  fn_Leakage :: "LeakagePoint list"
  fn_PredictionAccuracy :: rat
  fn_OverAttributed :: Money

definition nonZero :: "Money \<Rightarrow> Money \<Rightarrow> Money" where
  "nonZero primary fallback = (if IsZero primary then fallback else primary)"

definition topReasons :: "string list \<Rightarrow> nat \<Rightarrow> string list" where
  "topReasons all n = (if all = [] then [] else
     take n (stable_sort (then_by (by_desc (count_list all)) (by_asc id)) (remdups all)))"

definition empty_funnel :: Funnel where
  "empty_funnel = \<lparr>fn_Potential = ZeroUSD, fn_Approved = ZeroUSD, fn_Planned = ZeroUSD, fn_Executed = ZeroUSD,
     fn_Validated = ZeroUSD, fn_Realized = ZeroUSD, fn_RealizedAnnual = zero_money, fn_Counts = (\<lambda>_. 0),
     fn_Leakage = [], fn_PredictionAccuracy = 0, fn_OverAttributed = ZeroUSD\<rparr>"

definition bump :: "SavingsStage \<Rightarrow> Funnel \<Rightarrow> Funnel" where
  "bump s f = f\<lparr>fn_Counts := (fn_Counts f)(s := fn_Counts f s + 1)\<rparr>"

text \<open>One conditional addition of the loop: the record counts for the stage when it has reached it.\<close>

definition add_stage :: "SavingsStage \<Rightarrow> SavingsRecord \<Rightarrow> (Funnel \<Rightarrow> Money) \<Rightarrow> ((Money \<Rightarrow> Money) \<Rightarrow> Funnel \<Rightarrow> Funnel) \<Rightarrow>
    Money \<Rightarrow> Funnel \<Rightarrow> Funnel option" where
  "add_stage s r get upd amount f = (if Stage_Order (sr_Stage r) \<ge> Stage_Order s
     then Option.bind (MustAdd (get f) amount) (\<lambda>m. Some (bump s (upd (\<lambda>_. m) f))) else Some f)"

definition add_record :: "SavingsRecord \<Rightarrow> Funnel \<times> (SavingsStage \<Rightarrow> string list) \<Rightarrow>
    (Funnel \<times> (SavingsStage \<Rightarrow> string list)) option" where
  "add_record r fr = (let (f, reasons) = fr in do {
     pot \<leftarrow> MustAdd (fn_Potential f) (sr_PotentialMonthly r);
     f \<leftarrow> Some (bump StagePotential (f\<lparr>fn_Potential := pot\<rparr>));
     f \<leftarrow> add_stage StageApproved r fn_Approved fn_Approved_update (nonZero (sr_ApprovedMonthly r) (sr_PotentialMonthly r)) f;
     f \<leftarrow> add_stage StagePlanned r fn_Planned fn_Planned_update (nonZero (sr_ApprovedMonthly r) (sr_PotentialMonthly r)) f;
     f \<leftarrow> add_stage StageExecuted r fn_Executed fn_Executed_update (nonZero (sr_ExecutedMonthly r) (sr_PotentialMonthly r)) f;
     f \<leftarrow> add_stage StageValidated r fn_Validated fn_Validated_update (nonZero (sr_ValidatedMonthly r) (sr_ExecutedMonthly r)) f;
     f \<leftarrow> add_stage StageRealized r fn_Realized fn_Realized_update (sr_RealizedMonthly r) f;
     Some (f, if sr_Lost r \<and> sr_LostReason r \<noteq> ''''
              then reasons(sr_Stage r := reasons (sr_Stage r) @ [sr_LostReason r]) else reasons)
   })"

text \<open>Capping a stage at its predecessor; the excess is recorded.\<close>

definition cap :: "Money \<Rightarrow> Money \<Rightarrow> Money \<Rightarrow> (Money \<times> Money) option" where
  "cap prev cur over = (if GreaterThan cur prev
     then do { excess \<leftarrow> MustSub cur prev; over \<leftarrow> MustAdd over excess; Some (prev, over) }
     else Some (cur, over))"

definition cap_stages :: "Funnel \<Rightarrow> Funnel option" where
  "cap_stages f = do {
     (a, ov) \<leftarrow> cap (fn_Potential f) (fn_Approved f) (fn_OverAttributed f);
     (p, ov) \<leftarrow> cap a (fn_Planned f) ov;
     (e, ov) \<leftarrow> cap p (fn_Executed f) ov;
     (v, ov) \<leftarrow> cap e (fn_Validated f) ov;
     (r, ov) \<leftarrow> cap v (fn_Realized f) ov;
     Some (f\<lparr>fn_Approved := a, fn_Planned := p, fn_Executed := e, fn_Validated := v, fn_Realized := r,
       fn_OverAttributed := ov\<rparr>)
   }"

definition leak :: "Funnel \<Rightarrow> (SavingsStage \<Rightarrow> string list) \<Rightarrow> SavingsStage \<Rightarrow> SavingsStage \<Rightarrow> Money \<Rightarrow> Money \<Rightarrow>
    LeakagePoint option" where
  "leak f reasons s u a b = do {
     lost \<leftarrow> MustSub a b;
     Some \<lparr>lk_From = s, lk_To = u, lk_Amount = lost, lk_Count = fn_Counts f s - fn_Counts f u,
       lk_Rate = (if \<not> IsZero a then Ratio b a else 1), lk_TopReasons = topReasons (reasons s) 3\<rparr>
   }"

definition BuildFunnel :: "SavingsRecord list \<Rightarrow> Funnel option" where
  "BuildFunnel records = do {
     (f, reasons) \<leftarrow> fold_opt add_record records (empty_funnel, \<lambda>_. []);
     f \<leftarrow> cap_stages f;
     f \<leftarrow> Some (f\<lparr>fn_RealizedAnnual := Annualized (fn_Realized f),
       fn_PredictionAccuracy := (if \<not> IsZero (fn_Executed f) then Ratio (fn_Realized f) (fn_Executed f) else 0)\<rparr>);
     l1 \<leftarrow> leak f reasons StagePotential StageApproved (fn_Potential f) (fn_Approved f);
     l2 \<leftarrow> leak f reasons StageApproved StagePlanned (fn_Approved f) (fn_Planned f);
     l3 \<leftarrow> leak f reasons StagePlanned StageExecuted (fn_Planned f) (fn_Executed f);
     l4 \<leftarrow> leak f reasons StageExecuted StageValidated (fn_Executed f) (fn_Validated f);
     l5 \<leftarrow> leak f reasons StageValidated StageRealized (fn_Validated f) (fn_Realized f);
     Some (f\<lparr>fn_Leakage := [l1, l2, l3, l4, l5]\<rparr>)
   }"

section \<open>The funnel is total and monotone\<close>

lemma MustAdd_usd [simp]: "usd a \<Longrightarrow> usd b \<Longrightarrow> MustAdd a b = Some \<lparr>micros = wrap64 (micros a + micros b), currency = USD\<rparr>"
  by (simp add: MustAdd_Some_iff)

lemma MustSub_usd [simp]: "usd a \<Longrightarrow> usd b \<Longrightarrow> MustSub a b = Some \<lparr>micros = wrap64 (micros a - micros b), currency = USD\<rparr>"
  by (simp add: MustSub_Some_iff)

lemma usd_make [simp]: "usd \<lparr>micros = n, currency = USD\<rparr>"
  by (simp add: Currency_def)

definition usd_funnel :: "Funnel \<Rightarrow> bool" where
  "usd_funnel f \<longleftrightarrow> usd (fn_Potential f) \<and> usd (fn_Approved f) \<and> usd (fn_Planned f) \<and> usd (fn_Executed f) \<and>
     usd (fn_Validated f) \<and> usd (fn_Realized f) \<and> usd (fn_OverAttributed f)"

definition usd_record :: "SavingsRecord \<Rightarrow> bool" where
  "usd_record r \<longleftrightarrow> usd (sr_PotentialMonthly r) \<and> usd (sr_ApprovedMonthly r) \<and> usd (sr_ExecutedMonthly r) \<and>
     usd (sr_ValidatedMonthly r) \<and> usd (sr_RealizedMonthly r)"

lemma usd_nonZero [simp]: "usd a \<Longrightarrow> usd b \<Longrightarrow> usd (nonZero a b)"
  by (simp add: nonZero_def)

lemma add_record_total:
  "usd_record r \<Longrightarrow> usd_funnel (fst fr) \<Longrightarrow> \<exists>fr'. add_record r fr = Some fr' \<and> usd_funnel (fst fr')"
  by (cases fr) (simp add: add_record_def add_stage_def usd_record_def usd_funnel_def bump_def)

lemma cap_usd:
  "usd p \<Longrightarrow> usd c \<Longrightarrow> usd ov \<Longrightarrow> \<exists>c' ov'. cap p c ov = Some (c', ov') \<and> usd c' \<and> usd ov' \<and>
     micros c' = min (micros p) (micros c)"
  by (simp add: cap_def min_def not_less [symmetric])

lemma cap_stages_usd:
  assumes "usd_funnel f"
  shows "\<exists>g. cap_stages f = Some g \<and> usd_funnel g \<and> fn_Counts g = fn_Counts f \<and> fn_Potential g = fn_Potential f \<and>
    micros (fn_Approved g) \<le> micros (fn_Potential g) \<and> micros (fn_Planned g) \<le> micros (fn_Approved g) \<and>
    micros (fn_Executed g) \<le> micros (fn_Planned g) \<and> micros (fn_Validated g) \<le> micros (fn_Executed g) \<and>
    micros (fn_Realized g) \<le> micros (fn_Validated g)"
proof -
  have u: "usd (fn_Potential f)" "usd (fn_Approved f)" "usd (fn_Planned f)" "usd (fn_Executed f)"
    "usd (fn_Validated f)" "usd (fn_Realized f)" "usd (fn_OverAttributed f)"
    using assms by (simp_all add: usd_funnel_def)
  obtain a o1 where a: "cap (fn_Potential f) (fn_Approved f) (fn_OverAttributed f) = Some (a, o1)" "usd a" "usd o1"
    "micros a \<le> micros (fn_Potential f)" using cap_usd [OF u(1,2,7)] by auto
  obtain p o2 where p: "cap a (fn_Planned f) o1 = Some (p, o2)" "usd p" "usd o2" "micros p \<le> micros a"
    using cap_usd [OF a(2) u(3) a(3)] by auto
  obtain e o3 where e: "cap p (fn_Executed f) o2 = Some (e, o3)" "usd e" "usd o3" "micros e \<le> micros p"
    using cap_usd [OF p(2) u(4) p(3)] by auto
  obtain v o4 where v: "cap e (fn_Validated f) o3 = Some (v, o4)" "usd v" "usd o4" "micros v \<le> micros e"
    using cap_usd [OF e(2) u(5) e(3)] by auto
  obtain r o5 where r: "cap v (fn_Realized f) o4 = Some (r, o5)" "usd r" "usd o5" "micros r \<le> micros v"
    using cap_usd [OF v(2) u(6) v(3)] by auto
  have "cap_stages f = Some (f\<lparr>fn_Approved := a, fn_Planned := p, fn_Executed := e, fn_Validated := v,
      fn_Realized := r, fn_OverAttributed := o5\<rparr>)"
    by (simp add: cap_stages_def a(1) p(1) e(1) v(1) r(1))
  then show ?thesis using u a p e v r by (simp add: usd_funnel_def)
qed

lemma leak_usd:
  "usd a \<Longrightarrow> usd b \<Longrightarrow> \<exists>l. leak f reasons s u a b = Some l \<and> micros (lk_Amount l) = wrap64 (micros a - micros b) \<and>
     lk_Rate l = (if micros a \<noteq> 0 then Ratio b a else 1)"
  by (simp add: leak_def IsZero_def)

lemma leak_bounds:
  assumes "usd a" "usd b" "leak f reasons s u a b = Some l" "0 \<le> micros b" "micros b \<le> micros a" "micros a < 2 ^ 63"
  shows "micros (lk_Amount l) = micros a - micros b \<and> 0 \<le> lk_Rate l \<and> lk_Rate l \<le> 1"
  using assms leak_usd [of a b f reasons s u] Ratio_unit [of b a] by (auto simp: int64_def)

text \<open>C13: the funnel of records in dollars is always computed and never grows downward: no stage
  exceeds the one above it, whatever the measurements say; and when the realized savings are not
  negative every conversion rate and the prediction accuracy lie between zero and one and no leakage
  is negative.\<close>

theorem BuildFunnel_monotone:
  assumes "\<And>r. r \<in> set records \<Longrightarrow> usd_record r"
  shows "\<exists>f. BuildFunnel records = Some f \<and>
    sorted_wrt (\<ge>) (map micros [fn_Potential f, fn_Approved f, fn_Planned f, fn_Executed f, fn_Validated f, fn_Realized f]) \<and>
    (0 \<le> micros (fn_Realized f) \<and> micros (fn_Potential f) < 2 ^ 63 \<longrightarrow>
       0 \<le> fn_PredictionAccuracy f \<and> fn_PredictionAccuracy f \<le> 1 \<and>
       (\<forall>l \<in> set (fn_Leakage f). 0 \<le> micros (lk_Amount l) \<and> 0 \<le> lk_Rate l \<and> lk_Rate l \<le> 1))"
proof -
  have "\<exists>fr. fold_opt add_record records (empty_funnel, \<lambda>_. []) = Some fr \<and> usd_funnel (fst fr)"
    using assms add_record_total by (intro fold_opt_total) (auto simp: usd_funnel_def empty_funnel_def)
  then obtain f0 reasons where f0: "fold_opt add_record records (empty_funnel, \<lambda>_. []) = Some (f0, reasons)" "usd_funnel f0"
    by auto
  obtain g where g: "cap_stages f0 = Some g" "usd_funnel g"
    "micros (fn_Approved g) \<le> micros (fn_Potential g)" "micros (fn_Planned g) \<le> micros (fn_Approved g)"
    "micros (fn_Executed g) \<le> micros (fn_Planned g)" "micros (fn_Validated g) \<le> micros (fn_Executed g)"
    "micros (fn_Realized g) \<le> micros (fn_Validated g)"
    using cap_stages_usd [OF f0(2)] by blast
  define h where "h = g\<lparr>fn_RealizedAnnual := Annualized (fn_Realized g),
    fn_PredictionAccuracy := (if \<not> IsZero (fn_Executed g) then Ratio (fn_Realized g) (fn_Executed g) else 0)\<rparr>"
  have u: "usd (fn_Potential g)" "usd (fn_Approved g)" "usd (fn_Planned g)" "usd (fn_Executed g)"
    "usd (fn_Validated g)" "usd (fn_Realized g)"
    using g(2) by (simp_all add: usd_funnel_def)
  obtain l1 where l1: "leak h reasons StagePotential StageApproved (fn_Potential g) (fn_Approved g) = Some l1"
    using leak_usd [OF u(1,2)] by blast
  obtain l2 where l2: "leak h reasons StageApproved StagePlanned (fn_Approved g) (fn_Planned g) = Some l2"
    using leak_usd [OF u(2,3)] by blast
  obtain l3 where l3: "leak h reasons StagePlanned StageExecuted (fn_Planned g) (fn_Executed g) = Some l3"
    using leak_usd [OF u(3,4)] by blast
  obtain l4 where l4: "leak h reasons StageExecuted StageValidated (fn_Executed g) (fn_Validated g) = Some l4"
    using leak_usd [OF u(4,5)] by blast
  obtain l5 where l5: "leak h reasons StageValidated StageRealized (fn_Validated g) (fn_Realized g) = Some l5"
    using leak_usd [OF u(5,6)] by blast
  have b: "BuildFunnel records = Some (h\<lparr>fn_Leakage := [l1, l2, l3, l4, l5]\<rparr>)"
    using l1 l2 l3 l4 l5 by (simp add: BuildFunnel_def f0(1) g(1) h_def)
  have "0 \<le> fn_PredictionAccuracy h \<and> fn_PredictionAccuracy h \<le> 1 \<and>
      (\<forall>l \<in> set [l1, l2, l3, l4, l5]. 0 \<le> micros (lk_Amount l) \<and> 0 \<le> lk_Rate l \<and> lk_Rate l \<le> 1)"
    if "0 \<le> micros (fn_Realized g)" "micros (fn_Potential g) < 2 ^ 63"
    using that g(3-7) leak_bounds [OF u(1,2) l1] leak_bounds [OF u(2,3) l2] leak_bounds [OF u(3,4) l3]
      leak_bounds [OF u(4,5) l4] leak_bounds [OF u(5,6) l5] Ratio_unit [of "fn_Realized g" "fn_Executed g"]
    by (simp add: h_def)
  with b g(3-7) show ?thesis by (auto simp: h_def)
qed

theorem BuildFunnel_monotone_witness:
  "\<exists>f. BuildFunnel [new_record \<lparr>micros = 10, currency = USD\<rparr>] = Some f \<and>
     micros (fn_Approved f) \<le> micros (fn_Potential f)"
proof -
  have "usd_record (new_record \<lparr>micros = 10, currency = USD\<rparr>)" by (simp add: usd_record_def new_record_def)
  then show ?thesis
    using BuildFunnel_monotone [of "[new_record \<lparr>micros = 10, currency = USD\<rparr>]"] by auto
qed

section \<open>Calibration\<close>

record Outcome =
  oc_TenantID :: TenantID
  oc_RuleID :: RuleID
  oc_Action :: ActionType
  oc_PredictedMonthlySaving :: Money
  oc_ActualMonthlySaving :: Money
  oc_Verdict :: Verdict
  oc_RolledBack :: bool
  oc_SavingRatio :: rat
  oc_ObservedAt :: gotime

record RuleCalibration =
  rcal_Samples :: int
  rcal_SuccessRate :: rat
  rcal_RollbackRate :: rat
  rcal_MeanSavingRatio :: rat
  rcal_MedianSavingRatio :: rat
  rcal_ConfidenceMultiplier :: rat
  rcal_SavingMultiplier :: rat

definition clampFloat :: "rat \<Rightarrow> rat \<Rightarrow> rat \<Rightarrow> rat" where
  "clampFloat v lo hi = (if v < lo then lo else if v > hi then hi else v)"

definition Calibrate :: "Outcome list \<Rightarrow> int \<Rightarrow> RuleCalibration" where
  "Calibrate outcomes minSamples = (let
     c = \<lparr>rcal_Samples = int (length outcomes), rcal_SuccessRate = 0, rcal_RollbackRate = 0,
       rcal_MeanSavingRatio = 0, rcal_MedianSavingRatio = 0, rcal_ConfidenceMultiplier = 1, rcal_SavingMultiplier = 1\<rparr>
   in if outcomes = [] then c
   else let
     n = i2f (int (length outcomes));
     successes = length (filter (\<lambda>x. oc_Verdict x = VerdictSuccess) outcomes);
     rollbacks = length (filter oc_RolledBack outcomes);
     ratios = filter (\<lambda>x. 0 < x) (map oc_SavingRatio outcomes);
     ratioSum = foldl (\<lambda>s x. f64 (s + x)) 0 ratios;
     c = c\<lparr>rcal_SuccessRate := f64 (i2f (int successes) / n), rcal_RollbackRate := f64 (i2f (int rollbacks) / n)\<rparr>;
     c = (if ratios \<noteq> []
       then c\<lparr>rcal_MeanSavingRatio := f64 (ratioSum / i2f (int (length ratios))),
         rcal_MedianSavingRatio := sort ratios ! (length ratios div 2)\<rparr>
       else c)
   in if int (length outcomes) < minSamples then c
   else let
     m = f64 (rcal_SuccessRate c - f64 (2 * rcal_RollbackRate c));
     c = c\<lparr>rcal_ConfidenceMultiplier := clampFloat (f64 (1 / 2 + f64 (f64 (6 / 10) * m))) (1 / 2) (f64 (11 / 10))\<rparr>
   in if 0 < rcal_MedianSavingRatio c
      then c\<lparr>rcal_SavingMultiplier := clampFloat (rcal_MedianSavingRatio c) (f64 (3 / 10)) (f64 (12 / 10))\<rparr>
      else c)"

lemma clampFloat_bounds: "lo \<le> hi \<Longrightarrow> lo \<le> clampFloat v lo hi \<and> clampFloat v lo hi \<le> hi"
  by (auto simp: clampFloat_def)

lemma calibration_bounds:
  "1 / 2 \<le> f64 (11 / 10)" "f64 (3 / 10) \<le> f64 (12 / 10)" "1 \<le> f64 (11 / 10)" "f64 (3 / 10) \<le> 1" "1 \<le> f64 (12 / 10)"
  using f64_mono [of 1 "11 / 10"] f64_mono [of "3 / 10" "12 / 10"] f64_mono [of "3 / 10" 1] f64_mono [of 1 "12 / 10"]
  by simp_all

text \<open>Calibration can distrust a rule more than it can trust it: the multipliers stay in their
  published ranges on every history, and nothing is adjusted below the minimum sample count. But a
  rule whose changes never saved anything is not corrected: ratios that are not positive are left
  out, so its saving multiplier stays at one.\<close>

theorem Calibrate_bounds:
  "1 / 2 \<le> rcal_ConfidenceMultiplier (Calibrate os n) \<and> rcal_ConfidenceMultiplier (Calibrate os n) \<le> f64 (11 / 10) \<and>
   f64 (3 / 10) \<le> rcal_SavingMultiplier (Calibrate os n) \<and> rcal_SavingMultiplier (Calibrate os n) \<le> f64 (12 / 10) \<and>
   (int (length os) < n \<longrightarrow> rcal_ConfidenceMultiplier (Calibrate os n) = 1 \<and> rcal_SavingMultiplier (Calibrate os n) = 1) \<and>
   ((\<forall>x \<in> set os. oc_SavingRatio x \<le> 0) \<longrightarrow> rcal_SavingMultiplier (Calibrate os n) = 1)"
proof -
  have "filter (\<lambda>x. 0 < x) (map oc_SavingRatio os) = []" if "\<forall>x \<in> set os. oc_SavingRatio x \<le> 0"
    using that by (auto simp: filter_empty_conv)
  then show ?thesis
    using calibration_bounds clampFloat_bounds [OF calibration_bounds(1)] clampFloat_bounds [OF calibration_bounds(2)]
    by (simp add: Calibrate_def Let_def)
qed

definition failed_outcome :: Outcome where
  "failed_outcome = \<lparr>oc_TenantID = ''t'', oc_RuleID = ''r'', oc_Action = ActionResizeInstance,
     oc_PredictedMonthlySaving = ZeroUSD, oc_ActualMonthlySaving = ZeroUSD, oc_Verdict = VerdictFailure,
     oc_RolledBack = False, oc_SavingRatio = 0, oc_ObservedAt = 0\<rparr>"

theorem Calibrate_bounds_witness: "rcal_SavingMultiplier (Calibrate [failed_outcome] 1) = 1"
  using Calibrate_bounds [of "[failed_outcome]" 1] by (simp add: failed_outcome_def)

end
