(* ===== verification/AuditLog.thy ===== *)
theory AuditLog imports GoSort Principal begin

text \<open>
  \<open>internal/domain/audit/audit.go\<close> and \<open>internal/adapters/memstore/audit.go\<close>: the hash-chained audit log.
  The values of the free-form maps are a type parameter \<open>'v\<close> (Go's \<open>any\<close>). The composition of
  \<open>json.Marshal\<close>, \<open>sha256.Sum256\<close> and \<open>hex.EncodeToString\<close> is the parameter \<open>h\<close> of the operations, a function of the
  marshalled payload (marshalling fails only on values JSON cannot represent, which \<open>'v\<close> excludes); \<open>sort.Slice\<close>, which is not stable, is the parameter \<open>srt\<close> of \<open>VerifyChain\<close>. The wall
  clock and the generated id are arguments. Detail texts are not modelled.
\<close>

section \<open>Records\<close>

datatype (plugins only: code) AuditAction = ActionTenantCreated | ActionTenantUpdated | ActionUserInvited | ActionUserRoleChanged
  | ActionLogin | ActionLoginFailed | ActionSpecDrafted | ActionSpecUpdated
  | ActionSpecValidated | ActionSpecApproved | ActionSpecRejected | ActionAWSAccountRegistered
  | ActionAWSAccountVerified | ActionAWSAssumeRole | ActionAWSAPICall | ActionDiscoveryStarted
  | ActionDiscoveryCompleted | ActionDiscoveryFailed | ActionCostIngested | ActionAnomalyDetected
  | ActionSLOBreached | ActionBudgetExhausted | ActionRecommendationCreated | ActionRecommendationDismissed
  | ActionPolicyEvaluated | ActionPolicyCreated | ActionPolicyActivated | ActionApprovalRequested
  | ActionApprovalGranted | ActionApprovalRejected | ActionApprovalExpired | ActionPlanCreated
  | ActionExecutionStarted | ActionExecutionStep | ActionExecutionSucceeded | ActionExecutionFailed
  | ActionValidationStarted | ActionValidationResult | ActionRollbackStarted | ActionRollbackCompleted
  | ActionRollbackFailed | ActionSimulationRun | ActionCostCompiled | ActionRegressionRun
  | ActionCopilotQuery | ActionLLMCall | ActionGroundingRejected | ActionCrossTenantAccess
  | ActionAuthorizationDenied | ActionDataExported
  | ActionOther string

definition Sensitive :: "AuditAction \<Rightarrow> bool" where
  "Sensitive a \<longleftrightarrow> a \<in> {ActionSpecApproved, ActionApprovalGranted, ActionExecutionStarted, ActionExecutionSucceeded, ActionExecutionFailed, ActionRollbackStarted, ActionRollbackCompleted, ActionRollbackFailed, ActionPolicyActivated, ActionCrossTenantAccess, ActionAWSAssumeRole, ActionUserRoleChanged, ActionDataExported}"

datatype AuditOutcome = OutcomeSuccess | OutcomeFailure | OutcomeDenied | OutcomePartial | OutcomeOther string

text \<open>A Go map as the list of its entries; \<open>None\<close> is the \<open>nil\<close> map. \<open>json.Marshal\<close> writes the entries in the
  order of their keys.\<close>

type_synonym 'v gomap = "(string \<times> 'v) list option"

definition marshal_map :: "'v gomap \<Rightarrow> 'v gomap" where
  "marshal_map m = map_option (sort_key fst) m"

record 'v AuditRecord =
  ar_ID :: ID
  ar_TenantID :: TenantID
  ar_Sequence :: int
  ar_Action :: AuditAction
  ar_Outcome :: AuditOutcome
  ar_Actor :: string
  ar_ActorRoles :: "Role list"
  ar_ActorMachine :: bool
  ar_IPAddress :: string
  ar_UserAgent :: string
  ar_RequestID :: string
  ar_TraceID :: string
  ar_SubjectKind :: string
  ar_SubjectID :: ID
  ar_SubjectName :: string
  ar_Before :: "'v gomap"
  ar_After :: "'v gomap"
  ar_AWSOperation :: string
  ar_AWSAccountID :: AccountID
  ar_AWSRegion :: Region
  ar_AWSRequestID :: string
  ar_RecommendationID :: ID
  ar_PlanID :: ID
  ar_ApprovalID :: ID
  ar_PolicyDecisionID :: ID
  ar_SpecVersionID :: ID
  ar_Message :: string
  ar_Metadata :: "'v gomap"
  ar_Error :: string
  ar_At :: gotime
  ar_PrevHash :: string
  ar_Hash :: string

text \<open>What \<open>ComputeHash\<close> marshals.\<close>

record 'v payload =
  py_Sequence :: int
  py_TenantID :: TenantID
  py_Action :: AuditAction
  py_Outcome :: AuditOutcome
  py_Actor :: string
  py_Subject :: string
  py_SubjectID :: ID
  py_Before :: "'v gomap"
  py_After :: "'v gomap"
  py_AWSOp :: string
  py_Message :: string
  py_At :: gotime
  py_PrevHash :: string

definition payload_of :: "'v AuditRecord \<Rightarrow> 'v payload" where
  "payload_of r = \<lparr>py_Sequence = ar_Sequence r, py_TenantID = ar_TenantID r, py_Action = ar_Action r,
     py_Outcome = ar_Outcome r, py_Actor = ar_Actor r, py_Subject = ar_SubjectKind r,
     py_SubjectID = ar_SubjectID r, py_Before = marshal_map (ar_Before r), py_After = marshal_map (ar_After r),
     py_AWSOp = ar_AWSOperation r, py_Message = ar_Message r, py_At = ar_At r, py_PrevHash = ar_PrevHash r\<rparr>"

definition ComputeHash :: "('v payload \<Rightarrow> string) \<Rightarrow> 'v AuditRecord \<Rightarrow> string" where
  "ComputeHash h r = h (payload_of r)"

definition Seal :: "('v payload \<Rightarrow> string) \<Rightarrow> gotime \<Rightarrow> ID \<Rightarrow> string \<Rightarrow> int \<Rightarrow> 'v AuditRecord \<Rightarrow> 'v AuditRecord" where
  "Seal h wall newID prevHash sequence r = (let
     r = (if ar_At r = 0 then r\<lparr>ar_At := wall\<rparr> else r);
     r = (if id_IsZero (ar_ID r) then r\<lparr>ar_ID := newID\<rparr> else r);
     r = r\<lparr>ar_Sequence := sequence, ar_PrevHash := prevHash\<rparr>
   in r\<lparr>ar_Hash := ComputeHash h r\<rparr>)"

section \<open>Verification\<close>

record ChainVerification =
  cv_TenantID :: TenantID
  cv_RecordsChecked :: nat
  cv_Valid :: bool
  cv_FirstBreakAt :: "int option"
  cv_VerifiedAt :: gotime

text \<open>The walk; \<open>counts\<close> says which records enter \<open>RecordsChecked\<close>.\<close>

fun verify_loop :: "('v payload \<Rightarrow> string) \<Rightarrow> ('v AuditRecord \<Rightarrow> bool) \<Rightarrow> string \<Rightarrow> 'v AuditRecord list \<Rightarrow>
    ChainVerification \<Rightarrow> ChainVerification" where
  "verify_loop h counts prev [] v = v"
| "verify_loop h counts prev (r # rs) v = (let
     v = (if counts r then v\<lparr>cv_RecordsChecked := cv_RecordsChecked v + 1\<rparr> else v);
     broken = v\<lparr>cv_Valid := False, cv_FirstBreakAt := Some (ar_Sequence r)\<rparr>
   in if ar_PrevHash r \<noteq> prev then broken
      else if ComputeHash h r \<noteq> ar_Hash r then broken
      else verify_loop h counts (ar_Hash r) rs v)"

definition VerifyChain :: "('v payload \<Rightarrow> string) \<Rightarrow> ('v AuditRecord list \<Rightarrow> 'v AuditRecord list) \<Rightarrow> gotime \<Rightarrow>
    TenantID \<Rightarrow> 'v AuditRecord list \<Rightarrow> ChainVerification" where
  "VerifyChain h srt wall tenant records = verify_loop h (\<lambda>_. True) '''' (srt records)
     \<lparr>cv_TenantID = tenant, cv_RecordsChecked = 0, cv_Valid = True, cv_FirstBreakAt = None, cv_VerifiedAt = wall\<rparr>"

section \<open>The in-memory repository\<close>

text \<open>\<open>internal/adapters/memstore/audit.go\<close>. A missing map entry reads as the zero value, so the two maps
  are total functions. Every operation holds the lock for its whole body.\<close>

record audit_head =
  ah_Hash :: string
  ah_Sequence :: int

record 'v audit_store =
  as_Records :: "TenantID \<Rightarrow> 'v AuditRecord list"
  as_Head :: "TenantID \<Rightarrow> audit_head"

definition empty_store :: "'v audit_store" where
  "empty_store = \<lparr>as_Records = (\<lambda>_. []), as_Head = (\<lambda>_. \<lparr>ah_Hash = '''', ah_Sequence = 0\<rparr>)\<rparr>"

text \<open>\<open>deepCopy\<close> is a JSON round trip: a field tagged \<open>omitempty\<close> that holds an empty map comes back \<open>nil\<close>.\<close>

definition omitempty :: "'v gomap \<Rightarrow> 'v gomap" where
  "omitempty m = (case m of Some [] \<Rightarrow> None | _ \<Rightarrow> m)"

definition deepCopy :: "'v AuditRecord \<Rightarrow> 'v AuditRecord" where
  "deepCopy r = r\<lparr>ar_Before := omitempty (ar_Before r), ar_After := omitempty (ar_After r),
     ar_Metadata := omitempty (ar_Metadata r)\<rparr>"

definition Append :: "('v payload \<Rightarrow> string) \<Rightarrow> Principal option \<Rightarrow> gotime \<Rightarrow> ID \<Rightarrow> 'v AuditRecord \<Rightarrow>
    'v audit_store \<Rightarrow> (err + 'v AuditRecord) \<times> 'v audit_store" where
  "Append h ctx wall newID rec st = (case GuardTenant ctx (ar_TenantID rec) of
     Some e \<Rightarrow> (Inl e, st)
   | None \<Rightarrow> let
       t = ar_TenantID rec;
       head = as_Head st t;
       rec = Seal h wall newID (ah_Hash head) (wrap64 (ah_Sequence head + 1)) rec;
       st = st\<lparr>as_Records := (as_Records st)(t := as_Records st t @ [deepCopy rec])\<rparr>;
       st = st\<lparr>as_Head := (as_Head st)(t := \<lparr>ah_Hash = ar_Hash rec, ah_Sequence = ar_Sequence rec\<rparr>)\<rparr>
     in (Inr (deepCopy rec), st))"

definition in_window :: "gotime \<Rightarrow> gotime \<Rightarrow> 'v AuditRecord \<Rightarrow> bool" where
  "in_window from to r \<longleftrightarrow> (from = 0 \<or> from \<le> ar_At r) \<and> (to = 0 \<or> ar_At r < to)"

definition Verify :: "('v payload \<Rightarrow> string) \<Rightarrow> Principal option \<Rightarrow> gotime \<Rightarrow> 'v audit_store \<Rightarrow> TenantID \<Rightarrow> gotime \<Rightarrow>
    gotime \<Rightarrow> err + ChainVerification" where
  "Verify h ctx wall st tenant from to = (case GuardTenant ctx tenant of
     Some e \<Rightarrow> Inl e
   | None \<Rightarrow> Inr (verify_loop h (in_window from to) '''' (as_Records st tenant)
       \<lparr>cv_TenantID = tenant, cv_RecordsChecked = 0, cv_Valid = True, cv_FirstBreakAt = None, cv_VerifiedAt = wall\<rparr>))"

definition Head :: "Principal option \<Rightarrow> 'v audit_store \<Rightarrow> TenantID \<Rightarrow> err + string \<times> int" where
  "Head ctx st tenant = (case GuardTenant ctx tenant of
     Some e \<Rightarrow> Inl e
   | None \<Rightarrow> Inr (ah_Hash (as_Head st tenant), ah_Sequence (as_Head st tenant)))"

record Query =
  qu_TenantID :: TenantID
  qu_Actions :: "AuditAction list"
  qu_Actors :: "string list"
  qu_SubjectID :: ID
  qu_Outcomes :: "AuditOutcome list"
  qu_From :: gotime
  qu_To :: gotime
  qu_OnlyMachine :: "bool option"
  qu_Limit :: int
  qu_Cursor :: string

definition matchesAuditQuery :: "'v AuditRecord \<Rightarrow> Query \<Rightarrow> bool" where
  "matchesAuditQuery r q =
    (if qu_Actions q \<noteq> [] \<and> ar_Action r \<notin> set (qu_Actions q) then False
     else if qu_Actors q \<noteq> [] \<and> ar_Actor r \<notin> set (qu_Actors q) then False
     else if \<not> id_IsZero (qu_SubjectID q) \<and> ar_SubjectID r \<noteq> qu_SubjectID q then False
     else if qu_Outcomes q \<noteq> [] \<and> ar_Outcome r \<notin> set (qu_Outcomes q) then False
     else if qu_From q \<noteq> 0 \<and> ar_At r < qu_From q then False
     else if qu_To q \<noteq> 0 \<and> \<not> ar_At r < qu_To q then False
     else (case qu_OnlyMachine q of Some b \<Rightarrow> ar_ActorMachine r = b | None \<Rightarrow> True))"

section \<open>Chains\<close>

fun hash_chain :: "('v payload \<Rightarrow> string) \<Rightarrow> string \<Rightarrow> 'v AuditRecord list \<Rightarrow> bool" where
  "hash_chain h prev [] \<longleftrightarrow> True"
| "hash_chain h prev (r # rs) \<longleftrightarrow> ar_PrevHash r = prev \<and> ComputeHash h r = ar_Hash r \<and> hash_chain h (ar_Hash r) rs"

definition head_of :: "'v AuditRecord list \<Rightarrow> string" where
  "head_of rs = (if rs = [] then '''' else ar_Hash (last rs))"

lemma verify_loop_Valid [simp]: "cv_Valid v \<Longrightarrow> cv_Valid (verify_loop h c prev rs v) = hash_chain h prev rs"
  by (induction rs arbitrary: prev v) (auto simp: Let_def)

lemma hash_chain_append:
  "hash_chain h prev (xs @ ys) \<longleftrightarrow> hash_chain h prev xs \<and> hash_chain h (if xs = [] then prev else ar_Hash (last xs)) ys"
  by (induction xs arbitrary: prev) auto

lemma hash_chain_snoc: "hash_chain h '''' (rs @ [r]) \<longleftrightarrow>
    hash_chain h '''' rs \<and> ar_PrevHash r = head_of rs \<and> ComputeHash h r = ar_Hash r"
  by (simp add: hash_chain_append head_of_def)

lemma head_of_snoc [simp]: "head_of (rs @ [r]) = ar_Hash r" "head_of [] = ''''"
  by (simp_all add: head_of_def)

text \<open>Two chains with the same last hash hold the same payloads, or the hash function collides.\<close>

lemma hash_chain_unique:
  assumes "hash_chain h '''' xs" "hash_chain h '''' ys" "head_of xs = head_of ys" "\<And>p. h p \<noteq> ''''"
  shows "map payload_of xs = map payload_of ys \<or> (\<exists>p q. p \<noteq> q \<and> h p = h q)"
  using assms(1-3)
proof (induction xs arbitrary: ys rule: rev_induct)
  case Nil
  then show ?case
  proof (cases ys rule: rev_cases)
    case (snoc ys' y)
    with Nil have "h (payload_of y) = ''''" by (simp add: hash_chain_snoc ComputeHash_def)
    with assms(4) show ?thesis by blast
  qed simp
next
  case (snoc x xs)
  show ?case
  proof (cases ys rule: rev_cases)
    case Nil
    with snoc have "h (payload_of x) = ''''" by (simp add: hash_chain_snoc ComputeHash_def)
    with assms(4) show ?thesis by blast
  next
    case ys: (snoc ys' y)
    have x: "hash_chain h '''' xs" "ar_PrevHash x = head_of xs" "h (payload_of x) = ar_Hash x"
      and y: "hash_chain h '''' ys'" "ar_PrevHash y = head_of ys'" "h (payload_of y) = ar_Hash y"
      using snoc.prems by (simp_all add: hash_chain_snoc ys ComputeHash_def)
    have eq: "h (payload_of x) = h (payload_of y)" using snoc.prems x y by (simp add: ys)
    show ?thesis
    proof (cases "payload_of x = payload_of y")
      case True
      then have "head_of xs = head_of ys'" using x y by (simp add: payload_of_def)
      from snoc.IH [OF x(1) y(1) this] show ?thesis using True by (simp add: ys)
    next
      case False
      with eq show ?thesis by blast
    qed
  qed
qed

section \<open>The log that only \<open>Append\<close> writes\<close>

text \<open>Any callers, tenants, clocks and ids in any order; \<open>Append\<close> holds the lock, so the interleavings of
  concurrent calls are exactly these sequences. \<open>keeps_maps\<close>: the hashed maps survive \<open>deepCopy\<close>.\<close>

definition keeps_maps :: "'v AuditRecord \<Rightarrow> bool" where
  "keeps_maps r \<longleftrightarrow> ar_Before r \<noteq> Some [] \<and> ar_After r \<noteq> Some []"

inductive logged :: "('v payload \<Rightarrow> string) \<Rightarrow> 'v audit_store \<Rightarrow> bool" for h where
  start: "logged h empty_store"
| append: "logged h st \<Longrightarrow> keeps_maps rec \<Longrightarrow> logged h (snd (Append h ctx wall newID rec st))"

definition log_inv :: "('v payload \<Rightarrow> string) \<Rightarrow> 'v audit_store \<Rightarrow> TenantID \<Rightarrow> bool" where
  "log_inv h st t \<longleftrightarrow> hash_chain h '''' (as_Records st t) \<and>
     as_Head st t = \<lparr>ah_Hash = head_of (as_Records st t), ah_Sequence = wrap64 (int (length (as_Records st t)))\<rparr> \<and>
     map ar_Sequence (as_Records st t) = map (\<lambda>n. wrap64 (int n)) [1..<Suc (length (as_Records st t))] \<and>
     (\<forall>r \<in> set (as_Records st t). ar_TenantID r = t)"

lemma omitempty_id [simp]: "m \<noteq> Some [] \<Longrightarrow> omitempty m = m"
  by (auto simp: omitempty_def split: option.splits list.splits)

lemma Seal_fields [simp]:
  "ar_PrevHash (Seal h wall i p s r) = p" "ar_Sequence (Seal h wall i p s r) = s"
  "ar_TenantID (Seal h wall i p s r) = ar_TenantID r" "ar_Before (Seal h wall i p s r) = ar_Before r"
  "ar_After (Seal h wall i p s r) = ar_After r"
  by (simp_all add: Seal_def Let_def)

lemma Seal_hash [simp]: "ComputeHash h (Seal h wall i p s r) = ar_Hash (Seal h wall i p s r)"
  by (simp add: Seal_def Let_def ComputeHash_def payload_of_def)

lemma deepCopy_fields [simp]:
  "ar_PrevHash (deepCopy r) = ar_PrevHash r" "ar_Hash (deepCopy r) = ar_Hash r"
  "ar_Sequence (deepCopy r) = ar_Sequence r" "ar_TenantID (deepCopy r) = ar_TenantID r" "ar_At (deepCopy r) = ar_At r"
  by (simp_all add: deepCopy_def)

lemma deepCopy_hash: "keeps_maps r \<Longrightarrow> ComputeHash h (deepCopy r) = ComputeHash h r"
  by (simp add: keeps_maps_def ComputeHash_def payload_of_def deepCopy_def)

lemma Append_other:
  "\<not> (GuardTenant ctx (ar_TenantID rec) = None \<and> t = ar_TenantID rec) \<Longrightarrow>
    as_Records (snd (Append h ctx wall newID rec st)) t = as_Records st t \<and>
    as_Head (snd (Append h ctx wall newID rec st)) t = as_Head st t"
  by (cases "GuardTenant ctx (ar_TenantID rec)") (simp_all add: Append_def Let_def)

lemma Append_log_inv:
  assumes "log_inv h st t" and "keeps_maps rec"
  shows "log_inv h (snd (Append h ctx wall newID rec st)) t"
proof (cases "GuardTenant ctx (ar_TenantID rec) = None \<and> t = ar_TenantID rec")
  case False
  from Append_other [OF this, of h wall newID st] assms(1) show ?thesis by (simp add: log_inv_def del: upt_Suc)
next
  case True
  define rs where "rs = as_Records st t"
  define x where "x = Seal h wall newID (head_of rs) (wrap64 (int (length rs) + 1)) rec"
  have h: "hash_chain h '''' rs" "as_Head st t = \<lparr>ah_Hash = head_of rs, ah_Sequence = wrap64 (int (length rs))\<rparr>"
    "map ar_Sequence rs = map (\<lambda>n. wrap64 (int n)) [1..<Suc (length rs)]" "\<forall>r \<in> set rs. ar_TenantID r = t"
    using assms(1) by (simp_all add: log_inv_def rs_def)
  have st': "as_Records (snd (Append h ctx wall newID rec st)) t = rs @ [deepCopy x]"
    "as_Head (snd (Append h ctx wall newID rec st)) t = \<lparr>ah_Hash = ar_Hash x, ah_Sequence = ar_Sequence x\<rparr>"
    using True h(2) by (simp_all add: Append_def Let_def x_def rs_def)
  have k: "keeps_maps x" using assms(2) by (simp add: x_def keeps_maps_def)
  have "hash_chain h '''' (rs @ [deepCopy x])"
    using h(1) deepCopy_hash [OF k, of h] by (simp add: hash_chain_snoc x_def)
  moreover have "map ar_Sequence (rs @ [deepCopy x]) = map (\<lambda>n. wrap64 (int n)) [1..<Suc (length (rs @ [deepCopy x]))]"
  proof -
    have "[1..<Suc (Suc (length rs))] = [1..<Suc (length rs)] @ [Suc (length rs)]" by simp
    with h(3) show ?thesis by (simp add: x_def add.commute del: upt_Suc)
  qed
  moreover have "ar_TenantID (deepCopy x) = t" "ar_Sequence x = wrap64 (int (length (rs @ [deepCopy x])))"
    using True by (simp_all add: x_def add.commute)
  ultimately show ?thesis using h(4) unfolding log_inv_def st' by (simp del: upt_Suc)
qed

lemma logged_inv: "logged h st \<Longrightarrow> log_inv h st t"
proof (induction rule: logged.induct)
  case start
  then show ?case by (simp add: log_inv_def empty_store_def)
next
  case (append st rec ctx wall newID)
  then show ?case by (intro Append_log_inv)
qed

lemma verify_loop_Break [simp]:
  "cv_Valid v \<Longrightarrow> cv_FirstBreakAt v = None \<Longrightarrow>
     (cv_FirstBreakAt (verify_loop h c prev rs v) = None) = hash_chain h prev rs"
  by (induction rs arbitrary: prev v) (auto simp: Let_def)

lemma Verify_Inr_iff:
  "Verify h ctx wall st t from to = Inr v \<Longrightarrow> cv_Valid v = hash_chain h '''' (as_Records st t) \<and>
     (cv_FirstBreakAt v = None) = hash_chain h '''' (as_Records st t)"
  by (auto simp: Verify_def split: option.splits)



section \<open>Both adapters verify alike\<close>

text \<open>The contract of \<open>sort.Slice\<close>: a permutation of its input in which no later element is less than an
  earlier one. Elements that compare equal may come in any order.\<close>

locale slice_sort =
  fixes lt :: "'a \<Rightarrow> 'a \<Rightarrow> bool" and srt :: "'a list \<Rightarrow> 'a list"
  assumes perm: "mset (srt xs) = mset xs"
    and sorted: "sorted_by lt (srt xs)"
begin

lemma length_srt: "length (srt xs) = length xs"
  by (metis perm size_mset)

text \<open>If the elements can be arranged strictly increasing, that arrangement is the result.\<close>

lemma increasing_unique:
  assumes "sorted_wrt lt ys" "mset ys = mset xs"
  shows "srt xs = ys"
proof -
  have "ys = xs" if "sorted_wrt lt xs" "sorted_by lt ys" "mset ys = mset xs" for xs ys
    using that
  proof (induction xs arbitrary: ys)
    case (Cons x xs)
    then obtain y ys' where ys: "ys = y # ys'" by (cases ys) auto
    have "y = x"
    proof (rule ccontr)
      assume ne: "y \<noteq> x"
      have "x \<in> set ys" "y \<in> set (x # xs)"
        using Cons.prems(3) by (metis list.set_intros(1) set_mset_mset) (metis Cons.prems(3) list.set_intros(1) set_mset_mset ys)
      then have "x \<in> set ys'" "y \<in> set xs" using ne by (auto simp: ys)
      then show False using Cons.prems(1,2) by (auto simp: ys sorted_by_def)
    qed
    moreover have "ys' = xs"
      using Cons.IH [of ys'] Cons.prems calculation by (simp add: ys sorted_by_def)
    ultimately show ?case by (simp add: ys)
  qed simp
  from this [OF assms(1) sorted] show ?thesis by (simp add: perm assms(2))
qed

end

abbreviation by_sequence :: "'v AuditRecord \<Rightarrow> 'v AuditRecord \<Rightarrow> bool" where
  "by_sequence \<equiv> by_asc ar_Sequence"

interpretation by_seq: strict_weak_order by_sequence
  by (rule swo_by_asc)

interpretation seq_sort: slice_sort by_sequence "stable_sort by_sequence"
  by unfold_locales (simp_all add: by_seq.sorted_stable_sort)

lemma verify_loop_counts:
  "cv_TenantID v = cv_TenantID w \<Longrightarrow> cv_Valid v = cv_Valid w \<Longrightarrow> cv_FirstBreakAt v = cv_FirstBreakAt w \<Longrightarrow>
   cv_VerifiedAt v = cv_VerifiedAt w \<Longrightarrow> cv_RecordsChecked v = cv_RecordsChecked w \<Longrightarrow>
   (\<And>r. r \<in> set rs \<Longrightarrow> c r) \<Longrightarrow> verify_loop h c prev rs v = verify_loop h (\<lambda>_. True) prev rs w"
  by (induction rs arbitrary: prev v w) (auto simp: Let_def)

lemma wrap64_small: "0 \<le> n \<Longrightarrow> n < 2 ^ 63 \<Longrightarrow> wrap64 n = n"
  by (rule wrap64_id) (simp add: int64_def)

lemma log_increasing:
  assumes "log_inv h st t" "length (as_Records st t) < 2 ^ 63"
  shows "sorted_wrt by_sequence (as_Records st t)"
proof -
  define rs where "rs = as_Records st t"
  have "map ar_Sequence rs = map (\<lambda>n. wrap64 (int n)) [1..<Suc (length rs)]"
    using assms(1) unfolding log_inv_def rs_def by blast
  also have "\<dots> = map int [1..<Suc (length rs)]"
  proof (rule map_cong [OF refl])
    fix n assume "n \<in> set [1..<Suc (length rs)]"
    then have "n \<le> length rs" by auto
    then have "n < 2 ^ 63" using assms(2) unfolding rs_def by (rule le_less_trans)
    then show "wrap64 (int n) = int n" by (intro wrap64_small) simp_all
  qed
  finally have "sorted_wrt (<) (map ar_Sequence rs)" by (simp add: sorted_wrt_map del: upt_Suc)
  then show ?thesis by (simp add: sorted_wrt_map by_asc_def [abs_def] rs_def)
qed


section \<open>What verification does not see\<close>

lemma hash_chain_map:
  assumes "\<And>r. payload_of (f r) = payload_of r \<and> ar_Hash (f r) = ar_Hash r"
  shows "hash_chain h prev (map f rs) = hash_chain h prev rs"
proof -
  have "ar_PrevHash (f r) = ar_PrevHash r" for r
    using assms [of r] by (metis payload_of_def payload.simps(13))
  then show ?thesis using assms by (induction rs arbitrary: prev) (simp_all add: ComputeHash_def)
qed

text \<open>Two changes to the stored log that verification accepts: cutting off any number of the newest
  records (the recorded head is never compared), and rewriting any field outside the hashed payload, such as
  the actor's roles, the AWS account or the linked recommendation.\<close>

theorem Verify_blind_spots:
  assumes "logged h st" and "\<And>r. payload_of (f r) = payload_of r \<and> ar_Hash (f r) = ar_Hash r"
    and "Verify h ctx wall (st\<lparr>as_Records := (as_Records st)(t := map f (take n (as_Records st t)))\<rparr>) t a b = Inr v"
  shows "cv_Valid v \<and> cv_FirstBreakAt v = None"
proof -
  have "hash_chain h '''' (take n (as_Records st t) @ drop n (as_Records st t))"
    using logged_inv [OF assms(1), of t] by (simp add: log_inv_def)
  then have "hash_chain h '''' (map f (take n (as_Records st t)))"
    by (simp only: hash_chain_append hash_chain_map [OF assms(2)])
  then show ?thesis using Verify_Inr_iff [OF assms(3)] by simp
qed

text \<open>A record whose \<open>Before\<close> is an empty map that is not nil breaks the tenant's chain although nobody
  tampered: it is hashed with the empty map and stored without it. From then on verification fails,
  unless the hash function collides on two such payloads.\<close>

theorem Append_empty_map_breaks:
  assumes "Append h ctx wall newID rec st = (Inr rec', st')" and "ar_Before rec = Some []"
    and "Verify h ctx' wall' st' (ar_TenantID rec) a b = Inr v"
  shows "cv_Valid v = False \<or> (\<exists>p q. py_Before p = Some [] \<and> py_Before q = None \<and> h p = h q)"
proof (cases "cv_Valid v")
  case valid: True
  define x where "x = Seal h wall newID (ah_Hash (as_Head st (ar_TenantID rec)))
    (wrap64 (ah_Sequence (as_Head st (ar_TenantID rec)) + 1)) rec"
  have "as_Records st' (ar_TenantID rec) = as_Records st (ar_TenantID rec) @ [deepCopy x]"
    using assms(1) by (auto simp: Append_def Let_def x_def split: option.splits)
  then have "ComputeHash h (deepCopy x) = ar_Hash x"
    using Verify_Inr_iff [OF assms(3)] valid by (simp add: hash_chain_snoc)
  also have "\<dots> = ComputeHash h x" by (simp add: x_def)
  finally have "h (payload_of (deepCopy x)) = h (payload_of x)" by (simp add: ComputeHash_def)
  moreover have "py_Before (payload_of (deepCopy x)) = None" "py_Before (payload_of x) = Some []"
    using assms(2) by (simp_all add: payload_of_def x_def deepCopy_def omitempty_def marshal_map_def)
  ultimately show ?thesis by metis
qed simp

section \<open>Instances\<close>

definition sample_entry :: "string \<Rightarrow> bool gomap \<Rightarrow> bool AuditRecord" where
  "sample_entry msg before = \<lparr>ar_ID = '''', ar_TenantID = ''acme'', ar_Sequence = 0, ar_Action = ActionExecutionStarted,
     ar_Outcome = OutcomeSuccess, ar_Actor = ''ops'', ar_ActorRoles = [RoleSRE], ar_ActorMachine = False,
     ar_IPAddress = '''', ar_UserAgent = '''', ar_RequestID = '''', ar_TraceID = '''', ar_SubjectKind = ''plan'',
     ar_SubjectID = ''pln_1'', ar_SubjectName = '''', ar_Before = before, ar_After = None, ar_AWSOperation = '''',
     ar_AWSAccountID = '''', ar_AWSRegion = '''', ar_AWSRequestID = '''', ar_RecommendationID = '''', ar_PlanID = '''',
     ar_ApprovalID = '''', ar_PolicyDecisionID = '''', ar_SpecVersionID = '''', ar_Message = msg, ar_Metadata = None,
     ar_Error = '''', ar_At = 7, ar_PrevHash = '''', ar_Hash = ''''\<rparr>"

definition sample_hash :: "bool payload \<Rightarrow> string" where
  "sample_hash p = ''#'' @ py_Message p @ py_PrevHash p"

abbreviation sample_caller :: "Principal option" where
  "sample_caller \<equiv> Some (SystemPrincipal ''acme'' ''worker'' 0)"

definition sample_log :: "bool audit_store" where
  "sample_log = snd (Append sample_hash sample_caller 9 ''aud_1'' (sample_entry ''start'' None) empty_store)"

lemma guard_sample [simp]: "GuardTenant sample_caller ''acme'' = None"
  by (simp add: GuardTenant_def HasRole_def SystemPrincipal_def TenantFrom_def)

lemma logged_sample: "logged sample_hash sample_log"
  unfolding sample_log_def by (intro logged.intros) (simp add: sample_entry_def keeps_maps_def)

lemma records_sample: "as_Records sample_log ''acme'' =
    [(sample_entry ''start'' None)\<lparr>ar_ID := ''aud_1'', ar_Sequence := 1, ar_Hash := ''#start''\<rparr>]"
  "as_Head sample_log ''acme'' = \<lparr>ah_Hash = ''#start'', ah_Sequence = 1\<rparr>"
  by (simp_all add: sample_log_def Append_def sample_entry_def empty_store_def Seal_def ComputeHash_def
      sample_hash_def payload_of_def marshal_map_def deepCopy_def omitempty_def wrap64_def Let_def)




theorem Verify_blind_spots_witness:
  "cv_Valid (case Verify sample_hash sample_caller 1 (sample_log\<lparr>as_Records := (as_Records sample_log)(''acme'' :=
      map (\<lambda>r. r\<lparr>ar_ActorRoles := [RoleViewer]\<rparr>) (take 1 (as_Records sample_log ''acme'')))\<rparr>) ''acme'' 0 0 of Inr v \<Rightarrow> v)"
proof -
  have "\<exists>v. Verify sample_hash sample_caller 1 (sample_log\<lparr>as_Records := (as_Records sample_log)(''acme'' :=
      map (\<lambda>r. r\<lparr>ar_ActorRoles := [RoleViewer]\<rparr>) (take 1 (as_Records sample_log ''acme'')))\<rparr>) ''acme'' 0 0 = Inr v"
    by (simp add: Verify_def)
  then obtain v where v: "Verify sample_hash sample_caller 1 (sample_log\<lparr>as_Records := (as_Records sample_log)(''acme'' :=
      map (\<lambda>r. r\<lparr>ar_ActorRoles := [RoleViewer]\<rparr>) (take 1 (as_Records sample_log ''acme'')))\<rparr>) ''acme'' 0 0 = Inr v" ..
  have "cv_Valid v"
    using Verify_blind_spots [OF logged_sample _ v] by (simp add: payload_of_def)
  then show ?thesis by (simp only: v sum.case)
qed

theorem Append_empty_map_breaks_witness:
  "\<not> cv_Valid (projr (Verify (\<lambda>p. if py_Before p = Some [] then ''empty'' else ''nil'') sample_caller 1
    (snd (Append (\<lambda>p. if py_Before p = Some [] then ''empty'' else ''nil'') sample_caller 9 ''aud_1''
      (sample_entry ''x'' (Some [])) empty_store)) ''acme'' 0 0))"
proof -
  define h :: "bool payload \<Rightarrow> string" where "h = (\<lambda>p. if py_Before p = Some [] then ''empty'' else ''nil'')"
  define rec where "rec = sample_entry ''x'' (Some [])"
  define a where "a = Append h sample_caller 9 ''aud_1'' rec empty_store"
  have rec: "ar_TenantID rec = ''acme''" "ar_Before rec = Some []" by (simp_all add: rec_def sample_entry_def)
  have "\<exists>r. a = (Inr r, snd a)" by (simp add: a_def Append_def rec Let_def)
  then obtain r where r: "Append h sample_caller 9 ''aud_1'' rec empty_store = (Inr r, snd a)" by (auto simp: a_def)
  have v: "Verify h sample_caller 1 (snd a) (ar_TenantID rec) 0 0 = Inr (projr (Verify h sample_caller 1 (snd a) ''acme'' 0 0))"
    by (simp add: Verify_def rec)
  have "\<not> cv_Valid (projr (Verify h sample_caller 1 (snd a) ''acme'' 0 0))"
    using Append_empty_map_breaks [OF r rec(2) v] by (auto simp: h_def)
  then show ?thesis unfolding a_def rec_def h_def .
qed

end
