(* ===== verification/Paging.thy ===== *)
theory Paging imports GoSort begin

text \<open>
  Keyset pagination: \<open>ListOptions.Normalize\<close> (\<open>internal/ports/repositories.go\<close>), \<open>paginate\<close>
  (\<open>internal/adapters/memstore/clone.go\<close>), \<open>sortByCreatedThenID\<close> (\<open>tenancy.go\<close>) and the loop that follows the
  cursors. A cursor is a base64 coded JSON object: the coder and the decoder are parameters, and
  \<open>cursor_codec\<close> says that they are inverse. The loop may run forever on an arbitrary server, so it is an
  option-valued partial function; on \<open>paginate\<close> it is proved to return everything.
\<close>

record ListOptions =
  lo_Limit :: int
  lo_Cursor :: string

definition Normalize :: "ListOptions \<Rightarrow> ListOptions" where
  "Normalize opts = (let opts = (if lo_Limit opts \<le> 0 then opts\<lparr>lo_Limit := 50\<rparr> else opts)
     in if lo_Limit opts > 500 then opts\<lparr>lo_Limit := 500\<rparr> else opts)"

record 'a Page =
  pg_Items :: "'a list"
  pg_NextCursor :: string
  pg_Total :: nat

definition decodeCursor :: "(string \<Rightarrow> (string \<times> string) option) \<Rightarrow> string \<Rightarrow> (string \<times> string) option" where
  "decodeCursor dec s = (if s = '''' then None else dec s)"

text \<open>The position after the first item with the cursor's key; past the end when there is none.\<close>

fun resume_after :: "('a \<Rightarrow> string \<times> string) \<Rightarrow> string \<times> string \<Rightarrow> 'a list \<Rightarrow> nat" where
  "resume_after keyOf c [] = 0"
| "resume_after keyOf c (x # xs) = (if keyOf x = c then 1 else Suc (resume_after keyOf c xs))"

definition paginate :: "(string \<times> string \<Rightarrow> string) \<Rightarrow> (string \<Rightarrow> (string \<times> string) option) \<Rightarrow> 'a list \<Rightarrow> ListOptions \<Rightarrow>
    ('a \<Rightarrow> string \<times> string) \<Rightarrow> 'a Page" where
  "paginate enc dec items opts keyOf = (let
     opts = Normalize opts;
     start = (case decodeCursor dec (lo_Cursor opts) of Some c \<Rightarrow> resume_after keyOf c items | None \<Rightarrow> 0);
     end' = min (start + nat (lo_Limit opts)) (length items);
     start = min start (length items);
     page = (if start < end' then take (end' - start) (drop start items) else [])
   in \<lparr>pg_Items = page,
       pg_NextCursor = (if end' < length items \<and> page \<noteq> [] then enc (keyOf (last page)) else ''''),
       pg_Total = length items\<rparr>)"

definition created_then_id :: "('a \<Rightarrow> string \<times> string) \<Rightarrow> 'a \<Rightarrow> 'a \<Rightarrow> bool" where
  "created_then_id keyOf a b = (let (ak, aid) = keyOf a; (bk, bid) = keyOf b in
     if ak \<noteq> bk then ak > bk else aid < bid)"

definition sortByCreatedThenID :: "('a \<Rightarrow> string \<times> string) \<Rightarrow> 'a list \<Rightarrow> 'a list" where
  "sortByCreatedThenID keyOf items = stable_sort (created_then_id keyOf) items"

text \<open>The loop of a client that reads every page.\<close>

partial_function (option) all_pages :: "(string \<Rightarrow> 'e + 'a Page) \<Rightarrow> string \<Rightarrow> 'a list \<Rightarrow> ('e + 'a list) option" where
  "all_pages fetch cursor acc = (case fetch cursor of
     Inl e \<Rightarrow> Some (Inl e)
   | Inr page \<Rightarrow>
     if pg_NextCursor page = '''' \<or> pg_NextCursor page = cursor then Some (Inr (acc @ pg_Items page))
     else all_pages fetch (pg_NextCursor page) (acc @ pg_Items page))"

definition cursor_codec :: "(string \<times> string \<Rightarrow> string) \<Rightarrow> (string \<Rightarrow> (string \<times> string) option) \<Rightarrow> bool" where
  "cursor_codec enc dec \<longleftrightarrow> (\<forall>c. enc c \<noteq> '''' \<and> dec (enc c) = Some c)"

section \<open>Reading every page reads every item once\<close>

lemma codec: "cursor_codec enc dec \<Longrightarrow> enc c \<noteq> ''''" "cursor_codec enc dec \<Longrightarrow> dec (enc c) = Some c"
  by (simp_all add: cursor_codec_def del: split_paired_All)

lemma Normalize_Limit: "1 \<le> lo_Limit (Normalize opts)" "lo_Limit (Normalize opts) \<le> 500"
  by (simp_all add: Normalize_def Let_def)

lemma Normalize_Cursor [simp]: "lo_Cursor (Normalize opts) = lo_Cursor opts"
  by (simp add: Normalize_def Let_def)

lemma Normalize_only_limit: "lo_Limit (Normalize \<lparr>lo_Limit = n, lo_Cursor = c\<rparr>) = lo_Limit (Normalize \<lparr>lo_Limit = n, lo_Cursor = ''''\<rparr>)"
  by (simp add: Normalize_def Let_def)

lemma resume_after_nth:
  "distinct (map keyOf items) \<Longrightarrow> k < length items \<Longrightarrow> resume_after keyOf (keyOf (items ! k)) items = Suc k"
proof (induction items arbitrary: k)
  case (Cons x xs)
  then show ?case by (cases k) (auto dest: nth_mem)
qed simp

lemma swo_created_then_id: "strict_weak_order (created_then_id keyOf)"
proof -
  have "created_then_id keyOf = then_by (by_desc (fst \<circ> keyOf)) (by_asc (snd \<circ> keyOf))"
    by (intro ext) (auto simp: created_then_id_def then_by_def by_desc_def by_asc_def split: prod.splits)
  then show ?thesis by (simp add: swo_then_by swo_by_desc swo_by_asc)
qed

interpretation newest_first: strict_weak_order "created_then_id keyOf" for keyOf
  by (rule swo_created_then_id)

text \<open>One page: the items from \<open>k\<close> on, and the cursor that leads to the rest.\<close>

definition cursor_at :: "(string \<times> string \<Rightarrow> string) \<Rightarrow> ('a \<Rightarrow> string \<times> string) \<Rightarrow> 'a list \<Rightarrow> nat \<Rightarrow> string" where
  "cursor_at enc keyOf items k = (if k = 0 then '''' else enc (keyOf (items ! (k - 1))))"

lemma paginate_at:
  assumes "cursor_codec enc dec" "distinct (map keyOf items)" "k < length items \<or> k = 0"
    "lo_Cursor opts = cursor_at enc keyOf items k"
  defines "n \<equiv> min (k + nat (lo_Limit (Normalize opts))) (length items)"
  shows "paginate enc dec items opts keyOf = \<lparr>pg_Items = take (n - k) (drop k items),
      pg_NextCursor = (if n < length items then cursor_at enc keyOf items n else ''''), pg_Total = length items\<rparr>"
proof -
  have start: "(case decodeCursor dec (lo_Cursor opts) of Some c \<Rightarrow> resume_after keyOf c items | None \<Rightarrow> 0) = k"
  proof (cases "k = 0")
    case False
    then have "k - 1 < length items" "k < length items" using assms(3) by simp_all
    then show ?thesis using False assms(2,4)
      by (simp add: decodeCursor_def cursor_at_def codec [OF assms(1)] resume_after_nth)
  qed (simp add: assms(4) cursor_at_def decodeCursor_def)
  have k: "k \<le> length items" "min k (length items) = k" using assms(3) by auto
  show ?thesis
  proof (cases "items = []")
    case True
    then show ?thesis by (simp add: paginate_def start n_def Let_def)
  next
    case False
    then have "k < length items" using assms(3) by auto
    then have kn: "k < n" "n \<le> length items"
      using Normalize_Limit(1) [of opts] by (simp_all add: n_def)
    define page where "page = take (n - k) (drop k items)"
    have "page \<noteq> []" using kn \<open>k < length items\<close> by (simp add: page_def)
    moreover have "last page = items ! (n - 1)"
      using kn by (simp add: page_def last_conv_nth)
    moreover have "n = length items \<Longrightarrow> drop k items = page" using kn by (simp add: page_def)
    moreover have "0 < lo_Limit (Normalize opts)" using Normalize_Limit(1) [of opts] by simp
    ultimately show ?thesis using kn
      by (simp add: paginate_def start k(2) n_def [symmetric] page_def [symmetric] Let_def cursor_at_def)
  qed
qed

lemma cursor_at_inj:
  assumes "cursor_codec enc dec" "distinct (map keyOf items)" "k < n" "n < length items"
  shows "cursor_at enc keyOf items n \<noteq> cursor_at enc keyOf items k" "cursor_at enc keyOf items n \<noteq> ''''"
proof -
  show "cursor_at enc keyOf items n \<noteq> ''''" using assms(3) by (simp add: cursor_at_def codec [OF assms(1)])
  show "cursor_at enc keyOf items n \<noteq> cursor_at enc keyOf items k"
  proof (cases "k = 0")
    case False
    then have "map keyOf items ! (n - 1) \<noteq> map keyOf items ! (k - 1)"
      using assms(2-4) by (subst nth_eq_iff_index_eq) auto
    then have "keyOf (items ! (n - 1)) \<noteq> keyOf (items ! (k - 1))" using assms(3,4) by simp
    then have "dec (enc (keyOf (items ! (n - 1)))) \<noteq> dec (enc (keyOf (items ! (k - 1))))"
      by (simp add: codec [OF assms(1)])
    then show ?thesis using False assms(3) by (auto simp: cursor_at_def)
  qed (use assms(3) in \<open>simp add: cursor_at_def codec [OF assms(1)]\<close>)
qed

lemma all_pages_from:
  assumes "cursor_codec enc dec" "distinct (map keyOf items)" "k < length items \<or> k = 0"
  shows "all_pages (\<lambda>c. Inr (paginate enc dec items \<lparr>lo_Limit = lim, lo_Cursor = c\<rparr> keyOf))
    (cursor_at enc keyOf items k) acc = Some (Inr (acc @ drop k items))"
  using assms(3)
proof (induction "length items - k" arbitrary: k acc rule: less_induct)
  case less
  define n where "n = min (k + nat (lo_Limit (Normalize \<lparr>lo_Limit = lim, lo_Cursor = ''''\<rparr>))) (length items)"
  have page: "paginate enc dec items \<lparr>lo_Limit = lim, lo_Cursor = cursor_at enc keyOf items k\<rparr> keyOf =
      \<lparr>pg_Items = take (n - k) (drop k items),
       pg_NextCursor = (if n < length items then cursor_at enc keyOf items n else ''''), pg_Total = length items\<rparr>"
    using paginate_at [OF assms(1,2) less.prems, of "\<lparr>lo_Limit = lim, lo_Cursor = cursor_at enc keyOf items k\<rparr>"]
    by (simp add: n_def Normalize_only_limit [of lim "cursor_at enc keyOf items k"])
  have step: "take (n - k) (drop k items) @ drop n items = drop k items"
    by (metis append_take_drop_id drop_drop le_add_diff_inverse2 min.cobounded1 n_def add_leE le_add1 min_def drop_all nat_le_linear)
  show ?case
  proof (cases "n < length items")
    case True
    then have "k < n" using Normalize_Limit(1) [of "\<lparr>lo_Limit = lim, lo_Cursor = ''''\<rparr>"] by (simp add: n_def)
    moreover have "length items - n < length items - k" using calculation True by simp
    ultimately show ?thesis
      using less.hyps [of n "acc @ take (n - k) (drop k items)"] True step cursor_at_inj [OF assms(1,2) \<open>k < n\<close> True]
      by (subst all_pages.simps) (simp add: page)
  next
    case False
    then have "take (n - k) (drop k items) = drop k items" by (simp add: n_def)
    with False show ?thesis by (subst all_pages.simps) (simp add: page)
  qed
qed

lemma resume_after_split: "keyOf x \<notin> keyOf ` set xs \<Longrightarrow> resume_after keyOf (keyOf x) (xs @ x # ys) = Suc (length xs)"
  by (induction xs) auto

text \<open>The page that follows a cursor depends only on what comes after the cursor's item: rows inserted,
  updated or deleted before it while a client is paging neither repeat nor skip a row.\<close>

theorem paginate_stable:
  assumes "cursor_codec enc dec" and "keyOf x \<notin> keyOf ` set xs"
  shows "pg_Items (paginate enc dec (xs @ x # ys) \<lparr>lo_Limit = lim, lo_Cursor = enc (keyOf x)\<rparr> keyOf) =
    take (nat (lo_Limit (Normalize \<lparr>lo_Limit = lim, lo_Cursor = ''''\<rparr>))) ys"
proof -
  define n where "n = nat (lo_Limit (Normalize \<lparr>lo_Limit = lim, lo_Cursor = ''''\<rparr>))"
  have "take (min (length xs + n) (length xs + length ys) - length xs) ys = take n ys"
    by (simp add: min_def)
  moreover have "ys = []" if "\<not> Suc (length xs) < min (Suc (length xs) + n) (length (xs @ x # ys))"
    using that Normalize_Limit(1) [of "\<lparr>lo_Limit = lim, lo_Cursor = ''''\<rparr>"] by (auto simp: n_def)
  ultimately show ?thesis
    by (simp add: paginate_def decodeCursor_def codec [OF assms(1)] resume_after_split [OF assms(2)]
        Normalize_only_limit [of lim "enc (keyOf x)"] n_def [symmetric] Let_def)
qed

text \<open>C32: a client that follows the cursors from the first page returns after finitely many requests with every
  item exactly once, newest first, for every page size, when no two items share creation time and id.\<close>

theorem all_pages_complete:
  assumes "cursor_codec enc dec" and "distinct (map keyOf items)"
  shows "all_pages (\<lambda>c. Inr (paginate enc dec (sortByCreatedThenID keyOf items) \<lparr>lo_Limit = lim, lo_Cursor = c\<rparr> keyOf)) '''' [] =
      Some (Inr (sortByCreatedThenID keyOf items)) \<and>
    mset (sortByCreatedThenID keyOf items) = mset items \<and> sorted_by (created_then_id keyOf) (sortByCreatedThenID keyOf items)"
proof -
  have "mset (map keyOf (sortByCreatedThenID keyOf items)) = mset (map keyOf items)"
    by (simp add: sortByCreatedThenID_def)
  then have "distinct (map keyOf (sortByCreatedThenID keyOf items))"
    using assms(2) by (metis mset_eq_imp_distinct_iff)
  from all_pages_from [OF assms(1) this, of 0 lim "[]"] show ?thesis
    by (simp add: cursor_at_def sortByCreatedThenID_def newest_first.sorted_stable_sort)
qed

section \<open>Instances\<close>

definition unary_enc :: "string \<times> string \<Rightarrow> string" where
  "unary_enc c = replicate (length (fst c)) (CHR ''1'') @ CHR ''0'' # fst c @ snd c"

definition unary_dec :: "string \<Rightarrow> (string \<times> string) option" where
  "unary_dec s = (let n = length (takeWhile (\<lambda>x. x = CHR ''1'') s); r = drop (Suc n) s in Some (take n r, drop n r))"

lemma unary_codec: "cursor_codec unary_enc unary_dec"
proof -
  have "takeWhile (\<lambda>x. x = CHR ''1'') (replicate n (CHR ''1'') @ CHR ''0'' # r) = replicate n (CHR ''1'')" for n r
    by (induction n) auto
  then show ?thesis by (auto simp: cursor_codec_def unary_enc_def unary_dec_def)
qed

theorem paginate_stable_witness:
  "pg_Items (paginate unary_enc unary_dec [(''c'', ''1''), (''b'', ''2''), (''a'', ''3'')]
     \<lparr>lo_Limit = 1, lo_Cursor = unary_enc (''b'', ''2'')\<rparr> id) = [(''a'', ''3'')]"
  using paginate_stable [OF unary_codec, of id "(''b'', ''2'')" "[(''c'', ''1'')]" "[(''a'', ''3'')]" 1]
  by (simp add: Normalize_def)

theorem all_pages_complete_witness:
  "all_pages (\<lambda>c. Inr (paginate unary_enc unary_dec (sortByCreatedThenID id [(''a'', ''3''), (''b'', ''2'')])
      \<lparr>lo_Limit = 1, lo_Cursor = c\<rparr> id)) '''' [] = Some (Inr [(''b'', ''2''), (''a'', ''3'')] :: unit + _)"
proof -
  have s: "sortByCreatedThenID id [(''a'', ''3''), (''b'', ''2'')] = [(''b'', ''2''), (''a'', ''3'')]"
    by (simp add: sortByCreatedThenID_def created_then_id_def)
  have "all_pages (\<lambda>c. Inr (paginate unary_enc unary_dec (sortByCreatedThenID id [(''a'', ''3''), (''b'', ''2'')])
      \<lparr>lo_Limit = 1, lo_Cursor = c\<rparr> id)) '''' [] =
    (Some (Inr (sortByCreatedThenID id [(''a'', ''3''), (''b'', ''2'')])) :: (unit + _) option)"
    by (rule all_pages_complete [OF unary_codec, THEN conjunct1]) simp
  then show ?thesis by (simp only: s)
qed

end
