(* ===== verification/AuditTrail.thy ===== *)
theory AuditTrail imports AuditLog Paging begin

text \<open>
  Reading the audit log: \<open>Query\<close> of \<open>internal/adapters/memstore/audit.go\<close> and the service of
  \<open>internal/application/auditsvc/service.go\<close>, composed with the pagination of \<open>Paging\<close>. The property at the end
  follows a change's timeline through all three: append, paged query, sort.
\<close>

section \<open>The repository's query\<close>

text \<open>\<open>fmt.Sprintf("%020d", n)\<close>\<close>

definition pad20 :: "int \<Rightarrow> string" where
  "pad20 n = (let s = itoa (nat \<bar>n\<bar>) in
     if n < 0 then CHR ''-'' # replicate (19 - length s) (CHR ''0'') @ s
     else replicate (20 - length s) (CHR ''0'') @ s)"

definition record_key :: "'v AuditRecord \<Rightarrow> string \<times> string" where
  "record_key r = (pad20 (ar_Sequence r), ar_ID r)"

definition Repo_Query :: "(string \<times> string \<Rightarrow> string) \<Rightarrow> (string \<Rightarrow> (string \<times> string) option) \<Rightarrow> Principal option \<Rightarrow>
    'v audit_store \<Rightarrow> Query \<Rightarrow> err + 'v AuditRecord Page" where
  "Repo_Query enc dec ctx st q = (case GuardTenant ctx (qu_TenantID q) of
     Some e \<Rightarrow> Inl e
   | None \<Rightarrow> let
       items = map deepCopy (filter (\<lambda>r. matchesAuditQuery r q) (as_Records st (qu_TenantID q)))
     in Inr (paginate enc dec (sortByCreatedThenID record_key items)
         \<lparr>lo_Limit = qu_Limit q, lo_Cursor = qu_Cursor q\<rparr> record_key))"

section \<open>The service\<close>

record 'v AuditEntry =
  en_ID :: ID
  en_Sequence :: int
  en_Action :: AuditAction
  en_Outcome :: AuditOutcome
  en_Actor :: string
  en_Machine :: bool
  en_Subject :: string
  en_SubjectID :: ID
  en_Message :: string
  en_Before :: "'v gomap"
  en_After :: "'v gomap"
  en_Metadata :: "'v gomap"
  en_At :: gotime
  en_Hash :: string

definition toEntry :: "'v AuditRecord \<Rightarrow> 'v AuditEntry" where
  "toEntry r = \<lparr>en_ID = ar_ID r, en_Sequence = ar_Sequence r, en_Action = ar_Action r, en_Outcome = ar_Outcome r,
     en_Actor = ar_Actor r, en_Machine = ar_ActorMachine r, en_Subject = ar_SubjectKind r,
     en_SubjectID = ar_SubjectID r, en_Message = ar_Message r, en_Before = ar_Before r, en_After = ar_After r,
     en_Metadata = ar_Metadata r, en_At = ar_At r, en_Hash = ar_Hash r\<rparr>"

definition entry_record :: "TenantID \<Rightarrow> gotime \<Rightarrow> 'v AuditEntry \<Rightarrow> 'v AuditRecord" where
  "entry_record tenant t e = \<lparr>ar_ID = en_ID e, ar_TenantID = tenant, ar_Sequence = 0, ar_Action = en_Action e,
     ar_Outcome = en_Outcome e, ar_Actor = en_Actor e, ar_ActorRoles = [], ar_ActorMachine = en_Machine e,
     ar_IPAddress = '''', ar_UserAgent = '''', ar_RequestID = '''', ar_TraceID = '''', ar_SubjectKind = en_Subject e,
     ar_SubjectID = en_SubjectID e, ar_SubjectName = '''', ar_Before = en_Before e, ar_After = en_After e,
     ar_AWSOperation = '''', ar_AWSAccountID = '''', ar_AWSRegion = '''', ar_AWSRequestID = '''',
     ar_RecommendationID = '''', ar_PlanID = '''', ar_ApprovalID = '''', ar_PolicyDecisionID = '''', ar_SpecVersionID = '''',
     ar_Message = en_Message e, ar_Metadata = en_Metadata e, ar_Error = '''', ar_At = t, ar_PrevHash = '''', ar_Hash = ''''\<rparr>"

text \<open>\<open>clock\<close> is the service's clock, \<open>wall\<close> the wall clock inside \<open>Seal\<close>.\<close>

definition Service_Record :: "('v payload \<Rightarrow> string) \<Rightarrow> Principal option \<Rightarrow> gotime \<Rightarrow> gotime \<Rightarrow> ID \<Rightarrow> 'v AuditEntry \<Rightarrow>
    'v audit_store \<Rightarrow> err option \<times> 'v audit_store" where
  "Service_Record h ctx clock wall newID e st = (case TenantFrom ctx of
     None \<Rightarrow> (Some (NewError ErrUnauthenticated ''no_principal''), st)
   | Some tenant \<Rightarrow>
     let t = (if en_At e = 0 then clock else en_At e) in
     (case Append h ctx wall newID (entry_record tenant t e) st of
        (Inl er, st') \<Rightarrow> (Some er, st')
      | (Inr _, st') \<Rightarrow> (None, st')))"

definition tenant_query :: "TenantID \<Rightarrow> int \<Rightarrow> string \<Rightarrow> Query" where
  "tenant_query tenant lim c = \<lparr>qu_TenantID = tenant, qu_Actions = [], qu_Actors = [], qu_SubjectID = '''', qu_Outcomes = [],
     qu_From = 0, qu_To = 0, qu_OnlyMachine = None, qu_Limit = lim, qu_Cursor = c\<rparr>"

definition allRecords :: "(string \<times> string \<Rightarrow> string) \<Rightarrow> (string \<Rightarrow> (string \<times> string) option) \<Rightarrow> Principal option \<Rightarrow>
    'v audit_store \<Rightarrow> TenantID \<Rightarrow> (err + 'v AuditRecord list) option" where
  "allRecords enc dec ctx st tenant =
     all_pages (\<lambda>c. Repo_Query enc dec ctx st (tenant_query tenant 500 c)) '''' []"

definition in_story :: "ID \<Rightarrow> 'v AuditRecord \<Rightarrow> bool" where
  "in_story recID r \<longleftrightarrow> ar_RecommendationID r = recID \<or> (ar_SubjectKind r = ''recommendation'' \<and> ar_SubjectID r = recID)"

definition Timeline :: "(string \<times> string \<Rightarrow> string) \<Rightarrow> (string \<Rightarrow> (string \<times> string) option) \<Rightarrow>
    ('v AuditRecord list \<Rightarrow> 'v AuditRecord list) \<Rightarrow> Principal option \<Rightarrow> 'v audit_store \<Rightarrow> TenantID \<Rightarrow> ID \<Rightarrow>
    (err + 'v AuditEntry list) option" where
  "Timeline enc dec srt ctx st tenant recID =
     map_option (map_sum id (\<lambda>records. map toEntry (srt (filter (in_story recID) records))))
       (allRecords enc dec ctx st tenant)"

section \<open>Sequence numbers as sort keys\<close>

definition digits_value :: "string \<Rightarrow> nat" where
  "digits_value s = foldl (\<lambda>a c. 10 * a + (of_char c - 48)) 0 s"

lemma digits_value_itoa: "digits_value (itoa n) = n"
proof (induction n rule: itoa.induct)
  case (1 n)
  then show ?case by (subst itoa.simps) (simp add: digits_value_def)
qed

lemma digits_value_zeros: "digits_value (replicate k (CHR ''0'') @ s) = digits_value s"
  by (induction k) (simp_all add: digits_value_def)

lemma pad20_inject: "0 \<le> m \<Longrightarrow> 0 \<le> n \<Longrightarrow> pad20 m = pad20 n \<Longrightarrow> m = n"
  by (drule arg_cong [of _ _ digits_value]) (simp add: pad20_def Let_def digits_value_zeros digits_value_itoa)

section \<open>The timeline is the log in causal order\<close>

lemma deepCopy_idem [simp]: "deepCopy (deepCopy r) = deepCopy r"
  by (simp add: deepCopy_def omitempty_def split: option.splits list.splits)

lemma logged_copied: "logged h st \<Longrightarrow> r \<in> set (as_Records st t) \<Longrightarrow> deepCopy r = r"
proof (induction arbitrary: r rule: logged.induct)
  case (append st rec ctx wall newID)
  show ?case
  proof (cases "GuardTenant ctx (ar_TenantID rec) = None \<and> t = ar_TenantID rec")
    case True
    then have "r \<in> set (as_Records st t) \<or> (\<exists>x. r = deepCopy x)"
      using append.prems by (auto simp: Append_def Let_def)
    then show ?thesis using append.IH by auto
  next
    case False
    then show ?thesis using append Append_other [OF False, of h wall newID st] by simp
  qed
qed (simp add: empty_store_def)

lemma log_sequence_range:
  assumes "log_inv h st t" "length (as_Records st t) < 2 ^ 63" "r \<in> set (as_Records st t)"
  shows "0 \<le> ar_Sequence r"
proof -
  have "map ar_Sequence (as_Records st t) = map (\<lambda>n. wrap64 (int n)) [1..<Suc (length (as_Records st t))]"
    using assms(1) unfolding log_inv_def by blast
  then have "ar_Sequence r \<in> set (map (\<lambda>n. wrap64 (int n)) [1..<Suc (length (as_Records st t))])"
    using assms(3) by (metis image_eqI set_map)
  then obtain n where n: "n \<in> set [1..<Suc (length (as_Records st t))]" "ar_Sequence r = wrap64 (int n)"
    by (auto simp del: upt_Suc)
  then have "n \<le> length (as_Records st t)" by auto
  then have "n < 2 ^ 63" using assms(2) by (rule le_less_trans)
  then have "wrap64 (int n) = int n" by (intro wrap64_small) simp_all
  with n(2) show ?thesis by simp
qed

lemma log_keys_distinct:
  assumes "log_inv h st t" "length (as_Records st t) < 2 ^ 63"
  shows "distinct (map record_key (as_Records st t))"
proof -
  have "sorted_wrt (\<lambda>x y. ar_Sequence x < ar_Sequence y) (as_Records st t)"
    using log_increasing [OF assms] by (simp add: by_asc_def [abs_def])
  then have d: "distinct (map ar_Sequence (as_Records st t))"
    by (simp add: sorted_wrt_map [of _ ar_Sequence, symmetric] strict_sorted_iff)
  have "inj_on record_key (set (as_Records st t))"
  proof (rule inj_onI)
    fix x y assume "x \<in> set (as_Records st t)" "y \<in> set (as_Records st t)" "record_key x = record_key y"
    then have "ar_Sequence x = ar_Sequence y" "x \<in> set (as_Records st t)" "y \<in> set (as_Records st t)"
      using log_sequence_range [OF assms] by (auto simp: record_key_def intro: pad20_inject)
    with d show "x = y" by (auto simp: distinct_map dest: inj_onD)
  qed
  with d show ?thesis by (simp add: distinct_map)
qed

lemma matches_tenant_query [simp]: "matchesAuditQuery r (tenant_query tenant lim c)"
  by (simp add: matchesAuditQuery_def tenant_query_def)

lemma tenant_query_fields [simp]: "qu_TenantID (tenant_query tenant lim c) = tenant"
  "qu_Limit (tenant_query tenant lim c) = lim" "qu_Cursor (tenant_query tenant lim c) = c"
  by (simp_all add: tenant_query_def)

text \<open>C33: the timeline of a recommendation: on a log written through \<open>Append\<close>, the service returns after finitely
  many page requests, and what it returns are exactly the tenant's records that carry the
  recommendation, as subject or as link, each once, in the order they were written.\<close>

theorem Timeline_causal:
  assumes "logged h st" and "length (as_Records st t) < 2 ^ 63" and "GuardTenant ctx t = None"
    and "cursor_codec enc dec" and "slice_sort by_sequence srt"
  shows "Timeline enc dec srt ctx st t recID = Some (Inr (map toEntry (filter (in_story recID) (as_Records st t))))"
proof -
  define rs where "rs = as_Records st t"
  have inv: "log_inv h st t" by (rule logged_inv [OF assms(1)])
  have copied: "map deepCopy rs = rs"
    using logged_copied [OF assms(1)] by (simp add: rs_def map_idI)
  have sorted: "mset (sortByCreatedThenID record_key rs) = mset rs" by (simp add: sortByCreatedThenID_def)
  have "mset (map record_key (sortByCreatedThenID record_key rs)) = mset (map record_key rs)" using sorted by simp
  then have "distinct (map record_key (sortByCreatedThenID record_key rs))"
    using log_keys_distinct [OF inv assms(2)] unfolding rs_def by (metis mset_eq_imp_distinct_iff)
  note pages = all_pages_from [OF assms(4) this, of 0 500 "[]"]
  have "Repo_Query enc dec ctx st (tenant_query t 500 c) = Inr (paginate enc dec (sortByCreatedThenID record_key rs)
      \<lparr>lo_Limit = 500, lo_Cursor = c\<rparr> record_key)" for c
    by (simp add: Repo_Query_def assms(3) copied flip: rs_def)
  then have "allRecords enc dec ctx st t = Some (Inr (sortByCreatedThenID record_key rs))"
    using pages by (simp add: allRecords_def cursor_at_def)
  moreover have "srt (filter (in_story recID) (sortByCreatedThenID record_key rs)) = filter (in_story recID) rs"
  proof (rule slice_sort.increasing_unique [OF assms(5)])
    show "sorted_wrt by_sequence (filter (in_story recID) rs)"
      using log_increasing [OF inv assms(2)] by (simp add: rs_def sorted_wrt_filter)
    show "mset (filter (in_story recID) rs) = mset (filter (in_story recID) (sortByCreatedThenID record_key rs))"
      by (simp add: sorted mset_filter)
  qed
  ultimately show ?thesis by (simp add: Timeline_def rs_def)
qed

theorem Timeline_causal_witness:
  "Timeline unary_enc unary_dec (stable_sort by_sequence) sample_caller sample_log ''acme'' '''' =
     Some (Inr (map toEntry (as_Records sample_log ''acme'')))"
  using Timeline_causal [OF logged_sample _ guard_sample unary_codec seq_sort.slice_sort_axioms]
  by (simp add: records_sample in_story_def sample_entry_def)

end
