(* ===== verification/Breaker.thy ===== *)
theory Breaker imports Assessment "HOL-Library.Sublist" begin

text \<open>
  \<open>internal/infrastructure/resilience/breaker.go\<close>: the circuit breaker as a state machine. \<open>Allow\<close> and
  \<open>report\<close> run under the mutex, so concurrent callers are interleavings of these two operations; every call
  that \<open>Allow\<close> admits reports once, at any later time. The clock is an argument. An operation returns
  the edge that \<open>notify\<close> hands to \<open>OnStateChange\<close> after the lock is released.
\<close>

datatype BreakerState = StateClosed | StateOpen | StateHalfOpen

record BreakerConfig =
  bc_FailureThreshold :: int
  bc_SuccessThreshold :: int
  bc_OpenDuration :: int
  bc_HalfOpenMaxInFlight :: int

definition withDefaults :: "BreakerConfig \<Rightarrow> BreakerConfig" where
  "withDefaults c = (let
     c = (if bc_FailureThreshold c \<le> 0 then c\<lparr>bc_FailureThreshold := 5\<rparr> else c);
     c = (if bc_SuccessThreshold c \<le> 0 then c\<lparr>bc_SuccessThreshold := 2\<rparr> else c);
     c = (if bc_OpenDuration c \<le> 0 then c\<lparr>bc_OpenDuration := 30000000000\<rparr> else c)
   in if bc_HalfOpenMaxInFlight c \<le> 0 then c\<lparr>bc_HalfOpenMaxInFlight := 1\<rparr> else c)"

record Breaker =
  br_cfg :: BreakerConfig
  br_state :: BreakerState
  br_consecutiveFails :: int
  br_consecutiveOK :: int
  br_openedAt :: gotime
  br_halfOpenInFlight :: int

definition NewBreaker :: "BreakerConfig \<Rightarrow> Breaker" where
  "NewBreaker c = \<lparr>br_cfg = withDefaults c, br_state = StateClosed, br_consecutiveFails = 0, br_consecutiveOK = 0,
     br_openedAt = 0, br_halfOpenInFlight = 0\<rparr>"

type_synonym edge = "(BreakerState \<times> BreakerState) option"

definition transition :: "gotime \<Rightarrow> BreakerState \<Rightarrow> Breaker \<Rightarrow> edge \<times> Breaker" where
  "transition now to b = (let from' = br_state b in
     if from' = to then (None, b)
     else let b = b\<lparr>br_state := to\<rparr> in
       (Some (from', to),
        (case to of
           StateOpen \<Rightarrow> b\<lparr>br_openedAt := now, br_consecutiveOK := 0, br_halfOpenInFlight := 0\<rparr>
         | StateHalfOpen \<Rightarrow> b\<lparr>br_consecutiveOK := 0, br_halfOpenInFlight := 0\<rparr>
         | StateClosed \<Rightarrow> b\<lparr>br_consecutiveFails := 0, br_consecutiveOK := 0\<rparr>)))"

definition admit_probe :: "edge \<Rightarrow> Breaker \<Rightarrow> bool \<times> edge \<times> Breaker" where
  "admit_probe e b = (if br_halfOpenInFlight b \<ge> bc_HalfOpenMaxInFlight (br_cfg b) then (False, e, b)
     else (True, e, b\<lparr>br_halfOpenInFlight := br_halfOpenInFlight b + 1\<rparr>))"

definition Allow :: "gotime \<Rightarrow> Breaker \<Rightarrow> bool \<times> edge \<times> Breaker" where
  "Allow now b = (case br_state b of
     StateOpen \<Rightarrow>
       if time_Sub now (br_openedAt b) < bc_OpenDuration (br_cfg b) then (False, None, b)
       else let (e, b) = transition now StateHalfOpen b in admit_probe e b
   | StateHalfOpen \<Rightarrow> admit_probe None b
   | StateClosed \<Rightarrow> (True, None, b))"

definition breaker_report :: "gotime \<Rightarrow> bool \<Rightarrow> Breaker \<Rightarrow> edge \<times> Breaker" where
  "breaker_report now success b = (case br_state b of
     StateHalfOpen \<Rightarrow>
       let b = b\<lparr>br_halfOpenInFlight := br_halfOpenInFlight b - 1\<rparr> in
       if success then
         let b = b\<lparr>br_consecutiveOK := br_consecutiveOK b + 1\<rparr> in
         if br_consecutiveOK b \<ge> bc_SuccessThreshold (br_cfg b) then transition now StateClosed b else (None, b)
       else transition now StateOpen b
   | StateClosed \<Rightarrow>
       if success then (None, b\<lparr>br_consecutiveFails := 0\<rparr>)
       else
         let b = b\<lparr>br_consecutiveFails := br_consecutiveFails b + 1\<rparr> in
         if br_consecutiveFails b \<ge> bc_FailureThreshold (br_cfg b) then transition now StateOpen b else (None, b)
   | StateOpen \<Rightarrow> (None, b))"

section \<open>When the breaker trips\<close>

lemma withDefaults_pos [simp]: "0 < bc_FailureThreshold (withDefaults c)" "0 < bc_SuccessThreshold (withDefaults c)"
  "0 < bc_OpenDuration (withDefaults c)" "0 < bc_HalfOpenMaxInFlight (withDefaults c)"
  by (simp_all add: withDefaults_def Let_def)

fun reports :: "(gotime \<times> bool) list \<Rightarrow> Breaker \<Rightarrow> Breaker" where
  "reports [] b = b"
| "reports ((now, ok) # rs) b = reports rs (snd (breaker_report now ok b))"

lemma reports_open: "br_state b = StateOpen \<Longrightarrow> br_state (reports rs b) = StateOpen"
  by (induction rs b rule: reports.induct) (simp_all add: breaker_report_def)

definition trips :: "nat \<Rightarrow> nat \<Rightarrow> bool list \<Rightarrow> bool" where
  "trips n k outs \<longleftrightarrow> prefix (replicate k False) outs \<or> sublist (replicate n False) outs"

lemma trips_Nil: "0 < k \<Longrightarrow> 0 < n \<Longrightarrow> \<not> trips n k []"
  by (cases k; cases n) (simp_all add: trips_def)

lemma trips_True: "0 < k \<Longrightarrow> 0 < n \<Longrightarrow> trips n k (True # outs) = trips n n outs"
  by (cases k; cases n) (auto simp: trips_def sublist_Cons_right prefix_imp_sublist)

lemma trips_False: "Suc k \<le> n \<Longrightarrow> trips n (Suc k) (False # outs) = trips n k outs"
proof -
  assume k: "Suc k \<le> n"
  then have "prefix (replicate n False) (False # outs) \<Longrightarrow> prefix (replicate k False) outs"
    by (cases n) (auto simp: le_iff_add replicate_add dest: append_prefixD)
  then show ?thesis by (auto simp: trips_def sublist_Cons_right)
qed

lemma reports_trips:
  assumes "br_state b = StateClosed" "0 \<le> br_consecutiveFails b" "br_consecutiveFails b < bc_FailureThreshold (br_cfg b)"
  shows "br_state (reports rs b) = StateOpen \<longleftrightarrow>
    trips (nat (bc_FailureThreshold (br_cfg b))) (nat (bc_FailureThreshold (br_cfg b) - br_consecutiveFails b)) (map snd rs)"
  using assms
proof (induction rs b rule: reports.induct)
  case (1 b)
  then show ?case by (simp add: trips_Nil)
next
  case (2 now ok rs b)
  define n where "n = bc_FailureThreshold (br_cfg b)"
  define f where "f = br_consecutiveFails b"
  have fn: "0 \<le> f" "f < n" using "2.prems" by (simp_all add: f_def n_def)
  show ?case
  proof (cases ok)
    case True
    then have "breaker_report now ok b = (None, b\<lparr>br_consecutiveFails := 0\<rparr>)"
      using "2.prems"(1) by (simp add: breaker_report_def)
    then show ?thesis using 2 True fn by (simp add: trips_True n_def f_def)
  next
    case False
    define k where "k = nat (n - f - 1)"
    have k: "nat (n - f) = Suc k" "Suc k \<le> nat n" using fn by (simp_all add: k_def)
    have t: "trips (nat n) (nat (n - f)) (False # outs) = trips (nat n) k outs" for outs
      using trips_False [OF k(2)] by (simp only: k(1))
    show ?thesis
    proof (cases "f + 1 \<ge> n")
      case True
      then have "br_state (snd (breaker_report now ok b)) = StateOpen" "k = 0"
        using "2.prems"(1) False by (simp_all add: breaker_report_def transition_def f_def [symmetric] n_def [symmetric] Let_def k_def)
      then show ?thesis using False t by (simp add: reports_open trips_def f_def n_def)
    next
      case less: False
      then have r: "breaker_report now ok b = (None, b\<lparr>br_consecutiveFails := f + 1\<rparr>)"
        using "2.prems"(1) False by (simp add: breaker_report_def f_def [symmetric] n_def [symmetric] Let_def)
      have "nat (n - (f + 1)) = k" by (simp add: k_def diff_diff_eq)
      then show ?thesis using 2 False fn r less t by (simp add: n_def [symmetric] f_def [symmetric])
    qed
  qed
qed

text \<open>A fresh breaker that only receives reports trips exactly when the reports contain a run of
  \<open>FailureThreshold\<close> consecutive failures (5 when the configuration does not set it); any success in
  between starts the count again.\<close>

theorem Breaker_trips_iff:
  "br_state (reports rs (NewBreaker cfg)) = StateOpen \<longleftrightarrow>
     sublist (replicate (nat (if bc_FailureThreshold cfg \<le> 0 then 5 else bc_FailureThreshold cfg)) False) (map snd rs)"
proof -
  have t: "bc_FailureThreshold (withDefaults cfg) = (if bc_FailureThreshold cfg \<le> 0 then 5 else bc_FailureThreshold cfg)"
    by (simp add: withDefaults_def Let_def)
  show ?thesis
    using reports_trips [of "NewBreaker cfg" rs]
    by (auto simp: NewBreaker_def trips_def t prefix_imp_sublist)
qed

section \<open>Concurrent callers\<close>

text \<open>The breaker with the calls it has admitted and that have not reported yet. \<open>sy_epoch\<close> counts the state changes;
  a call remembers the epoch of its admission. In a \<open>fresh\<close> run no call reports to a half-open breaker that
  was admitted before the breaker became half-open.\<close>

record breaker_system =
  sy_b :: Breaker
  sy_epoch :: nat
  sy_calls :: "nat list"

definition bump :: "edge \<Rightarrow> nat \<Rightarrow> nat" where
  "bump e n = (if e = None then n else Suc n)"

definition remove_nth :: "nat \<Rightarrow> 'a list \<Rightarrow> 'a list" where
  "remove_nth i xs = take i xs @ drop (Suc i) xs"

inductive breaker_run :: "bool \<Rightarrow> BreakerConfig \<Rightarrow> breaker_system \<Rightarrow> bool" for fresh cfg where
  start: "breaker_run fresh cfg \<lparr>sy_b = NewBreaker cfg, sy_epoch = 0, sy_calls = []\<rparr>"
| admit: "breaker_run fresh cfg s \<Longrightarrow> Allow now (sy_b s) = (True, e, b) \<Longrightarrow>
    breaker_run fresh cfg \<lparr>sy_b = b, sy_epoch = bump e (sy_epoch s), sy_calls = bump e (sy_epoch s) # sy_calls s\<rparr>"
| reject: "breaker_run fresh cfg s \<Longrightarrow> Allow now (sy_b s) = (False, e, b) \<Longrightarrow>
    breaker_run fresh cfg \<lparr>sy_b = b, sy_epoch = bump e (sy_epoch s), sy_calls = sy_calls s\<rparr>"
| finish: "breaker_run fresh cfg s \<Longrightarrow> i < length (sy_calls s) \<Longrightarrow>
    (fresh \<and> br_state (sy_b s) = StateHalfOpen \<Longrightarrow> sy_calls s ! i = sy_epoch s) \<Longrightarrow>
    breaker_report now ok (sy_b s) = (e, b) \<Longrightarrow>
    breaker_run fresh cfg \<lparr>sy_b = b, sy_epoch = bump e (sy_epoch s), sy_calls = remove_nth i (sy_calls s)\<rparr>"

text \<open>The calls in flight that were admitted to the current half-open phase.\<close>

definition probes :: "breaker_system \<Rightarrow> nat" where
  "probes s = length (filter (\<lambda>e. e = sy_epoch s) (sy_calls s))"

text \<open>What holds of every breaker in every run.\<close>

definition breaker_inv :: "BreakerConfig \<Rightarrow> Breaker \<Rightarrow> bool" where
  "breaker_inv cfg b \<longleftrightarrow> br_cfg b = withDefaults cfg \<and>
     (br_state b = StateClosed \<longrightarrow> 0 \<le> br_consecutiveFails b \<and> br_consecutiveFails b < bc_FailureThreshold (br_cfg b)) \<and>
     (br_state b = StateHalfOpen \<longrightarrow> 0 \<le> br_consecutiveOK b \<and> br_consecutiveOK b < bc_SuccessThreshold (br_cfg b)) \<and>
     br_halfOpenInFlight b \<le> bc_HalfOpenMaxInFlight (br_cfg b)"

lemma Allow_cases:
  assumes "Allow now b = (ok, e, b')"
  obtains (closed) "br_state b = StateClosed" "ok" "e = None" "b' = b"
    | (open_) "br_state b = StateOpen" "\<not> ok" "e = None" "b' = b"
        "time_Sub now (br_openedAt b) < bc_OpenDuration (br_cfg b)"
    | (probe) "br_state b = StateHalfOpen" "ok" "e = None" "br_halfOpenInFlight b < bc_HalfOpenMaxInFlight (br_cfg b)"
        "b' = b\<lparr>br_halfOpenInFlight := br_halfOpenInFlight b + 1\<rparr>"
    | (full) "br_state b = StateHalfOpen" "\<not> ok" "e = None" "b' = b"
    | (first) "br_state b = StateOpen" "ok" "e = Some (StateOpen, StateHalfOpen)" "0 < bc_HalfOpenMaxInFlight (br_cfg b)"
        "b' = b\<lparr>br_state := StateHalfOpen, br_consecutiveOK := 0, br_halfOpenInFlight := 1\<rparr>"
    | (none) "br_state b = StateOpen" "\<not> ok" "e = Some (StateOpen, StateHalfOpen)" "bc_HalfOpenMaxInFlight (br_cfg b) \<le> 0"
        "b' = b\<lparr>br_state := StateHalfOpen, br_consecutiveOK := 0, br_halfOpenInFlight := 0\<rparr>"
proof (cases "br_state b")
  case StateClosed
  then show ?thesis using assms by (intro closed) (auto simp: Allow_def)
next
  case StateOpen
  consider "time_Sub now (br_openedAt b) < bc_OpenDuration (br_cfg b)"
    | "\<not> time_Sub now (br_openedAt b) < bc_OpenDuration (br_cfg b)" "0 < bc_HalfOpenMaxInFlight (br_cfg b)"
    | "\<not> time_Sub now (br_openedAt b) < bc_OpenDuration (br_cfg b)" "bc_HalfOpenMaxInFlight (br_cfg b) \<le> 0"
    by linarith
  then show ?thesis
  proof cases
    case 1
    then show ?thesis using StateOpen assms by (intro open_) (auto simp: Allow_def)
  next
    case 2
    then show ?thesis using StateOpen assms
      by (intro first) (auto simp: Allow_def admit_probe_def transition_def Let_def)
  next
    case 3
    then show ?thesis using StateOpen assms
      by (intro none) (auto simp: Allow_def admit_probe_def transition_def Let_def)
  qed
next
  case StateHalfOpen
  show ?thesis
  proof (cases "br_halfOpenInFlight b < bc_HalfOpenMaxInFlight (br_cfg b)")
    case True
    then show ?thesis using StateHalfOpen assms by (intro probe) (auto simp: Allow_def admit_probe_def)
  next
    case False
    then show ?thesis using StateHalfOpen assms by (intro full) (auto simp: Allow_def admit_probe_def)
  qed
qed

lemma report_cases:
  assumes "breaker_report now ok b = (e, b')"
  obtains (open_) "br_state b = StateOpen" "e = None" "b' = b"
    | (counted) "br_state b = StateClosed" "e = None" "ok" "b' = b\<lparr>br_consecutiveFails := 0\<rparr>"
    | (failed) "br_state b = StateClosed" "e = None" "\<not> ok" "br_consecutiveFails b + 1 < bc_FailureThreshold (br_cfg b)"
        "b' = b\<lparr>br_consecutiveFails := br_consecutiveFails b + 1\<rparr>"
    | (trip) "br_state b = StateClosed" "e = Some (StateClosed, StateOpen)" "\<not> ok" "br_state b' = StateOpen"
        "br_cfg b' = br_cfg b" "br_halfOpenInFlight b' = 0"
    | (good) "br_state b = StateHalfOpen" "e = None" "ok" "br_consecutiveOK b + 1 < bc_SuccessThreshold (br_cfg b)"
        "b' = b\<lparr>br_halfOpenInFlight := br_halfOpenInFlight b - 1, br_consecutiveOK := br_consecutiveOK b + 1\<rparr>"
    | (close_) "br_state b = StateHalfOpen" "e = Some (StateHalfOpen, StateClosed)" "ok" "br_state b' = StateClosed"
        "br_cfg b' = br_cfg b" "br_consecutiveFails b' = 0" "br_halfOpenInFlight b' = br_halfOpenInFlight b - 1"
    | (reopen) "br_state b = StateHalfOpen" "e = Some (StateHalfOpen, StateOpen)" "\<not> ok" "br_state b' = StateOpen"
        "br_cfg b' = br_cfg b" "br_halfOpenInFlight b' = 0"
proof (cases "br_state b")
  case StateClosed
  consider "ok" | "\<not> ok" "br_consecutiveFails b + 1 < bc_FailureThreshold (br_cfg b)"
    | "\<not> ok" "\<not> br_consecutiveFails b + 1 < bc_FailureThreshold (br_cfg b)" by blast
  then show ?thesis
  proof cases
    case 1
    then show ?thesis using StateClosed assms by (intro counted) (auto simp: breaker_report_def)
  next
    case 2
    then show ?thesis using StateClosed assms by (intro failed) (auto simp: breaker_report_def Let_def)
  next
    case 3
    then show ?thesis using StateClosed assms by (intro trip) (auto simp: breaker_report_def transition_def Let_def)
  qed
next
  case StateOpen
  then show ?thesis using assms by (intro open_) (auto simp: breaker_report_def)
next
  case StateHalfOpen
  consider "ok" "br_consecutiveOK b + 1 < bc_SuccessThreshold (br_cfg b)"
    | "ok" "\<not> br_consecutiveOK b + 1 < bc_SuccessThreshold (br_cfg b)" | "\<not> ok" by blast
  then show ?thesis
  proof cases
    case 1
    then show ?thesis using StateHalfOpen assms by (intro good) (auto simp: breaker_report_def Let_def)
  next
    case 2
    then show ?thesis using StateHalfOpen assms by (intro close_) (auto simp: breaker_report_def transition_def Let_def)
  next
    case 3
    then show ?thesis using StateHalfOpen assms by (intro reopen) (auto simp: breaker_report_def transition_def Let_def)
  qed
qed

lemma Allow_inv: "breaker_inv cfg b \<Longrightarrow> Allow now b = (ok, e, b') \<Longrightarrow> breaker_inv cfg b'"
  by (erule Allow_cases) (use withDefaults_pos(4) [of cfg] in \<open>auto simp: breaker_inv_def simp del: withDefaults_pos(4)\<close>)

lemma report_inv: "breaker_inv cfg b \<Longrightarrow> breaker_report now ok b = (e, b') \<Longrightarrow> breaker_inv cfg b'"
  by (erule report_cases) (auto simp: breaker_inv_def less_imp_le)

lemma run_inv: "breaker_run fresh cfg s \<Longrightarrow> breaker_inv cfg (sy_b s)"
proof (induction rule: breaker_run.induct)
  case start
  then show ?case by (simp add: breaker_inv_def NewBreaker_def less_imp_le)
qed (auto intro: Allow_inv report_inv)

lemma run_epochs: "breaker_run fresh cfg s \<Longrightarrow> x \<in> set (sy_calls s) \<Longrightarrow> x \<le> sy_epoch s"
proof (induction arbitrary: x rule: breaker_run.induct)
  case (finish s i now ok e b)
  then have "x \<in> set (sy_calls s)" by (auto simp: remove_nth_def dest: in_set_takeD in_set_dropD)
  with finish.IH have "x \<le> sy_epoch s" by blast
  then show ?case by (simp add: bump_def)
qed (fastforce simp: bump_def)+

lemma filter_remove_nth:
  assumes "i < length xs"
  shows "length (filter P xs) = length (filter P (remove_nth i xs)) + (if P (xs ! i) then 1 else 0)"
proof -
  have "filter P xs = filter P (take i xs) @ filter P (xs ! i # drop (Suc i) xs)"
    by (metis assms filter_append id_take_nth_drop)
  then show ?thesis by (simp add: remove_nth_def)
qed

lemma no_probe_yet: "breaker_run fresh cfg s \<Longrightarrow> filter (\<lambda>e. e = Suc (sy_epoch s)) (sy_calls s) = []"
  by (auto simp: filter_empty_conv dest: run_epochs)

definition probes_counted :: "breaker_system \<Rightarrow> bool" where
  "probes_counted s \<longleftrightarrow> (br_state (sy_b s) = StateHalfOpen \<longrightarrow> int (probes s) = br_halfOpenInFlight (sy_b s))"

lemma run_probes:
  assumes "breaker_run fresh cfg s" "fresh"
  shows "probes_counted s"
  using assms(1)
proof (induction rule: breaker_run.induct)
  case start
  then show ?case by (simp add: probes_counted_def NewBreaker_def)
next
  case (admit s now e b)
  from admit(2) show ?case
  proof (cases rule: Allow_cases)
    case first
    then show ?thesis using no_probe_yet [OF admit(1)] by (simp add: probes_counted_def probes_def bump_def)
  qed (use admit(3) in \<open>auto simp: probes_counted_def probes_def bump_def\<close>)
next
  case (reject s now e b)
  from reject(2) show ?case
  proof (cases rule: Allow_cases)
    case none
    then show ?thesis using no_probe_yet [OF reject(1)] by (simp add: probes_counted_def probes_def bump_def)
  qed (use reject(3) in \<open>auto simp: probes_counted_def probes_def bump_def\<close>)
next
  case (finish s i now ok e b)
  from finish(4) show ?case
  proof (cases rule: report_cases)
    case good
    then have "sy_calls s ! i = sy_epoch s" using finish(3) assms(2) by simp
    then show ?thesis using good finish(5) filter_remove_nth [OF finish(2), of "\<lambda>e. e = sy_epoch s"]
      by (simp add: probes_counted_def probes_def bump_def)
  qed (simp_all add: probes_counted_def)
qed

text \<open>C34: whatever the interleaving, as long as no call that was admitted earlier reports to a half-open breaker,
  the number of probes in flight is the breaker's own count and never exceeds \<open>HalfOpenMaxInFlight\<close>
  (1 when the configuration does not set it).\<close>

theorem Breaker_probe_bound:
  assumes "breaker_run True cfg s" and "br_state (sy_b s) = StateHalfOpen"
  shows "int (probes s) = br_halfOpenInFlight (sy_b s) \<and>
    int (probes s) \<le> (if bc_HalfOpenMaxInFlight cfg \<le> 0 then 1 else bc_HalfOpenMaxInFlight cfg)"
proof -
  have "bc_HalfOpenMaxInFlight (withDefaults cfg) = (if bc_HalfOpenMaxInFlight cfg \<le> 0 then 1 else bc_HalfOpenMaxInFlight cfg)"
    by (simp add: withDefaults_def Let_def)
  moreover have "br_halfOpenInFlight (sy_b s) \<le> bc_HalfOpenMaxInFlight (withDefaults cfg)"
    using run_inv [OF assms(1)] unfolding breaker_inv_def by metis
  ultimately show ?thesis using run_probes [OF assms(1)] assms(2) by (simp add: probes_counted_def)
qed

section \<open>Runs\<close>

definition sample_cfg :: BreakerConfig where
  "sample_cfg = \<lparr>bc_FailureThreshold = 1, bc_SuccessThreshold = 3, bc_OpenDuration = 10, bc_HalfOpenMaxInFlight = 1\<rparr>"

text \<open>Two calls are admitted, one fails and opens the breaker at time 1; at time 20 a probe is admitted.\<close>

definition probing :: breaker_system where
  "probing = \<lparr>sy_b = \<lparr>br_cfg = sample_cfg, br_state = StateHalfOpen, br_consecutiveFails = 1, br_consecutiveOK = 0,
     br_openedAt = 1, br_halfOpenInFlight = 1\<rparr>, sy_epoch = 2, sy_calls = [2, 0]\<rparr>"

lemma NewBreaker_sample [simp]: "NewBreaker sample_cfg = \<lparr>br_cfg = sample_cfg, br_state = StateClosed,
    br_consecutiveFails = 0, br_consecutiveOK = 0, br_openedAt = 0, br_halfOpenInFlight = 0\<rparr>"
  by (simp add: NewBreaker_def withDefaults_def sample_cfg_def Let_def)

lemma probing_run: "breaker_run fresh sample_cfg probing"
proof -
  let ?b = "\<lparr>br_cfg = sample_cfg, br_state = StateClosed, br_consecutiveFails = 0, br_consecutiveOK = 0,
    br_openedAt = 0, br_halfOpenInFlight = 0\<rparr>"
  have 1: "breaker_run fresh sample_cfg \<lparr>sy_b = ?b, sy_epoch = 0, sy_calls = [0]\<rparr>"
    using breaker_run.admit [OF breaker_run.start, of 0 sample_cfg None ?b fresh] by (simp add: Allow_def bump_def)
  have 2: "breaker_run fresh sample_cfg \<lparr>sy_b = ?b, sy_epoch = 0, sy_calls = [0, 0]\<rparr>"
    using breaker_run.admit [OF 1, of 0 None ?b] by (simp add: Allow_def bump_def)
  have 3: "breaker_run fresh sample_cfg \<lparr>sy_b = ?b\<lparr>br_state := StateOpen, br_consecutiveFails := 1, br_openedAt := 1\<rparr>,
      sy_epoch = 1, sy_calls = [0]\<rparr>"
    using breaker_run.finish [OF 2, of 0 1 False "Some (StateClosed, StateOpen)"
        "?b\<lparr>br_state := StateOpen, br_consecutiveFails := 1, br_openedAt := 1\<rparr>"]
    by (simp add: breaker_report_def transition_def sample_cfg_def bump_def remove_nth_def)
  show ?thesis
    using breaker_run.admit [OF 3, of 20 "Some (StateOpen, StateHalfOpen)" "sy_b probing"]
    by (simp add: Allow_def admit_probe_def transition_def probing_def sample_cfg_def bump_def time_Sub_def numeral_2_eq_2)
qed

text \<open>The bound does not hold in every run: a call admitted before the breaker opened that reports while it is
  half-open is counted as a finished probe, and frees a slot. With \<open>HalfOpenMaxInFlight\<close> 1 two probes are in
  flight at once.\<close>

theorem Breaker_stale_report:
  "\<exists>s. breaker_run False sample_cfg s \<and> br_state (sy_b s) = StateHalfOpen \<and>
     int (probes s) = 2 \<and> bc_HalfOpenMaxInFlight (br_cfg (sy_b s)) = 1"
proof -
  let ?b = "(sy_b probing)\<lparr>br_halfOpenInFlight := 0, br_consecutiveOK := 1\<rparr>"
  have 1: "breaker_run False sample_cfg \<lparr>sy_b = ?b, sy_epoch = 2, sy_calls = [2]\<rparr>"
    using breaker_run.finish [OF probing_run [of False], of 1 21 True None ?b]
    by (simp add: breaker_report_def probing_def sample_cfg_def bump_def remove_nth_def)
  define s where "s = \<lparr>sy_b = ?b\<lparr>br_halfOpenInFlight := 1\<rparr>, sy_epoch = 2, sy_calls = [2, 2]\<rparr>"
  have "breaker_run False sample_cfg s"
    using breaker_run.admit [OF 1, of 22 None "?b\<lparr>br_halfOpenInFlight := 1\<rparr>"]
    by (simp add: s_def Allow_def admit_probe_def probing_def sample_cfg_def bump_def)
  moreover have "br_state (sy_b s) = StateHalfOpen" "int (probes s) = 2" "bc_HalfOpenMaxInFlight (br_cfg (sy_b s)) = 1"
    by (simp_all add: s_def probing_def probes_def sample_cfg_def)
  ultimately show ?thesis by blast
qed

theorem Breaker_probe_bound_witness:
  "int (probes probing) = 1 \<and> br_halfOpenInFlight (sy_b probing) = 1"
  using Breaker_probe_bound [OF probing_run] by (simp add: probing_def sample_cfg_def probes_def)

end
