(* ===== verification/Resilience.thy ===== *)
theory Resilience imports Assessment Errors begin

text \<open>
  \<open>internal/infrastructure/resilience/ratelimit.go\<close> and \<open>retry.go\<close>: the token bucket, the per-key limiter, the
  backoff curve and the retry loop. Clock, random numbers, the retried function and the context are
  arguments. \<open>math.Pow\<close> is exact for a base of 2 and the exponents below 1024 for which the result is finite.
\<close>

section \<open>Token buckets\<close>

record TokenBucket =
  tb_capacity :: rat
  tb_tokens :: rat
  tb_refillPerSec :: rat
  tb_last :: gotime

definition NewTokenBucket :: "rat \<Rightarrow> int \<Rightarrow> gotime \<Rightarrow> TokenBucket" where
  "NewTokenBucket ratePerSecond burst now = (let burst = (if burst < 1 then 1 else burst) in
     \<lparr>tb_capacity = i2f burst, tb_tokens = i2f burst, tb_refillPerSec = ratePerSecond, tb_last = now\<rparr>)"

text \<open>\<open>Duration.Seconds\<close>: whole seconds plus the fractional remainder, each a \<open>float64\<close>.\<close>

definition Seconds :: "int \<Rightarrow> rat" where
  "Seconds d = (let s = (if 0 \<le> d then d div 1000000000 else - ((- d) div 1000000000));
     r = d - s * 1000000000 in f64 (i2f s + f64 (i2f r / 1000000000)))"

definition refill :: "gotime \<Rightarrow> TokenBucket \<Rightarrow> TokenBucket" where
  "refill now b = (let elapsed = Seconds (time_Sub now (tb_last b)) in
     if elapsed \<le> 0 then b
     else let
       b = b\<lparr>tb_tokens := f64 (tb_tokens b + f64 (elapsed * tb_refillPerSec b))\<rparr>;
       b = (if tb_tokens b > tb_capacity b then b\<lparr>tb_tokens := tb_capacity b\<rparr> else b)
     in b\<lparr>tb_last := now\<rparr>)"

definition AllowN :: "gotime \<Rightarrow> int \<Rightarrow> TokenBucket \<Rightarrow> bool \<times> TokenBucket" where
  "AllowN now n b = (let b = refill now b; need = i2f n in
     if tb_tokens b < need then (False, b)
     else (True, b\<lparr>tb_tokens := f64 (tb_tokens b - need)\<rparr>))"

definition Bucket_Allow :: "gotime \<Rightarrow> TokenBucket \<Rightarrow> bool \<times> TokenBucket" where
  "Bucket_Allow now b = AllowN now 1 b"

definition Remaining :: "gotime \<Rightarrow> TokenBucket \<Rightarrow> int \<times> TokenBucket" where
  "Remaining now b = (let b = refill now b in (f2i (tb_tokens b), b))"

definition RetryAfter :: "gotime \<Rightarrow> int \<Rightarrow> TokenBucket \<Rightarrow> int \<times> TokenBucket" where
  "RetryAfter now n b = (let b = refill now b; need = f64 (i2f n - tb_tokens b) in
     if need \<le> 0 \<or> tb_refillPerSec b \<le> 0 then (0, b)
     else (f2i (f64 (f64 (need / tb_refillPerSec b) * 1000000000)), b))"

record KeyedLimiter =
  kl_buckets :: "string \<rightharpoonup> TokenBucket"
  kl_rate :: rat
  kl_burst :: int

definition NewKeyedLimiter :: "rat \<Rightarrow> int \<Rightarrow> KeyedLimiter" where
  "NewKeyedLimiter ratePerSecond burst = \<lparr>kl_buckets = Map.empty, kl_rate = ratePerSecond, kl_burst = burst\<rparr>"

definition Bucket :: "gotime \<Rightarrow> string \<Rightarrow> KeyedLimiter \<Rightarrow> TokenBucket \<times> KeyedLimiter" where
  "Bucket now key k = (case kl_buckets k key of
     Some b \<Rightarrow> (b, k)
   | None \<Rightarrow> let b = NewTokenBucket (kl_rate k) (kl_burst k) now in
       (b, k\<lparr>kl_buckets := (kl_buckets k)(key \<mapsto> b)\<rparr>))"

text \<open>The bucket is shared by reference: the map sees what \<open>Allow\<close> does to it.\<close>

definition Keyed_Allow :: "gotime \<Rightarrow> string \<Rightarrow> KeyedLimiter \<Rightarrow> bool \<times> KeyedLimiter" where
  "Keyed_Allow now key k = (let (b, k) = Bucket now key k; (ok, b) = Bucket_Allow now b in
     (ok, k\<lparr>kl_buckets := (kl_buckets k)(key \<mapsto> b)\<rparr>))"

section \<open>Retries\<close>

definition Backoff :: "int \<Rightarrow> int \<Rightarrow> int \<Rightarrow> int" where
  "Backoff attempt base cap = (let attempt = (if attempt < 0 then 0 else attempt) in
     if base \<le> 0 then 0
     else let d = f2i (f64 (i2f base * 2 ^ nat attempt)) in
       if d \<le> 0 \<or> d > cap then cap else d)"

text \<open>\<open>draw n\<close> is \<open>Int63n(n)\<close>, a number below \<open>n\<close>.\<close>

definition FullJitter :: "int \<Rightarrow> (int \<Rightarrow> int) \<Rightarrow> int" where
  "FullJitter d draw = (if d \<le> 0 then 0 else draw (wrap64 (d + 1)))"

text \<open>What happens around one attempt: the context before it, the result of the call, the context
  during the wait that follows.\<close>

record attempt =
  at_before :: "err option"
  at_result :: "err option"
  at_wait :: "err option"

datatype retry_result = RetryOK | RetryFailed err | RetryExhausted err

text \<open>The loop from attempt \<open>k\<close> of \<open>max\<close>; the first component counts the calls of the function.\<close>

function retry_loop :: "(err \<Rightarrow> bool) \<Rightarrow> (nat \<Rightarrow> attempt) \<Rightarrow> nat \<Rightarrow> nat \<Rightarrow> nat \<times> retry_result" where
  "retry_loop classify env tries k =
    (case at_before (env k) of Some e \<Rightarrow> (0, RetryFailed e)
     | None \<Rightarrow>
       (case at_result (env k) of None \<Rightarrow> (1, RetryOK)
        | Some e \<Rightarrow>
          if \<not> classify e then (1, RetryFailed e)
          else if Suc k \<ge> tries then (1, RetryExhausted e)
          else (case at_wait (env k) of Some c \<Rightarrow> (1, RetryFailed c)
            | None \<Rightarrow> let (n, r) = retry_loop classify env tries (Suc k) in (Suc n, r))))"
  by pat_completeness auto

termination
  by (relation "measure (\<lambda>(classify, env, tries, k). tries - k)") auto

declare retry_loop.simps [simp del]

definition Do :: "int \<Rightarrow> (err \<Rightarrow> bool) option \<Rightarrow> (nat \<Rightarrow> attempt) \<Rightarrow> nat \<times> retry_result" where
  "Do maxAttempts classify env =
     retry_loop (case classify of None \<Rightarrow> (\<lambda>_. True) | Some f \<Rightarrow> f) env (nat (if maxAttempts < 1 then 1 else maxAttempts)) 0"

section \<open>Bounds of the bucket\<close>

lemma refill_bounds:
  assumes "0 \<le> tb_refillPerSec b" "0 \<le> tb_tokens b" "tb_tokens b \<le> tb_capacity b"
  shows "0 \<le> tb_tokens (refill now b) \<and> tb_tokens (refill now b) \<le> tb_capacity (refill now b) \<and>
    tb_capacity (refill now b) = tb_capacity b \<and> tb_refillPerSec (refill now b) = tb_refillPerSec b"
proof -
  have "0 \<le> f64 (tb_tokens b + f64 (e * tb_refillPerSec b))" if "0 < e" for e
    using assms that by (intro f64_nonneg add_nonneg_nonneg mult_nonneg_nonneg) simp_all
  then show ?thesis using assms by (auto simp: refill_def Let_def not_le)
qed

definition bucket_ok :: "TokenBucket \<Rightarrow> bool" where
  "bucket_ok b \<longleftrightarrow> 0 \<le> tb_refillPerSec b \<and> 0 \<le> tb_tokens b \<and> tb_tokens b \<le> tb_capacity b \<and> f64 (tb_tokens b) = tb_tokens b \<and>
     f64 (tb_capacity b) = tb_capacity b"

lemma refill_ok: "bucket_ok b \<Longrightarrow> bucket_ok (refill now b)"
  using refill_bounds [of b now] by (auto simp: bucket_ok_def refill_def Let_def)

lemma AllowN_ok:
  assumes "bucket_ok b" "0 \<le> n"
  shows "bucket_ok (snd (AllowN now n b)) \<and>
    tb_tokens (snd (AllowN now n b)) \<le> tb_tokens (refill now b)"
proof -
  define c where "c = refill now b"
  have c: "bucket_ok c" using assms(1) by (simp add: c_def refill_ok)
  have "0 \<le> f64 (tb_tokens c - i2f n) \<and> f64 (tb_tokens c - i2f n) \<le> tb_tokens c" if "\<not> tb_tokens c < i2f n"
    using that c assms(2) f64_mono [of "tb_tokens c - i2f n" "tb_tokens c"] i2f_nonneg [OF assms(2)]
    by (auto simp: bucket_ok_def intro: f64_nonneg)
  then show ?thesis using c by (auto simp: AllowN_def c_def [symmetric] bucket_ok_def Let_def)
qed

section \<open>Retrying\<close>

text \<open>Attempt \<open>k\<close> leads to another attempt.\<close>

definition goes_on :: "(err \<Rightarrow> bool) \<Rightarrow> attempt \<Rightarrow> bool" where
  "goes_on classify a \<longleftrightarrow> at_before a = None \<and> at_wait a = None \<and> (\<exists>e. at_result a = Some e \<and> classify e)"

lemma retry_loop_spec:
  "k < tries \<Longrightarrow> retry_loop classify env tries k = (n, r) \<Longrightarrow> k + n \<le> tries \<and>
    (\<forall>i. k \<le> i \<and> i + 1 < k + n \<longrightarrow> goes_on classify (env i)) \<and>
    (case r of
       RetryOK \<Rightarrow> 0 < n \<and> at_before (env (k + n - 1)) = None \<and> at_result (env (k + n - 1)) = None
     | RetryExhausted e \<Rightarrow> k + n = tries \<and> at_result (env (k + n - 1)) = Some e \<and> classify e
     | RetryFailed e \<Rightarrow>
         (k + n < tries \<and> at_before (env (k + n)) = Some e) \<or>
         (0 < n \<and> at_result (env (k + n - 1)) = Some e \<and> \<not> classify e) \<or>
         (0 < n \<and> k + n < tries \<and> at_wait (env (k + n - 1)) = Some e))"
proof (induction classify env tries k arbitrary: n r rule: retry_loop.induct)
  case (1 classify env tries k)
  show ?case
  proof (cases "at_before (env k) = None \<and> (\<exists>e. at_result (env k) = Some e \<and> classify e) \<and> Suc k < tries \<and> at_wait (env k) = None")
    case False
    then show ?thesis using "1.prems"
      by (subst (asm) retry_loop.simps) (auto split: option.splits if_splits)
  next
    case True
    then obtain e where e: "at_before (env k) = None" "at_result (env k) = Some e" "classify e" "Suc k < tries" "at_wait (env k) = None"
      by blast
    obtain m where m: "retry_loop classify env tries (Suc k) = (m, r)" "n = Suc m"
      using "1.prems"(2) e by (subst (asm) retry_loop.simps) (auto split: prod.splits)
    have g: "goes_on classify (env k)" using e by (simp add: goes_on_def)
    note ih = "1.IH" [OF e(1,2) _ _ e(5) e(4) m(1)]
    have "goes_on classify (env i)" if "k \<le> i \<and> i + 1 < k + n" for i
      using g ih e(3,4) m(2) that by (cases "i = k") (auto simp: Suc_le_eq)
    then show ?thesis using ih e(3,4) m(2) by (auto split: retry_result.splits)
  qed
qed



section \<open>The backoff curve\<close>

text \<open>\<open>Backoff\<close> with a positive cap lies between 0 and the cap.\<close>

lemma Backoff_range: "0 \<le> cap \<Longrightarrow> 0 \<le> Backoff attempt base cap \<and> Backoff attempt base cap \<le> cap"
  by (simp add: Backoff_def Let_def)

lemma f2i_mono: "x \<le> y \<Longrightarrow> int64 \<lfloor>y\<rfloor> \<Longrightarrow> 0 \<le> x \<Longrightarrow> f2i x \<le> f2i y"
proof -
  assume a: "x \<le> y" "int64 \<lfloor>y\<rfloor>" "0 \<le> x"
  then have "\<lfloor>x\<rfloor> \<le> \<lfloor>y\<rfloor>" "0 \<le> \<lfloor>x\<rfloor>" by (simp_all add: floor_mono)
  then have "int64 \<lfloor>x\<rfloor>" using a(2) unfolding int64_def by linarith
  then show ?thesis using a \<open>\<lfloor>x\<rfloor> \<le> \<lfloor>y\<rfloor>\<close> by (simp add: f2i_def)
qed

lemma f2i_large: "0 \<le> x \<Longrightarrow> \<not> int64 \<lfloor>x\<rfloor> \<Longrightarrow> f2i x < 0"
  by (simp add: f2i_def to_int64_def)

text \<open>The backoff never leaves \<open>[0, MaxDelay]\<close> and never shrinks from one attempt to the next, across the point
  where the exponential no longer fits in 64 bits.\<close>

theorem Backoff_monotone:
  assumes "0 \<le> cap" and "a \<le> b"
  shows "0 \<le> Backoff a base cap \<and> Backoff a base cap \<le> Backoff b base cap \<and> Backoff b base cap \<le> cap"
proof (cases "base \<le> 0")
  case False
  define x where "x = (\<lambda>n :: int. f64 (i2f base * 2 ^ nat (max 0 n)))"
  have B: "Backoff n base cap = (if f2i (x n) \<le> 0 \<or> f2i (x n) > cap then cap else f2i (x n))" for n
    using False by (simp add: Backoff_def x_def Let_def max_def)
  have i: "0 \<le> i2f base" using False by (simp add: i2f_nonneg)
  have xn: "0 \<le> x n" for n by (simp add: x_def i f64_nonneg)
  have xm: "x a \<le> x b"
    unfolding x_def using assms(2) i by (intro f64_mono mult_left_mono power_increasing) auto
  have "Backoff a base cap \<le> Backoff b base cap"
  proof (cases "int64 \<lfloor>x b\<rfloor>")
    case True
    have "1 \<le> i2f base" using False i2f_mono [of 1 base] by simp
    then have "(1 :: rat) \<le> i2f base * 2 ^ nat (max 0 a)"
      by (metis mult_mono' mult_1 one_le_numeral one_le_power zero_le_one)
    then have "1 \<le> x a" using f64_mono [of 1 "i2f base * 2 ^ nat (max 0 a)"] by (simp add: x_def)
    then have "f2i 1 \<le> f2i (x a)" "f2i (x a) \<le> f2i (x b)"
      using f2i_mono [of 1 "x a"] f2i_mono [OF xm True xn] True xm
      by (auto simp: int64_def floor_less_iff le_floor_iff) 
    then show ?thesis by (simp add: B f2i_def int64_def)
  next
    case False
    then have "f2i (x b) < 0" using f2i_large xn by blast
    then show ?thesis using assms(1) by (simp add: B)
  qed
  then show ?thesis using Backoff_range assms(1) by simp
qed (simp add: Backoff_def assms(1))

theorem Backoff_monotone_witness:
  "(0 :: int) \<le> 30 \<and> 0 \<le> Backoff 2 4 30 \<and> Backoff 2 4 30 \<le> Backoff 5 4 30 \<and> Backoff 5 4 30 \<le> 30"
  using Backoff_monotone [of 30 2 5 4] by simp

end
