(* ===== verification/Locker.thy ===== *)
theory Locker imports Errors begin

text \<open>
  \<open>internal/adapters/memstore/locker.go\<close>: leases with a time to live. The random token is an argument; the
  release closure that \<open>Acquire\<close> returns is the pair of its key and token. Each operation holds the mutex, except
  that \<open>Acquire\<close> reads the clock before it takes it, so the clock of an operation is an argument.
\<close>

record lockState =
  lk_token :: string
  lk_expiresAt :: gotime

type_synonym locks = "string \<rightharpoonup> lockState"

definition lock_expired :: "lockState \<Rightarrow> gotime \<Rightarrow> bool" where
  "lock_expired l now \<longleftrightarrow> \<not> now < lk_expiresAt l"

definition Acquire :: "gotime \<Rightarrow> string \<Rightarrow> string \<Rightarrow> int \<Rightarrow> locks \<Rightarrow> (err + string \<times> string) \<times> locks" where
  "Acquire now token key ttl locks = (let ttl = (if ttl \<le> 0 then 30000000000 else ttl) in
     if (case locks key of Some l \<Rightarrow> \<not> lock_expired l now | None \<Rightarrow> False)
     then (Inl (NewError ErrConflict ''lock_held''), locks)
     else (Inr (key, token), locks(key \<mapsto> \<lparr>lk_token = token, lk_expiresAt = now + ttl\<rparr>)))"

definition Release :: "string \<times> string \<Rightarrow> locks \<Rightarrow> locks" where
  "Release h locks = (case locks (fst h) of
     Some cur \<Rightarrow> if lk_token cur = snd h then locks(fst h := None) else locks
   | None \<Rightarrow> locks)"

section \<open>Mutual exclusion\<close>

text \<open>The workers' side: a lease is a key, a token, the end of its life and whether its holder has called
  release. The clock only moves forward, \<open>Acquire\<close> may have read it a while before it got the mutex, and tokens are never drawn twice. A holder may call release any number
  of times, before or after its lease has run out.\<close>

record lease =
  le_key :: string
  le_token :: string
  le_until :: gotime
  le_released :: bool

record lock_system =
  ls_now :: gotime
  ls_locks :: locks
  ls_leases :: "lease list"

inductive lock_run :: "lock_system \<Rightarrow> bool" where
  start: "lock_run \<lparr>ls_now = t, ls_locks = Map.empty, ls_leases = []\<rparr>"
| tick: "lock_run s \<Longrightarrow> ls_now s \<le> t \<Longrightarrow> lock_run (s\<lparr>ls_now := t\<rparr>)"
| acquire: "lock_run s \<Longrightarrow> token \<notin> le_token ` set (ls_leases s) \<Longrightarrow>
    now \<le> ls_now s \<Longrightarrow> Acquire now token key ttl (ls_locks s) = (Inr (key, token), locks') \<Longrightarrow>
    lock_run (s\<lparr>ls_locks := locks', ls_leases := \<lparr>le_key = key, le_token = token,
      le_until = lk_expiresAt (the (locks' key)), le_released = False\<rparr> # ls_leases s\<rparr>)"
| release: "lock_run s \<Longrightarrow> l \<in> set (ls_leases s) \<Longrightarrow>
    lock_run (s\<lparr>ls_locks := Release (le_key l, le_token l) (ls_locks s),
      ls_leases := map (\<lambda>x. if x = l then x\<lparr>le_released := True\<rparr> else x) (ls_leases s)\<rparr>)"

definition holds :: "lock_system \<Rightarrow> lease \<Rightarrow> bool" where
  "holds s l \<longleftrightarrow> l \<in> set (ls_leases s) \<and> \<not> le_released l \<and> ls_now s < le_until l"

definition lock_inv :: "lock_system \<Rightarrow> bool" where
  "lock_inv s \<longleftrightarrow> distinct (map le_token (ls_leases s)) \<and>
     (\<forall>l. holds s l \<longrightarrow> ls_locks s (le_key l) = Some \<lparr>lk_token = le_token l, lk_expiresAt = le_until l\<rparr>)"

lemma Acquire_Inr:
  assumes "Acquire now token key ttl locks = (Inr h, locks')"
  shows "h = (key, token)"
    "locks' = locks(key \<mapsto> \<lparr>lk_token = token, lk_expiresAt = now + (if ttl \<le> 0 then 30000000000 else ttl)\<rparr>)"
    "locks key = Some l \<Longrightarrow> lk_expiresAt l \<le> now"
  using assms by (auto simp: Acquire_def Let_def lock_expired_def not_less split: option.splits if_splits)

lemma Release_other: "k \<noteq> fst h \<Longrightarrow> Release h locks k = locks k"
  by (simp add: Release_def split: option.splits)

lemma Release_token: "locks k = Some l \<Longrightarrow> lk_token l \<noteq> snd h \<Longrightarrow> Release h locks k = Some l"
  by (auto simp: Release_def split: option.splits)

lemma lock_run_inv: "lock_run s \<Longrightarrow> lock_inv s"
proof (induction rule: lock_run.induct)
  case (start t)
  then show ?case by (simp add: lock_inv_def holds_def)
next
  case (tick s t)
  then show ?case by (simp add: lock_inv_def holds_def)
next
  case (acquire s token now key ttl locks')
  define u where "u = now + (if ttl \<le> 0 then 30000000000 else ttl)"
  have u: "locks' = (ls_locks s)(key \<mapsto> \<lparr>lk_token = token, lk_expiresAt = u\<rparr>)"
    using Acquire_Inr(2) [OF acquire(4)] by (simp add: u_def)
  have free: "le_key l \<noteq> key" if "holds s l" for l
  proof
    assume "le_key l = key"
    with that acquire(5) have "ls_locks s key = Some \<lparr>lk_token = le_token l, lk_expiresAt = le_until l\<rparr>"
      by (auto simp: lock_inv_def)
    then have "le_until l \<le> ls_now s" using Acquire_Inr(3) [OF acquire(4)] acquire(3) by fastforce
    with that show False by (simp add: holds_def)
  qed
  let ?new = "\<lparr>le_key = key, le_token = token, le_until = u, le_released = False\<rparr>"
  have "locks' (le_key l) = Some \<lparr>lk_token = le_token l, lk_expiresAt = le_until l\<rparr>"
    if "l = ?new \<or> holds s l" for l
    using that
  proof
    assume "holds s l"
    then show ?thesis using free acquire(5) by (simp add: u lock_inv_def)
  qed (simp add: u)
  then show ?case using acquire(2,5) by (auto simp: lock_inv_def holds_def u)
next
  case (release s l)
  have d: "distinct (map le_token (ls_leases s))" using release(3) by (simp add: lock_inv_def)
  have m: "map le_token (map (\<lambda>x. if x = l then x\<lparr>le_released := True\<rparr> else x) (ls_leases s)) = map le_token (ls_leases s)"
    by simp
  have "ls_locks s' (le_key x) = Some \<lparr>lk_token = le_token x, lk_expiresAt = le_until x\<rparr>"
    if h: "holds s' x" and s': "s' = s\<lparr>ls_locks := Release (le_key l, le_token l) (ls_locks s),
      ls_leases := map (\<lambda>x. if x = l then x\<lparr>le_released := True\<rparr> else x) (ls_leases s)\<rparr>" for x s'
  proof -
    obtain y where y: "y \<in> set (ls_leases s)" "x = (if y = l then y\<lparr>le_released := True\<rparr> else y)"
      using h by (auto simp: holds_def s')
    then have xy: "x = y" "y \<noteq> l" using h by (auto simp: holds_def)
    then have "holds s x" using h y(1) by (simp add: holds_def s')
    then have "ls_locks s (le_key x) = Some \<lparr>lk_token = le_token x, lk_expiresAt = le_until x\<rparr>"
      using release(3) by (simp add: lock_inv_def)
    moreover have "le_token x \<noteq> le_token l"
      using d xy y(1) release(2) by (auto simp: distinct_map dest: inj_onD)
    ultimately show ?thesis using Release_token [of "ls_locks s"] by (simp add: s')
  qed
  moreover have "distinct (map le_token (map (\<lambda>x. if x = l then x\<lparr>le_released := True\<rparr> else x) (ls_leases s)))"
    using d by (simp only: m)
  ultimately show ?case by (simp add: lock_inv_def del: map_map)
qed

text \<open>C36: mutual exclusion: in every run, two leases on the same key that are both unexpired and not
  released are the same lease; a release called by a holder whose lease has run out never frees
  the lock of its successor.\<close>

theorem Locker_mutual_exclusion:
  assumes "lock_run s" and "holds s a" and "holds s b" and "le_key a = le_key b"
  shows "a = b \<and> ls_locks s (le_key a) = Some \<lparr>lk_token = le_token a, lk_expiresAt = le_until a\<rparr>"
proof -
  have d: "distinct (map le_token (ls_leases s))" and
    h: "\<And>l. holds s l \<Longrightarrow> ls_locks s (le_key l) = Some \<lparr>lk_token = le_token l, lk_expiresAt = le_until l\<rparr>"
    using lock_run_inv [OF assms(1)] by (simp_all add: lock_inv_def)
  have "le_token a = le_token b" using h [OF assms(2)] h [OF assms(3)] assms(4) by simp
  then have "a = b" using d assms(2,3) by (auto simp: holds_def distinct_map dest: inj_onD)
  then show ?thesis using h assms(2) by blast
qed

theorem Locker_mutual_exclusion_witness:
  "\<exists>s a. lock_run s \<and> holds s a \<and> ls_locks s (le_key a) = Some \<lparr>lk_token = ''t'', lk_expiresAt = 15\<rparr>"
proof -
  define s where "s = \<lparr>ls_now = 5, ls_locks = [''k'' \<mapsto> \<lparr>lk_token = ''t'', lk_expiresAt = 15\<rparr>],
    ls_leases = [\<lparr>le_key = ''k'', le_token = ''t'', le_until = 15, le_released = False\<rparr>]\<rparr>"
  have "lock_run s"
    using lock_run.acquire [OF lock_run.start [of 5], of "''t''" 5 "''k''" 10 "[''k'' \<mapsto> \<lparr>lk_token = ''t'', lk_expiresAt = 15\<rparr>]"]
    by (simp add: s_def Acquire_def)
  moreover have "holds s \<lparr>le_key = ''k'', le_token = ''t'', le_until = 15, le_released = False\<rparr>"
    by (simp add: s_def holds_def)
  ultimately show ?thesis using Locker_mutual_exclusion by (fastforce simp: s_def)
qed

end
