(* ===== verification/Calendar.thy ===== *)
theory Calendar imports Prelude begin

text \<open>
  The part of Go's \<open>time\<close> package that the governance and cost code reads: the proleptic Gregorian calendar in
  UTC. A day is its number since Go's zero date, 1 January of the year 1, which was a Monday. \<open>civil\<close> and
  \<open>day_number\<close> are inverse; the parsers are \<open>time.Parse\<close> for the layouts \<open>15:04\<close> and \<open>2006-01-02\<close>.
\<close>

section \<open>Years, months, days\<close>

definition leap :: "int \<Rightarrow> bool" where
  "leap y \<longleftrightarrow> y mod 4 = 0 \<and> (y mod 100 \<noteq> 0 \<or> y mod 400 = 0)"

text \<open>Days before 1 January of a year.\<close>

definition year_start :: "int \<Rightarrow> int" where
  "year_start y = 365 * (y - 1) + (y - 1) div 4 - (y - 1) div 100 + (y - 1) div 400"

definition month_start :: "int \<Rightarrow> int \<Rightarrow> int" where
  "month_start y m = [0, 31, 59, 90, 120, 151, 181, 212, 243, 273, 304, 334, 365] ! nat (m - 1) +
     (if 2 < m \<and> leap y then 1 else 0)"

definition days_in :: "int \<Rightarrow> int \<Rightarrow> int" where
  "days_in y m = month_start y (m + 1) - month_start y m"

definition day_number :: "int \<Rightarrow> int \<Rightarrow> int \<Rightarrow> int" where
  "day_number y m d = year_start y + month_start y m + (d - 1)"

definition year_of :: "int \<Rightarrow> int" where
  "year_of n = (let a = n div 146097; r = n mod 146097; b = min 3 (r div 36524); r = r - 36524 * b;
     c = r div 1461; r = r - 1461 * c; e = min 3 (r div 365) in 400 * a + 100 * b + 4 * c + e + 1)"

fun month_search :: "int \<Rightarrow> int \<Rightarrow> nat \<Rightarrow> int" where
  "month_search y r 0 = 1"
| "month_search y r (Suc k) = (if month_start y (int k + 2) \<le> r then int k + 2 else month_search y r k)"

definition civil :: "int \<Rightarrow> int \<times> int \<times> int" where
  "civil n = (let y = year_of n; r = n - year_start y; m = month_search y r 11 in (y, m, r - month_start y m + 1))"

text \<open>\<open>time.Date\<close> accepts a month beyond 12 and carries into the years.\<close>

definition date_days :: "int \<Rightarrow> int \<Rightarrow> int \<Rightarrow> int" where
  "date_days y m d = day_number (y + (m - 1) div 12) ((m - 1) mod 12 + 1) d"

definition day_of :: "gotime \<Rightarrow> int" where
  "day_of t = t div nanos_per_day"

definition midnight :: "int \<Rightarrow> gotime" where
  "midnight n = n * nanos_per_day"

text \<open>Sunday is 0.\<close>

definition weekday :: "int \<Rightarrow> int" where
  "weekday n = (n + 1) mod 7"

definition weekday_name :: "int \<Rightarrow> string" where
  "weekday_name n = [''sunday'', ''monday'', ''tuesday'', ''wednesday'', ''thursday'', ''friday'', ''saturday''] ! nat (weekday n)"

section \<open>Parsing\<close>

definition digit_val :: "char \<Rightarrow> int" where
  "digit_val c = of_char c - 48"

text \<open>Layout \<open>15:04\<close>: an hour of one or two digits, a colon, a minute of two.\<close>

definition parse_hhmm :: "string \<Rightarrow> (int \<times> int) option" where
  "parse_hhmm s = (let tail = (\<lambda>h rest. (case rest of
       [c, m1, m2] \<Rightarrow> if c = CHR '':'' \<and> is_digit m1 \<and> is_digit m2 \<and> h < 24 \<and> 10 * digit_val m1 + digit_val m2 < 60
         then Some (h, 10 * digit_val m1 + digit_val m2) else None
     | _ \<Rightarrow> None))
   in case s of
     h1 # h2 # rest \<Rightarrow>
       if \<not> is_digit h1 then None
       else if is_digit h2 then tail (10 * digit_val h1 + digit_val h2) rest
       else tail (digit_val h1) (h2 # rest)
   | _ \<Rightarrow> None)"

text \<open>Layout \<open>2006-01-02\<close>: four, two and two digits, and a day that the month has.\<close>

definition parse_date :: "string \<Rightarrow> int option" where
  "parse_date s = (case s of
     [y1, y2, y3, y4, h1, m1, m2, h2, d1, d2] \<Rightarrow>
       if list_all is_digit [y1, y2, y3, y4, m1, m2, d1, d2] \<and> h1 = CHR ''-'' \<and> h2 = CHR ''-'' then
         let y = 1000 * digit_val y1 + 100 * digit_val y2 + 10 * digit_val y3 + digit_val y4;
           m = 10 * digit_val m1 + digit_val m2; d = 10 * digit_val d1 + digit_val d2 in
         if 1 \<le> m \<and> m \<le> 12 \<and> 1 \<le> d \<and> d \<le> days_in y m then Some (day_number y m d) else None
       else None
   | _ \<Rightarrow> None)"

section \<open>The calendar is consistent\<close>

lemma year_start_parts:
  assumes "0 \<le> b" "b \<le> 3" "0 \<le> c" "c \<le> 24" "0 \<le> e" "e \<le> 3"
  shows "year_start (400 * a + 100 * b + 4 * c + e + 1) = 146097 * a + 36524 * b + 1461 * c + 365 * e"
proof -
  have "(400 * a + 100 * b + 4 * c + e) div 4 = 100 * a + 25 * b + c"
    by (rule int_div_pos_eq [where r = e]) (use assms in auto)
  moreover have "(400 * a + 100 * b + 4 * c + e) div 100 = 4 * a + b"
    by (rule int_div_pos_eq [where r = "4 * c + e"]) (use assms in auto)
  moreover have "(400 * a + 100 * b + 4 * c + e) div 400 = a"
    by (rule int_div_pos_eq [where r = "100 * b + 4 * c + e"]) (use assms in auto)
  ultimately show ?thesis by (simp add: year_start_def)
qed

lemma div_step:
  fixes k :: int
  assumes "0 < k"
  shows "y div k = (y - 1) div k + (if y mod k = 0 then 1 else 0)"
proof (cases "(y - 1) mod k = k - 1")
  case True
  have "y = k * ((y - 1) div k + 1) + 0"
    using True mult_div_mod_eq [of k "y - 1"] by (simp add: distrib_left)
  then have "y div k = (y - 1) div k + 1" "y mod k = 0"
    using assms int_div_pos_eq [of y k "(y - 1) div k + 1" 0] int_mod_pos_eq [of y k "(y - 1) div k + 1" 0] by simp_all
  then show ?thesis by simp
next
  case False
  have r: "0 \<le> (y - 1) mod k" "(y - 1) mod k < k" using assms by simp_all
  have "y = k * ((y - 1) div k) + ((y - 1) mod k + 1)" using mult_div_mod_eq [of k "y - 1"] by simp
  then have "y div k = (y - 1) div k" "y mod k = (y - 1) mod k + 1"
    using False r int_div_pos_eq [of y k "(y - 1) div k" "(y - 1) mod k + 1"]
      int_mod_pos_eq [of y k "(y - 1) div k" "(y - 1) mod k + 1"] by simp_all
  then show ?thesis using r by simp
qed

lemma year_start_Suc: "year_start (y + 1) = year_start y + (if leap y then 366 else 365)"
proof -
  define p q s A B C where "p = (y - 1) div 4" and "q = (y - 1) div 100" and "s = (y - 1) div 400"
    and "A \<longleftrightarrow> y mod 4 = 0" and "B \<longleftrightarrow> y mod 100 = 0" and "C \<longleftrightarrow> y mod 400 = 0"
  note defs = this
  have i: "C \<Longrightarrow> B" "B \<Longrightarrow> A" unfolding defs by (auto simp: mod_eq_0_iff_dvd intro: dvd_trans)
  have "y div 4 = p + (if A then 1 else 0)" "y div 100 = q + (if B then 1 else 0)" "y div 400 = s + (if C then 1 else 0)"
    unfolding defs by (rule div_step; simp)+
  then have "year_start (y + 1) = 365 * y + (p + (if A then 1 else 0)) - (q + (if B then 1 else 0)) + (s + (if C then 1 else 0))"
    by (simp only: year_start_def add_diff_cancel_right')
  moreover have "year_start y = 365 * (y - 1) + p - q + s" by (simp only: year_start_def defs)
  moreover have "leap y \<longleftrightarrow> A \<and> (\<not> B \<or> C)" by (simp only: leap_def defs)
  ultimately show ?thesis using i by (cases A; cases B; cases C) simp_all
qed

lemma le_div_iff_mult_le:
  fixes k :: int
  assumes "0 < k"
  shows "n \<le> t div k \<longleftrightarrow> n * k \<le> t"
proof
  assume "n \<le> t div k"
  then have "n * k \<le> t div k * k" using assms by (simp add: mult_right_mono)
  also have "\<dots> \<le> t" using assms pos_mod_sign [of k t] div_mult_mod_eq [of t k] by linarith
  finally show "n * k \<le> t" .
next
  assume "n * k \<le> t"
  then have "n * k div k \<le> t div k" using assms by (rule zdiv_mono1)
  then show "n \<le> t div k" using assms by simp
qed

lemma div_bounds:
  fixes k :: int
  assumes "0 < k"
  shows "k * (x div k) \<le> x" "x < k * (x div k + 1)"
proof -
  show "k * (x div k) \<le> x" using le_div_iff_mult_le [OF assms, of "x div k" x] by (simp add: mult.commute)
  show "x < k * (x div k + 1)" using le_div_iff_mult_le [OF assms, of "x div k + 1" x] by (simp add: mult.commute)
qed

lemma year_of_bounds: "year_start (year_of n) \<le> n \<and> n < year_start (year_of n + 1)"
proof -
  define a where "a = n div 146097"
  define r where "r = n mod 146097"
  define b where "b = min 3 (r div 36524)"
  define r2 where "r2 = r - 36524 * b"
  define c where "c = r2 div 1461"
  define r3 where "r3 = r2 - 1461 * c"
  define e where "e = min 3 (r3 div 365)"
  have n: "n = 146097 * a + r" "0 \<le> r" "r < 146097" by (simp_all add: a_def r_def)
  have b: "0 \<le> b" "b \<le> 3" "0 \<le> r2" "b < 3 \<Longrightarrow> r2 < 36524" "b = 3 \<Longrightarrow> r2 < 36525"
  proof -
    define q where "q = r div 36524"
    have q: "36524 * q \<le> r" "r < 36524 * (q + 1)" "0 \<le> q"
      unfolding q_def using n(2) by (simp_all only: div_bounds zero_less_numeral pos_imp_zdiv_nonneg_iff)
    have "b = (if q \<le> 3 then q else 3)" by (simp add: b_def q_def min_def)
    then show "0 \<le> b" "b \<le> 3" "0 \<le> r2" "b < 3 \<Longrightarrow> r2 < 36524" "b = 3 \<Longrightarrow> r2 < 36525"
      using q n by (auto simp: r2_def split: if_splits)
  qed
  have c: "0 \<le> c" "c \<le> 24" "0 \<le> r3" "r3 < 1461"
  proof -
    have "1461 * c \<le> r2" "r2 < 1461 * (c + 1)" unfolding c_def by (simp_all only: div_bounds zero_less_numeral)
    moreover have "r2 < 36525" using b by linarith
    ultimately show "0 \<le> c" "c \<le> 24" "0 \<le> r3" "r3 < 1461" using b(3) by (simp_all add: r3_def)
  qed
  have e: "0 \<le> e" "e \<le> 3" "365 * e \<le> r3" "e < 3 \<Longrightarrow> r3 < 365 * (e + 1)"
  proof -
    define q where "q = r3 div 365"
    have q: "365 * q \<le> r3" "r3 < 365 * (q + 1)" "0 \<le> q"
      unfolding q_def using c(3) by (simp_all only: div_bounds zero_less_numeral pos_imp_zdiv_nonneg_iff)
    have "e = (if q \<le> 3 then q else 3)" by (simp add: e_def q_def min_def)
    then show "0 \<le> e" "e \<le> 3" "365 * e \<le> r3" "e < 3 \<Longrightarrow> r3 < 365 * (e + 1)"
      using q c by (auto split: if_splits)
  qed
  have y: "year_of n = 400 * a + 100 * b + 4 * c + e + 1"
    by (simp only: year_of_def Let_def a_def r_def b_def r2_def c_def r3_def e_def)
  have s: "year_start (year_of n) = 146097 * a + 36524 * b + 1461 * c + 365 * e"
    unfolding y using b c e by (intro year_start_parts) simp_all
  have nn: "n = 146097 * a + 36524 * b + 1461 * c + r3" using n by (simp add: r2_def r3_def)
  have "r3 - 365 * e < (if leap (year_of n) then 366 else 365)"
  proof (cases "e < 3")
    case False
    then have e3: "e = 3" using e by simp
    have "leap (year_of n) \<longleftrightarrow> c \<noteq> 24 \<or> b = 3"
    proof -
      have y4: "year_of n = 400 * a + 100 * b + 4 * (c + 1)" using e3 y by simp
      have "year_of n mod 4 = 0"
        by (rule int_mod_pos_eq [where q = "100 * a + 25 * b + c + 1"]) (simp_all add: y4)
      moreover have m100: "year_of n mod 100 = (if c = 24 then 0 else 4 * (c + 1))"
        by (rule int_mod_pos_eq [where q = "4 * a + b + (if c = 24 then 1 else 0)"]) (use c in \<open>simp_all add: y4\<close>)
      moreover have m400: "year_of n mod 400 = (if b = 3 then 0 else 100 * (b + 1))" if "c = 24"
        by (rule int_mod_pos_eq [where q = "a + (if b = 3 then 1 else 0)"]) (use b in \<open>simp_all add: y4 that\<close>)
      moreover have "4 * (c + 1) \<noteq> 0" "100 * (b + 1) \<noteq> 0" using b(1) c(1) by simp_all
      moreover have "leap (year_of n) \<longleftrightarrow> year_of n mod 100 \<noteq> 0 \<or> year_of n mod 400 = 0"
        by (simp only: leap_def \<open>year_of n mod 4 = 0\<close> simp_thms)
      ultimately show ?thesis by metis
    qed
    moreover have "c = 24 \<Longrightarrow> b \<noteq> 3 \<Longrightarrow> r3 < 1460" using b by (simp add: r3_def)
    moreover have "r3 < 1461" using c by simp
    ultimately show ?thesis unfolding e3 by (cases "c \<noteq> 24 \<or> b = 3") simp_all
  next
    case True
    then have "r3 - 365 * e < 365" using e(4) by simp
    then show ?thesis by simp
  qed
  moreover define L :: int where "L = (if leap (year_of n) then 366 else 365)"
  ultimately show ?thesis using e(3) nn unfolding year_start_Suc s by (simp only: L_def [symmetric]) linarith
qed

lemma month_start_13: "month_start y 13 = (if leap y then 366 else 365)"
  by (simp add: month_start_def)

lemma month_search_bounds:
  assumes "0 \<le> r" "r < month_start y 13"
  shows "1 \<le> month_search y r 11 \<and> month_search y r 11 \<le> 12 \<and> month_start y (month_search y r 11) \<le> r \<and>
    r < month_start y (month_search y r 11 + 1)"
proof -
  have "1 \<le> month_search y r k \<and> month_search y r k \<le> int k + 1 \<and> month_start y (month_search y r k) \<le> r \<and>
      r < month_start y (month_search y r k + 1)" if "r < month_start y (int k + 2)" for k
    using that
  proof (induction k)
    case 0
    then show ?case using assms(1) by (simp add: month_start_def)
  next
    case (Suc k)
    show ?case
    proof (cases "month_start y (int k + 2) \<le> r")
      case True
      then show ?thesis using Suc.prems by (simp add: add.commute)
    next
      case False
      then show ?thesis using Suc.IH by (simp only: month_search.simps if_False not_le) simp
    qed
  qed
  from this [of 11] show ?thesis using assms(2) by simp
qed

text \<open>The fields of a day name a month that contains it.\<close>

lemma civil_bounds:
  assumes "civil n = (y, m, d)"
  shows "1 \<le> m \<and> m \<le> 12 \<and> date_days y m 1 \<le> n \<and> n < date_days y (m + 1) 1 \<and> day_number y m d = n"
proof -
  have y: "y = year_of n" and m: "m = month_search y (n - year_start y) 11"
    and d: "d = n - year_start y - month_start y m + 1" using assms by (auto simp: civil_def Let_def)
  have r: "0 \<le> n - year_start y" "n - year_start y < month_start y 13"
    using year_of_bounds [of n] by (simp_all add: y year_start_Suc month_start_13)
  have b: "1 \<le> m" "m \<le> 12" "month_start y m \<le> n - year_start y" "n - year_start y < month_start y (m + 1)"
    using month_search_bounds [OF r] by (simp_all add: m)
  have s: "date_days y m 1 = year_start y + month_start y m" using b by (simp add: date_days_def day_number_def)
  have t: "date_days y (m + 1) 1 = year_start y + month_start y (m + 1)"
  proof (cases "m = 12")
    case True
    then show ?thesis by (simp add: date_days_def day_number_def year_start_Suc month_start_13) (simp add: month_start_def)
  next
    case False
    then show ?thesis using b by (simp add: date_days_def day_number_def)
  qed
  show ?thesis using b by (simp add: s t d day_number_def)
qed

lemma day_of_midnight [simp]: "day_of (midnight n) = n"
  by (simp add: day_of_def midnight_def)

lemma midnight_le_iff: "midnight n \<le> t \<longleftrightarrow> n \<le> day_of t"
  by (simp add: midnight_def day_of_def le_div_iff_mult_le)

lemma less_midnight_iff: "t < midnight n \<longleftrightarrow> day_of t < n"
  using midnight_le_iff [of n t] by linarith

end
