(* ===== verification/SpecModel.thy ===== *)
theory SpecModel imports Assessment Principal begin

text \<open>
  \<open>internal/domain/spec/spec.go\<close>: the specification a tenant's engines are configured from, its versions and
  the approval transition. A Go map is an association list in iteration order. Times are arguments.
\<close>

datatype SpecStatus = SpecDraft | SpecValidating | SpecPendingReview | SpecApproved | SpecSuperseded | SpecRejected
  | SpecStatusOther string

definition Mutable :: "SpecStatus \<Rightarrow> bool" where
  "Mutable s \<longleftrightarrow> s = SpecDraft"

section \<open>Values with provenance\<close>

record 'a Field =
  fd_Value :: 'a
  fd_Provenance :: Provenance
  fd_Source :: string
  fd_Rationale :: string
  fd_AskedAt :: gotime
  fd_SetAt :: gotime

definition Confirmed :: "gotime \<Rightarrow> 'a \<Rightarrow> string \<Rightarrow> 'a Field" where
  "Confirmed wall v source = \<lparr>fd_Value = v, fd_Provenance = ProvenanceConfirmed, fd_Source = source,
     fd_Rationale = '''', fd_AskedAt = 0, fd_SetAt = wall\<rparr>"

definition Inferred :: "gotime \<Rightarrow> 'a \<Rightarrow> string \<Rightarrow> string \<Rightarrow> 'a Field" where
  "Inferred wall v source rationale = \<lparr>fd_Value = v, fd_Provenance = ProvenanceInferred, fd_Source = source,
     fd_Rationale = rationale, fd_AskedAt = 0, fd_SetAt = wall\<rparr>"

text \<open>\<open>zero\<close> is the zero value of the type.\<close>

definition Unknown :: "gotime \<Rightarrow> 'a \<Rightarrow> 'a Field" where
  "Unknown wall zero = \<lparr>fd_Value = zero, fd_Provenance = ProvenanceUnknown, fd_Source = '''',
     fd_Rationale = '''', fd_AskedAt = 0, fd_SetAt = wall\<rparr>"

definition NeedsConfirmation :: "gotime \<Rightarrow> 'a \<Rightarrow> string \<Rightarrow> string \<Rightarrow> 'a Field" where
  "NeedsConfirmation wall v source rationale = \<lparr>fd_Value = v, fd_Provenance = ProvenanceRequiresConfirmation,
     fd_Source = source, fd_Rationale = rationale, fd_AskedAt = 0, fd_SetAt = wall\<rparr>"

definition Known :: "'a Field \<Rightarrow> bool" where
  "Known f \<longleftrightarrow> fd_Provenance f = ProvenanceConfirmed \<or> fd_Provenance f = ProvenanceInferred \<or>
     fd_Provenance f = ProvenanceRequiresConfirmation"

section \<open>The specification\<close>

record OpenQuestion =
  oq_Path :: string
  oq_Question :: string
  oq_Why :: string
  oq_Required :: bool
  oq_Blocking :: bool
  oq_Options :: "string list"
  oq_AskedCount :: int

record SpecMember =
  mb_Email :: string
  mb_Name :: string
  mb_Roles :: "string list"

record SpecTeam =
  tm_Name :: string
  tm_Contact :: string
  tm_Owns :: "string list"
  tm_Members :: "SpecMember list"

record NotificationChannel =
  nc_Name :: string
  nc_Type :: string
  nc_Target :: string
  nc_SecretRef :: string
  nc_Severities :: "string list"

record Notifications =
  nt_Channels :: "NotificationChannel list"
  nt_Subscriptions :: "(string \<times> string list) list"
  nt_QuietHoursUTC :: string

record Observability =
  obs_MetricsSources :: "string list"
  obs_PrometheusEndpoint :: string
  obs_OTelEndpoint :: string
  obs_TracingEnabled :: bool
  obs_LogRetentionDays :: int

record SpecSecurity =
  sec_AWSAccessMode :: string
  sec_ComplianceFrameworks :: "string list"
  sec_DataResidency :: "string list"
  sec_EncryptionRequired :: bool
  sec_SSOProvider :: string
  sec_AuditRetentionDays :: int
  sec_PIIHandling :: string

record Governance =
  gv_ProductionChangesRequireApproval :: bool
  gv_MinApprovals :: int
  gv_ApproverRoles :: "string list"
  gv_SegregationOfDuties :: bool
  gv_ChangeManagementSystem :: string
  gv_ChangeFreezeWindows :: "string list"
  gv_PolicyPack :: string

record MaintenanceWindow =
  mw_Name :: string
  mw_Days :: "string list"
  mw_StartUTC :: string
  mw_DurationMinutes :: int
  mw_Environments :: "string list"

record Automation =
  au_Enabled :: bool
  au_Environments :: "string list"
  au_AutoExecuteActions :: "string list"
  au_MaintenanceWindows :: "MaintenanceWindow list"
  au_MaxConcurrentChanges :: int
  au_MaxMonthlyImpact :: rat
  au_ValidationWindowMinutes :: int
  au_AutoRollback :: bool

record SpecOptimization =
  op_RiskTolerance :: string
  op_Preferences :: "string list"
  op_ExcludedActions :: "string list"
  op_ExcludedResources :: "string list"
  op_ExcludedTags :: "(string \<times> string) list"
  op_SpotAllowed :: bool
  op_CommitmentAppetite :: string
  op_MinSavingThreshold :: rat

record CostSLOSpec =
  cs_Name :: string
  cs_Kind :: string
  cs_Scope :: string
  cs_Target :: rat
  cs_Transaction :: string
  cs_Window :: string
  cs_ErrorBudgetPct :: rat
  cs_BreachActions :: "string list"

record Objectives =
  ob_CostReductionTarget :: rat
  ob_MonthlyBudget :: rat
  ob_AvailabilityTarget :: rat
  ob_MaxLatencyMS :: rat
  ob_CostSLOs :: "CostSLOSpec list"
  ob_Timeframe :: string

record KPI =
  kpi_Name :: string
  kpi_Unit :: string
  kpi_Target :: rat

record TransactionSpec =
  tx_Name :: string
  tx_Description :: string
  tx_MonthlyVolume :: rat
  tx_Workloads :: "string list"
  tx_TargetCostPerUnit :: rat
  tx_VolumeMetric :: string
  tx_Critical :: bool

record SpecBusiness =
  bu_Transactions :: "TransactionSpec list"
  bu_KPIs :: "KPI list"
  bu_CustomerCount :: int
  bu_PeakSeasons :: "string list"
  bu_TrafficProfile :: string

record WorkloadSLO =
  ws_Availability :: rat
  ws_LatencyP95MS :: rat
  ws_LatencyP99MS :: rat
  ws_ErrorRateMax :: rat

record SpecWorkload =
  wl_Name :: string
  wl_Type :: string
  wl_Platform :: string
  wl_Environment :: string
  wl_Criticality :: string
  wl_Owner :: string
  wl_Team :: string
  wl_Cluster :: string
  wl_Namespace :: string
  wl_DependsOn :: "string list"
  wl_TagSelector :: "(string \<times> string) list"
  wl_SLO :: WorkloadSLO

record CURConfig =
  cur_Bucket :: string
  cur_Prefix :: string
  cur_Region :: string
  cur_ReportName :: string

record SpecAccount =
  sac_ID :: string
  sac_Alias :: string
  sac_Environment :: string
  sac_Regions :: "string list"
  sac_RoleARN :: string
  sac_ExternalID :: string
  sac_Production :: bool

record SpecAWS =
  aws_Accounts :: "SpecAccount list"
  aws_AccessMode :: string
  aws_PayerAccountID :: string
  aws_OrganizationID :: string
  aws_CUR :: "CURConfig option"

record ArchitectureProfile =
  apf_Style :: string
  apf_ComputePlatforms :: "string list"
  apf_Databases :: "string list"
  apf_Caches :: "string list"
  apf_Messaging :: "string list"
  apf_Storage :: "string list"
  apf_Networking :: "string list"
  apf_Observability :: "string list"
  apf_DeploymentModel :: string
  apf_IaC :: "string list"

record SpecApplication =
  apl_Name :: string
  apl_Description :: string
  apl_Domain :: string
  apl_Criticality :: string
  apl_Architecture :: ArchitectureProfile

record SpecOrganization =
  og_Name :: string
  og_Industry :: string
  og_Size :: string
  og_Regions :: "string list"
  og_PrimaryContact :: string

record Spec =
  sp_APIVersion :: string
  sp_Kind :: string
  sp_Organization :: SpecOrganization
  sp_Application :: SpecApplication
  sp_AWS :: SpecAWS
  sp_Workloads :: "SpecWorkload list"
  sp_Business :: SpecBusiness
  sp_Objectives :: Objectives
  sp_Optimization :: SpecOptimization
  sp_Automation :: Automation
  sp_Governance :: Governance
  sp_Security :: SpecSecurity
  sp_Observability :: Observability
  sp_Notifications :: Notifications
  sp_Teams :: "SpecTeam list"
  sp_Provenance :: "(string \<times> Provenance) list"
  sp_OpenQuestions :: "OpenQuestion list"


text \<open>The zero value, which stands in when a tenant has no approved specification.\<close>

definition zero_spec :: Spec where
  "zero_spec = \<lparr>sp_APIVersion = '''', sp_Kind = '''',
     sp_Organization = \<lparr>og_Name = '''', og_Industry = '''', og_Size = '''', og_Regions = [], og_PrimaryContact = ''''\<rparr>,
     sp_Application = \<lparr>apl_Name = '''', apl_Description = '''', apl_Domain = '''', apl_Criticality = '''',
       apl_Architecture = \<lparr>apf_Style = '''', apf_ComputePlatforms = [], apf_Databases = [], apf_Caches = [],
         apf_Messaging = [], apf_Storage = [], apf_Networking = [], apf_Observability = [], apf_DeploymentModel = '''',
         apf_IaC = []\<rparr>\<rparr>,
     sp_AWS = \<lparr>aws_Accounts = [], aws_AccessMode = '''', aws_PayerAccountID = '''', aws_OrganizationID = '''', aws_CUR = None\<rparr>,
     sp_Workloads = [],
     sp_Business = \<lparr>bu_Transactions = [], bu_KPIs = [], bu_CustomerCount = 0, bu_PeakSeasons = [], bu_TrafficProfile = ''''\<rparr>,
     sp_Objectives = \<lparr>ob_CostReductionTarget = 0, ob_MonthlyBudget = 0, ob_AvailabilityTarget = 0, ob_MaxLatencyMS = 0,
       ob_CostSLOs = [], ob_Timeframe = ''''\<rparr>,
     sp_Optimization = \<lparr>op_RiskTolerance = '''', op_Preferences = [], op_ExcludedActions = [], op_ExcludedResources = [],
       op_ExcludedTags = [], op_SpotAllowed = False, op_CommitmentAppetite = '''', op_MinSavingThreshold = 0\<rparr>,
     sp_Automation = \<lparr>au_Enabled = False, au_Environments = [], au_AutoExecuteActions = [], au_MaintenanceWindows = [],
       au_MaxConcurrentChanges = 0, au_MaxMonthlyImpact = 0, au_ValidationWindowMinutes = 0, au_AutoRollback = False\<rparr>,
     sp_Governance = \<lparr>gv_ProductionChangesRequireApproval = False, gv_MinApprovals = 0, gv_ApproverRoles = [],
       gv_SegregationOfDuties = False, gv_ChangeManagementSystem = '''', gv_ChangeFreezeWindows = [], gv_PolicyPack = ''''\<rparr>,
     sp_Security = \<lparr>sec_AWSAccessMode = '''', sec_ComplianceFrameworks = [], sec_DataResidency = [],
       sec_EncryptionRequired = False, sec_SSOProvider = '''', sec_AuditRetentionDays = 0, sec_PIIHandling = ''''\<rparr>,
     sp_Observability = \<lparr>obs_MetricsSources = [], obs_PrometheusEndpoint = '''', obs_OTelEndpoint = '''',
       obs_TracingEnabled = False, obs_LogRetentionDays = 0\<rparr>,
     sp_Notifications = \<lparr>nt_Channels = [], nt_Subscriptions = [], nt_QuietHoursUTC = ''''\<rparr>,
     sp_Teams = [], sp_Provenance = [], sp_OpenQuestions = []\<rparr>"

section \<open>Changes and versions\<close>

datatype ChangeKind = ChangeAdded | ChangeRemoved | ChangeModified

record Change =
  ch_Path :: string
  ch_Kind :: ChangeKind
  ch_Before :: string
  ch_After :: string
  ch_Impact :: string
  ch_Severity :: Severity

definition Change_Summarize :: "Change \<Rightarrow> string" where
  "Change_Summarize c = (case ch_Kind c of
     ChangeAdded \<Rightarrow> ''+ '' @ ch_Path c @ '' = '' @ ch_After c
   | ChangeRemoved \<Rightarrow> ''- '' @ ch_Path c @ '' (was '' @ ch_Before c @ '')''
   | ChangeModified \<Rightarrow> ''~ '' @ ch_Path c @ '': '' @ ch_Before c @ '' -> '' @ ch_After c)"

definition change_order :: "Change \<Rightarrow> Change \<Rightarrow> bool" where
  "change_order a b = (if Severity_Order (ch_Severity a) \<noteq> Severity_Order (ch_Severity b)
     then Severity_Order (ch_Severity a) > Severity_Order (ch_Severity b) else ch_Path a < ch_Path b)"

definition SortChanges :: "Change list \<Rightarrow> Change list" where
  "SortChanges changes = stable_sort change_order changes"

record Completeness =
  cp_TotalFields :: nat
  cp_Confirmed :: nat
  cp_Inferred :: nat
  cp_Unknown :: nat
  cp_NeedsConfirmation :: nat
  cp_Score :: rat
  cp_ReadyForReview :: bool
  cp_BlockingGaps :: "string list"

record SpecVersion =
  vn_ID :: ID
  vn_TenantID :: TenantID
  vn_SpecID :: ID
  vn_Version :: int
  vn_Status :: SpecStatus
  vn_Spec :: Spec
  vn_Checksum :: string
  vn_ParentID :: ID
  vn_Diff :: "Change list"
  vn_Validation :: ValidationResult
  vn_Completeness :: Completeness
  vn_CreatedBy :: string
  vn_CreatedAt :: gotime
  vn_ApprovedBy :: string
  vn_ApprovedAt :: "gotime option"
  vn_ApprovalID :: ID
  vn_RejectedReason :: string
  vn_ConversationID :: ID

definition Version_Approve :: "SpecVersion \<Rightarrow> string \<Rightarrow> ID \<Rightarrow> gotime \<Rightarrow> err option \<times> SpecVersion" where
  "Version_Approve v by' approvalID t =
    (if vn_Status v \<noteq> SpecPendingReview then (Some Conflict, v)
     else if HasBlocking (vn_Validation v) then (Some Invalid, v)
     else (None, v\<lparr>vn_Status := SpecApproved, vn_ApprovedBy := by', vn_ApprovalID := approvalID, vn_ApprovedAt := Some t\<rparr>))"

end
