(* ===== verification/SpecValidate.thy ===== *)
theory SpecValidate imports SpecModel begin

text \<open>
  \<open>internal/domain/spec/validate.go\<close>: the deterministic validation of a draft, check by check in the order of
  the code, and the completeness score. The regular expressions are written out; the message texts are not
  modelled.
\<close>

section \<open>Patterns\<close>

definition is_lower_letter :: "char \<Rightarrow> bool" where
  "is_lower_letter c = (let n = (of_char c :: nat) in 97 \<le> n \<and> n \<le> 122)"

text \<open>\<open>-[a-z]+-\d$\<close>\<close>

definition region_tail :: "string \<Rightarrow> bool" where
  "region_tail s = (case s of [] \<Rightarrow> False
     | c # cs \<Rightarrow> c = CHR ''-'' \<and> takeWhile is_lower_letter cs \<noteq> [] \<and>
        (case dropWhile is_lower_letter cs of [h, d] \<Rightarrow> h = CHR ''-'' \<and> is_digit d | _ \<Rightarrow> False))"

text \<open>\<open>^[a-z]{2}(-gov)?-[a-z]+-\d$\<close>\<close>

definition regionRe :: "string \<Rightarrow> bool" where
  "regionRe s \<longleftrightarrow> 2 \<le> length s \<and> list_all is_lower_letter (take 2 s) \<and>
     (region_tail (drop 2 s) \<or> (has_prefix (drop 2 s) ''-gov'' \<and> region_tail (drop 6 s)))"

text \<open>\<open>^arn:aws[a-z-]*:iam::\d{12}:role/.+$\<close>; the dot does not match a newline.\<close>

definition arnRoleRe :: "string \<Rightarrow> bool" where
  "arnRoleRe s = (has_prefix s ''arn:aws'' \<and>
     (let r = dropWhile (\<lambda>c. is_lower_letter c \<or> c = CHR ''-'') (drop 7 s) in
      has_prefix r '':iam::'' \<and>
      (let n = drop 6 r in 12 \<le> length n \<and> list_all is_digit (take 12 n) \<and> has_prefix (drop 12 n) '':role/'' \<and>
        drop 18 n \<noteq> [] \<and> CHR 0x0A \<notin> set (drop 18 n))))"

text \<open>\<open>^[^@\s]+@[^@\s]+\.[^@\s]+$\<close>\<close>

definition email_char :: "char \<Rightarrow> bool" where
  "email_char c \<longleftrightarrow> c \<noteq> CHR ''@'' \<and> of_char c \<notin> {9, 10, 12, 13, 32 :: nat}"

definition emailRe :: "string \<Rightarrow> bool" where
  "emailRe s = (case dropWhile email_char s of [] \<Rightarrow> False
     | c # domain \<Rightarrow> c = CHR ''@'' \<and> takeWhile email_char s \<noteq> [] \<and> list_all email_char domain \<and>
         domain \<noteq> [] \<and> CHR ''.'' \<in> set (butlast (tl domain)))"

text \<open>\<open>^([01]\d|2[0-3]):[0-5]\d$\<close>\<close>

definition timeRe :: "string \<Rightarrow> bool" where
  "timeRe s = (case s of [a, b, c, d, e] \<Rightarrow>
     ((a \<in> {CHR ''0'', CHR ''1''} \<and> is_digit b) \<or>
       (a = CHR ''2'' \<and> b \<in> {CHR ''0'', CHR ''1'', CHR ''2'', CHR ''3''})) \<and>
     c = CHR '':'' \<and> d \<in> {CHR ''0'', CHR ''1'', CHR ''2'', CHR ''3'', CHR ''4'', CHR ''5''} \<and> is_digit e
   | _ \<Rightarrow> False)"

definition validEnvironments :: "string list" where
  "validEnvironments = [''production'', ''staging'', ''development'', ''test'', ''sandbox'', ''dr'']"

definition validRiskTolerance :: "string list" where
  "validRiskTolerance = [''low'', ''medium'', ''high'']"

definition looksLikeSecret :: "string \<Rightarrow> bool" where
  "looksLikeSecret s = (let l = to_lower s in
     str_contains l ''hooks.slack.com/services/'' \<or> has_prefix l ''xoxb-'' \<or> has_prefix l ''xoxp-'' \<or>
     str_contains l ''token='' \<or> str_contains l ''secret='')"

definition role_of_string :: "string \<Rightarrow> Role" where
  "role_of_string s = (case map_of [(''platform_admin'', RolePlatformAdmin), (''tenant_admin'', RoleTenantAdmin),
     (''architect'', RoleArchitect), (''finops_analyst'', RoleFinOpsAnalyst), (''sre'', RoleSRE),
     (''developer'', RoleDeveloper), (''auditor'', RoleAuditor), (''viewer'', RoleViewer), (''system'', RoleSystem)] s
   of Some r \<Rightarrow> r | None \<Rightarrow> RoleOther s)"

section \<open>The checks\<close>

definition ix :: "string \<Rightarrow> nat \<Rightarrow> string" where
  "ix p i = p @ ''['' @ itoa i @ '']''"

text \<open>A check of every element of a list, with its index and the elements before it.\<close>

definition each :: "(nat \<Rightarrow> 'a list \<Rightarrow> 'a \<Rightarrow> ValidationResult) \<Rightarrow> 'a list \<Rightarrow> ValidationResult" where
  "each f xs = concat (map (\<lambda>i. f i (take i xs) (xs ! i)) [0..<length xs])"

definition assume_role :: "Spec \<Rightarrow> bool" where
  "assume_role s \<longleftrightarrow> aws_AccessMode (sp_AWS s) = ''assume_role'' \<or> sec_AWSAccessMode (sp_Security s) = ''assume_role''"

definition validate_account :: "Spec \<Rightarrow> nat \<Rightarrow> SpecAccount list \<Rightarrow> SpecAccount \<Rightarrow> ValidationResult" where
  "validate_account s i before a = (let p = ix ''aws.accounts'' i in
     report (\<not> AccountID_Validate (sac_ID a)) (p @ ''.id'') ''invalid'' SeverityCritical
     @ report (sac_ID a \<in> sac_ID ` set before) (p @ ''.id'') ''duplicate'' SeverityHigh
     @ (if sac_Environment a = '''' then report True (p @ ''.environment'') ''required'' SeverityHigh
        else report (to_lower (sac_Environment a) \<notin> set validEnvironments) (p @ ''.environment'') ''invalid'' SeverityMedium)
     @ report (sac_Regions a = []) (p @ ''.regions'') ''required'' SeverityHigh
     @ each (\<lambda>j _ r. report (\<not> regionRe r) (ix (p @ ''.regions'') j) ''invalid'' SeverityMedium) (sac_Regions a)
     @ (if assume_role s then
          (if sac_RoleARN a = '''' then report True (p @ ''.roleArn'') ''required'' SeverityCritical
           else report (\<not> arnRoleRe (sac_RoleARN a)) (p @ ''.roleArn'') ''invalid'' SeverityHigh)
          @ report (sac_ExternalID a = '''') (p @ ''.externalId'') ''required'' SeverityCritical
        else []))"

definition account_production :: "SpecAccount \<Rightarrow> bool" where
  "account_production a \<longleftrightarrow> equal_fold (sac_Environment a) ''production'' \<or> sac_Production a"

definition hasProduction :: "Spec \<Rightarrow> bool" where
  "hasProduction s \<longleftrightarrow> (\<exists>a \<in> set (aws_Accounts (sp_AWS s)). account_production a)"

definition validate_header :: "Spec \<Rightarrow> ValidationResult" where
  "validate_header s =
     (if sp_APIVersion s = '''' then report True ''apiVersion'' ''required'' SeverityHigh
      else report (sp_APIVersion s \<noteq> ''cloudoptix.io/v1'') ''apiVersion'' ''unsupported'' SeverityHigh)
     @ report (sp_Kind s \<noteq> '''' \<and> sp_Kind s \<noteq> ''CloudOptixSpec'') ''kind'' ''invalid'' SeverityHigh
     @ report (trim_space (og_Name (sp_Organization s)) = '''') ''organization.name'' ''required'' SeverityCritical
     @ report (trim_space (apl_Name (sp_Application s)) = '''') ''application.name'' ''required'' SeverityCritical"

definition access_mode :: "Spec \<Rightarrow> string" where
  "access_mode s = (if sec_AWSAccessMode (sp_Security s) = '''' then aws_AccessMode (sp_AWS s)
     else sec_AWSAccessMode (sp_Security s))"

definition validate_aws :: "Spec \<Rightarrow> ValidationResult" where
  "validate_aws s =
     report (aws_Accounts (sp_AWS s) = []) ''aws.accounts'' ''required'' SeverityCritical
     @ each (validate_account s) (aws_Accounts (sp_AWS s))
     @ (let mode = access_mode s in
        if mode = ''assume_role'' \<or> mode = ''simulated'' then []
        else if mode = '''' then report True ''security.awsAccessMode'' ''required'' SeverityHigh
        else report True ''security.awsAccessMode'' ''unsupported'' SeverityCritical)"

definition validate_slo :: "nat \<Rightarrow> CostSLOSpec list \<Rightarrow> CostSLOSpec \<Rightarrow> ValidationResult" where
  "validate_slo i _ slo = (let p = ix ''objectives.costSlos'' i in
     report (cs_Name slo = '''') (p @ ''.name'') ''required'' SeverityMedium
     @ report (cs_Target slo \<le> 0) (p @ ''.target'') ''invalid'' SeverityHigh
     @ report (cs_Kind slo = ''cost_per_transaction'' \<and> cs_Transaction slo = '''') (p @ ''.transaction'') ''required'' SeverityHigh
     @ report ((cs_ErrorBudgetPct slo < 0 \<or> cs_ErrorBudgetPct slo > 1 / 2) \<and> cs_ErrorBudgetPct slo \<noteq> 0)
         (p @ ''.errorBudgetPct'') ''implausible'' SeverityMedium)"

definition validate_objectives :: "Spec \<Rightarrow> ValidationResult" where
  "validate_objectives s = (let o' = sp_Objectives s; rt = op_RiskTolerance (sp_Optimization s) in
     report ((ob_CostReductionTarget o' < 0 \<or> ob_CostReductionTarget o' > f64 (9 / 10)) \<and> ob_CostReductionTarget o' \<noteq> 0)
       ''objectives.costReductionTarget'' ''implausible'' SeverityMedium
     @ report (ob_AvailabilityTarget o' \<noteq> 0 \<and> (ob_AvailabilityTarget o' \<le> 1 / 2 \<or> ob_AvailabilityTarget o' \<ge> 1))
       ''objectives.availabilityTarget'' ''implausible'' SeverityMedium
     @ report (ob_AvailabilityTarget o' \<ge> f64 (9999 / 10000) \<and> equal_fold rt ''high'')
       ''optimization.riskTolerance'' ''conflicting_objectives'' SeverityMedium
     @ each validate_slo (ob_CostSLOs o')
     @ (if rt = '''' then report True ''optimization.riskTolerance'' ''required'' SeverityMedium
        else report (to_lower rt \<notin> set validRiskTolerance) ''optimization.riskTolerance'' ''invalid'' SeverityMedium))"

definition validate_window :: "nat \<Rightarrow> MaintenanceWindow list \<Rightarrow> MaintenanceWindow \<Rightarrow> ValidationResult" where
  "validate_window i _ w = (let p = ix ''automation.maintenanceWindows'' i in
     report (\<not> timeRe (mw_StartUTC w)) (p @ ''.startUtc'') ''invalid'' SeverityMedium
     @ report (mw_DurationMinutes w \<le> 0) (p @ ''.durationMinutes'') ''invalid'' SeverityMedium
     @ report (mw_Days w = []) (p @ ''.days'') ''required'' SeverityLow)"

definition validate_automation :: "Spec \<Rightarrow> ValidationResult" where
  "validate_automation s = (let a = sp_Automation s in
     (if au_Enabled a then
        report (\<not> gv_ProductionChangesRequireApproval (sp_Governance s) \<and> hasProduction s)
          ''governance.productionChangesRequireApproval'' ''unsafe_combination'' SeverityHigh
        @ report (au_MaintenanceWindows a = [] \<and> hasProduction s)
          ''automation.maintenanceWindows'' ''missing_window'' SeverityHigh
        @ report (au_ValidationWindowMinutes a > 0 \<and> au_ValidationWindowMinutes a < 15)
          ''automation.validationWindowMinutes'' ''too_short'' SeverityMedium
        @ report (\<not> au_AutoRollback a) ''automation.autoRollback'' ''disabled'' SeverityMedium
        @ report (au_MaxConcurrentChanges a > 10) ''automation.maxConcurrentChanges'' ''too_high'' SeverityMedium
      else [])
     @ each validate_window (au_MaintenanceWindows a))"

definition tx_names :: "Spec \<Rightarrow> string list" where
  "tx_names s = map tx_Name (bu_Transactions (sp_Business s))"

definition wl_names :: "Spec \<Rightarrow> string list" where
  "wl_names s = map wl_Name (sp_Workloads s)"

definition validate_transaction :: "nat \<Rightarrow> TransactionSpec list \<Rightarrow> TransactionSpec \<Rightarrow> ValidationResult" where
  "validate_transaction i before t = (let p = ix ''business.transactions'' i in
     report (tx_Name t = '''') (p @ ''.name'') ''required'' SeverityMedium
     @ report (tx_Name t \<in> tx_Name ` set before) (p @ ''.name'') ''duplicate'' SeverityMedium
     @ report (tx_MonthlyVolume t < 0) (p @ ''.monthlyVolume'') ''invalid'' SeverityMedium
     @ report (tx_MonthlyVolume t = 0 \<and> tx_VolumeMetric t = '''') (p @ ''.monthlyVolume'') ''no_denominator'' SeverityLow)"

definition validate_workload :: "Spec \<Rightarrow> nat \<Rightarrow> SpecWorkload list \<Rightarrow> SpecWorkload \<Rightarrow> ValidationResult" where
  "validate_workload s i _ w = (let p = ix ''workloads'' i in
     report (wl_Name w = '''') (p @ ''.name'') ''required'' SeverityMedium
     @ each (\<lambda>j _ dep. report (dep \<notin> set (wl_names s)) (ix (p @ ''.dependsOn'') j) ''unresolved'' SeverityLow) (wl_DependsOn w)
     @ report (wl_Environment w \<noteq> '''' \<and> to_lower (wl_Environment w) \<notin> set validEnvironments)
         (p @ ''.environment'') ''invalid'' SeverityLow)"

definition validate_references :: "Spec \<Rightarrow> ValidationResult" where
  "validate_references s =
     each validate_transaction (bu_Transactions (sp_Business s))
     @ each (\<lambda>i _ slo. report (cs_Transaction slo \<noteq> '''' \<and> cs_Transaction slo \<notin> set (tx_names s))
         (ix ''objectives.costSlos'' i @ ''.transaction'') ''unresolved'' SeverityHigh) (ob_CostSLOs (sp_Objectives s))
     @ each (validate_workload s) (sp_Workloads s)
     @ each (\<lambda>i _ t. each (\<lambda>j _ wl. report (wl_names s \<noteq> [] \<and> wl \<notin> set (wl_names s))
           (ix (ix ''business.transactions'' i @ ''.workloads'') j) ''unresolved'' SeverityLow) (tx_Workloads t))
         (bu_Transactions (sp_Business s))"

definition validate_member :: "nat \<Rightarrow> nat \<Rightarrow> SpecMember \<Rightarrow> ValidationResult" where
  "validate_member i j m = (let p = ix (ix ''teams'' i @ ''.members'') j in
     report (\<not> emailRe (mb_Email m)) (p @ ''.email'') ''invalid'' SeverityMedium
     @ report (mb_Roles m = []) (p @ ''.roles'') ''required'' SeverityMedium
     @ each (\<lambda>k _ r. report (\<not> Role_Valid (role_of_string r)) (ix (p @ ''.roles'') k) ''invalid'' SeverityMedium) (mb_Roles m))"

definition validate_channel :: "nat \<Rightarrow> NotificationChannel list \<Rightarrow> NotificationChannel \<Rightarrow> ValidationResult" where
  "validate_channel i _ c = (let p = ix ''notifications.channels'' i in
     report (nc_Name c = '''') (p @ ''.name'') ''required'' SeverityLow
     @ report (nc_Type c \<notin> {''email'', ''slack'', ''webhook''}) (p @ ''.type'') ''invalid'' SeverityMedium
     @ report (looksLikeSecret (nc_Target c)) (p @ ''.target'') ''inline_secret'' SeverityCritical)"

definition Spec_Validate :: "Spec \<Rightarrow> ValidationResult" where
  "Spec_Validate s =
     validate_header s @ validate_aws s @ validate_objectives s @ validate_automation s @ validate_references s
     @ each (\<lambda>i _ t. each (\<lambda>j _ m. validate_member i j m) (tm_Members t)) (sp_Teams s)
     @ each validate_channel (nt_Channels (sp_Notifications s))"

section \<open>Completeness\<close>

record check =
  ck_path :: string
  ck_known :: bool
  ck_blocking :: bool
  ck_label :: string

definition mk_check :: "string \<times> bool \<times> bool \<times> string \<Rightarrow> check" where
  "mk_check c = (let (p, k, b, l) = c in \<lparr>ck_path = p, ck_known = k, ck_blocking = b, ck_label = l\<rparr>)"

definition spec_checks :: "Spec \<Rightarrow> check list" where
  "spec_checks s = (let hasProd = hasProduction s; app = sp_Application s; arch = apl_Architecture app; o' = sp_Objectives s in
     map mk_check
     [(''organization.name'', og_Name (sp_Organization s) \<noteq> '''', True, ''organization name''),
      (''organization.industry'', og_Industry (sp_Organization s) \<noteq> '''', False, ''industry''),
      (''application.name'', apl_Name app \<noteq> '''', True, ''application name''),
      (''application.domain'', apl_Domain app \<noteq> '''', False, ''business domain''),
      (''application.architecture.style'', apf_Style arch \<noteq> '''', False, ''architecture style''),
      (''application.architecture.computePlatforms'', apf_ComputePlatforms arch \<noteq> [], False, ''compute platforms''),
      (''application.architecture.databases'', apf_Databases arch \<noteq> [], False, ''databases''),
      (''aws.accounts'', aws_Accounts (sp_AWS s) \<noteq> [], True, ''AWS accounts''),
      (''aws.accessMode'', sec_AWSAccessMode (sp_Security s) \<noteq> '''' \<or> aws_AccessMode (sp_AWS s) \<noteq> '''', True, ''AWS access mode''),
      (''workloads'', sp_Workloads s \<noteq> [], False, ''workloads''),
      (''business.transactions'', bu_Transactions (sp_Business s) \<noteq> [], False, ''business transactions''),
      (''objectives.costReductionTarget'', ob_CostReductionTarget o' > 0, False, ''cost reduction target''),
      (''objectives.monthlyBudget'', ob_MonthlyBudget o' > 0, False, ''monthly budget''),
      (''objectives.availabilityTarget'', ob_AvailabilityTarget o' > 0, False, ''availability target''),
      (''objectives.maxLatencyMs'', ob_MaxLatencyMS o' > 0, False, ''latency objective''),
      (''optimization.riskTolerance'', op_RiskTolerance (sp_Optimization s) \<noteq> '''', True, ''risk tolerance''),
      (''automation.enabled'', True, False, ''automation preference''),
      (''governance.productionChangesRequireApproval'',
         \<not> hasProd \<or> gv_ProductionChangesRequireApproval (sp_Governance s) \<or> \<not> au_Enabled (sp_Automation s), hasProd,
         ''production approval policy''),
      (''security.complianceFrameworks'', sec_ComplianceFrameworks (sp_Security s) \<noteq> [], False, ''compliance requirements''),
      (''notifications.channels'', nt_Channels (sp_Notifications s) \<noteq> [], False, ''notification channels''),
      (''teams'', sp_Teams s \<noteq> [], False, ''teams and ownership'')])"

text \<open>A missing key reads as the empty string.\<close>

definition provenance_at :: "Spec \<Rightarrow> string \<Rightarrow> Provenance" where
  "provenance_at s path = (case map_of (sp_Provenance s) path of Some p \<Rightarrow> p | None \<Rightarrow> ProvenanceOther '''')"

definition count_field :: "Spec \<Rightarrow> check \<Rightarrow> Completeness \<Rightarrow> Completeness" where
  "count_field s ch c =
    (if \<not> ck_known ch then
       let c = c\<lparr>cp_Unknown := cp_Unknown c + 1\<rparr> in
       if ck_blocking ch then c\<lparr>cp_BlockingGaps := cp_BlockingGaps c @ [ck_label ch]\<rparr> else c
     else if provenance_at s (ck_path ch) = ProvenanceInferred then c\<lparr>cp_Inferred := cp_Inferred c + 1\<rparr>
     else if provenance_at s (ck_path ch) = ProvenanceRequiresConfirmation
       then c\<lparr>cp_NeedsConfirmation := cp_NeedsConfirmation c + 1\<rparr>
     else c\<lparr>cp_Confirmed := cp_Confirmed c + 1\<rparr>)"

definition completeness_score :: "Completeness \<Rightarrow> rat" where
  "completeness_score c = f64 (f64 (f64 (i2f (int (cp_Confirmed c)) + f64 (f64 (7 / 10) * i2f (int (cp_Inferred c))))
     + f64 (f64 (4 / 10) * i2f (int (cp_NeedsConfirmation c)))) / i2f (int (cp_TotalFields c)))"

definition AssessCompleteness :: "Spec \<Rightarrow> Completeness" where
  "AssessCompleteness s = (let
     c = \<lparr>cp_TotalFields = length (spec_checks s), cp_Confirmed = 0, cp_Inferred = 0, cp_Unknown = 0,
       cp_NeedsConfirmation = 0, cp_Score = 0, cp_ReadyForReview = False, cp_BlockingGaps = []\<rparr>;
     c = fold (count_field s) (spec_checks s) c;
     c = (if cp_TotalFields c > 0 then c\<lparr>cp_Score := completeness_score c\<rparr> else c)
   in c\<lparr>cp_ReadyForReview := (cp_BlockingGaps c = [])\<rparr>)"

section \<open>What a specification without blocking issues guarantees\<close>

lemma each_blocking [simp]:
  "HasBlocking (each f xs) \<longleftrightarrow> (\<exists>i < length xs. HasBlocking (f i (take i xs) (xs ! i)))"
  by (auto simp: each_def)

lemma no_duplicates: "(\<And>i. i < length xs \<Longrightarrow> f (xs ! i) \<notin> f ` set (take i xs)) \<Longrightarrow> distinct (map f xs)"
proof (induction xs rule: rev_induct)
  case (snoc x xs)
  have "f (xs ! i) \<notin> f ` set (take i xs)" if "i < length xs" for i
    using snoc.prems [of i] that by (simp add: nth_append)
  moreover have "f x \<notin> f ` set xs" using snoc.prems [of "length xs"] by simp
  ultimately show ?case using snoc.IH by simp
qed simp

lemma account_ok:
  assumes "\<not> HasBlocking (validate_account s i before a)"
  shows "AccountID_Validate (sac_ID a) \<and> sac_ID a \<notin> sac_ID ` set before \<and> sac_Environment a \<noteq> '''' \<and> sac_Regions a \<noteq> [] \<and>
    (assume_role s \<longrightarrow> arnRoleRe (sac_RoleARN a) \<and> sac_ExternalID a \<noteq> '''')"
proof -
  have "\<not> arnRoleRe ''''" by (simp add: arnRoleRe_def has_prefix_def)
  then show ?thesis using assms by (auto simp: validate_account_def Let_def split: if_splits)
qed

text \<open>C37: a specification without blocking issues can be acted on: it names its organization and application, has
  accounts with distinct twelve-digit ids and regions, a supported access mode with a well-formed role and an
  external id for each account under role assumption, positive cost objectives that name declared
  transactions, no inline credential, and never lets automation touch production without an approval
  requirement and a maintenance window.\<close>

theorem Spec_Validate_guarantees:
  assumes "\<not> HasBlocking (Spec_Validate s)"
  shows "trim_space (og_Name (sp_Organization s)) \<noteq> '''' \<and> trim_space (apl_Name (sp_Application s)) \<noteq> '''' \<and>
    aws_Accounts (sp_AWS s) \<noteq> [] \<and> distinct (map sac_ID (aws_Accounts (sp_AWS s))) \<and>
    (\<forall>a \<in> set (aws_Accounts (sp_AWS s)). AccountID_Validate (sac_ID a) \<and> sac_Regions a \<noteq> [] \<and>
       (assume_role s \<longrightarrow> arnRoleRe (sac_RoleARN a) \<and> sac_ExternalID a \<noteq> '''')) \<and>
    access_mode s \<in> {''assume_role'', ''simulated''} \<and>
    (\<forall>slo \<in> set (ob_CostSLOs (sp_Objectives s)). cs_Target slo > 0 \<and>
       (cs_Transaction slo \<noteq> '''' \<longrightarrow> cs_Transaction slo \<in> set (tx_names s))) \<and>
    (\<forall>c \<in> set (nt_Channels (sp_Notifications s)). \<not> looksLikeSecret (nc_Target c)) \<and>
    (au_Enabled (sp_Automation s) \<and> hasProduction s \<longrightarrow>
       gv_ProductionChangesRequireApproval (sp_Governance s) \<and> au_MaintenanceWindows (sp_Automation s) \<noteq> [])"
proof -
  have b: "\<not> HasBlocking (validate_header s)" "\<not> HasBlocking (validate_aws s)" "\<not> HasBlocking (validate_objectives s)"
    "\<not> HasBlocking (validate_automation s)" "\<not> HasBlocking (validate_references s)"
    "\<not> HasBlocking (each validate_channel (nt_Channels (sp_Notifications s)))"
    using assms by (simp_all add: Spec_Validate_def del: each_blocking)
  let ?as = "aws_Accounts (sp_AWS s)"
  have as: "AccountID_Validate (sac_ID (?as ! i)) \<and> sac_ID (?as ! i) \<notin> sac_ID ` set (take i ?as) \<and>
      sac_Environment (?as ! i) \<noteq> '''' \<and> sac_Regions (?as ! i) \<noteq> [] \<and>
      (assume_role s \<longrightarrow> arnRoleRe (sac_RoleARN (?as ! i)) \<and> sac_ExternalID (?as ! i) \<noteq> '''')" if "i < length ?as" for i
    using b(2) that by (intro account_ok) (auto simp: validate_aws_def)
  have "distinct (map sac_ID ?as)" using as by (intro no_duplicates) blast
  moreover have "?as \<noteq> []" "access_mode s \<in> {''assume_role'', ''simulated''}"
    using b(2) by (auto simp: validate_aws_def Let_def split: if_splits)
  moreover have "\<forall>a \<in> set ?as. AccountID_Validate (sac_ID a) \<and> sac_Regions a \<noteq> [] \<and>
       (assume_role s \<longrightarrow> arnRoleRe (sac_RoleARN a) \<and> sac_ExternalID a \<noteq> '''')"
    using as by (metis in_set_conv_nth)
  moreover have "\<forall>slo \<in> set (ob_CostSLOs (sp_Objectives s)). cs_Target slo > 0"
  proof -
    have "\<not> HasBlocking (each validate_slo (ob_CostSLOs (sp_Objectives s)))"
      using b(3) by (simp add: validate_objectives_def Let_def del: each_blocking)
    then have "\<not> cs_Target (ob_CostSLOs (sp_Objectives s) ! i) \<le> 0" if "i < length (ob_CostSLOs (sp_Objectives s))" for i
      using that by (auto simp: validate_slo_def Let_def)
    then show ?thesis by (metis in_set_conv_nth not_less)
  qed
  moreover have "\<forall>slo \<in> set (ob_CostSLOs (sp_Objectives s)). cs_Transaction slo \<noteq> '''' \<longrightarrow> cs_Transaction slo \<in> set (tx_names s)"
    using b(5) by (auto simp: validate_references_def in_set_conv_nth)
  moreover have "\<forall>c \<in> set (nt_Channels (sp_Notifications s)). \<not> looksLikeSecret (nc_Target c)"
    using b(6) by (auto simp: validate_channel_def Let_def in_set_conv_nth)
  moreover have "trim_space (og_Name (sp_Organization s)) \<noteq> ''''" "trim_space (apl_Name (sp_Application s)) \<noteq> ''''"
    using b(1) by (simp_all add: validate_header_def)
  moreover have "au_Enabled (sp_Automation s) \<and> hasProduction s \<longrightarrow>
       gv_ProductionChangesRequireApproval (sp_Governance s) \<and> au_MaintenanceWindows (sp_Automation s) \<noteq> []"
    using b(4) by (auto simp: validate_automation_def Let_def)
  ultimately show ?thesis by blast
qed

definition sample_spec :: Spec where
  "sample_spec = zero_spec\<lparr>sp_APIVersion := ''cloudoptix.io/v1'',
     sp_Organization := (sp_Organization zero_spec)\<lparr>og_Name := ''Acme''\<rparr>,
     sp_Application := (sp_Application zero_spec)\<lparr>apl_Name := ''shop''\<rparr>,
     sp_AWS := (sp_AWS zero_spec)\<lparr>aws_Accounts := [\<lparr>sac_ID = ''123456789012'', sac_Alias = ''prod'',
         sac_Environment = ''production'', sac_Regions = [''us-east-1''], sac_RoleARN = ''arn:aws:iam::123456789012:role/optix'',
         sac_ExternalID = ''x1'', sac_Production = True\<rparr>]\<rparr>,
     sp_Security := (sp_Security zero_spec)\<lparr>sec_AWSAccessMode := ''assume_role''\<rparr>,
     sp_Optimization := (sp_Optimization zero_spec)\<lparr>op_RiskTolerance := ''low''\<rparr>,
     sp_Automation := (sp_Automation zero_spec)\<lparr>au_Enabled := True, au_AutoRollback := True,
       au_MaintenanceWindows := [\<lparr>mw_Name = ''night'', mw_Days = [''fri''], mw_StartUTC = ''23:00'', mw_DurationMinutes = 120,
         mw_Environments = []\<rparr>]\<rparr>,
     sp_Governance := (sp_Governance zero_spec)\<lparr>gv_ProductionChangesRequireApproval := True\<rparr>\<rparr>"

lemma sample_spec_valid: "\<not> HasBlocking (Spec_Validate sample_spec)"
proof -
  have 1: "\<not> HasBlocking (validate_header sample_spec)"
    by (simp add: validate_header_def sample_spec_def zero_spec_def trim_space_def is_space_def)
  have arn: "arnRoleRe ''arn:aws:iam::123456789012:role/optix''" by code_simp
  have 2: "\<not> HasBlocking (validate_aws sample_spec)"
    by (simp add: validate_aws_def validate_account_def access_mode_def assume_role_def sample_spec_def zero_spec_def
        AccountID_Validate_def is_digit_def arn Let_def)
  have 3: "\<not> HasBlocking (validate_objectives sample_spec)"
    by (simp add: validate_objectives_def sample_spec_def zero_spec_def Let_def)
  have 4: "\<not> HasBlocking (validate_automation sample_spec)"
    by (simp add: validate_automation_def validate_window_def sample_spec_def zero_spec_def Let_def)
  have 5: "\<not> HasBlocking (validate_references sample_spec)"
    by (simp add: validate_references_def sample_spec_def zero_spec_def Let_def)
  show ?thesis using 1 2 3 4 5 by (simp add: Spec_Validate_def) (simp add: sample_spec_def zero_spec_def)
qed

theorem Spec_Validate_guarantees_witness:
  "hasProduction sample_spec \<and> au_MaintenanceWindows (sp_Automation sample_spec) \<noteq> [] \<and> access_mode sample_spec = ''assume_role''"
proof -
  have "hasProduction sample_spec" by (simp add: hasProduction_def account_production_def sample_spec_def zero_spec_def Let_def)
  moreover have "au_Enabled (sp_Automation sample_spec)" "access_mode sample_spec = ''assume_role''"
    by (simp_all add: sample_spec_def zero_spec_def access_mode_def)
  ultimately show ?thesis using Spec_Validate_guarantees [OF sample_spec_valid] by blast
qed

section \<open>The completeness score\<close>

definition field_counts :: "Completeness \<Rightarrow> nat" where
  "field_counts c = cp_Confirmed c + cp_Inferred c + cp_NeedsConfirmation c + cp_Unknown c"

lemma fold_count_field:
  "field_counts (fold (count_field s) chs c) = field_counts c + length chs \<and>
   cp_TotalFields (fold (count_field s) chs c) = cp_TotalFields c \<and>
   cp_BlockingGaps (fold (count_field s) chs c) =
     cp_BlockingGaps c @ map ck_label (filter (\<lambda>ch. \<not> ck_known ch \<and> ck_blocking ch) chs)"
  by (induction chs arbitrary: c) (simp_all add: count_field_def field_counts_def Let_def)

lemma score_range:
  assumes "cp_Confirmed c + cp_Inferred c + cp_NeedsConfirmation c \<le> cp_TotalFields c" "cp_TotalFields c \<le> 2 ^ 53" "0 < cp_TotalFields c"
  shows "0 \<le> completeness_score c \<and> completeness_score c \<le> 1"
proof -
  define a b n t where "a = int (cp_Confirmed c)" and "b = int (cp_Inferred c)" and "n = int (cp_NeedsConfirmation c)"
    and "t = int (cp_TotalFields c)"
  have nn: "0 \<le> a" "0 \<le> b" "0 \<le> n" "0 < t" "a + b + n \<le> t" "t \<le> 2 ^ 53"
    using assms by (simp_all add: a_def b_def n_def t_def)
  have e: "i2f a = of_int a" "i2f b = of_int b" "i2f n = of_int n" "i2f t = of_int t"
    using nn by simp_all
  have w: "0 \<le> f64 (7 / 10)" "f64 (7 / 10) \<le> 1" "0 \<le> f64 (4 / 10)" "f64 (4 / 10) \<le> 1"
    using f64_mono [of "7 / 10" 1] f64_mono [of "4 / 10" 1] by (simp_all add: f64_nonneg)
  have part: "0 \<le> f64 (x * of_int k) \<and> f64 (x * of_int k) \<le> of_int k" if "0 \<le> x" "x \<le> 1" "0 \<le> k" "k \<le> 2 ^ 53" for x :: rat and k
    using that f64_mono [of "x * of_int k" "of_int k"] by (simp add: f64_nonneg mult_left_le_one_le)
  define u where "u = f64 (of_int a + f64 (f64 (7 / 10) * of_int b))"
  have p1: "0 \<le> f64 (f64 (7 / 10) * of_int b)" "f64 (f64 (7 / 10) * of_int b) \<le> of_int b"
    and p2: "0 \<le> f64 (f64 (4 / 10) * of_int n)" "f64 (f64 (4 / 10) * of_int n) \<le> of_int n"
    using part [OF w(1,2), of b] part [OF w(3,4), of n] nn by simp_all
  have u: "0 \<le> u" "u \<le> of_int (a + b)"
    using nn p1 f64_mono [of "of_int a + f64 (f64 (7 / 10) * of_int b)" "of_int (a + b)"] f64_of_int [of "a + b"]
    by (simp_all add: u_def f64_nonneg)
  define v where "v = f64 (u + f64 (f64 (4 / 10) * of_int n))"
  have v: "0 \<le> v" "v \<le> of_int t"
  proof -
    have "u + f64 (f64 (4 / 10) * of_int n) \<le> of_int t" using u(2) p2(2) nn(5) by (metis (no_types, lifting) add_mono of_int_add of_int_le_iff order_trans)
    then show "v \<le> of_int t" using f64_mono [of "u + f64 (f64 (4 / 10) * of_int n)" "of_int t"] f64_of_int [of t] nn by (simp add: v_def)
    show "0 \<le> v" using u(1) p2(1) by (simp add: v_def f64_nonneg)
  qed
  have s: "completeness_score c = f64 (v / of_int t)"
    unfolding completeness_score_def a_def [symmetric] b_def [symmetric] n_def [symmetric] t_def [symmetric]
    by (simp only: e u_def v_def)
  have "0 \<le> v / of_int t" "v / of_int t \<le> 1" using v nn by simp_all
  then show ?thesis unfolding s using f64_mono [of "v / of_int t" 1] by (simp add: f64_nonneg)
qed

text \<open>Every one of the 21 fields is counted exactly once, the score lies between 0 and 1, and the specification is
  ready for review exactly when every blocking field is known; the reported gaps are their labels.\<close>

theorem AssessCompleteness_sound:
  "(let c = AssessCompleteness s in field_counts c = 21 \<and> cp_TotalFields c = 21 \<and> 0 \<le> cp_Score c \<and> cp_Score c \<le> 1 \<and>
     cp_BlockingGaps c = map ck_label (filter (\<lambda>ch. \<not> ck_known ch \<and> ck_blocking ch) (spec_checks s)) \<and>
     cp_ReadyForReview c = list_all (\<lambda>ch. ck_blocking ch \<longrightarrow> ck_known ch) (spec_checks s))"
proof -
  define z where "z = \<lparr>cp_TotalFields = 21, cp_Confirmed = 0, cp_Inferred = 0, cp_Unknown = 0,
       cp_NeedsConfirmation = 0, cp_Score = 0, cp_ReadyForReview = False, cp_BlockingGaps = []\<rparr>"
  define c where "c = fold (count_field s) (spec_checks s) z"
  have l: "length (spec_checks s) = 21" by (simp add: spec_checks_def Let_def)
  have c: "field_counts c = 21" "cp_TotalFields c = 21"
    "cp_BlockingGaps c = map ck_label (filter (\<lambda>ch. \<not> ck_known ch \<and> ck_blocking ch) (spec_checks s))"
    using fold_count_field [of s "spec_checks s" z] by (simp_all add: c_def l) (simp_all add: z_def field_counts_def)
  have a: "AssessCompleteness s = c\<lparr>cp_Score := completeness_score c, cp_ReadyForReview := (cp_BlockingGaps c = [])\<rparr>"
    unfolding AssessCompleteness_def l z_def [symmetric] Let_def c_def [symmetric] using c(2) by simp
  have "0 \<le> completeness_score c \<and> completeness_score c \<le> 1"
    using c(1,2) by (intro score_range) (simp_all add: field_counts_def)
  moreover have "(cp_BlockingGaps c = []) = list_all (\<lambda>ch. ck_blocking ch \<longrightarrow> ck_known ch) (spec_checks s)"
    by (auto simp: c(3) filter_empty_conv list_all_iff)
  ultimately show ?thesis using c by (simp add: a field_counts_def Let_def)
qed

theorem AssessCompleteness_sound_witness:
  "cp_TotalFields (AssessCompleteness zero_spec) = 21 \<and> cp_Score (AssessCompleteness zero_spec) \<le> 1"
  using AssessCompleteness_sound [of zero_spec] by (simp add: Let_def)

end
