(* ===== verification/SpecDiff.thy ===== *)
theory SpecDiff imports SpecModel "HOL-Library.AList" begin

text \<open>
  \<open>internal/domain/spec/diff.go\<close>: the structural diff of two specifications and the content checksum. \<open>flatten\<close>
  round-trips through a third-party YAML package: what it unmarshals to is the parameter \<open>tree\<close>, a tree whose
  scalars carry the text \<open>fmt\<close> prints for them; \<open>None\<close> is a marshalling error. The SHA-256 fingerprint is the
  parameter \<open>sha\<close>.
\<close>

datatype ytree = YMap "(string \<times> ytree) list" | YList "ytree list" | YNull | YScalar string

section \<open>Flattening\<close>

definition path_join :: "string \<Rightarrow> string \<Rightarrow> string" where
  "path_join prefix key = (if prefix = '''' then key else prefix @ ''.'' @ key)"

text \<open>A flat specification is an association list from paths to texts with one entry per path.\<close>

type_synonym flat = "(string \<times> string) list"

function walk :: "string \<Rightarrow> ytree \<Rightarrow> flat \<Rightarrow> flat" where
  "walk pre (YMap entries) out = fold (\<lambda>(k, t). walk (path_join pre k) t) (sort_key fst entries) out"
| "walk pre (YList items) out = fold (\<lambda>(i, t). walk (pre @ ''['' @ itoa i @ '']'') t) (enumerate 0 items) out"
| "walk pre YNull out = out"
| "walk pre (YScalar s) out = AList.update pre s out"
  by pat_completeness auto

termination
  by (relation "measure (\<lambda>(pre, t, out). size t)")
    (auto simp: in_set_enumerate_eq dest!: nth_mem intro!: size_list_estimation' less_Suc_eq_le[THEN iffD2])

definition flatten :: "(Spec \<Rightarrow> ytree option) \<Rightarrow> Spec \<Rightarrow> flat" where
  "flatten tree s = (case tree s of None \<Rightarrow> [] | Some t \<Rightarrow> walk '''' t [])"

lemma fold_distinct_keys:
  "(\<And>x out. x \<in> set xs \<Longrightarrow> distinct (map fst out) \<Longrightarrow> distinct (map fst (f x out))) \<Longrightarrow>
   distinct (map fst out) \<Longrightarrow> distinct (map fst (fold f xs out))"
  by (induction xs arbitrary: out) simp_all

lemma walk_distinct: "distinct (map fst out) \<Longrightarrow> distinct (map fst (walk pre t out))"
proof (induction pre t out rule: walk.induct)
  case (1 pre entries out)
  show ?case unfolding walk.simps
    by (rule fold_distinct_keys [OF _ "1.prems"]) (use "1.IH" in \<open>auto split: prod.splits\<close>)
next
  case (2 pre items out)
  show ?case unfolding walk.simps
    by (rule fold_distinct_keys [OF _ "2.prems"]) (use "2.IH" in \<open>auto split: prod.splits\<close>)
qed (simp_all add: distinct_update)

lemma flatten_distinct: "distinct (map fst (flatten tree s))"
  by (simp add: flatten_def walk_distinct split: option.split)

section \<open>The diff\<close>

definition has_suffix :: "string \<Rightarrow> string \<Rightarrow> bool" where
  "has_suffix s p \<longleftrightarrow> length p \<le> length s \<and> drop (length s - length p) s = p"

definition severityFor :: "string \<Rightarrow> Severity" where
  "severityFor path =
    (if has_prefix path ''automation.'' \<or> has_prefix path ''governance.'' \<or> has_prefix path ''security.'' \<or>
        has_prefix path ''aws.accounts'' \<or> path = ''aws.accessMode'' then SeverityHigh
     else if has_prefix path ''objectives.'' \<or> has_prefix path ''optimization.'' \<or>
        has_prefix path ''business.transactions'' then SeverityMedium
     else if has_prefix path ''workloads'' \<or> has_prefix path ''notifications.'' \<or> has_prefix path ''teams'' then SeverityLow
     else SeverityInfo)"

definition impactFor :: "string \<Rightarrow> string \<Rightarrow> string \<Rightarrow> string" where
  "impactFor path before after =
    (if path = ''automation.enabled'' then
       (if after = ''true'' then ''CloudOptix may execute approved optimizations automatically within policy''
        else ''all optimizations become advisory; nothing will execute automatically'')
     else if path = ''automation.autoRollback'' then
       (if after = ''false'' then ''a regression after an automated change will alert rather than self-heal''
        else ''regressions after automated changes will trigger an automatic rollback'')
     else if path = ''governance.productionChangesRequireApproval'' then
       (if after = ''false'' then ''production changes may proceed without a named human approver''
        else ''every production change will wait for human approval'')
     else if path = ''optimization.riskTolerance'' then
       ''recommendation ranking and architecture scoring shift from '' @ before @ '' to '' @ after @ '' weighting''
     else if has_prefix path ''objectives.availabilityTarget'' then
       ''reliability-reducing recommendations will be filtered against the new target''
     else if has_prefix path ''objectives.costReductionTarget'' then
       ''the savings funnel and executive dashboard retarget against this goal''
     else if has_prefix path ''objectives.costSlos'' then ''cost SLO evaluation and economic error budgets change''
     else if has_prefix path ''aws.accounts'' \<and> has_suffix path ''.regions'' then
       ''discovery scope changes; resources outside the new region set stop being tracked''
     else if has_prefix path ''aws.accounts'' then ''account onboarding and discovery scope are affected''
     else if path = ''security.awsAccessMode'' then ''how CloudOptix authenticates to this estate changes''
     else if has_prefix path ''business.transactions'' then
       ''cost-per-transaction denominators change; unit economics history is not comparable across this edit''
     else if has_prefix path ''optimization.excluded'' then
       ''the set of resources or actions CloudOptix will propose changes for narrows or widens''
     else '''')"

definition mk_change :: "string \<Rightarrow> ChangeKind \<Rightarrow> string \<Rightarrow> string \<Rightarrow> Change" where
  "mk_change p k b a = \<lparr>ch_Path = p, ch_Kind = k, ch_Before = b, ch_After = a, ch_Impact = impactFor p b a,
     ch_Severity = severityFor p\<rparr>"

definition change_at :: "flat \<Rightarrow> flat \<Rightarrow> string \<Rightarrow> Change list" where
  "change_at bm am p = (case (map_of bm p, map_of am p) of
     (Some b, Some a) \<Rightarrow> if b = a then [] else [mk_change p ChangeModified b a]
   | (None, Some a) \<Rightarrow> [mk_change p ChangeAdded '''' a]
   | (Some b, None) \<Rightarrow> [mk_change p ChangeRemoved b '''']
   | (None, None) \<Rightarrow> [mk_change p ChangeModified '''' ''''])"

definition Diff :: "(Spec \<Rightarrow> ytree option) \<Rightarrow> Spec \<Rightarrow> Spec \<Rightarrow> Change list" where
  "Diff tree before after = (let
     bm = flatten tree before; am = flatten tree after;
     ordered = sort (remdups (map fst bm @ map fst am))
   in SortChanges (concat (map (change_at bm am) ordered)))"

definition HasMaterialChanges :: "Change list \<Rightarrow> bool" where
  "HasMaterialChanges changes \<longleftrightarrow> (\<exists>c \<in> set changes. Severity_Order (ch_Severity c) \<ge> Severity_Order SeverityMedium)"

definition checksum_text :: "flat \<Rightarrow> string" where
  "checksum_text fl = concat (map (\<lambda>k. k @ ''='' @ the (map_of fl k) @ [CHR 0x0A]) (sort (map fst fl)))"

definition ComputeChecksum :: "(string \<Rightarrow> string) \<Rightarrow> (Spec \<Rightarrow> ytree option) \<Rightarrow> Spec \<Rightarrow> string" where
  "ComputeChecksum sha tree s = sha (checksum_text (flatten tree s))"

section \<open>The diff is exact\<close>

definition apply_change :: "Change \<Rightarrow> (string \<rightharpoonup> string) \<Rightarrow> (string \<rightharpoonup> string)" where
  "apply_change c m = (case ch_Kind c of ChangeRemoved \<Rightarrow> m(ch_Path c := None) | _ \<Rightarrow> m(ch_Path c \<mapsto> ch_After c))"

lemma swo_change_order: "strict_weak_order change_order"
proof -
  have eq: "change_order = then_by (by_desc (Severity_Order \<circ> ch_Severity)) (by_asc ch_Path)"
    by (intro ext) (auto simp: change_order_def then_by_def by_desc_def by_asc_def)
  show ?thesis unfolding eq by (intro swo_then_by swo_by_desc swo_by_asc)
qed

interpretation changes: strict_weak_order change_order
  by (rule swo_change_order)

definition changed :: "(string \<rightharpoonup> string) \<Rightarrow> (string \<rightharpoonup> string) \<Rightarrow> string \<Rightarrow> Change option" where
  "changed b a p = (if b p = a p then None else Some (case (b p, a p) of
     (Some x, Some y) \<Rightarrow> mk_change p ChangeModified x y | (None, Some y) \<Rightarrow> mk_change p ChangeAdded '''' y
   | (Some x, None) \<Rightarrow> mk_change p ChangeRemoved x '''' | (None, None) \<Rightarrow> mk_change p ChangeModified '''' ''''))"

lemma change_at_changed:
  assumes "p \<in> fst ` set bm \<union> fst ` set am"
  shows "change_at bm am p = (case changed (map_of bm) (map_of am) p of None \<Rightarrow> [] | Some c \<Rightarrow> [c])"
proof -
  have "map_of bm p \<noteq> None \<or> map_of am p \<noteq> None" using assms by (auto simp: map_of_eq_None_iff)
  then show ?thesis by (auto simp: change_at_def changed_def split: option.splits)
qed

lemma changed_keys:
  assumes "changed (map_of bm) (map_of am) p = Some c"
  shows "p \<in> fst ` set bm \<union> fst ` set am"
proof (rule ccontr)
  assume "p \<notin> fst ` set bm \<union> fst ` set am"
  then have "map_of bm p = None" "map_of am p = None" by (simp_all add: map_of_eq_None_iff)
  with assms show False by (simp add: changed_def)
qed

lemma in_change_at:
  "p \<in> fst ` set bm \<union> fst ` set am \<Longrightarrow> c \<in> set (change_at bm am p) \<longleftrightarrow> changed (map_of bm) (map_of am) p = Some c"
  by (cases "changed (map_of bm) (map_of am) p") (auto simp: change_at_changed)

lemma in_Diff_iff:
  "c \<in> set (Diff tree s t) \<longleftrightarrow> (\<exists>p. changed (map_of (flatten tree s)) (map_of (flatten tree t)) p = Some c)"
proof -
  define bm am where "bm = flatten tree s" and "am = flatten tree t"
  have "set (Diff tree s t) = (\<Union>p \<in> fst ` set bm \<union> fst ` set am. set (change_at bm am p))"
    by (simp only: Diff_def SortChanges_def Let_def set_stable_sort set_concat set_map set_sort set_remdups set_append image_image
        bm_def am_def)
  then have "c \<in> set (Diff tree s t) \<longleftrightarrow> (\<exists>p \<in> fst ` set bm \<union> fst ` set am. c \<in> set (change_at bm am p))"
    by (simp only: UN_iff)
  also have "\<dots> \<longleftrightarrow> (\<exists>p. changed (map_of bm) (map_of am) p = Some c)"
    using in_change_at changed_keys by metis
  finally show ?thesis by (simp only: bm_def am_def)
qed

lemma set_Diff:
  "set (Diff tree s t) = {c. \<exists>p. changed (map_of (flatten tree s)) (map_of (flatten tree t)) p = Some c}"
  by (simp only: set_eq_iff in_Diff_iff mem_Collect_eq simp_thms)

lemma changed_path: "changed b a p = Some c \<Longrightarrow> ch_Path c = p"
  by (auto simp: changed_def mk_change_def split: if_splits option.splits)

lemma changed_apply: "changed b a p = Some c \<Longrightarrow> apply_change c m = m(p := a p)"
  by (auto simp: changed_def mk_change_def apply_change_def split: if_splits option.splits)

lemma path_change_at: "map ch_Path (change_at bm am p) = (if change_at bm am p = [] then [] else [p])"
  by (simp add: change_at_def mk_change_def split: option.split)

lemma paths_change_at:
  "map ch_Path (concat (map (change_at bm am) ps)) = filter (\<lambda>p. change_at bm am p \<noteq> []) ps"
  by (induction ps) (simp_all add: path_change_at)

lemma Diff_paths_distinct: "distinct (map ch_Path (Diff tree s t))"
proof -
  let ?cs = "concat (map (change_at (flatten tree s) (flatten tree t)) (sort (remdups (map fst (flatten tree s) @ map fst (flatten tree t)))))"
  have "distinct (map ch_Path ?cs)" unfolding paths_change_at by simp
  moreover have "mset (map ch_Path (Diff tree s t)) = mset (map ch_Path ?cs)"
    by (simp add: Diff_def SortChanges_def Let_def del: map_append)
  ultimately show ?thesis by (metis mset_eq_imp_distinct_iff)
qed

lemma fold_apply_changes:
  assumes "\<And>c. c \<in> set cs \<Longrightarrow> changed b a (ch_Path c) = Some c"
  shows "fold apply_change cs m p = (if p \<in> ch_Path ` set cs then a p else m p)"
  using assms
proof (induction cs arbitrary: m)
  case (Cons c cs)
  have "changed b a (ch_Path c) = Some c" using Cons.prems by simp
  then have "apply_change c m = m(ch_Path c := a (ch_Path c))" by (rule changed_apply)
  with Cons show ?case by auto
qed simp

text \<open>C38: the diff is exact: applying its changes to the old version's paths gives exactly the new version's, each path
  is named at most once, the diff is empty exactly when both versions flatten to the same map, and the
  changes come in order of falling severity.\<close>

theorem Diff_roundtrip:
  "fold apply_change (Diff tree s t) (map_of (flatten tree s)) = map_of (flatten tree t) \<and>
   distinct (map ch_Path (Diff tree s t)) \<and>
   (Diff tree s t = [] \<longleftrightarrow> map_of (flatten tree s) = map_of (flatten tree t)) \<and>
   sorted_wrt (\<lambda>c d. Severity_Order (ch_Severity d) \<le> Severity_Order (ch_Severity c)) (Diff tree s t)"
proof -
  let ?b = "map_of (flatten tree s)" and ?a = "map_of (flatten tree t)"
  have c: "changed ?b ?a (ch_Path c) = Some c" if "c \<in> set (Diff tree s t)" for c
    using that changed_path by (auto simp: set_Diff)
  have same: "?b p = ?a p" if "p \<notin> ch_Path ` set (Diff tree s t)" for p
  proof (rule ccontr)
    assume "?b p \<noteq> ?a p"
    then obtain d where d: "changed ?b ?a p = Some d" by (auto simp: changed_def)
    then have "d \<in> set (Diff tree s t)" "ch_Path d = p" by (auto simp: set_Diff changed_path)
    with that show False by blast
  qed
  have "fold apply_change (Diff tree s t) ?b p = ?a p" for p
    using fold_apply_changes [where cs = "Diff tree s t", OF c] same by simp
  moreover have "Diff tree s t = [] \<longleftrightarrow> ?b = ?a"
  proof
    assume "Diff tree s t = []"
    then show "?b = ?a" using same by auto
  next
    assume "?b = ?a"
    then have "set (Diff tree s t) = {}" by (simp add: set_Diff changed_def)
    then show "Diff tree s t = []" by simp
  qed
  moreover have "sorted_wrt (\<lambda>c d. Severity_Order (ch_Severity d) \<le> Severity_Order (ch_Severity c)) (Diff tree s t)"
  proof -
    have "sorted_by change_order (Diff tree s t)"
      by (simp add: Diff_def SortChanges_def Let_def changes.sorted_stable_sort del: map_append)
    then show ?thesis unfolding sorted_by_def
      by (rule sorted_wrt_mono_rel [rotated]) (auto simp: change_order_def split: if_splits)
  qed
  ultimately show ?thesis using Diff_paths_distinct by (simp add: fun_eq_iff)
qed

section \<open>What a checksum identifies\<close>

definition newline :: char where "newline = CHR 0x0A"

text \<open>A flat specification whose paths and values do not contain the separators.\<close>

definition clean :: "flat \<Rightarrow> bool" where
  "clean fl \<longleftrightarrow> (\<forall>(k, v) \<in> set fl. CHR ''='' \<notin> set k \<and> newline \<notin> set k \<and> newline \<notin> set v)"

lemma line_unique:
  assumes "k @ ''='' @ v @ [newline] @ r = k' @ ''='' @ v' @ [newline] @ r'"
    and "CHR ''='' \<notin> set k" "CHR ''='' \<notin> set k'" "newline \<notin> set v" "newline \<notin> set v'"
  shows "k = k' \<and> v = v' \<and> r = r'"
proof -
  have span: "takeWhile (\<lambda>x. x \<noteq> c) (xs @ c # ys) = xs \<and> dropWhile (\<lambda>x. x \<noteq> c) (xs @ c # ys) = c # ys"
    if "c \<notin> set xs" for c and xs ys :: string
    using that by (induction xs) auto
  have k: "k = k'" "CHR ''='' # v @ [newline] @ r = CHR ''='' # v' @ [newline] @ r'"
    using span [OF assms(2), of "v @ [newline] @ r"] span [OF assms(3), of "v' @ [newline] @ r'"] assms(1)
    by (metis append_Cons append_Nil)+
  then have "v @ newline # r = v' @ newline # r'" by simp
  then show ?thesis using k(1) span [OF assms(4), of r] span [OF assms(5), of r'] by (metis list.inject)
qed

lemma lines_unique:
  assumes "concat (map (\<lambda>k. k @ ''='' @ f k @ [newline]) ks) = concat (map (\<lambda>k. k @ ''='' @ g k @ [newline]) ks')"
    and "\<And>k. k \<in> set ks \<Longrightarrow> CHR ''='' \<notin> set k \<and> newline \<notin> set (f k)"
    and "\<And>k. k \<in> set ks' \<Longrightarrow> CHR ''='' \<notin> set k \<and> newline \<notin> set (g k)"
  shows "ks = ks' \<and> (\<forall>k \<in> set ks. f k = g k)"
  using assms
proof (induction ks arbitrary: ks')
  case Nil
  then show ?case by (cases ks') simp_all
next
  case (Cons k ks)
  then obtain k' ks'' where ks': "ks' = k' # ks''" by (cases ks') simp_all
  have "k @ ''='' @ f k @ [newline] @ concat (map (\<lambda>k. k @ ''='' @ f k @ [newline]) ks) =
      k' @ ''='' @ g k' @ [newline] @ concat (map (\<lambda>k. k @ ''='' @ g k @ [newline]) ks'')"
    using Cons.prems(1) by (simp add: ks')
  from line_unique [OF this] have "k = k'" "f k = g k'"
    "concat (map (\<lambda>k. k @ ''='' @ f k @ [newline]) ks) = concat (map (\<lambda>k. k @ ''='' @ g k @ [newline]) ks'')"
    using Cons.prems(2,3) by (auto simp: ks')
  moreover from Cons.IH [OF this(3)] Cons.prems(2,3) have "ks = ks'' \<and> (\<forall>k \<in> set ks. f k = g k)" by (simp add: ks')
  ultimately show ?case by (simp add: ks')
qed

lemma clean_value: "clean fl \<Longrightarrow> k \<in> set (map fst fl) \<Longrightarrow> CHR ''='' \<notin> set k \<and> newline \<notin> set (the (map_of fl k))"
proof -
  assume c: "clean fl" and "k \<in> set (map fst fl)"
  then obtain v where v: "map_of fl k = Some v" by (cases "map_of fl k") (simp_all add: map_of_eq_None_iff)
  then have "(k, v) \<in> set fl" by (rule map_of_SomeD)
  with c show ?thesis by (simp add: clean_def v split_beta) (metis fst_conv snd_conv)
qed

text \<open>On specifications whose paths and values are free of the separators the checksum is faithful: equal
  checksums mean equal content, or a collision of the hash function.\<close>

theorem ComputeChecksum_faithful:
  assumes "clean (flatten tree s)" "clean (flatten tree t)" "ComputeChecksum sha tree s = ComputeChecksum sha tree t"
  shows "map_of (flatten tree s) = map_of (flatten tree t) \<or> (\<exists>x y. x \<noteq> y \<and> sha x = sha y)"
proof (cases "checksum_text (flatten tree s) = checksum_text (flatten tree t)")
  case True
  let ?s = "flatten tree s" and ?t = "flatten tree t"
  have "sort (map fst ?s) = sort (map fst ?t) \<and> (\<forall>k \<in> set (sort (map fst ?s)). the (map_of ?s k) = the (map_of ?t k))"
    by (rule lines_unique) (use True clean_value [OF assms(1)] clean_value [OF assms(2)] in \<open>simp_all add: checksum_text_def newline_def\<close>)
  then have k: "set (map fst ?s) = set (map fst ?t)" "\<And>k. k \<in> set (map fst ?s) \<Longrightarrow> the (map_of ?s k) = the (map_of ?t k)"
    by (metis set_sort)+
  have "map_of ?s p = map_of ?t p" for p
  proof (cases "p \<in> set (map fst ?s)")
    case True
    then have "map_of ?s p \<noteq> None" "map_of ?t p \<noteq> None" using k(1) by (simp_all add: map_of_eq_None_iff)
    then show ?thesis using k(2) [OF True] by auto
  next
    case False
    then show ?thesis using k(1) by (metis list.set_map map_of_eq_None_iff)
  qed
  then show ?thesis by (simp add: fun_eq_iff)
next
  case False
  then show ?thesis using assms(3) by (auto simp: ComputeChecksum_def)
qed

text \<open>A tree in the shape YAML gives two fields of the application; an empty domain is omitted.\<close>

definition app_tree :: "Spec \<Rightarrow> ytree option" where
  "app_tree s = (let a = sp_Application s in Some (YMap [(''application'', YMap ((''description'', YScalar (apl_Description a)) #
     (if apl_Domain a = '''' then [] else [(''domain'', YScalar (apl_Domain a))])))]))"

definition describe :: "string \<Rightarrow> string \<Rightarrow> Spec" where
  "describe d dmn = zero_spec\<lparr>sp_Application := (sp_Application zero_spec)\<lparr>apl_Description := d, apl_Domain := dmn\<rparr>\<rparr>"

lemma flatten_describe: "flatten app_tree (describe d dmn) =
    (''application.description'', d) # (if dmn = '''' then [] else [(''application.domain'', dmn)])"
  by (simp add: flatten_def app_tree_def describe_def zero_spec_def path_join_def insort_key.simps less_eq_list_code less_char_def)

text \<open>In general it is not: a description that contains a line break followed by another path makes two
  different specifications share a checksum, whatever the hash function, although their diff is not empty.\<close>

theorem ComputeChecksum_ambiguous:
  "\<exists>tree s t. Diff tree s t \<noteq> [] \<and> (\<forall>sha. ComputeChecksum sha tree s = ComputeChecksum sha tree t)"
proof -
  let ?s = "describe (''x'' @ newline # ''application.domain=y'') ''''" and ?t = "describe ''x'' ''y''"
  have "changed (map_of (flatten app_tree ?s)) (map_of (flatten app_tree ?t)) ''application.domain'' \<noteq> None"
    by (simp add: flatten_describe changed_def)
  then have "set (Diff app_tree ?s ?t) \<noteq> {}" unfolding set_Diff by blast
  then have "Diff app_tree ?s ?t \<noteq> []" by auto
  moreover have "ComputeChecksum sha app_tree ?s = ComputeChecksum sha app_tree ?t" for sha
    by (simp add: ComputeChecksum_def checksum_text_def flatten_describe newline_def)
  ultimately show ?thesis by blast
qed

theorem ComputeChecksum_faithful_witness:
  "clean (flatten app_tree (describe ''x'' ''y'')) \<and> clean (flatten app_tree (describe ''x'' ''z'')) \<and>
   ComputeChecksum (\<lambda>_. ''0'') app_tree (describe ''x'' ''y'') = ComputeChecksum (\<lambda>_. ''0'') app_tree (describe ''x'' ''z'') \<and>
   (\<exists>x y :: string. x \<noteq> y \<and> (\<lambda>_. ''0'') x = (\<lambda>_ :: string. ''0'') y)"
proof -
  have c: "clean (flatten app_tree (describe ''x'' ''y''))" "clean (flatten app_tree (describe ''x'' ''z''))"
    by (simp_all add: clean_def flatten_describe newline_def)
  have e: "ComputeChecksum (\<lambda>_. ''0'') app_tree (describe ''x'' ''y'') = ComputeChecksum (\<lambda>_. ''0'') app_tree (describe ''x'' ''z'')"
    by (simp add: ComputeChecksum_def)
  have "map_of (flatten app_tree (describe ''x'' ''y'')) ''application.domain'' \<noteq>
      map_of (flatten app_tree (describe ''x'' ''z'')) ''application.domain''" by (simp add: flatten_describe)
  then show ?thesis using ComputeChecksum_faithful [OF c e] c e by metis
qed

end
