(* ===== verification/Maintenance.thy ===== *)
theory Maintenance imports Calendar SpecModel begin

text \<open>
  \<open>internal/application/governance/maintenance.go\<close>: maintenance windows, change-freeze ranges and the exclusion
  lists of the specification. Times are UTC.
\<close>

section \<open>Maintenance windows\<close>

definition windowAppliesToEnvironment :: "MaintenanceWindow \<Rightarrow> Environment \<Rightarrow> bool" where
  "windowAppliesToEnvironment w env \<longleftrightarrow> mw_Environments w = [] \<or> (\<exists>e \<in> set (mw_Environments w). equal_fold e (env_string env))"

text \<open>The day is its number.\<close>

definition windowAppliesToDay :: "MaintenanceWindow \<Rightarrow> int \<Rightarrow> bool" where
  "windowAppliesToDay w day = (let name = weekday_name day in
     mw_Days w = [] \<or> (\<exists>d \<in> set (mw_Days w). let d = to_lower (trim_space d) in
       d = name \<or> (length d = 3 \<and> d = take 3 name)))"

definition window_start :: "int \<times> int \<Rightarrow> int \<Rightarrow> gotime" where
  "window_start hm day = midnight day + fst hm * nanos_per_hour + snd hm * 60000000000"

definition window_end :: "MaintenanceWindow \<Rightarrow> int \<times> int \<Rightarrow> int \<Rightarrow> gotime" where
  "window_end w hm day = window_start hm day + wrap64 (mw_DurationMinutes w * 60000000000)"

text \<open>The loop over the candidate days, the instant's own day and the day before it.\<close>

definition window_covers :: "MaintenanceWindow \<Rightarrow> Environment \<Rightarrow> gotime \<Rightarrow> bool" where
  "window_covers w env now = (if \<not> windowAppliesToEnvironment w env then False
     else case parse_hhmm (mw_StartUTC w) of None \<Rightarrow> False
     | Some hm \<Rightarrow> list_ex (\<lambda>dayOffset. let candidateDay = day_of now + dayOffset in
         windowAppliesToDay w candidateDay \<and> \<not> now < window_start hm candidateDay \<and> now < window_end w hm candidateDay)
       [0, -1])"

definition InMaintenanceWindow :: "Spec \<Rightarrow> Environment \<Rightarrow> gotime \<Rightarrow> MaintenanceWindow option" where
  "InMaintenanceWindow sp env now = find (\<lambda>w. window_covers w env now) (au_MaintenanceWindows (sp_Automation sp))"

section \<open>Change freezes\<close>

text \<open>\<open>strings.SplitN(raw, "..", 2)\<close> when the separator occurs.\<close>

fun split_dots :: "string \<Rightarrow> (string \<times> string) option" where
  "split_dots (a # b # cs) = (if a = CHR ''.'' \<and> b = CHR ''.'' then Some ([], cs)
     else map_option (\<lambda>(x, y). (a # x, y)) (split_dots (b # cs)))"
| "split_dots _ = None"

definition parseFreezeWindow :: "string \<Rightarrow> (gotime \<times> gotime) option" where
  "parseFreezeWindow raw = (case split_dots raw of None \<Rightarrow> None
     | Some (a, b) \<Rightarrow> (case (parse_date (trim_space a), parse_date (trim_space b)) of
         (Some start, Some endDay) \<Rightarrow>
           let end' = midnight endDay + (24 * nanos_per_hour - 1) in
           if end' < midnight start then None else Some (midnight start, end')
       | _ \<Rightarrow> None))"

definition freeze_active :: "gotime \<Rightarrow> string \<Rightarrow> bool" where
  "freeze_active now raw = (case parseFreezeWindow raw of None \<Rightarrow> False
     | Some (start, end') \<Rightarrow> \<not> now < start \<and> now < end')"

definition InChangeFreeze :: "Spec \<Rightarrow> gotime \<Rightarrow> string option" where
  "InChangeFreeze sp now = find (freeze_active now) (gv_ChangeFreezeWindows (sp_Governance sp))"

section \<open>Exclusions\<close>

definition resourceExcluded :: "string list \<Rightarrow> ID \<Rightarrow> string \<Rightarrow> bool" where
  "resourceExcluded excluded resourceID nativeID \<longleftrightarrow> (\<exists>x \<in> set excluded. x = resourceID \<or> x = nativeID)"

definition actionExcluded :: "string list \<Rightarrow> string \<Rightarrow> bool" where
  "actionExcluded excluded action \<longleftrightarrow> (\<exists>x \<in> set excluded. equal_fold (trim_space x) action)"

definition excluded_tag :: "Tags \<Rightarrow> string \<times> string \<Rightarrow> string option" where
  "excluded_tag tags kw = (let (k, want) = kw in
     case Tags_Get tags k of None \<Rightarrow> None
     | Some got \<Rightarrow> if want = '''' \<or> want = ''*'' \<or> equal_fold got want then Some (k @ ''='' @ got) else None)"

definition tagsExcluded :: "(string \<times> string) list \<Rightarrow> Tags \<Rightarrow> string option" where
  "tagsExcluded excludedTags tags = (case find (\<lambda>kw. excluded_tag tags kw \<noteq> None) excludedTags of
     None \<Rightarrow> None | Some kw \<Rightarrow> excluded_tag tags kw)"

section \<open>Windows mean what they say\<close>

text \<open>The natural reading: some day on which the window applies has an occurrence that covers the instant.\<close>

definition declared_open :: "MaintenanceWindow \<Rightarrow> Environment \<Rightarrow> gotime \<Rightarrow> bool" where
  "declared_open w env now \<longleftrightarrow> windowAppliesToEnvironment w env \<and> (\<exists>hm day. parse_hhmm (mw_StartUTC w) = Some hm \<and>
     windowAppliesToDay w day \<and> window_start hm day \<le> now \<and> now < window_start hm day + mw_DurationMinutes w * 60000000000)"

lemma digit_range: "is_digit c \<Longrightarrow> 0 \<le> digit_val c \<and> digit_val c \<le> 9"
proof -
  have "digit_val c = int (of_char c) - 48" unfolding digit_val_def by (simp only: of_nat_of_char)
  then show "is_digit c \<Longrightarrow> ?thesis" by (simp add: is_digit_def Let_def)
qed

lemma parse_hhmm_range:
  assumes "parse_hhmm s = Some hm" shows "0 \<le> fst hm \<and> fst hm < 24 \<and> 0 \<le> snd hm \<and> snd hm < 60"
proof -
  have m: "0 \<le> 10 * digit_val a + digit_val b" if "is_digit a" "is_digit b" for a b
    using digit_range [OF that(1)] digit_range [OF that(2)] by linarith
  have d: "0 \<le> digit_val a" if "is_digit a" for a using digit_range [OF that] by blast
  show ?thesis using assms by (auto simp: parse_hhmm_def Let_def m d split: list.splits if_splits)
qed

lemma time_in_day: "midnight (day_of now) \<le> now" "now < midnight (day_of now) + nanos_per_day"
  using midnight_le_iff [of "day_of now" now] less_midnight_iff [of now "day_of now + 1"]
  by (simp_all add: midnight_def distrib_right)

text \<open>An occurrence of at most a day covers instants of its own day and of the next one only.\<close>

lemma occurrence_days:
  assumes "0 \<le> off" "off < nanos_per_day" "dur \<le> nanos_per_day"
    and "midnight day + off \<le> now" "now < midnight day + off + dur"
  shows "day = day_of now \<or> day = day_of now + -1"
proof -
  have "midnight day \<le> now" using assms by linarith
  moreover have "now < midnight (day + 2)" using assms by (simp add: midnight_def distrib_right)
  ultimately show ?thesis unfolding midnight_le_iff less_midnight_iff by linarith
qed

text \<open>C39: a maintenance window of at most a day is evaluated exactly as declared, across midnight included: the
  two candidate days that the code tries are enough.\<close>

theorem window_covers_declared:
  assumes "0 < mw_DurationMinutes w" "mw_DurationMinutes w \<le> 1440"
  shows "window_covers w env now \<longleftrightarrow> declared_open w env now"
proof (cases "windowAppliesToEnvironment w env \<and> parse_hhmm (mw_StartUTC w) \<noteq> None")
  case True
  then obtain hm where hm: "windowAppliesToEnvironment w env" "parse_hhmm (mw_StartUTC w) = Some hm" by blast
  define off where "off = fst hm * nanos_per_hour + snd hm * 60000000000"
  define dur where "dur = mw_DurationMinutes w * 60000000000"
  have off: "0 \<le> off" "off < nanos_per_day" using parse_hhmm_range [OF hm(2)] by (simp_all add: off_def)
  have dur: "dur \<le> nanos_per_day" "wrap64 dur = dur" using assms by (simp_all add: dur_def int64_def)
  have st: "window_start hm day = midnight day + off" for day by (simp add: window_start_def off_def)
  have en: "window_end w hm day = midnight day + off + dur" for day
    using dur(2) by (simp add: window_end_def st flip: dur_def)
  have "window_covers w env now \<longleftrightarrow> (\<exists>day. (day = day_of now \<or> day = day_of now + -1) \<and> windowAppliesToDay w day \<and>
      midnight day + off \<le> now \<and> now < midnight day + off + dur)"
    unfolding window_covers_def using hm by (auto simp: st en Let_def)
  also have "\<dots> \<longleftrightarrow> (\<exists>day. windowAppliesToDay w day \<and> midnight day + off \<le> now \<and> now < midnight day + off + dur)"
    using occurrence_days [OF off dur(1)] by blast
  also have "\<dots> \<longleftrightarrow> declared_open w env now"
    unfolding declared_open_def using hm by (simp add: st flip: dur_def)
  finally show ?thesis .
qed (auto simp: window_covers_def declared_open_def split: option.splits)

definition friday_late :: MaintenanceWindow where
  "friday_late = \<lparr>mw_Name = ''night'', mw_Days = [''fri''], mw_StartUTC = ''23:00'', mw_DurationMinutes = 120,
     mw_Environments = [''production'']\<rparr>"

text \<open>Day 4 is a Friday; half past midnight on the Saturday is still covered.\<close>

theorem window_covers_declared_witness:
  "window_covers friday_late EnvProduction (midnight 5 + 30 * 60000000000) \<and>
   declared_open friday_late EnvProduction (midnight 5 + 30 * 60000000000) \<and>
   \<not> declared_open friday_late EnvProduction (midnight 4 + 30 * 60000000000)"
proof -
  have "0 < mw_DurationMinutes friday_late" "mw_DurationMinutes friday_late \<le> 1440" by (simp_all add: friday_late_def)
  note w = window_covers_declared [OF this]
  have "window_covers friday_late EnvProduction (midnight 5 + 30 * 60000000000)" by code_simp
  moreover have "\<not> window_covers friday_late EnvProduction (midnight 4 + 30 * 60000000000)" by code_simp
  ultimately show ?thesis unfolding w by blast
qed

section \<open>Change freezes mean what they say\<close>

lemma parseFreezeWindow_dates:
  "parseFreezeWindow raw = Some (start, end') \<longleftrightarrow> (\<exists>a b initial final. split_dots raw = Some (a, b) \<and>
     parse_date (trim_space a) = Some initial \<and> parse_date (trim_space b) = Some final \<and> initial \<le> final \<and>
     start = midnight initial \<and> end' = midnight final + (nanos_per_day - 1))"
proof -
  have "midnight final + (24 * nanos_per_hour - 1) < midnight initial \<longleftrightarrow> \<not> initial \<le> final" for initial final
    using less_midnight_iff [of "midnight final + (nanos_per_day - 1)" initial]
    by (simp add: midnight_def day_of_def not_le)
  then show ?thesis by (auto simp: parseFreezeWindow_def Let_def split: option.splits prod.splits)
qed

text \<open>A change freeze covers exactly the instants of the days that it names, the last day included, but for
  the last nanosecond of that day.\<close>

theorem freeze_active_days:
  assumes "split_dots raw = Some (a, b)" "parse_date (trim_space a) = Some initial" "parse_date (trim_space b) = Some final"
  shows "freeze_active now raw \<longleftrightarrow> initial \<le> day_of now \<and> day_of now \<le> final \<and> now \<noteq> midnight (final + 1) - 1"
proof (cases "initial \<le> final")
  case True
  then have "parseFreezeWindow raw = Some (midnight initial, midnight final + (nanos_per_day - 1))"
    using assms by (simp add: parseFreezeWindow_dates)
  moreover have "now < midnight final + (nanos_per_day - 1) \<longleftrightarrow> now < midnight (final + 1) \<and> now \<noteq> midnight (final + 1) - 1"
    by (auto simp: midnight_def distrib_right)
  ultimately show ?thesis
    using midnight_le_iff [of initial now] less_midnight_iff [of now "final + 1"] by (auto simp: freeze_active_def)
next
  case False
  then have "parseFreezeWindow raw = None"
    using assms parseFreezeWindow_dates [of raw] by (cases "parseFreezeWindow raw") auto
  with False show ?thesis by (simp add: freeze_active_def)
qed

theorem freeze_active_days_witness:
  "freeze_active (midnight (day_number 2026 12 26) + 23 * nanos_per_hour) ''2026-12-24..2026-12-26'' \<and>
   \<not> freeze_active (midnight (day_number 2026 12 27)) ''2026-12-24..2026-12-26''"
proof -
  have "split_dots ''2026-12-24..2026-12-26'' = Some (''2026-12-24'', ''2026-12-26'')"
    "parse_date (trim_space ''2026-12-24'') = Some (day_number 2026 12 24)"
    "parse_date (trim_space ''2026-12-26'') = Some (day_number 2026 12 26)" by code_simp+
  note w = freeze_active_days [OF this]
  show ?thesis unfolding w by code_simp
qed

end
