(* ===== verification/Budget.thy ===== *)
theory Budget imports Assessment Money Errors Identity Principal Calendar begin

text \<open>
  \<open>internal/domain/econ/slo.go\<close> and \<open>internal/application/economics/slo.go\<close>: cost objectives, their windows and the
  economic error budget. A panic of a \<open>Must\<close> operation is \<open>None\<close>; generated ids are arguments and the explanation
  texts are left out. Also the efficiency score.
\<close>

section \<open>Objectives\<close>

datatype (plugins only: code) Scope = ScopeOrganization | ScopeAccount | ScopeEnvironment | ScopeApplication
  | ScopeWorkload | ScopeBusinessCapability | ScopeAPI | ScopeTransaction | ScopeResource | EconScopeOther string

datatype SLOKind = SLOAbsoluteSpend | SLOCostPerTransaction | SLOCostPerRequest | SLOCostPerCustomer
  | SLOWasteRatio | SLOEfficiencyScore | SLOKindOther string

datatype Direction = DirectionAtMost | DirectionAtLeast | DirectionOther string

datatype SLOWindow = WindowCalendarMonth | WindowRolling30d | WindowRolling7d | WindowCalendarQuarter
  | WindowOther string

datatype BreachAction = ActionNotify | ActionBudgetApproval | ActionFreezeIncreases | ActionGenerateRecommendations
  | ActionOpenInvestigation | BreachActionOther string

datatype BudgetState = BudgetHealthy | BudgetWatch | BudgetAtRisk | BudgetExhausted | BudgetBreached | BudgetUnknown

record CostSLO =
  slo_ID :: ID
  slo_TenantID :: TenantID
  slo_Name :: string
  slo_Kind :: SLOKind
  slo_Direction :: Direction
  slo_Scope :: Scope
  slo_ScopeID :: ID
  slo_TransactionID :: ID
  slo_Target :: Money
  slo_TargetRatio :: rat
  slo_Window :: SLOWindow
  slo_ErrorBudgetPct :: rat
  slo_BreachActions :: "BreachAction list"
  slo_Enabled :: bool
  slo_CreatedAt :: gotime
  slo_UpdatedAt :: gotime

record EconomicErrorBudget =
  eb_ID :: ID
  eb_TenantID :: TenantID
  eb_SLOID :: ID
  eb_Kind :: SLOKind
  eb_Period :: Period
  eb_Target :: Money
  eb_BudgetAmount :: Money
  eb_Actual :: Money
  eb_Consumed :: Money
  eb_Remaining :: Money
  eb_ConsumedRatio :: rat
  eb_BurnRate :: rat
  eb_ProjectedEndOfWindow :: Money
  eb_ProjectedOverage :: Money
  eb_ExhaustionDate :: "gotime option"
  eb_State :: BudgetState
  eb_TriggeredActions :: "BreachAction list"
  eb_EvaluatedAt :: gotime

section \<open>Windows\<close>

text \<open>\<open>core.MonthOf\<close>; \<open>AddDate(0, n, 0)\<close> of a first of the month is the first \<open>n\<close> months later.\<close>

definition MonthOf :: "gotime \<Rightarrow> Period" where
  "MonthOf t = (case civil (day_of t) of (y, m, d) \<Rightarrow>
     \<lparr>Start = midnight (date_days y m 1), End = midnight (date_days y (m + 1) 1)\<rparr>)"

definition QuarterOf :: "gotime \<Rightarrow> Period" where
  "QuarterOf t = (case civil (day_of t) of (y, m, d) \<Rightarrow> let q = (m - 1) div 3 in
     \<lparr>Start = midnight (date_days y (q * 3 + 1) 1), End = midnight (date_days y (q * 3 + 4) 1)\<rparr>)"

fun Window_Period :: "SLOWindow \<Rightarrow> gotime \<Rightarrow> Period" where
  "Window_Period WindowRolling7d now = PeriodOfDays now 7"
| "Window_Period WindowRolling30d now = PeriodOfDays now 30"
| "Window_Period WindowCalendarQuarter now = QuarterOf now"
| "Window_Period _ now = MonthOf now"

definition elapsedFraction :: "Period \<Rightarrow> gotime \<Rightarrow> rat" where
  "elapsedFraction p now = (let whole = time_Sub (End p) (Start p); past = time_Sub now (Start p) in
     if whole \<le> 0 then 0 else if past \<le> 0 then 0 else if whole \<le> past then 1
     else f64 (i2f past / i2f whole))"

section \<open>Evaluation\<close>

definition tolerance :: "CostSLO \<Rightarrow> rat" where
  "tolerance slo = (if slo_ErrorBudgetPct slo \<le> 0 then f64 (5 / 100) else slo_ErrorBudgetPct slo)"

text \<open>\<open>overage\<close> and \<open>shortfall\<close> are floored at zero dollars.\<close>

definition at_least_zero :: "Money \<Rightarrow> Money" where
  "at_least_zero m = (if IsNegative m then ZeroUSD else m)"

definition budget_state :: "bool \<Rightarrow> rat \<Rightarrow> BudgetState" where
  "budget_state breached ratio = (if breached then BudgetBreached else if ratio \<ge> 1 then BudgetExhausted
     else if ratio \<ge> 3 / 4 then BudgetAtRisk else if ratio \<ge> 1 / 2 then BudgetWatch else BudgetHealthy)"

definition triggered :: "CostSLO \<Rightarrow> BudgetState \<Rightarrow> BreachAction list" where
  "triggered slo st = (if st = BudgetExhausted \<or> st = BudgetBreached
     then if slo_BreachActions slo = [] then [ActionNotify, ActionBudgetApproval] else slo_BreachActions slo
     else [])"

definition exhaustion :: "Period \<Rightarrow> gotime \<Rightarrow> rat \<Rightarrow> rat \<Rightarrow> gotime option" where
  "exhaustion period now burn ratio = (if burn > 1 \<and> ratio < 1 then let
       remainingFraction = f64 (f64 (1 - ratio) / burn);
       windowLen = time_Sub (End period) (Start period);
       exhaustAt = now + f2i (f64 (remainingFraction * i2f windowLen))
     in if exhaustAt < End period then Some exhaustAt else None
     else None)"

definition new_budget :: "ID \<Rightarrow> CostSLO \<Rightarrow> Money \<Rightarrow> gotime \<Rightarrow> EconomicErrorBudget" where
  "new_budget newid slo actual now = \<lparr>eb_ID = newid, eb_TenantID = slo_TenantID slo, eb_SLOID = slo_ID slo,
     eb_Kind = slo_Kind slo, eb_Period = Window_Period (slo_Window slo) now, eb_Target = slo_Target slo,
     eb_BudgetAmount = Scale (slo_Target slo) (tolerance slo), eb_Actual = actual, eb_Consumed = zero_money,
     eb_Remaining = zero_money, eb_ConsumedRatio = 0, eb_BurnRate = 0, eb_ProjectedEndOfWindow = zero_money,
     eb_ProjectedOverage = zero_money, eb_ExhaustionDate = None, eb_State = BudgetUnknown,
     eb_TriggeredActions = [], eb_EvaluatedAt = now\<rparr>"

definition EvaluateBudget :: "ID \<Rightarrow> CostSLO \<Rightarrow> Money \<Rightarrow> gotime \<Rightarrow> EconomicErrorBudget option" where
  "EvaluateBudget newid slo actual now = (let
     b = new_budget newid slo actual now;
     budget = eb_BudgetAmount b;
     elapsed = elapsedFraction (eb_Period b) now
   in if elapsed \<le> 0 then Some b else do {
     overage \<leftarrow> MustSub actual (Scale (slo_Target slo) elapsed);
     let overage = at_least_zero overage;
     remaining \<leftarrow> MustSub budget overage;
     let ratio = (if \<not> IsZero budget then Ratio overage budget else 0);
     let burn = (if \<not> IsZero budget then f64 (ratio / elapsed) else 0);
     let projected = Div actual elapsed;
     over \<leftarrow> MustSub projected (slo_Target slo);
     let st = budget_state (GreaterThan actual (slo_Target slo)) ratio;
     Some (b\<lparr>eb_Consumed := overage, eb_Remaining := remaining, eb_ConsumedRatio := ratio, eb_BurnRate := burn,
       eb_ProjectedEndOfWindow := projected, eb_ProjectedOverage := at_least_zero over,
       eb_ExhaustionDate := exhaustion (eb_Period b) now burn ratio, eb_State := st,
       eb_TriggeredActions := triggered slo st\<rparr>)
   })"

definition evaluateFloorSLO :: "ID \<Rightarrow> CostSLO \<Rightarrow> Money \<Rightarrow> gotime \<Rightarrow> EconomicErrorBudget option" where
  "evaluateFloorSLO newid slo actual now = (let b = new_budget newid slo actual now; budget = eb_BudgetAmount b in do {
     shortfall \<leftarrow> MustSub (slo_Target slo) actual;
     let shortfall = at_least_zero shortfall;
     remaining \<leftarrow> MustSub budget shortfall;
     let ratio = (if \<not> IsZero budget then Ratio shortfall budget else 0);
     let st = (if IsZero shortfall then BudgetHealthy else budget_state False ratio);
     Some (b\<lparr>eb_Consumed := shortfall, eb_Remaining := remaining, eb_ConsumedRatio := ratio, eb_State := st,
       eb_TriggeredActions := (if st = BudgetExhausted then triggered slo st else [])\<rparr>)
   })"

definition moneyOfRatio :: "rat \<Rightarrow> Money" where
  "moneyOfRatio r = USDollars r"

text \<open>\<open>actualForSLO\<close> prices the objective from the footprint, the unit economics and the efficiency score.\<close>

definition actualForSLO :: "(CostSLO \<Rightarrow> err + Money) \<Rightarrow> (CostSLO \<Rightarrow> err + Money) \<Rightarrow> (CostSLO \<Rightarrow> err + rat \<times> rat) \<Rightarrow>
    CostSLO \<Rightarrow> err + Money" where
  "actualForSLO spend perUnit efficiency slo = (case slo_Kind slo of
     SLOAbsoluteSpend \<Rightarrow> spend slo
   | SLOCostPerTransaction \<Rightarrow> perUnit slo
   | SLOCostPerRequest \<Rightarrow> perUnit slo
   | SLOCostPerCustomer \<Rightarrow> perUnit slo
   | SLOWasteRatio \<Rightarrow> (case efficiency slo of Inl e \<Rightarrow> Inl e | Inr (waste, score) \<Rightarrow> Inr (moneyOfRatio waste))
   | SLOEfficiencyScore \<Rightarrow> (case efficiency slo of Inl e \<Rightarrow> Inl e
       | Inr (waste, score) \<Rightarrow> Inr (moneyOfRatio (f64 (score / 100))))
   | SLOKindOther _ \<Rightarrow> Inl Invalid)"

definition effective :: "CostSLO \<Rightarrow> CostSLO" where
  "effective slo = (if slo_Kind slo = SLOWasteRatio \<or> slo_Kind slo = SLOEfficiencyScore
     then slo\<lparr>slo_Target := moneyOfRatio (slo_TargetRatio slo)\<rparr> else slo)"

definition evaluateOne :: "ID \<Rightarrow> (CostSLO \<Rightarrow> err + Money) \<Rightarrow> CostSLO \<Rightarrow> gotime \<Rightarrow> (err + EconomicErrorBudget) option" where
  "evaluateOne newid actualFor slo now = (case actualFor slo of Inl e \<Rightarrow> Some (Inl e)
     | Inr actual \<Rightarrow> map_option Inr (if slo_Direction (effective slo) = DirectionAtLeast
         then evaluateFloorSLO newid (effective slo) actual now else EvaluateBudget newid (effective slo) actual now))"

text \<open>The loop of \<open>EvaluateSLOs\<close>: disabled objectives and objectives that cannot be priced are skipped.\<close>

fun evaluate_slos :: "(CostSLO \<Rightarrow> ID) \<Rightarrow> (CostSLO \<Rightarrow> err + Money) \<Rightarrow> gotime \<Rightarrow> CostSLO list \<Rightarrow> EconomicErrorBudget list option" where
  "evaluate_slos newid actualFor now [] = Some []"
| "evaluate_slos newid actualFor now (slo # slos) = (if \<not> slo_Enabled slo then evaluate_slos newid actualFor now slos
     else do {
       r \<leftarrow> evaluateOne (newid slo) actualFor slo now;
       rest \<leftarrow> evaluate_slos newid actualFor now slos;
       Some (case r of Inl _ \<Rightarrow> rest | Inr b \<Rightarrow> b # rest)
     })"

text \<open>Every budget that is returned is also handed to \<open>SaveBudgetState\<close>, whose error is ignored.\<close>

definition EvaluateSLOs :: "Principal option \<Rightarrow> TenantID \<Rightarrow> err + CostSLO list \<Rightarrow> (CostSLO \<Rightarrow> ID) \<Rightarrow> (CostSLO \<Rightarrow> err + Money) \<Rightarrow>
    gotime \<Rightarrow> (err + EconomicErrorBudget list) option" where
  "EvaluateSLOs ctx tenant listed newid actualFor now = (case GuardTenant ctx tenant of Some e \<Rightarrow> Some (Inl e)
     | None \<Rightarrow> (case listed of Inl e \<Rightarrow> Some (Inl e)
       | Inr slos \<Rightarrow> map_option Inr (evaluate_slos newid actualFor now slos)))"

text \<open>\<open>(allowed, requiresApproval)\<close>\<close>

fun allows_loop :: "bool \<Rightarrow> BreachAction list \<Rightarrow> bool \<times> bool" where
  "allows_loop req [] = (True, req)"
| "allows_loop req (a # as) = (case a of ActionFreezeIncreases \<Rightarrow> (False, False)
     | ActionBudgetApproval \<Rightarrow> allows_loop True as | _ \<Rightarrow> allows_loop req as)"

definition AllowsCostIncrease :: "EconomicErrorBudget \<Rightarrow> bool \<times> bool" where
  "AllowsCostIncrease b = allows_loop False (eb_TriggeredActions b)"

section \<open>Saving an objective\<close>

definition moneyKind :: "SLOKind \<Rightarrow> bool" where
  "moneyKind k \<longleftrightarrow> k \<in> {SLOAbsoluteSpend, SLOCostPerTransaction, SLOCostPerRequest, SLOCostPerCustomer}"

text \<open>\<open>existing\<close> is the repository's lookup; a failure there leaves the caller's creation time;
  \<open>save\<close> is its \<open>UpsertCostSLO\<close>, which may fail.\<close>

definition UpsertCostSLO :: "Principal option \<Rightarrow> (ID \<Rightarrow> CostSLO option) \<Rightarrow> (CostSLO \<Rightarrow> err option) \<Rightarrow> ID \<Rightarrow> gotime \<Rightarrow> CostSLO \<Rightarrow> err + CostSLO" where
  "UpsertCostSLO ctx existing save newid now slo0 = (if GuardTenant ctx (slo_TenantID slo0) \<noteq> None
     then Inl (the (GuardTenant ctx (slo_TenantID slo0)))
     else if slo_Name slo0 = '''' then Inl Invalid
     else if slo_Kind slo0 = SLOKindOther '''' then Inl Invalid
     else let slo = (if slo_Direction slo0 = DirectionOther '''' then slo0\<lparr>slo_Direction := DirectionAtMost\<rparr> else slo0) in
       if moneyKind (slo_Kind slo) \<and> IsZero (slo_Target slo) then Inl Invalid
       else if \<not> moneyKind (slo_Kind slo) \<and> slo_TargetRatio slo \<le> 0 then Inl Invalid
       else let slo = (if id_IsZero (slo_ID slo) then slo\<lparr>slo_ID := newid, slo_CreatedAt := now\<rparr>
           else case existing (slo_ID slo) of Some old \<Rightarrow> slo\<lparr>slo_CreatedAt := slo_CreatedAt old\<rparr> | None \<Rightarrow> slo);
           slo = slo\<lparr>slo_UpdatedAt := now\<rparr>
         in (case save slo of Some e \<Rightarrow> Inl e | None \<Rightarrow> Inr slo))"

section \<open>The efficiency score\<close>

record EfficiencyFactor =
  ef_Name :: string
  ef_Score :: rat
  ef_Weight :: rat
  ef_Opportunity :: Money

record EfficiencyScore =
  es_Score :: rat
  es_Grade :: string
  es_Factors :: "EfficiencyFactor list"
  es_WasteRatio :: rat
  es_TotalSpend :: Money
  es_IdentifiedWaste :: Money

definition grade :: "rat \<Rightarrow> string" where
  "grade score = (if score \<ge> 90 then ''A'' else if score \<ge> 80 then ''B'' else if score \<ge> 70 then ''C''
     else if score \<ge> 60 then ''D'' else ''F'')"

definition weigh :: "EfficiencyFactor \<Rightarrow> rat \<times> rat \<Rightarrow> rat \<times> rat" where
  "weigh f acc = (f64 (fst acc + f64 (max 0 (min 100 (ef_Score f)) * ef_Weight f)), f64 (snd acc + ef_Weight f))"

definition ComputeEfficiencyScore :: "EfficiencyFactor list \<Rightarrow> Money \<Rightarrow> Money \<Rightarrow> EfficiencyScore" where
  "ComputeEfficiencyScore factors totalSpend waste = (let
     (weighted, totalWeight) = fold weigh factors (0, 0);
     score = (if totalWeight > 0 then f64 (weighted / totalWeight) else 0)
   in \<lparr>es_Score = score, es_Grade = grade score, es_Factors = factors,
       es_WasteRatio = (if \<not> IsZero totalSpend then Ratio waste totalSpend else 0),
       es_TotalSpend = totalSpend, es_IdentifiedWaste = waste\<rparr>)"

section \<open>Windows contain the instant\<close>

lemma month_start_step: "1 \<le> m \<Longrightarrow> m \<le> 12 \<Longrightarrow> month_start y m \<le> month_start y (m + 1)"
proof -
  assume "1 \<le> m" "m \<le> 12"
  then have "m \<in> {1, 2, 3, 4, 5, 6, 7, 8, 9, 10, 11, 12}" by (simp only: insert_iff empty_iff) presburger
  then show ?thesis by (auto simp: month_start_def)
qed

lemma month_start_mono: "1 \<le> m \<Longrightarrow> m + int k \<le> 13 \<Longrightarrow> month_start y m \<le> month_start y (m + int k)"
proof (induction k)
  case (Suc k)
  then show ?case using month_start_step [of "m + int k" y] by (simp add: algebra_simps)
qed simp

lemma date_days_first:
  assumes "1 \<le> m" "m \<le> 13" shows "date_days y m 1 = year_start y + month_start y m"
proof (cases "m = 13")
  case True
  then show ?thesis
    by (simp add: date_days_def day_number_def month_start_13 year_start_Suc) (simp add: month_start_def)
next
  case False
  then have "(m - 1) div 12 = 0" "(m - 1) mod 12 = m - 1" using assms by simp_all
  then show ?thesis by (simp add: date_days_def day_number_def)
qed

lemma MonthOf_contains: "Contains (MonthOf t) t"
proof -
  obtain y m d where c: "civil (day_of t) = (y, m, d)" by (cases "civil (day_of t)")
  show ?thesis using civil_bounds [OF c]
    by (simp add: MonthOf_def Contains_def c midnight_le_iff less_midnight_iff not_less)
qed

lemma QuarterOf_contains: "Contains (QuarterOf t) t"
proof -
  obtain y m d where c: "civil (day_of t) = (y, m, d)" by (cases "civil (day_of t)")
  define q where "q = (m - 1) div 3"
  have b: "1 \<le> m" "m \<le> 12" "date_days y m 1 \<le> day_of t" "day_of t < date_days y (m + 1) 1"
    using civil_bounds [OF c] by simp_all
  have q: "q * 3 + 1 \<le> m" "m \<le> q * 3 + 3" "0 \<le> q" "q \<le> 3" using b(1,2) by (simp_all add: q_def)
  have "date_days y (q * 3 + 1) 1 \<le> date_days y m 1"
    using month_start_mono [of "q * 3 + 1" "nat (m - (q * 3 + 1))" y] q b by (simp add: date_days_first)
  moreover have "date_days y (m + 1) 1 \<le> date_days y (q * 3 + 4) 1"
    using month_start_mono [of "m + 1" "nat (q * 3 + 3 - m)" y] q b by (simp add: date_days_first add.commute)
  ultimately show ?thesis using b
    by (simp add: QuarterOf_def Contains_def c Let_def midnight_le_iff less_midnight_iff not_less flip: q_def)
qed

lemma Window_Period_start: "Start (Window_Period w now) \<le> now"
  using MonthOf_contains [of now] QuarterOf_contains [of now]
  by (cases w) (simp_all add: Contains_def PeriodOfDays_def not_less)

text \<open>The calendar windows contain the instant that they were resolved for; a rolling window ends there, so it has
  always elapsed completely and its target is never pro-rated.\<close>

theorem Window_Period_contains:
  "(case w of WindowRolling7d \<Rightarrow> elapsedFraction (Window_Period w now) now = 1
    | WindowRolling30d \<Rightarrow> elapsedFraction (Window_Period w now) now = 1
    | _ \<Rightarrow> Contains (Window_Period w now) now) \<and>
   0 \<le> elapsedFraction (Window_Period w now) now \<and> elapsedFraction (Window_Period w now) now \<le> 1"
proof -
  have "0 \<le> elapsedFraction p t \<and> elapsedFraction p t \<le> 1" for p t
    using f64.div_unit [of "i2f (time_Sub t (Start p))" "i2f (time_Sub (End p) (Start p))"]
    by (auto simp: elapsedFraction_def Let_def i2f_nonneg i2f_mono)
  moreover have "elapsedFraction (PeriodOfDays now n) now = 1" if "0 < n" for n
    using that by (simp add: elapsedFraction_def Let_def PeriodOfDays_def time_Sub_def)
  ultimately show ?thesis
    using MonthOf_contains [of now] QuarterOf_contains [of now] by (cases w) simp_all
qed

section \<open>The budget\<close>

text \<open>The amount over the pro-rated target, before it is floored.\<close>

definition raw_overage :: "CostSLO \<Rightarrow> Money \<Rightarrow> gotime \<Rightarrow> int" where
  "raw_overage slo actual now = wrap64 (micros actual - micros (Scale (slo_Target slo)
     (elapsedFraction (Window_Period (slo_Window slo) now) now)))"

definition started :: "CostSLO \<Rightarrow> gotime \<Rightarrow> bool" where
  "started slo now \<longleftrightarrow> 0 < elapsedFraction (Window_Period (slo_Window slo) now) now"

lemma at_least_zero_micros [simp]: "micros (at_least_zero m) = max 0 (micros m)"
  by (simp add: at_least_zero_def IsNegative_def)

lemma new_budget_fields [simp]:
  "eb_BudgetAmount (new_budget i slo a now) = Scale (slo_Target slo) (tolerance slo)"
  "eb_Period (new_budget i slo a now) = Window_Period (slo_Window slo) now"
  "eb_State (new_budget i slo a now) = BudgetUnknown" "eb_TriggeredActions (new_budget i slo a now) = []"
  by (simp_all add: new_budget_def)

text \<open>What an evaluation of a started window reports, or that it panics.\<close>

lemma EvaluateBudget_started:
  assumes "started slo now"
  shows "EvaluateBudget i slo actual now = None \<longleftrightarrow> Currency actual \<noteq> Currency (slo_Target slo) \<or>
      (raw_overage slo actual now < 0 \<and> Currency (slo_Target slo) \<noteq> USD)"
    and "EvaluateBudget i slo actual now = Some b \<Longrightarrow>
      micros (eb_Consumed b) = max 0 (raw_overage slo actual now) \<and>
      eb_ConsumedRatio b = (if micros (Scale (slo_Target slo) (tolerance slo)) = 0 then 0 else
        f64 (i2f (max 0 (raw_overage slo actual now)) / i2f (micros (Scale (slo_Target slo) (tolerance slo))))) \<and>
      eb_State b = budget_state (micros (slo_Target slo) < micros actual) (eb_ConsumedRatio b) \<and>
      eb_TriggeredActions b = triggered slo (eb_State b)"
proof -
  let ?e = "elapsedFraction (Window_Period (slo_Window slo) now) now"
  have e: "\<not> ?e \<le> 0" using assms by (simp add: started_def)
  show "EvaluateBudget i slo actual now = None \<longleftrightarrow> Currency actual \<noteq> Currency (slo_Target slo) \<or>
      (raw_overage slo actual now < 0 \<and> Currency (slo_Target slo) \<noteq> USD)"
  proof (cases "Currency actual = Currency (slo_Target slo)")
    case True
    then obtain ov where ov: "MustSub actual (Scale (slo_Target slo) ?e) = Some ov"
      by (cases "MustSub actual (Scale (slo_Target slo) ?e)") (simp_all add: panic_simps)
    then have o: "micros ov = raw_overage slo actual now" "Currency ov = Currency actual"
      by (auto simp: panic_simps raw_overage_def Currency_make)
    have p: "MustSub (Div actual ?e) (slo_Target slo) \<noteq> None" using True by (simp add: panic_simps)
    have "EvaluateBudget i slo actual now = None \<longleftrightarrow>
        MustSub (Scale (slo_Target slo) (tolerance slo)) (at_least_zero ov) = None"
      using e ov p by (auto simp: EvaluateBudget_def Let_def split: Option.bind_splits)
    also have "\<dots> \<longleftrightarrow> raw_overage slo actual now < 0 \<and> Currency (slo_Target slo) \<noteq> USD"
      using o True by (auto simp: panic_simps at_least_zero_def IsNegative_def)
    finally show ?thesis using True by simp
  next
    case False
    then have "MustSub actual (Scale (slo_Target slo) ?e) = None" by (simp add: panic_simps)
    then show ?thesis using False e by (simp add: EvaluateBudget_def Let_def)
  qed
  show "micros (eb_Consumed b) = max 0 (raw_overage slo actual now) \<and>
      eb_ConsumedRatio b = (if micros (Scale (slo_Target slo) (tolerance slo)) = 0 then 0 else
        f64 (i2f (max 0 (raw_overage slo actual now)) / i2f (micros (Scale (slo_Target slo) (tolerance slo))))) \<and>
      eb_State b = budget_state (micros (slo_Target slo) < micros actual) (eb_ConsumedRatio b) \<and>
      eb_TriggeredActions b = triggered slo (eb_State b)"
    if ev: "EvaluateBudget i slo actual now = Some b"
  proof -
    obtain ov where ov: "MustSub actual (Scale (slo_Target slo) ?e) = Some ov"
      using ev e by (auto simp: EvaluateBudget_def Let_def split: Option.bind_splits)
    then have o: "micros ov = raw_overage slo actual now" by (auto simp: panic_simps raw_overage_def)
    show ?thesis using ev e ov by (auto simp: EvaluateBudget_def Let_def Ratio_def IsZero_def o split: Option.bind_splits)
  qed
qed

text \<open>C26: an evaluation panics exactly on a currency mismatch or, in any currency but dollars, as soon as the
  spend is below the pro-rated target: an objective in euros that is on track cannot be evaluated. What
  it reports otherwise triggers actions exactly when the budget is exhausted or the target exceeded.\<close>

theorem EvaluateBudget_outcome:
  "(EvaluateBudget i slo actual now = None \<longleftrightarrow> started slo now \<and> (Currency actual \<noteq> Currency (slo_Target slo) \<or>
      raw_overage slo actual now < 0 \<and> Currency (slo_Target slo) \<noteq> USD)) \<and>
   (\<forall>b. EvaluateBudget i slo actual now = Some b \<longrightarrow>
      (eb_TriggeredActions b \<noteq> [] \<longleftrightarrow> eb_State b = BudgetExhausted \<or> eb_State b = BudgetBreached) \<and>
      (eb_State b = BudgetUnknown \<longleftrightarrow> \<not> started slo now) \<and>
      (started slo now \<longrightarrow> (eb_State b = BudgetBreached \<longleftrightarrow> micros (slo_Target slo) < micros actual)))"
proof (cases "started slo now")
  case True
  have "eb_TriggeredActions b \<noteq> [] \<longleftrightarrow> eb_State b = BudgetExhausted \<or> eb_State b = BudgetBreached"
    "eb_State b \<noteq> BudgetUnknown" "eb_State b = BudgetBreached \<longleftrightarrow> micros (slo_Target slo) < micros actual"
    if "EvaluateBudget i slo actual now = Some b" for b
    using EvaluateBudget_started(2) [OF True that] by (auto simp: triggered_def budget_state_def)
  then show ?thesis using EvaluateBudget_started(1) [OF True] True by blast
next
  case False
  then have "EvaluateBudget i slo actual now = Some (new_budget i slo actual now)"
    by (simp add: EvaluateBudget_def started_def Let_def)
  then show ?thesis using False by simp
qed

fun budget_rank :: "BudgetState \<Rightarrow> nat" where
  "budget_rank BudgetUnknown = 0"
| "budget_rank BudgetHealthy = 1"
| "budget_rank BudgetWatch = 2"
| "budget_rank BudgetAtRisk = 3"
| "budget_rank BudgetExhausted = 4"
| "budget_rank BudgetBreached = 5"

lemma budget_state_mono:
  "(a \<Longrightarrow> b) \<Longrightarrow> r \<le> s \<Longrightarrow> budget_rank (budget_state a r) \<le> budget_rank (budget_state b s)"
  by (auto simp: budget_state_def)

lemma Scale_unit:
  assumes "0 \<le> micros m" "micros m \<le> 2 ^ 53" "0 \<le> f" "f \<le> 1"
  shows "0 \<le> micros (Scale m f) \<and> micros (Scale m f) \<le> micros m"
proof -
  have i: "i2f (micros m) = of_int (micros m)" using assms by simp
  have "f64 (of_int (micros m) * f) \<le> f64 (of_int (micros m) * 1)"
    using assms by (intro f64_mono mult_left_mono) simp_all
  then have "f64 (of_int (micros m) * f) \<le> of_int (micros m)" using assms by simp
  then have "go_round (f64 (of_int (micros m) * f)) \<le> micros m"
    using go_round_mono [of "f64 (of_int (micros m) * f)" "of_int (micros m)"] by simp
  moreover have "0 \<le> go_round (f64 (of_int (micros m) * f))"
    using assms by (intro go_round_nonneg f64_nonneg) simp
  moreover from calculation have "int64 (go_round (f64 (of_int (micros m) * f)))"
    using assms by (simp add: int64_def)
  ultimately show ?thesis by (simp add: Scale_def round_to_int64_def i)
qed

text \<open>C27: spending more at the same instant never improves the state of a budget, and never drops a triggered
  action: for amounts up to nine billion dollars, a healthy report cannot hide a higher spend.\<close>

theorem EvaluateBudget_monotone:
  assumes x: "EvaluateBudget i slo a now = Some x" and y: "EvaluateBudget j slo b now = Some y"
    and le: "0 \<le> micros a" "micros a \<le> micros b" "micros b \<le> 2 ^ 53"
    and target: "0 \<le> micros (slo_Target slo)" "micros (slo_Target slo) \<le> 2 ^ 53" and pct: "slo_ErrorBudgetPct slo \<le> 1"
  shows "budget_rank (eb_State x) \<le> budget_rank (eb_State y) \<and> set (eb_TriggeredActions x) \<subseteq> set (eb_TriggeredActions y)"
proof (cases "started slo now")
  case True
  let ?p = "micros (Scale (slo_Target slo) (elapsedFraction (Window_Period (slo_Window slo) now) now))"
  let ?B = "micros (Scale (slo_Target slo) (tolerance slo))"
  have "0 \<le> elapsedFraction (Window_Period (slo_Window slo) now) now \<and> elapsedFraction (Window_Period (slo_Window slo) now) now \<le> 1"
    using f64.div_unit [of "i2f (time_Sub now (Start (Window_Period (slo_Window slo) now)))"
        "i2f (time_Sub (End (Window_Period (slo_Window slo) now)) (Start (Window_Period (slo_Window slo) now)))"]
    by (auto simp: elapsedFraction_def Let_def i2f_nonneg i2f_mono)
  then have p: "0 \<le> ?p" "?p \<le> 2 ^ 53" using Scale_unit [OF target] target by force+
  have "0 \<le> tolerance slo \<and> tolerance slo \<le> 1"
    using pct f64_nonneg [of "5 / 100"] f64_mono [of "5 / 100" 1] by (simp add: tolerance_def)
  then have B: "0 \<le> ?B" using Scale_unit [OF target] by blast
  have o: "raw_overage slo a now = micros a - ?p" "raw_overage slo b now = micros b - ?p"
    using p le by (simp_all add: raw_overage_def int64_def)
  note X = EvaluateBudget_started(2) [OF True x] and Y = EvaluateBudget_started(2) [OF True y]
  have r: "eb_ConsumedRatio x \<le> eb_ConsumedRatio y"
    using X Y B le by (auto simp: o intro!: f64_mono divide_right_mono i2f_mono i2f_nonneg)
  have s: "eb_State x = budget_state (micros (slo_Target slo) < micros a) (eb_ConsumedRatio x)"
    "eb_State y = budget_state (micros (slo_Target slo) < micros b) (eb_ConsumedRatio y)" using X Y by blast+
  have rank: "budget_rank (eb_State x) \<le> budget_rank (eb_State y)"
    unfolding s by (rule budget_state_mono [OF _ r]) (use le in simp)
  moreover have "set (triggered slo (eb_State x)) \<subseteq> set (triggered slo (eb_State y))"
    using rank by (cases "eb_State x"; cases "eb_State y") (simp_all add: triggered_def)
  ultimately show ?thesis using X Y by simp
next
  case False
  then have "x = new_budget i slo a now" using x by (simp add: EvaluateBudget_def started_def Let_def)
  then show ?thesis by simp
qed

text \<open>An objective on the cost of a checkout, two cents.\<close>

definition checkout_slo :: CostSLO where
  "checkout_slo = \<lparr>slo_ID = ''slo'', slo_TenantID = ''t'', slo_Name = ''checkout'', slo_Kind = SLOCostPerTransaction,
     slo_Direction = DirectionAtMost, slo_Scope = ScopeOrganization, slo_ScopeID = '''', slo_TransactionID = ''tx'',
     slo_Target = \<lparr>micros = 20000, currency = USD\<rparr>, slo_TargetRatio = 0, slo_Window = WindowCalendarMonth,
     slo_ErrorBudgetPct = 0, slo_BreachActions = [], slo_Enabled = True, slo_CreatedAt = 1, slo_UpdatedAt = 1\<rparr>"

text \<open>Half of a month of thirty days has passed.\<close>

definition mid_month :: gotime where
  "mid_month = midnight (day_number 2025 4 16)"

lemma elapsed_mid_month: "elapsedFraction (MonthOf mid_month) mid_month = 1 / 2"
proof -
  have "MonthOf mid_month = \<lparr>Start = midnight (day_number 2025 4 1), End = midnight (day_number 2025 5 1)\<rparr>" by code_simp
  then show ?thesis by (simp add: elapsedFraction_def mid_month_def midnight_def day_number_def year_start_def month_start_def
      leap_def time_Sub_def)
qed


lemma checkout_parts:
  "raw_overage checkout_slo \<lparr>micros = n, currency = USD\<rparr> mid_month = wrap64 (n - 10000)"
  "micros (Scale (slo_Target checkout_slo) (tolerance checkout_slo)) = 1000"
  "started checkout_slo mid_month"
proof -
  have e: "elapsedFraction (Window_Period (slo_Window checkout_slo) mid_month) mid_month = 1 / 2"
    using elapsed_mid_month by (simp add: checkout_slo_def)
  have "micros (Scale (slo_Target checkout_slo) (1 / 2)) = 10000"
    using round_to_int64_of_int [of 10000] by (simp add: Scale_def checkout_slo_def int64_def)
  then show "raw_overage checkout_slo \<lparr>micros = n, currency = USD\<rparr> mid_month = wrap64 (n - 10000)"
    by (simp add: raw_overage_def e)
  show "started checkout_slo mid_month" by (simp add: started_def e)
  show "micros (Scale (slo_Target checkout_slo) (tolerance checkout_slo)) = 1000" by code_simp
qed

theorem EvaluateBudget_outcome_witness:
  "EvaluateBudget ''b'' (checkout_slo\<lparr>slo_Target := \<lparr>micros = 20000, currency = ''EUR''\<rparr>\<rparr>)
     \<lparr>micros = 100, currency = ''EUR''\<rparr> mid_month = None \<and>
   EvaluateBudget ''b'' checkout_slo \<lparr>micros = 100, currency = USD\<rparr> mid_month \<noteq> None"
proof -
  let ?eur = "checkout_slo\<lparr>slo_Target := \<lparr>micros = 20000, currency = ''EUR''\<rparr>\<rparr>"
  have "raw_overage ?eur \<lparr>micros = 100, currency = ''EUR''\<rparr> mid_month =
      raw_overage checkout_slo \<lparr>micros = 100, currency = USD\<rparr> mid_month"
    by (simp add: raw_overage_def Scale_def checkout_slo_def)
  then have "raw_overage ?eur \<lparr>micros = 100, currency = ''EUR''\<rparr> mid_month = - 9900"
    by (simp add: checkout_parts int64_def)
  moreover have "''EUR'' \<noteq> USD" by (simp add: USD_def)
  moreover have "started ?eur mid_month" using checkout_parts(3) by (simp add: started_def)
  ultimately have "EvaluateBudget ''b'' ?eur \<lparr>micros = 100, currency = ''EUR''\<rparr> mid_month = None"
    using EvaluateBudget_outcome [of "''b''" ?eur "\<lparr>micros = 100, currency = ''EUR''\<rparr>" mid_month]
    by (simp add: Currency_def)
  moreover have "EvaluateBudget ''b'' checkout_slo \<lparr>micros = 100, currency = USD\<rparr> mid_month \<noteq> None"
  proof -
    have "Currency (slo_Target checkout_slo) = USD" by (simp add: checkout_slo_def Currency_def)
    then show ?thesis using EvaluateBudget_outcome [of "''b''" checkout_slo "\<lparr>micros = 100, currency = USD\<rparr>" mid_month]
      by (simp add: Currency_def)
  qed
  ultimately show ?thesis by blast
qed

theorem EvaluateBudget_monotone_witness:
  "\<exists>x y. EvaluateBudget ''a'' checkout_slo \<lparr>micros = 10200, currency = USD\<rparr> mid_month = Some x \<and>
     EvaluateBudget ''b'' checkout_slo \<lparr>micros = 30000, currency = USD\<rparr> mid_month = Some y \<and>
     budget_rank (eb_State x) \<le> budget_rank (eb_State y) \<and> set (eb_TriggeredActions x) \<subseteq> set (eb_TriggeredActions y)"
proof -
  have c: "Currency \<lparr>micros = n, currency = USD\<rparr> = Currency (slo_Target checkout_slo)" "Currency (slo_Target checkout_slo) = USD" for n
    by (simp_all add: checkout_slo_def Currency_def)
  obtain x y where x: "EvaluateBudget ''a'' checkout_slo \<lparr>micros = 10200, currency = USD\<rparr> mid_month = Some x"
    and y: "EvaluateBudget ''b'' checkout_slo \<lparr>micros = 30000, currency = USD\<rparr> mid_month = Some y"
    using EvaluateBudget_started(1) [OF checkout_parts(3)] c by (metis option.exhaust)
  moreover have "slo_ErrorBudgetPct checkout_slo \<le> 1" "0 \<le> micros (slo_Target checkout_slo)"
    "micros (slo_Target checkout_slo) \<le> 2 ^ 53" by (simp_all add: checkout_slo_def)
  ultimately show ?thesis using EvaluateBudget_monotone [OF x y] by simp
qed


section \<open>The efficiency score\<close>

lemma weigh_bounds:
  assumes "\<forall>f \<in> set fs. 0 \<le> ef_Weight f" "0 \<le> snd acc" "0 \<le> fst acc"
  shows "0 \<le> fst (fold weigh fs acc) \<and> 0 \<le> snd (fold weigh fs acc)"
  using assms
proof (induction fs arbitrary: acc)
  case (Cons f fs)
  have "0 \<le> fst (weigh f acc)" "0 \<le> snd (weigh f acc)"
    using Cons.prems by (auto simp: weigh_def intro!: f64_nonneg add_nonneg_nonneg)
  then show ?case using Cons.IH [of "weigh f acc"] Cons.prems by simp
qed simp

lemma ComputeEfficiencyScore_nonneg:
  "\<forall>f \<in> set fs. 0 \<le> ef_Weight f \<Longrightarrow> 0 \<le> es_Score (ComputeEfficiencyScore fs s w)"
  using weigh_bounds [of fs "(0, 0)"] by (auto simp: ComputeEfficiencyScore_def Let_def split_beta intro!: f64_nonneg)

end
