(* ===== verification/Store.thy ===== *)
theory Store imports Prelude "HOL-Library.AList" begin

text \<open>
  A map of the in-memory store (\<open>internal/adapters/memstore\<close>) as an association list with distinct keys. The order of the
  list stands for Go's unspecified iteration order. The locale \<open>table\<close> is what the repositories rely on; its
  consequences are shared by the policy, approval and plan repositories.
\<close>

locale table =
  fixes get :: "'s \<Rightarrow> 'k \<Rightarrow> 'v option"
    and put :: "'k \<Rightarrow> 'v \<Rightarrow> 's \<Rightarrow> 's"
  assumes get_put: "get (put k v s) k' = (if k' = k then Some v else get s k')"
begin

lemma get_put_same: "get (put k v s) k = Some v"
  by (simp add: get_put)

lemma get_put_other: "k' \<noteq> k \<Longrightarrow> get (put k v s) k' = get s k'"
  by (simp add: get_put)

lemma put_keeps:
  assumes "\<And>k v. get s k = Some v \<Longrightarrow> P k v" "P k v" "get (put k v s) k' = Some v'"
  shows "P k' v'"
  using assms by (auto simp: get_put split: if_splits)

end

type_synonym ('k, 'v) tbl = "('k \<times> 'v) list"

abbreviation tbl_get :: "('k, 'v) tbl \<Rightarrow> 'k \<Rightarrow> 'v option" where
  "tbl_get \<equiv> map_of"

abbreviation tbl_put :: "'k \<Rightarrow> 'v \<Rightarrow> ('k, 'v) tbl \<Rightarrow> ('k, 'v) tbl" where
  "tbl_put \<equiv> AList.update"

interpretation tbl: table map_of AList.update
  by unfold_locales (simp add: update_conv')

lemma distinct_put [simp]: "distinct (map fst s) \<Longrightarrow> distinct (map fst (tbl_put k v s))"
  by (simp add: distinct_update)

text \<open>A map of maps: the inner table of a tenant, created on first use.\<close>

definition inner :: "('t \<Rightarrow> ('k, 'v) tbl) \<Rightarrow> 't \<Rightarrow> 'k \<Rightarrow> 'v option" where
  "inner m t k = map_of (m t) k"

definition put_inner :: "'t \<Rightarrow> 'k \<Rightarrow> 'v \<Rightarrow> ('t \<Rightarrow> ('k, 'v) tbl) \<Rightarrow> 't \<Rightarrow> ('k, 'v) tbl" where
  "put_inner t k v m = m(t := tbl_put k v (m t))"

interpretation nested: table "\<lambda>m (t, k). inner m t k" "\<lambda>(t, k) v m. put_inner t k v m"
  by unfold_locales (auto simp: inner_def put_inner_def update_conv' split: if_splits)

lemma inner_put_inner:
  "inner (put_inner t k v m) t' k' = (if t' = t \<and> k' = k then Some v else inner m t' k')"
  using nested.get_put [of "(t, k)" v m "(t', k')"] by simp

text \<open>Updating every entry of a table.\<close>

definition map_tbl :: "('k \<Rightarrow> 'v \<Rightarrow> 'v) \<Rightarrow> ('k, 'v) tbl \<Rightarrow> ('k, 'v) tbl" where
  "map_tbl f s = map (\<lambda>(k, v). (k, f k v)) s"

lemma map_of_map_tbl: "map_of (map_tbl f s) k = map_option (f k) (map_of s k)"
  by (induction s) (auto simp: map_tbl_def)

text \<open>The same with an outer table, for the operations that walk every tenant.\<close>

type_synonym ('t, 'k, 'v) tbl2 = "('t, ('k, 'v) tbl) tbl"

definition rows :: "('t, 'k, 'v) tbl2 \<Rightarrow> 't \<Rightarrow> ('k, 'v) tbl" where
  "rows m t = (case map_of m t of None \<Rightarrow> [] | Some s \<Rightarrow> s)"

definition get2 :: "('t, 'k, 'v) tbl2 \<Rightarrow> 't \<Rightarrow> 'k \<Rightarrow> 'v option" where
  "get2 m t k = map_of (rows m t) k"

definition put2 :: "'t \<Rightarrow> 'k \<Rightarrow> 'v \<Rightarrow> ('t, 'k, 'v) tbl2 \<Rightarrow> ('t, 'k, 'v) tbl2" where
  "put2 t k v m = tbl_put t (tbl_put k v (rows m t)) m"

lemma rows_put2: "rows (put2 t k v m) t' = (if t' = t then tbl_put k v (rows m t) else rows m t')"
  by (simp add: rows_def put2_def update_conv')

interpretation tbl2: table "\<lambda>m (t, k). get2 m t k" "\<lambda>(t, k) v m. put2 t k v m"
  by unfold_locales (auto simp: get2_def rows_put2 update_conv' split: if_splits)

lemma get2_put2: "get2 (put2 t k v m) t' k' = (if t' = t \<and> k' = k then Some v else get2 m t' k')"
  using tbl2.get_put [of "(t, k)" v m "(t', k')"] by simp

lemma get2_Nil [simp]: "get2 [] t k = None"
  by (simp add: get2_def rows_def)

definition map_tbl2 :: "('v \<Rightarrow> 'v) \<Rightarrow> ('t, 'k, 'v) tbl2 \<Rightarrow> ('t, 'k, 'v) tbl2" where
  "map_tbl2 f m = map_tbl (\<lambda>_. map_tbl (\<lambda>_. f)) m"

lemma get2_map_tbl2: "get2 (map_tbl2 f m) t k = map_option f (get2 m t k)"
  by (cases "map_of m t") (simp_all add: get2_def rows_def map_tbl2_def map_of_map_tbl)

definition entries2 :: "('t, 'k, 'v) tbl2 \<Rightarrow> 'v list" where
  "entries2 m = concat (map (\<lambda>(_, s). map snd s) m)"

lemma get2_entries2: "get2 m t k = Some v \<Longrightarrow> v \<in> set (entries2 m)"
proof -
  assume "get2 m t k = Some v"
  then obtain s where "map_of m t = Some s" "map_of s k = Some v"
    by (cases "map_of m t") (simp_all add: get2_def rows_def)
  then have "(t, s) \<in> set m" "(k, v) \<in> set s" by (simp_all add: map_of_SomeD)
  then show ?thesis unfolding entries2_def set_concat set_map
    by (intro UN_I [of "map snd s"] image_eqI [of _ _ "(t, s)"] image_eqI [of _ snd "(k, v)"]) (simp_all, force)
qed

text \<open>Distinct keys, as in every Go map.\<close>

definition wf2 :: "('t, 'k, 'v) tbl2 \<Rightarrow> bool" where
  "wf2 m \<longleftrightarrow> distinct (map fst m) \<and> (\<forall>(t, s) \<in> set m. distinct (map fst s))"

lemma wf2_Nil [simp]: "wf2 []"
  by (simp add: wf2_def)

lemma wf2_rows: "wf2 m \<Longrightarrow> distinct (map fst (rows m t))"
  by (auto simp: wf2_def rows_def split: option.splits dest: map_of_SomeD)

lemma wf2_put2 [simp]: "wf2 m \<Longrightarrow> wf2 (put2 t k v m)"
proof -
  assume m: "wf2 m"
  have "set (tbl_put t x m) \<subseteq> set m \<union> {(t, x)}" for x
    by (induction m) auto
  from subsetD [OF this] show ?thesis using m distinct_put [OF wf2_rows [OF m]] by (fastforce simp: wf2_def put2_def)
qed

lemma map_fst_map_tbl [simp]: "map fst (map_tbl f s) = map fst s"
  by (induction s) (auto simp: map_tbl_def)

lemma wf2_map_tbl2 [simp]: "wf2 m \<Longrightarrow> wf2 (map_tbl2 f m)"
  by (auto simp: wf2_def map_tbl2_def) (auto simp: map_tbl_def [of "\<lambda>_. map_tbl (\<lambda>_. f)"] simp del: map_map)

text \<open>The entries with their keys.\<close>

definition keyed2 :: "('t, 'k, 'v) tbl2 \<Rightarrow> ('t \<times> 'k \<times> 'v) list" where
  "keyed2 m = concat (map (\<lambda>(t, s). map (\<lambda>(k, v). (t, k, v)) s) m)"

lemma keyed2_iff: "wf2 m \<Longrightarrow> (t, k, v) \<in> set (keyed2 m) \<longleftrightarrow> get2 m t k = Some v"
proof
  assume m: "wf2 m" and "(t, k, v) \<in> set (keyed2 m)"
  then obtain s where s: "(t, s) \<in> set m" "(k, v) \<in> set s" by (auto simp: keyed2_def)
  then have "map_of m t = Some s" "map_of s k = Some v" using m by (auto simp: wf2_def intro!: map_of_is_SomeI)
  then show "get2 m t k = Some v" by (simp add: get2_def rows_def)
next
  assume "get2 m t k = Some v"
  then obtain s where "map_of m t = Some s" "map_of s k = Some v"
    by (cases "map_of m t") (simp_all add: get2_def rows_def)
  then have "(t, s) \<in> set m" "(k, v) \<in> set s" by (simp_all add: map_of_SomeD)
  then show "(t, k, v) \<in> set (keyed2 m)" unfolding keyed2_def set_concat set_map
    by (intro UN_I [of "map (\<lambda>(k, v). (t, k, v)) s"] image_eqI [of _ _ "(t, s)"]) auto
qed

lemma distinct_keyed2: "wf2 m \<Longrightarrow> distinct (map (\<lambda>(t, k, v). (t, k)) (keyed2 m))"
proof (induction m)
  case (Cons x m)
  obtain t s where x: "x = (t, s)" by force
  have m: "wf2 m" "t \<notin> fst ` set m" "distinct (map fst s)" using Cons.prems by (auto simp: wf2_def x)
  have "distinct (map (\<lambda>(k, v). (t, k)) s)" using m(3) by (induction s) force+
  moreover have "t' \<noteq> t" if "(t', k, v) \<in> set (keyed2 m)" for t' k v
    using that m(2) by (force simp: keyed2_def)
  moreover have "map (\<lambda>(t, k, v). (t, k)) (keyed2 (x # m)) =
      map (\<lambda>(k, v). (t, k)) s @ map (\<lambda>(t, k, v). (t, k)) (keyed2 m)"
    by (simp add: keyed2_def x comp_def case_prod_unfold)
  ultimately show ?case using Cons.IH [OF m(1)] by auto
qed (simp add: keyed2_def)

end
