(* ===== verification/Governance.thy ===== *)
theory Governance imports Policy Contract Resource Maintenance Budget Store Paging begin

text \<open>
  \<open>internal/application/governance/evaluate.go\<close>, \<open>service.go\<close> and \<open>internal/adapters/memstore/policy.go\<close>: how a
  recommendation becomes a governance verdict, and how the policy that decides gets to be the active one. The
  repositories that are not under study are arguments (\<open>gov_deps\<close>); a wrapped error is the error it wraps. Logging,
  audit records and events do not change the outcome of a call and are left out, as are explanation texts.
\<close>

section \<open>The policy input\<close>

definition requiredInputFieldsOK :: "Input \<Rightarrow> string list" where
  "requiredInputFieldsOK i =
     (if id_IsZero (in_TenantID i) then [''tenant_id''] else [])
     @ (if id_IsZero (in_RecommendationID i) then [''recommendation_id''] else [])
     @ (if in_RuleID i = '''' then [''rule_id''] else [])
     @ (if in_Action i = ActionOther '''' then [''action''] else [])
     @ (if id_IsZero (in_ResourceID i) then [''resource_id''] else [])
     @ (if in_AccountID i = '''' then [''account_id''] else [])
     @ (if in_Environment i = EnvOther '''' then [''environment''] else [])
     @ (if in_RiskLevel i = RiskOther '''' then [''risk_level''] else [])
     @ (if in_Reversibility i = ReversibilityOther '''' then [''reversibility''] else [])
     @ (if in_Now i = 0 then [''now''] else [])"

definition monthlyCostDelta :: "Recommendation \<Rightarrow> Money option" where
  "monthlyCostDelta rec = (
     if \<not> IsZero (ss_MonthlyCost (rc_ProposedState rec)) \<or> \<not> IsZero (ss_MonthlyCost (rc_CurrentState rec))
     then MustSub (ss_MonthlyCost (rc_ProposedState rec)) (ss_MonthlyCost (rc_CurrentState rec))
     else MustSub ZeroUSD (rc_EstimatedMonthlySaving rec))"

definition windowMatched :: "Spec \<Rightarrow> Environment \<Rightarrow> gotime \<Rightarrow> bool" where
  "windowMatched sp env now \<longleftrightarrow> InMaintenanceWindow sp env now \<noteq> None"

definition assemble :: "TenantID \<Rightarrow> Recommendation \<Rightarrow> Resource \<Rightarrow> Spec \<Rightarrow> bool \<times> bool \<Rightarrow> gotime \<Rightarrow> Money \<Rightarrow> Input" where
  "assemble tenant rec res sp budget now delta = (let f = rc_Finding rec in
     \<lparr>in_TenantID = tenant, in_RecommendationID = rc_ID rec, in_RuleID = fi_RuleID f, in_Category = fi_Category f,
      in_Action = rc_Action rec, in_ResourceID = fi_ResourceID f, in_ResourceKind = kind_string (fi_ResourceKind f),
      in_AccountID = fi_AccountID f, in_Region = fi_Region f, in_Environment = fi_Environment f,
      in_ApplicationID = res_ApplicationID res, in_Tags = res_Tags res, in_Confidence = rc_Confidence rec,
      in_RiskLevel = ra_Level (rc_Risk rec), in_RiskScore = ra_Score (rc_Risk rec),
      in_BlastScore = br_Score (rc_BlastRadius rec), in_CriticalServices = br_CriticalServices (rc_BlastRadius rec),
      in_Reversibility = rc_Reversibility rec, in_Destructive = Destructive (rc_Action rec),
      in_MonthlySaving = rc_EstimatedMonthlySaving rec, in_MonthlyCostDelta = delta,
      in_InMaintenanceWindow = windowMatched sp (fi_Environment f) now, in_BudgetFreeze = fst budget,
      in_BudgetRequiresApproval = snd budget, in_AutomationEnabled = au_Enabled (sp_Automation sp), in_Now = now\<rparr>)"

definition buildInput :: "TenantID \<Rightarrow> Recommendation \<Rightarrow> Resource \<Rightarrow> Spec \<Rightarrow> bool \<times> bool \<Rightarrow> gotime \<Rightarrow> (err + Input) option" where
  "buildInput tenant rec res sp budget now = do {
     delta \<leftarrow> monthlyCostDelta rec;
     let i = assemble tenant rec res sp budget now delta;
     Some (if requiredInputFieldsOK i \<noteq> [] then Inl Invalid else Inr i)
   }"

section \<open>Budgets that touch the resource\<close>

definition budget_matches :: "Resource \<Rightarrow> CostSLO \<Rightarrow> bool" where
  "budget_matches res slo \<longleftrightarrow> slo_Scope slo = ScopeOrganization \<or>
     (slo_Scope slo = ScopeApplication \<and> \<not> id_IsZero (res_ApplicationID res) \<and> slo_ScopeID slo = res_ApplicationID res)"

definition match_budget :: "(ID \<Rightarrow> err + CostSLO) \<Rightarrow> Resource \<Rightarrow> EconomicErrorBudget \<Rightarrow> bool \<times> bool \<Rightarrow> bool \<times> bool" where
  "match_budget getSLO res b acc = (case getSLO (eb_SLOID b) of Inl _ \<Rightarrow> acc
     | Inr slo \<Rightarrow> if \<not> budget_matches res slo then acc
       else let (allowed, needsApproval) = AllowsCostIncrease b in
         (if \<not> allowed then True else fst acc, if needsApproval then True else snd acc))"

text \<open>\<open>None\<close> is a service without an economics repository.\<close>

definition matchBudgets :: "(err + EconomicErrorBudget list) option \<Rightarrow> (ID \<Rightarrow> err + CostSLO) \<Rightarrow> Resource \<Rightarrow> bool \<times> bool" where
  "matchBudgets budgets getSLO res = (case budgets of None \<Rightarrow> (False, False)
     | Some (Inl _) \<Rightarrow> (False, False)
     | Some (Inr bs) \<Rightarrow> fold (match_budget getSLO res) bs (False, False))"

section \<open>Guards of the specification\<close>

definition tighten :: "Effect \<Rightarrow> string \<Rightarrow> Decision \<Rightarrow> Decision" where
  "tighten effect deciding d = (if Effect_Rank effect \<le> Effect_Rank (de_Effect d) then d
     else let
       d = d\<lparr>de_Effect := effect, de_DecidingRule := deciding, de_RequiresApproval := (effect = EffectRequireApproval)\<rparr>;
       d = (if de_RequiresApproval d \<and> de_MinApprovals d = 0 then d\<lparr>de_MinApprovals := 1\<rparr> else d)
     in if effect = EffectProhibit
        then d\<lparr>de_Approvers := [], de_MinApprovals := 0, de_RequireDistinctApprover := False\<rparr> else d)"

definition applySpecificationGuards :: "Spec \<Rightarrow> Resource \<Rightarrow> Recommendation \<Rightarrow> gotime \<Rightarrow> Decision \<Rightarrow> Decision" where
  "applySpecificationGuards sp res rec now d = (let
     op = sp_Optimization sp;
     d = (if actionExcluded (op_ExcludedActions op) (action_string (rc_Action rec))
       then tighten EffectProhibit ''__spec_excluded_action__'' d else d);
     d = (if resourceExcluded (op_ExcludedResources op) (res_ID res) (res_NativeID res)
       then tighten EffectProhibit ''__spec_excluded_resource__'' d else d);
     d = (if tagsExcluded (op_ExcludedTags op) (res_Tags res) \<noteq> None
       then tighten EffectProhibit ''__spec_excluded_tag__'' d else d)
   in if InChangeFreeze sp now \<noteq> None \<and> de_Effect d = EffectAutoExecute
      then tighten EffectRequireApproval ''__spec_change_freeze__'' d else d)"

section \<open>Evaluate\<close>

definition loadActiveSpec :: "err + SpecVersion \<Rightarrow> err + Spec" where
  "loadActiveSpec getActive = (case getActive of
     Inl e \<Rightarrow> if errors_is e ErrNotFound then Inr zero_spec else Inl e
   | Inr v \<Rightarrow> Inr (vn_Spec v))"

definition fallback_policy :: Policy where
  "fallback_policy = \<lparr>po_ID = '''', po_TenantID = '''', po_Name = ''no-active-policy-fallback'', po_Version = 0,
     po_Rules = [], po_DefaultEffect = EffectRequireApproval, po_Enabled = True, po_Checksum = '''',
     po_CreatedBy = '''', po_CreatedAt = 0, po_ActivatedAt = 0\<rparr>"

definition loadActivePolicyOrFallback :: "err + Policy \<Rightarrow> err + Policy \<times> bool" where
  "loadActivePolicyOrFallback getActive = (case getActive of
     Inr p \<Rightarrow> Inr (p, False)
   | Inl e \<Rightarrow> if \<not> errors_is e ErrNotFound then Inl e else Inr (fallback_policy, True))"

text \<open>The repositories as seen at the time of the call; \<open>gd_SaveDecision\<close> may fail.\<close>

record gov_deps =
  gd_Recommendation :: "err + Recommendation"
  gd_Resource :: "ID \<Rightarrow> err + Resource"
  gd_Spec :: "err + SpecVersion"
  gd_Policy :: "err + Policy"
  gd_Budgets :: "(err + EconomicErrorBudget list) option"
  gd_CostSLO :: "ID \<Rightarrow> err + CostSLO"
  gd_SaveDecision :: "Decision \<Rightarrow> err option"

text \<open>The recommendation as it is handed to \<open>Update\<close>; \<open>pd\<close> is the id of the decision.\<close>

definition record_decision :: "ID \<Rightarrow> gotime \<Rightarrow> Decision \<Rightarrow> Recommendation \<Rightarrow> Recommendation" where
  "record_decision pd now d rec = rec\<lparr>rc_RequiresApproval := de_RequiresApproval d, rc_PolicyDecisionID := pd,
     rc_AutoExecutable := (de_Effect d = EffectAutoExecute), rc_UpdatedAt := now\<rparr>"

definition Service_Evaluate :: "gov_deps \<Rightarrow> ID \<Rightarrow> gotime \<Rightarrow> gotime \<Rightarrow> TenantID \<Rightarrow> (err + Decision \<times> Recommendation) option" where
  "Service_Evaluate g pd wall now tenant = (case gd_Recommendation g of Inl e \<Rightarrow> Some (Inl e)
   | Inr rec \<Rightarrow> (case gd_Resource g (fi_ResourceID (rc_Finding rec)) of Inl e \<Rightarrow> Some (Inl e)
   | Inr res \<Rightarrow> (case loadActiveSpec (gd_Spec g) of Inl e \<Rightarrow> Some (Inl e)
   | Inr sp \<Rightarrow> (case loadActivePolicyOrFallback (gd_Policy g) of Inl e \<Rightarrow> Some (Inl e)
   | Inr (policy, policyIsFallback) \<Rightarrow>
       (case buildInput tenant rec res sp (matchBudgets (gd_Budgets g) (gd_CostSLO g) res) now of None \<Rightarrow> None
       | Some (Inl e) \<Rightarrow> Some (Inl e)
       | Some (Inr i) \<Rightarrow>
           let decision = applySpecificationGuards sp res rec now (Evaluate wall policy i) in
           (case gd_SaveDecision g decision of Some e \<Rightarrow> Some (Inl e)
            | None \<Rightarrow> Some (Inr (decision, record_decision pd now decision rec))))))))"

section \<open>Guards only tighten\<close>

lemma tighten_effect:
  "de_Effect (tighten e r d) = (if Effect_Rank e \<le> Effect_Rank (de_Effect d) then de_Effect d else e)"
  by (simp add: tighten_def Let_def)

lemma tighten_ge: "Effect_Rank (de_Effect d) \<le> Effect_Rank (de_Effect (tighten e r d))"
  by (simp add: tighten_effect)

text \<open>What a decision promises about approvals: the flag follows the effect and a required approval is at least one.\<close>

definition decision_ok :: "Decision \<Rightarrow> bool" where
  "decision_ok d \<longleftrightarrow> (de_RequiresApproval d \<longleftrightarrow> de_Effect d = EffectRequireApproval) \<and>
     (de_RequiresApproval d \<longrightarrow> de_MinApprovals d \<noteq> 0)"

lemma decision_ok_Evaluate: "decision_ok (Evaluate wall p i)"
  by (simp add: decision_ok_def Evaluate_def Let_def split: option.split prod.split)

lemma decision_ok_tighten: "decision_ok d \<Longrightarrow> decision_ok (tighten e r d)"
  by (simp add: decision_ok_def tighten_def Let_def)

lemma decision_ok_guards: "decision_ok d \<Longrightarrow> decision_ok (applySpecificationGuards sp res rec now d)"
  by (simp add: applySpecificationGuards_def Let_def decision_ok_tighten)

definition excluded :: "Spec \<Rightarrow> Resource \<Rightarrow> Recommendation \<Rightarrow> bool" where
  "excluded sp res rec \<longleftrightarrow> actionExcluded (op_ExcludedActions (sp_Optimization sp)) (action_string (rc_Action rec)) \<or>
     resourceExcluded (op_ExcludedResources (sp_Optimization sp)) (res_ID res) (res_NativeID res) \<or>
     tagsExcluded (op_ExcludedTags (sp_Optimization sp)) (res_Tags res) \<noteq> None"

lemma Effect_Rank_max: "Effect_Rank e \<le> 3"
  by (cases e) simp_all

lemma guards_effect:
  "de_Effect (applySpecificationGuards sp res rec now d) =
    (if excluded sp res rec \<and> Effect_Rank (de_Effect d) < 3 then EffectProhibit
     else if InChangeFreeze sp now \<noteq> None \<and> de_Effect d = EffectAutoExecute then EffectRequireApproval
     else de_Effect d)"
  by (auto simp: applySpecificationGuards_def excluded_def tighten_effect Let_def not_less)

text \<open>C25: the guards of the specification only ever tighten the verdict of the policy, an excluded action,
  resource or tag leaves nothing that could be executed, a change freeze leaves nothing automatic, and the approval
  fields keep agreeing with the effect.\<close>

theorem applySpecificationGuards_tighten:
  "Effect_Rank (de_Effect d) \<le> Effect_Rank (de_Effect (applySpecificationGuards sp res rec now d)) \<and>
   (excluded sp res rec \<longrightarrow> \<not> Allowed (applySpecificationGuards sp res rec now d)) \<and>
   (InChangeFreeze sp now \<noteq> None \<longrightarrow> de_Effect (applySpecificationGuards sp res rec now d) \<noteq> EffectAutoExecute) \<and>
   (decision_ok d \<longrightarrow> decision_ok (applySpecificationGuards sp res rec now d))"
proof -
  show ?thesis using decision_ok_guards by (auto simp: guards_effect Allowed_def)
qed


definition production_late :: Decision where
  "production_late = Evaluate 0 sample_policy sample_input"

definition frozen_spec :: Spec where
  "frozen_spec = zero_spec\<lparr>sp_Governance := (sp_Governance zero_spec)\<lparr>gv_ChangeFreezeWindows := [''2026-12-24..2026-12-26'']\<rparr>\<rparr>"

theorem applySpecificationGuards_tighten_witness:
  "de_Effect production_late = EffectAutoExecute \<and>
   de_Effect (applySpecificationGuards frozen_spec no_resource sample_recommendation (midnight (day_number 2026 12 25)) production_late)
     \<noteq> EffectAutoExecute"
proof -
  have "parseFreezeWindow ''2026-12-24..2026-12-26'' = Some (midnight (day_number 2026 12 24), midnight (day_number 2026 12 26) + (nanos_per_day - 1))"
    by code_simp
  then have "freeze_active (midnight (day_number 2026 12 25)) ''2026-12-24..2026-12-26''"
    by (simp add: freeze_active_def midnight_def day_number_def)
  then have "InChangeFreeze frozen_spec (midnight (day_number 2026 12 25)) \<noteq> None"
    by (simp add: InChangeFreeze_def frozen_spec_def)
  then show ?thesis
    using applySpecificationGuards_tighten [of production_late frozen_spec no_resource sample_recommendation "midnight (day_number 2026 12 25)"]
      sample_decision by (simp add: production_late_def)
qed

section \<open>What a verdict rests on\<close>

text \<open>The steps of a successful call.\<close>

lemma Service_Evaluate_steps:
  assumes "Service_Evaluate g pd wall now tenant = Some (Inr (d, rec'))"
  obtains rec res sp policy fb i where "gd_Recommendation g = Inr rec"
    "gd_Resource g (fi_ResourceID (rc_Finding rec)) = Inr res" "loadActiveSpec (gd_Spec g) = Inr sp"
    "loadActivePolicyOrFallback (gd_Policy g) = Inr (policy, fb)"
    "buildInput tenant rec res sp (matchBudgets (gd_Budgets g) (gd_CostSLO g) res) now = Some (Inr i)"
    "d = applySpecificationGuards sp res rec now (Evaluate wall policy i)" "gd_SaveDecision g d = None"
    "rec' = record_decision pd now d rec"
  using assms by (auto simp: Service_Evaluate_def Let_def split: sum.splits option.splits prod.splits)

lemma buildInput_Inr:
  assumes "buildInput tenant rec res sp budget now = Some (Inr i)"
  obtains delta where "monthlyCostDelta rec = Some delta" "i = assemble tenant rec res sp budget now delta"
    "requiredInputFieldsOK i = []"
  using assms by (auto simp: buildInput_def Let_def split: Option.bind_splits if_splits)

lemma assemble_fields [simp]:
  "in_Action (assemble t rec res sp b now delta) = rc_Action rec"
  "in_Destructive (assemble t rec res sp b now delta) = Destructive (rc_Action rec)"
  "in_AutomationEnabled (assemble t rec res sp b now delta) = au_Enabled (sp_Automation sp)"
  "in_Environment (assemble t rec res sp b now delta) = fi_Environment (rc_Finding rec)"
  "in_Confidence (assemble t rec res sp b now delta) = rc_Confidence rec"
  "in_BudgetFreeze (assemble t rec res sp b now delta) = fst b"
  "in_BudgetRequiresApproval (assemble t rec res sp b now delta) = snd b"
  "in_MonthlyCostDelta (assemble t rec res sp b now delta) = delta"
  by (simp_all add: assemble_def Let_def)

lemma guards_auto:
  "de_Effect (applySpecificationGuards sp res rec now d) = EffectAutoExecute \<Longrightarrow>
   de_Effect d = EffectAutoExecute \<and> \<not> excluded sp res rec \<and> InChangeFreeze sp now = None"
  by (auto simp: guards_effect split: if_splits)

lemma zero_spec_off [simp]: "\<not> au_Enabled (sp_Automation zero_spec)"
  by (simp add: zero_spec_def)

lemma fallback_effect: "de_Effect (Evaluate wall fallback_policy i) \<noteq> EffectAutoExecute"
  by (simp add: Evaluate_effect [of _ _ _ "[]"] platform_guards_effect tenant_effect_def matching_def
      fallback_policy_def default_effect_def)

text \<open>C16: a missing field is refused: no decision is made, saved or recorded when the tenant, the recommendation, the
  rule, the action, the resource, the account, the environment, the risk, the reversibility or the time is unknown.\<close>

theorem Service_Evaluate_fail_closed:
  assumes "Service_Evaluate g pd wall now tenant = Some (Inr (d, rec'))"
  shows "tenant \<noteq> '''' \<and> now \<noteq> 0 \<and> rc_ID rec' \<noteq> '''' \<and> rc_Action rec' \<noteq> ActionOther '''' \<and>
    fi_RuleID (rc_Finding rec') \<noteq> '''' \<and> fi_ResourceID (rc_Finding rec') \<noteq> '''' \<and> fi_AccountID (rc_Finding rec') \<noteq> '''' \<and>
    fi_Environment (rc_Finding rec') \<noteq> EnvOther '''' \<and> ra_Level (rc_Risk rec') \<noteq> RiskOther '''' \<and>
    rc_Reversibility rec' \<noteq> ReversibilityOther '''' \<and> gd_SaveDecision g d = None \<and> decision_ok d \<and>
    (rc_RequiresApproval rec' \<longleftrightarrow> de_Effect d = EffectRequireApproval) \<and> (rc_AutoExecutable rec' \<longleftrightarrow> de_Effect d = EffectAutoExecute)"
proof (rule Service_Evaluate_steps [OF assms])
  fix rec res sp policy fb i
  assume b: "buildInput tenant rec res sp (matchBudgets (gd_Budgets g) (gd_CostSLO g) res) now = Some (Inr i)"
    and d: "d = applySpecificationGuards sp res rec now (Evaluate wall policy i)" "gd_SaveDecision g d = None"
    "rec' = record_decision pd now d rec"
  obtain delta where i: "i = assemble tenant rec res sp (matchBudgets (gd_Budgets g) (gd_CostSLO g) res) now delta"
    "requiredInputFieldsOK i = []" using buildInput_Inr [OF b] by blast
  have ok: "decision_ok d" unfolding d(1) by (rule decision_ok_guards [OF decision_ok_Evaluate])
  then have "rc_RequiresApproval rec' \<longleftrightarrow> de_Effect d = EffectRequireApproval"
    by (simp add: d(3) record_decision_def decision_ok_def)
  moreover have "requiredInputFieldsOK (assemble tenant rec res sp (matchBudgets (gd_Budgets g) (gd_CostSLO g) res) now delta) = []"
    using i by simp
  ultimately show ?thesis using d(2) ok
    by (auto simp: requiredInputFieldsOK_def assemble_def Let_def d(3) record_decision_def split: if_splits)
qed

section \<open>Policies and their activation\<close>

text \<open>\<open>policyRepo\<close>; \<open>ps_Active\<close> holds the id of the tenant's active policy. A stored policy reads back as it was saved.\<close>

record policy_store =
  ps_Policies :: "TenantID \<Rightarrow> (ID, Policy) tbl"
  ps_Active :: "TenantID \<Rightarrow> ID option"

definition no_policies :: policy_store where
  "no_policies = \<lparr>ps_Policies = (\<lambda>_. []), ps_Active = (\<lambda>_. None)\<rparr>"

definition zero_policy :: Policy where
  "zero_policy = \<lparr>po_ID = '''', po_TenantID = '''', po_Name = '''', po_Version = 0, po_Rules = [],
     po_DefaultEffect = EffectOther '''', po_Enabled = False, po_Checksum = '''', po_CreatedBy = '''', po_CreatedAt = 0,
     po_ActivatedAt = 0\<rparr>"

definition policy_Save :: "Principal option \<Rightarrow> Policy \<Rightarrow> policy_store \<Rightarrow> err option \<times> policy_store" where
  "policy_Save ctx p st = (case GuardTenant ctx (po_TenantID p) of Some e \<Rightarrow> (Some e, st)
     | None \<Rightarrow> (None, st\<lparr>ps_Policies := put_inner (po_TenantID p) (po_ID p) p (ps_Policies st)\<rparr>))"

definition policy_Get :: "Principal option \<Rightarrow> policy_store \<Rightarrow> TenantID \<Rightarrow> ID \<Rightarrow> err + Policy" where
  "policy_Get ctx st tenant id' = (case GuardTenant ctx tenant of Some e \<Rightarrow> Inl e
     | None \<Rightarrow> (case inner (ps_Policies st) tenant id' of None \<Rightarrow> Inl NotFound | Some p \<Rightarrow> Inr p))"

definition policy_GetActive :: "Principal option \<Rightarrow> policy_store \<Rightarrow> TenantID \<Rightarrow> err + Policy" where
  "policy_GetActive ctx st tenant = (case GuardTenant ctx tenant of Some e \<Rightarrow> Inl e
     | None \<Rightarrow> (case ps_Active st tenant of None \<Rightarrow> Inl NotFound
       | Some id' \<Rightarrow> Inr (case inner (ps_Policies st) tenant id' of None \<Rightarrow> zero_policy | Some p \<Rightarrow> p)))"

text \<open>\<open>fmtInt\<close> pads with zeros to six digits; versions are positive.\<close>

definition fmtInt :: "int \<Rightarrow> string" where
  "fmtInt n = (let s = itoa (nat n) in replicate (6 - length s) (CHR ''0'') @ s)"

definition policy_ListVersions :: "Principal option \<Rightarrow> policy_store \<Rightarrow> TenantID \<Rightarrow> string \<Rightarrow> err + Policy list" where
  "policy_ListVersions ctx st tenant name = (case GuardTenant ctx tenant of Some e \<Rightarrow> Inl e
     | None \<Rightarrow> Inr (rev (sortByCreatedThenID (\<lambda>p. (fmtInt (po_Version p), po_ID p))
         (filter (\<lambda>p. po_Name p = name) (map snd (ps_Policies st tenant))))))"

definition policy_Activate :: "Principal option \<Rightarrow> gotime \<Rightarrow> TenantID \<Rightarrow> ID \<Rightarrow> policy_store \<Rightarrow> err option \<times> policy_store" where
  "policy_Activate ctx wall tenant id' st = (case GuardTenant ctx tenant of Some e \<Rightarrow> (Some e, st)
     | None \<Rightarrow> (case inner (ps_Policies st) tenant id' of None \<Rightarrow> (Some NotFound, st)
       | Some p \<Rightarrow> (None, st\<lparr>ps_Policies := put_inner tenant id' (p\<lparr>po_Enabled := True, po_ActivatedAt := wall\<rparr>) (ps_Policies st),
           ps_Active := (ps_Active st)(tenant := Some id')\<rparr>)))"

definition next_version :: "Policy list \<Rightarrow> int" where
  "next_version existing = fold (\<lambda>v n. if po_Version v \<ge> n then po_Version v + 1 else n) existing 1"

text \<open>\<open>checksum\<close> is \<open>checksumPolicy\<close>: the hash of name, default effect and rules in YAML.\<close>

definition SavePolicy :: "(Policy \<Rightarrow> string) \<Rightarrow> Principal option \<Rightarrow> ID \<Rightarrow> gotime \<Rightarrow> TenantID \<Rightarrow> Policy \<Rightarrow> string \<Rightarrow> policy_store \<Rightarrow>
    (err + Policy) \<times> policy_store" where
  "SavePolicy checksum ctx newid now tenant p0 actor st = (let
     p = (if id_IsZero (po_TenantID p0) then p0\<lparr>po_TenantID := tenant\<rparr> else p0)
   in if po_TenantID p \<noteq> tenant then (Inl (NewError ErrTenantMismatch ''tenant_mismatch''), st)
      else case result_Err (Policy_Validate p) of Some e \<Rightarrow> (Inl e, st)
      | None \<Rightarrow> (case policy_ListVersions ctx st tenant (po_Name p) of Inl e \<Rightarrow> (Inl e, st)
        | Inr existing \<Rightarrow> let
            p = p\<lparr>po_ID := newid, po_Version := next_version existing, po_CreatedBy := actor, po_CreatedAt := now,
              po_Enabled := False, po_ActivatedAt := 0\<rparr>;
            p = p\<lparr>po_Checksum := checksum p\<rparr>
          in (case policy_Save ctx p st of (Some e, st') \<Rightarrow> (Inl e, st') | (None, st') \<Rightarrow> (Inr p, st'))))"

definition ActivatePolicy :: "Principal option \<Rightarrow> gotime \<Rightarrow> TenantID \<Rightarrow> ID \<Rightarrow> policy_store \<Rightarrow> err option \<times> policy_store" where
  "ActivatePolicy ctx wall tenant id' st = (case policy_Get ctx st tenant id' of Inl e \<Rightarrow> (Some e, st)
     | Inr p \<Rightarrow> (case result_Err (Policy_Validate p) of Some e \<Rightarrow> (Some e, st)
       | None \<Rightarrow> policy_Activate ctx wall tenant id' st))"

section \<open>The active policy was validated\<close>

inductive policies_reach :: "policy_store \<Rightarrow> bool" where
  start: "policies_reach no_policies"
| save: "policies_reach st \<Longrightarrow> SavePolicy checksum ctx newid now tenant p actor st = (r, st') \<Longrightarrow> policies_reach st'"
| activate: "policies_reach st \<Longrightarrow> ActivatePolicy ctx wall tenant id' st = (e, st') \<Longrightarrow> policies_reach st'"

text \<open>Every stored policy is free of blocking issues and every active id names a stored policy.\<close>

definition policies_inv :: "policy_store \<Rightarrow> bool" where
  "policies_inv st \<longleftrightarrow>
     (\<forall>t id' p. inner (ps_Policies st) t id' = Some p \<longrightarrow> \<not> HasBlocking (Policy_Validate p) \<and> po_TenantID p = t) \<and>
     (\<forall>t id'. ps_Active st t = Some id' \<longrightarrow> inner (ps_Policies st) t id' \<noteq> None)"

lemma Policy_Validate_ignores [simp]:
  "Policy_Validate (p\<lparr>po_Enabled := b\<rparr>) = Policy_Validate p"
  "Policy_Validate (p\<lparr>po_ActivatedAt := t\<rparr>) = Policy_Validate p"
  "Policy_Validate (p\<lparr>po_Checksum := s\<rparr>) = Policy_Validate p"
  "Policy_Validate (p\<lparr>po_ID := s\<rparr>) = Policy_Validate p"
  "Policy_Validate (p\<lparr>po_Version := v\<rparr>) = Policy_Validate p"
  "Policy_Validate (p\<lparr>po_CreatedBy := s\<rparr>) = Policy_Validate p"
  "Policy_Validate (p\<lparr>po_CreatedAt := t\<rparr>) = Policy_Validate p"
  "Policy_Validate (p\<lparr>po_TenantID := s\<rparr>) = Policy_Validate p"
  by (simp_all add: Policy_Validate_def)

lemma put_policy_inv:
  assumes "policies_inv st" "\<not> HasBlocking (Policy_Validate p)" "po_TenantID p = t"
  shows "policies_inv (st\<lparr>ps_Policies := put_inner t i p (ps_Policies st)\<rparr>)"
  using assms unfolding policies_inv_def by (auto simp: inner_put_inner split: if_splits)

lemma SavePolicy_cases:
  assumes "SavePolicy checksum ctx newid now tenant p actor st = (r, st')"
  obtains (refused) "st' = st" "\<exists>e. r = Inl e"
    | (saved) q existing where "r = Inr q" "st' = st\<lparr>ps_Policies := put_inner tenant newid q (ps_Policies st)\<rparr>"
        "\<not> HasBlocking (Policy_Validate q)" "po_TenantID q = tenant" "po_ID q = newid" "po_Name q = po_Name p"
        "policy_ListVersions ctx st tenant (po_Name p) = Inr existing" "po_Version q = next_version existing"
        "GuardTenant ctx tenant = None" "\<not> po_Enabled q"
proof -
  define p1 where "p1 = (if id_IsZero (po_TenantID p) then p\<lparr>po_TenantID := tenant\<rparr> else p)"
  have n: "po_Name p1 = po_Name p" by (simp add: p1_def)
  note A = assms [unfolded SavePolicy_def, folded p1_def, unfolded Let_def]
  consider (t) "po_TenantID p1 \<noteq> tenant" | (v) "po_TenantID p1 = tenant" "result_Err (Policy_Validate p1) \<noteq> None"
    | (l) e where "po_TenantID p1 = tenant" "result_Err (Policy_Validate p1) = None"
        "policy_ListVersions ctx st tenant (po_Name p1) = Inl e"
    | (ok) existing where "po_TenantID p1 = tenant" "result_Err (Policy_Validate p1) = None"
        "policy_ListVersions ctx st tenant (po_Name p1) = Inr existing"
    by (cases "policy_ListVersions ctx st tenant (po_Name p1)") blast+
  then show thesis
  proof cases
    case t
    then have "st' = st \<and> (\<exists>e. r = Inl e)" using A by auto
    then show ?thesis using refused by blast
  next
    case v
    then have "st' = st \<and> (\<exists>e. r = Inl e)" using A by (auto simp: result_Err_def)
    then show ?thesis using refused by blast
  next
    case l
    then have "st' = st \<and> (\<exists>e. r = Inl e)" using A by (auto simp: result_Err_def)
    then show ?thesis using refused by blast
  next
    case ok
    have g: "GuardTenant ctx tenant = None" using ok(3) by (simp add: policy_ListVersions_def split: option.splits)
    have nb: "\<not> HasBlocking (Policy_Validate p1)" using ok(2) by (simp add: result_Err_def split: if_splits)
    define q0 where "q0 = p1\<lparr>po_ID := newid, po_Version := next_version existing, po_CreatedBy := actor, po_CreatedAt := now,
              po_Enabled := False, po_ActivatedAt := 0\<rparr>"
    define q where "q = q0\<lparr>po_Checksum := checksum q0\<rparr>"
    have "(r, st') = (Inr q, st\<lparr>ps_Policies := put_inner tenant newid q (ps_Policies st)\<rparr>)"
      using A ok g by (simp add: policy_Save_def q_def q0_def result_Err_def)
    moreover have "\<not> HasBlocking (Policy_Validate q)" using nb by (simp add: q_def q0_def)
    ultimately show ?thesis using ok g n by (intro saved [of q existing]) (simp_all add: q_def q0_def)
  qed
qed

lemma ActivatePolicy_cases:
  assumes "ActivatePolicy ctx wall tenant i st = (e, st')"
  obtains (refused) "st' = st" "e \<noteq> None"
    | (activated) p where "e = None" "inner (ps_Policies st) tenant i = Some p" "\<not> HasBlocking (Policy_Validate p)"
      "st' = st\<lparr>ps_Policies := put_inner tenant i (p\<lparr>po_Enabled := True, po_ActivatedAt := wall\<rparr>) (ps_Policies st),
           ps_Active := (ps_Active st)(tenant := Some i)\<rparr>"
proof (cases "GuardTenant ctx tenant = None")
  case True
  show thesis
  proof (cases "inner (ps_Policies st) tenant i")
    case None
    then show ?thesis using True assms refused by (auto simp: ActivatePolicy_def policy_Get_def)
  next
    case (Some p)
    show ?thesis
    proof (cases "HasBlocking (Policy_Validate p)")
      case blocked: True
      then show ?thesis using True Some assms refused by (auto simp: ActivatePolicy_def policy_Get_def result_Err_def)
    next
      case False
      then show ?thesis using True Some assms activated [OF _ Some False]
        by (simp add: ActivatePolicy_def policy_Get_def policy_Activate_def result_Err_def)
    qed
  qed
next
  case False
  then obtain x where x: "GuardTenant ctx tenant = Some x" by blast
  have "(e, st') = (Some x, st)" using assms unfolding ActivatePolicy_def policy_Get_def x by simp
  then have "st' = st" "e \<noteq> None" by simp_all
  then show thesis by (rule refused)
qed

lemma policies_reach_inv: "policies_reach st \<Longrightarrow> policies_inv st"
proof (induction rule: policies_reach.induct)
  case start
  show ?case by (simp add: policies_inv_def no_policies_def inner_def)
next
  case (save st checksum ctx newid now tenant p actor r st')
  from save.hyps(2) show ?case
  proof (cases rule: SavePolicy_cases)
    case (saved q existing)
    then show ?thesis using put_policy_inv [OF save.IH saved(3,4)] by simp
  qed (use save.IH in simp)
next
  case (activate st ctx wall tenant i e st')
  from activate.hyps(2) show ?case
  proof (cases rule: ActivatePolicy_cases)
    case (activated p)
    let ?q = "p\<lparr>po_Enabled := True, po_ActivatedAt := wall\<rparr>"
    have "po_TenantID p = tenant" using activate.IH activated(2) by (simp add: policies_inv_def)
    then have "policies_inv (st\<lparr>ps_Policies := put_inner tenant i ?q (ps_Policies st)\<rparr>)"
      using put_policy_inv [OF activate.IH, of ?q] activated(3) by simp
    moreover have "inner (ps_Policies st') t k \<noteq> None" if "ps_Active st' t = Some k" for t k
      using that activate.IH by (auto simp: policies_inv_def activated(4) inner_put_inner split: if_splits)
    ultimately show ?thesis unfolding policies_inv_def by (simp add: activated(4))
  qed (use activate.IH in simp)
qed

text \<open>C1: end to end: a verdict of automatic execution, from policies that reached the store through \<open>SavePolicy\<close>
  and \<open>ActivatePolicy\<close>, means that an approved specification with automation enabled exists, that the tenant's active
  policy passes validation and agrees, that nothing excludes the action or the resource, that no change freeze is
  active and no exhausted budget is made worse, that the action destroys nothing, and that in production the
  confidence is at least 0.85.\<close>

theorem Service_Evaluate_auto_execute_safe:
  assumes "policies_reach st" and "gd_Policy g = policy_GetActive ctx st tenant"
    and "Service_Evaluate g pd wall now tenant = Some (Inr (d, rec'))" and "de_Effect d = EffectAutoExecute"
  shows "\<exists>rec res v p i. gd_Recommendation g = Inr rec \<and> gd_Resource g (fi_ResourceID (rc_Finding rec)) = Inr res \<and>
    gd_Spec g = Inr v \<and> au_Enabled (sp_Automation (vn_Spec v)) \<and>
    ps_Active st tenant = Some i \<and> inner (ps_Policies st) tenant i = Some p \<and> \<not> HasBlocking (Policy_Validate p) \<and>
    \<not> Destructive (rc_Action rec) \<and> \<not> excluded (vn_Spec v) res rec \<and> InChangeFreeze (vn_Spec v) now = None \<and>
    (IsProduction (fi_Environment (rc_Finding rec)) \<longrightarrow> f64 (85 / 100) \<le> rc_Confidence rec) \<and>
    (\<forall>delta. monthlyCostDelta rec = Some delta \<longrightarrow> 0 < micros delta \<longrightarrow>
       matchBudgets (gd_Budgets g) (gd_CostSLO g) res = (False, False)) \<and>
    rc_AutoExecutable rec' \<and> \<not> rc_RequiresApproval rec'"
proof (rule Service_Evaluate_steps [OF assms(3)])
  fix rec res sp policy fb i
  assume s: "gd_Recommendation g = Inr rec" "gd_Resource g (fi_ResourceID (rc_Finding rec)) = Inr res"
    "loadActiveSpec (gd_Spec g) = Inr sp" "loadActivePolicyOrFallback (gd_Policy g) = Inr (policy, fb)"
    "buildInput tenant rec res sp (matchBudgets (gd_Budgets g) (gd_CostSLO g) res) now = Some (Inr i)"
    "d = applySpecificationGuards sp res rec now (Evaluate wall policy i)" "gd_SaveDecision g d = None"
    "rec' = record_decision pd now d rec"
  obtain delta where i: "monthlyCostDelta rec = Some delta"
    "i = assemble tenant rec res sp (matchBudgets (gd_Budgets g) (gd_CostSLO g) res) now delta"
    using buildInput_Inr [OF s(5)] by blast
  have a: "de_Effect (Evaluate wall policy i) = EffectAutoExecute" "\<not> excluded sp res rec" "InChangeFreeze sp now = None"
    using guards_auto assms(4) unfolding s(6) by blast+
  have I: "policies_inv st" by (rule policies_reach_inv [OF assms(1)])
  have "policy \<noteq> fallback_policy" using a(1) fallback_effect by blast
  then have pol: "policy_GetActive ctx st tenant = Inr policy"
    using s(4) unfolding assms(2) by (auto simp: loadActivePolicyOrFallback_def split: sum.splits if_splits)
  then obtain k where k: "ps_Active st tenant = Some k"
    by (auto simp: policy_GetActive_def split: option.splits)
  then obtain p where p0: "inner (ps_Policies st) tenant k = Some p"
    using I unfolding policies_inv_def by (meson option.exhaust)
  then have p: "ps_Active st tenant = Some k" "inner (ps_Policies st) tenant k = Some p" "policy = p"
    "\<not> HasBlocking (Policy_Validate p)"
    using k pol I p0 by (auto simp: policy_GetActive_def policies_inv_def split: option.splits)
  have v: "\<not> in_Destructive i \<and> in_AutomationEnabled i \<and>
    \<not> (GreaterThan (in_MonthlyCostDelta i) ZeroUSD \<and> (in_BudgetFreeze i \<or> in_BudgetRequiresApproval i)) \<and>
    (IsProduction (in_Environment i) \<longrightarrow> f64 (85 / 100) \<le> in_Confidence i)"
    using auto_execute_facts [OF p(4), of wall i] a(1) p(3) by blast
  then have on: "au_Enabled (sp_Automation sp)" by (simp add: i(2))
  then obtain w where w: "gd_Spec g = Inr w" "sp = vn_Spec w"
    using s(3) by (auto simp: loadActiveSpec_def split: sum.splits if_splits)
  have "decision_ok d" unfolding s(6) by (rule decision_ok_guards [OF decision_ok_Evaluate])
  then have r: "rc_AutoExecutable rec'" "\<not> rc_RequiresApproval rec'"
    using assms(4) by (simp_all add: s(8) record_decision_def decision_ok_def)
  have b: "matchBudgets (gd_Budgets g) (gd_CostSLO g) res = (False, False)"
    if "monthlyCostDelta rec = Some delta'" "0 < micros delta'" for delta'
    using that i v by (simp add: prod_eq_iff)
  have c: "\<not> Destructive (rc_Action rec)" "IsProduction (fi_Environment (rc_Finding rec)) \<longrightarrow> f64 (85 / 100) \<le> rc_Confidence rec"
    using v by (simp_all add: i(2))
  show ?thesis
    by (rule exI [of _ rec], rule exI [of _ res], rule exI [of _ w], rule exI [of _ p], rule exI [of _ k])
      (use s(1,2) w on p(1,2,4) a(2,3) b c r in blast)
qed

text \<open>A tenant with an approved specification, an activated policy and a waste finding in development.\<close>

definition admin :: "Principal option" where
  "admin = Some (SystemPrincipal ''t'' ''worker'' 0)"

definition no_completeness :: Completeness where
  "no_completeness = \<lparr>cp_TotalFields = 0, cp_Confirmed = 0, cp_Inferred = 0, cp_Unknown = 0, cp_NeedsConfirmation = 0,
     cp_Score = 0, cp_ReadyForReview = False, cp_BlockingGaps = []\<rparr>"

definition auto_spec :: SpecVersion where
  "auto_spec = \<lparr>vn_ID = ''sv'', vn_TenantID = ''t'', vn_SpecID = ''s'', vn_Version = 1, vn_Status = SpecApproved,
     vn_Spec = zero_spec\<lparr>sp_Automation := (sp_Automation zero_spec)\<lparr>au_Enabled := True\<rparr>\<rparr>, vn_Checksum = '''',
     vn_ParentID = '''', vn_Diff = [], vn_Validation = [], vn_Completeness = no_completeness, vn_CreatedBy = '''',
     vn_CreatedAt = 1, vn_ApprovedBy = '''', vn_ApprovedAt = None, vn_ApprovalID = '''', vn_RejectedReason = '''',
     vn_ConversationID = ''''\<rparr>"

definition stop_recommendation :: Recommendation where
  "stop_recommendation = sample_recommendation\<lparr>rc_Action := ActionStopInstance\<rparr>"

definition saved_store :: policy_store where
  "saved_store = snd (SavePolicy (\<lambda>_. ''sum'') admin ''pol'' 5 ''t'' sample_policy ''admin'' no_policies)"

definition active_store :: policy_store where
  "active_store = snd (ActivatePolicy admin 6 ''t'' ''pol'' saved_store)"

definition stop_deps :: gov_deps where
  "stop_deps = \<lparr>gd_Recommendation = Inr stop_recommendation, gd_Resource = (\<lambda>_. Inr no_resource), gd_Spec = Inr auto_spec,
     gd_Policy = policy_GetActive admin active_store ''t'', gd_Budgets = None, gd_CostSLO = (\<lambda>_. Inl NotFound),
     gd_SaveDecision = (\<lambda>_. None)\<rparr>"

lemma active_store_reach: "policies_reach active_store"
proof -
  obtain r where "SavePolicy (\<lambda>_. ''sum'') admin ''pol'' 5 ''t'' sample_policy ''admin'' no_policies = (r, saved_store)"
    unfolding saved_store_def by (metis prod.collapse)
  then have "policies_reach saved_store" by (rule policies_reach.save [OF policies_reach.start])
  moreover obtain e where "ActivatePolicy admin 6 ''t'' ''pol'' saved_store = (e, active_store)"
    unfolding active_store_def by (metis prod.collapse)
  ultimately show ?thesis by (rule policies_reach.activate)
qed

lemma stop_verdict: "case Service_Evaluate stop_deps ''pd'' 7 7 ''t'' of
    Some (Inr (d, rec')) \<Rightarrow> de_Effect d = EffectAutoExecute | _ \<Rightarrow> False"
  by code_simp

theorem Service_Evaluate_auto_execute_safe_witness:
  "\<exists>d rec'. Service_Evaluate stop_deps ''pd'' 7 7 ''t'' = Some (Inr (d, rec')) \<and> de_Effect d = EffectAutoExecute \<and>
     policies_reach active_store \<and> ps_Active active_store ''t'' \<noteq> None \<and> rc_AutoExecutable rec'"
proof -
  obtain d rec' where e: "Service_Evaluate stop_deps ''pd'' 7 7 ''t'' = Some (Inr (d, rec'))" "de_Effect d = EffectAutoExecute"
    using stop_verdict by (auto split: option.splits sum.splits)
  have g: "gd_Policy stop_deps = policy_GetActive admin active_store ''t''" by (simp add: stop_deps_def)
  show ?thesis using Service_Evaluate_auto_execute_safe [OF active_store_reach g e] e active_store_reach by blast
qed

theorem Service_Evaluate_fail_closed_witness:
  "\<exists>d rec'. Service_Evaluate stop_deps ''pd'' 7 7 ''t'' = Some (Inr (d, rec')) \<and> rc_ID rec' \<noteq> '''' \<and> decision_ok d"
proof -
  obtain d rec' where e: "Service_Evaluate stop_deps ''pd'' 7 7 ''t'' = Some (Inr (d, rec'))"
    using stop_verdict by (auto split: option.splits sum.splits)
  then show ?thesis using Service_Evaluate_fail_closed [OF e] by blast
qed

section \<open>Versions\<close>

lemma next_version_bound:
  "fold (\<lambda>v n. if po_Version v \<ge> n then po_Version v + 1 else n) vs k \<ge> k \<and>
   (\<forall>v \<in> set vs. po_Version v < fold (\<lambda>v n. if po_Version v \<ge> n then po_Version v + 1 else n) vs k)"
proof (induction vs arbitrary: k)
  case (Cons v vs)
  show ?case using Cons.IH [of "po_Version v + 1"] Cons.IH [of k] by (auto intro: less_le_trans)
qed simp

lemma saved_version_fresh:
  assumes "SavePolicy checksum ctx newid now tenant p actor st = (Inr q, st')"
    and "(i, v) \<in> set (ps_Policies st tenant)" "po_Name v = po_Name q"
  shows "po_Version v < po_Version q"
  using assms(1)
proof (cases rule: SavePolicy_cases)
  case (saved q' existing)
  then have "v \<in> set existing" using assms(2,3)
    by (auto simp: policy_ListVersions_def sortByCreatedThenID_def image_iff split: option.splits intro!: bexI [of _ "(i, v)"])
  then show ?thesis using saved next_version_bound [of 1 existing] by (auto simp: next_version_def)
qed simp

end
