(* ===== verification/ApprovalFlow.thy ===== *)
theory ApprovalFlow imports Approval Governance AuditLog begin

text \<open>
  The approval workflow: \<open>internal/application/governance/approval.go\<close> over the in-memory repository
  \<open>internal/adapters/memstore/approval.go\<close>. Every audit record the service writes is one element of a trace of
  \<open>audit_note\<close> entries; events for the notification dispatcher and message texts are not modelled. The clock and new
  identifiers are arguments.
\<close>

type_synonym approval_store = "(TenantID, ID, Request) tbl2"

record audit_note =
  nt_Action :: AuditAction
  nt_Outcome :: AuditOutcome
  nt_Actor :: string
  nt_SubjectID :: ID

definition actorLabel :: "string \<Rightarrow> string" where
  "actorLabel actor = (if actor = '''' then ''cloudoptix/governance'' else actor)"

definition writeAudit :: "AuditAction \<Rightarrow> AuditOutcome \<Rightarrow> string \<Rightarrow> ID \<Rightarrow> audit_note" where
  "writeAudit action out actor subject = \<lparr>nt_Action = action, nt_Outcome = out, nt_Actor = actorLabel actor, nt_SubjectID = subject\<rparr>"

section \<open>The repository\<close>

definition approval_Create :: "Principal option \<Rightarrow> Request \<Rightarrow> approval_store \<Rightarrow> err option \<times> approval_store" where
  "approval_Create ctx r st = (case GuardTenant ctx (rq_TenantID r) of Some e \<Rightarrow> (Some e, st)
     | None \<Rightarrow> if get2 st (rq_TenantID r) (rq_ID r) \<noteq> None
         then (Some (NewError ErrAlreadyExists ''approval_exists''), st)
         else (None, put2 (rq_TenantID r) (rq_ID r) r st))"

definition approval_Get :: "Principal option \<Rightarrow> approval_store \<Rightarrow> TenantID \<Rightarrow> ID \<Rightarrow> err + Request" where
  "approval_Get ctx st tenant id' = (case GuardTenant ctx tenant of Some e \<Rightarrow> Inl e
     | None \<Rightarrow> (case get2 st tenant id' of None \<Rightarrow> Inl NotFound | Some r \<Rightarrow> Inr r))"

definition approval_Update :: "Principal option \<Rightarrow> Request \<Rightarrow> approval_store \<Rightarrow> err option \<times> approval_store" where
  "approval_Update ctx r st = (case GuardTenant ctx (rq_TenantID r) of Some e \<Rightarrow> (Some e, st)
     | None \<Rightarrow> if get2 st (rq_TenantID r) (rq_ID r) = None then (Some NotFound, st)
         else (None, put2 (rq_TenantID r) (rq_ID r) r st))"

text \<open>\<open>stamp\<close> is \<open>Format(sortTimeLayout)\<close>, the sortable text of a time.\<close>

definition approval_ListPending :: "(string \<times> string \<Rightarrow> string) \<Rightarrow> (string \<Rightarrow> (string \<times> string) option) \<Rightarrow> (gotime \<Rightarrow> string) \<Rightarrow>
    Principal option \<Rightarrow> approval_store \<Rightarrow> TenantID \<Rightarrow> ListOptions \<Rightarrow> err + Request Page" where
  "approval_ListPending enc dec stamp ctx st tenant opts = (case GuardTenant ctx tenant of Some e \<Rightarrow> Inl e
     | None \<Rightarrow> let items = filter (\<lambda>r. rq_State r = ApprovalPending) (map snd (rows st tenant));
           keyOf = (\<lambda>r. (stamp (rq_RequestedAt r), rq_ID r))
         in Inr (paginate enc dec (sortByCreatedThenID keyOf items) opts keyOf))"

definition approval_ListBySubject :: "(gotime \<Rightarrow> string) \<Rightarrow> Principal option \<Rightarrow> approval_store \<Rightarrow> TenantID \<Rightarrow> SubjectKind \<Rightarrow>
    ID \<Rightarrow> err + Request list" where
  "approval_ListBySubject stamp ctx st tenant k subject = (case GuardTenant ctx tenant of Some e \<Rightarrow> Inl e
     | None \<Rightarrow> Inr (sortByCreatedThenID (\<lambda>r. (stamp (rq_RequestedAt r), rq_ID r))
         (filter (\<lambda>r. rq_SubjectKind r = k \<and> rq_SubjectID r = subject) (map snd (rows st tenant)))))"

definition overdue :: "gotime \<Rightarrow> Request \<Rightarrow> bool" where
  "overdue now r \<longleftrightarrow> \<not> (rq_State r \<noteq> ApprovalPending \<or> rq_ExpiresAt r = 0 \<or> now < rq_ExpiresAt r)"

definition ExpireOverdue :: "gotime \<Rightarrow> approval_store \<Rightarrow> nat \<times> approval_store" where
  "ExpireOverdue now st = (length (filter (overdue now) (entries2 st)),
     map_tbl2 (\<lambda>r. if overdue now r then r\<lparr>rq_State := ApprovalExpired\<rparr> else r) st)"

section \<open>The service\<close>

definition defaultApprovalTTL :: int where
  "defaultApprovalTTL = 72 * nanos_per_hour"

text \<open>A specification that cannot be loaded is audit_note and replaced by the empty one.\<close>

definition route :: "err + SpecVersion \<Rightarrow> ID \<Rightarrow> gotime \<Rightarrow> Request \<Rightarrow> Request" where
  "route getSpec newid now r = (let
     g = sp_Governance (case loadActiveSpec getSpec of Inl _ \<Rightarrow> zero_spec | Inr sp \<Rightarrow> sp);
     r = (if id_IsZero (rq_ID r) then r\<lparr>rq_ID := newid\<rparr> else r);
     r = (if rq_State r = ApprovalOther '''' then r\<lparr>rq_State := ApprovalPending\<rparr> else r);
     r = (if rq_RequestedAt r = 0 then r\<lparr>rq_RequestedAt := now\<rparr> else r);
     r = (if rq_ExpiresAt r = 0 then r\<lparr>rq_ExpiresAt := now + defaultApprovalTTL\<rparr> else r);
     r = (if rq_RequiredRoles r = [] \<and> gv_ApproverRoles g \<noteq> [] then r\<lparr>rq_RequiredRoles := gv_ApproverRoles g\<rparr> else r);
     r = (if rq_MinApprovals r \<le> 0 then r\<lparr>rq_MinApprovals := (if gv_MinApprovals g > 0 then gv_MinApprovals g else 1)\<rparr> else r)
   in if \<not> rq_RequireDistinctApprover r then r\<lparr>rq_RequireDistinctApprover := gv_SegregationOfDuties g\<rparr> else r)"

definition RequestApproval :: "Principal option \<Rightarrow> err + SpecVersion \<Rightarrow> ID \<Rightarrow> gotime \<Rightarrow> Request \<Rightarrow> approval_store \<Rightarrow>
    (err + Request) \<times> approval_store \<times> audit_note list" where
  "RequestApproval ctx getSpec newid now r st =
    (if id_IsZero (rq_TenantID r) then (Inl Invalid, st, [])
     else if id_IsZero (rq_SubjectID r) then (Inl Invalid, st, [])
     else let r = route getSpec newid now r in
       (case approval_Create ctx r st of
          (Some e, st) \<Rightarrow> (Inl e, st, [])
        | (None, st) \<Rightarrow> (Inr r, st, [writeAudit ActionApprovalRequested OutcomeSuccess (actorLabel (rq_RequestedBy r)) (rq_SubjectID r)])))"

definition Service_Decide :: "Principal option \<Rightarrow> gotime \<Rightarrow> gotime \<Rightarrow> TenantID \<Rightarrow> ID \<Rightarrow> Response \<Rightarrow> approval_store \<Rightarrow>
    (err + Request) \<times> approval_store \<times> audit_note list" where
  "Service_Decide ctx wall now tenant id' resp0 st = (case approval_Get ctx st tenant id' of Inl e \<Rightarrow> (Inl e, st, [])
   | Inr req \<Rightarrow> let resp = (if rs_At resp0 = 0 then resp0\<lparr>rs_At := now\<rparr> else resp0);
       (decideErr, req) = Decide wall req resp;
       audit = (\<lambda>action out. [writeAudit action out (actorLabel (rs_Principal resp)) (rq_SubjectID req)])
     in (case approval_Update ctx req st of
       (Some e, st) \<Rightarrow> (Inl e, st, [])
     | (None, st) \<Rightarrow> (case decideErr of
         Some e \<Rightarrow> (Inl e, st, if errors_is e ErrPreconditionOff then audit ActionApprovalExpired OutcomeDenied else [])
       | None \<Rightarrow> (Inr req, st,
           if rq_State req = ApprovalApproved then audit ActionApprovalGranted OutcomeSuccess
           else if rq_State req = ApprovalRejected then audit ActionApprovalRejected OutcomeDenied
           else audit ActionApprovalGranted OutcomePartial))))"

definition ExpireOverdueApprovals :: "gotime \<Rightarrow> approval_store \<Rightarrow> nat \<times> approval_store" where
  "ExpireOverdueApprovals now st = ExpireOverdue now st"

section \<open>Stored requests\<close>

text \<open>A step of the workflow: a request is made (no votes and no decision recorded by the caller), a vote is cast
  or a sweep runs, by any caller. The clock is past Go's zero instant.\<close>

inductive approvals_step :: "approval_store \<Rightarrow> approval_store \<Rightarrow> bool" where
  requested: "rq_State r \<in> {ApprovalOther '''', ApprovalPending} \<Longrightarrow> rq_Responses r = [] \<Longrightarrow>
    rq_DecidedAt r = None \<Longrightarrow> 0 \<le> now \<Longrightarrow> RequestApproval ctx getSpec newid now r st = (out, st', trail) \<Longrightarrow>
    approvals_step st st'"
| voted: "Service_Decide ctx wall now tenant i resp st = (out, st', trail) \<Longrightarrow> approvals_step st st'"
| swept: "ExpireOverdueApprovals now st = (n, st') \<Longrightarrow> approvals_step st st'"

definition approvals_inv :: "approval_store \<Rightarrow> bool" where
  "approvals_inv st \<longleftrightarrow> (\<forall>t i r. get2 st t i = Some r \<longrightarrow> request_inv r \<and> rq_TenantID r = t \<and> rq_ID r = i \<and>
     rq_ExpiresAt r \<noteq> 0)"

lemma route_fields [simp]:
  "rq_TenantID (route g i now r) = rq_TenantID r" "rq_SubjectID (route g i now r) = rq_SubjectID r"
  "rq_Responses (route g i now r) = rq_Responses r" "rq_DecidedAt (route g i now r) = rq_DecidedAt r"
  "rq_RequestedBy (route g i now r) = rq_RequestedBy r"
  "rq_State (route g i now r) = (if rq_State r = ApprovalOther '''' then ApprovalPending else rq_State r)"
  "rq_ExpiresAt (route g i now r) = (if rq_ExpiresAt r = 0 then now + defaultApprovalTTL else rq_ExpiresAt r)"
  by (simp_all add: route_def Let_def)

lemma route_inv:
  assumes "rq_State r \<in> {ApprovalOther '''', ApprovalPending}" "rq_Responses r = []" "rq_DecidedAt r = None"
  shows "request_inv (route g i now r)"
  using assms required_approvals_pos [of "route g i now r"] by (auto simp: request_inv_def ApprovalCount_def)

lemma RequestApproval_cases:
  assumes "RequestApproval ctx getSpec newid now r st = (out, st', trail)"
  obtains (refused) e where "st' = st" "out = Inl e" "trail = []"
    | (stored) r' where "r' = route getSpec newid now r" "out = Inr r'" "st' = put2 (rq_TenantID r') (rq_ID r') r' st"
        "GuardTenant ctx (rq_TenantID r) = None" "get2 st (rq_TenantID r') (rq_ID r') = None"
proof -
  let ?r = "route getSpec newid now r"
  show thesis
  proof (cases "rq_TenantID r = '''' \<or> rq_SubjectID r = '''' \<or> GuardTenant ctx (rq_TenantID r) \<noteq> None \<or>
      get2 st (rq_TenantID ?r) (rq_ID ?r) \<noteq> None")
    case True
    then have "\<exists>e. st' = st \<and> out = Inl e \<and> trail = []" using assms
      by (cases "GuardTenant ctx (rq_TenantID r)")
        (auto simp: RequestApproval_def approval_Create_def Let_def split: if_splits)
    then show ?thesis using refused by blast
  next
    case False
    then show ?thesis using assms
      by (intro stored [of ?r]) (auto simp: RequestApproval_def approval_Create_def Let_def)
  qed
qed

lemma Decide_keeps:
  "Decide wall r resp = (e, r') \<Longrightarrow> rq_TenantID r' = rq_TenantID r \<and> rq_ID r' = rq_ID r \<and> rq_ExpiresAt r' = rq_ExpiresAt r \<and>
     rq_SubjectID r' = rq_SubjectID r"
  by (erule Decide_cases) auto

lemma Service_Decide_cases:
  assumes "Service_Decide ctx wall now tenant i resp st = (out, st', trail)" and "approvals_inv st"
  obtains (refused) e where "st' = st" "out = Inl e" "trail = []"
    | (decided) r r' e where "get2 st tenant i = Some r" "GuardTenant ctx tenant = None"
        "Decide wall r (if rs_At resp = 0 then resp\<lparr>rs_At := now\<rparr> else resp) = (e, r')"
        "st' = put2 tenant i r' st" "out = (case e of None \<Rightarrow> Inr r' | Some e \<Rightarrow> Inl e)"
proof (cases "approval_Get ctx st tenant i")
  case (Inl e)
  then show ?thesis using assms(1) by (auto simp: Service_Decide_def intro: refused [of e])
next
  case (Inr r)
  then have g: "GuardTenant ctx tenant = None" "get2 st tenant i = Some r"
    by (auto simp: approval_Get_def split: option.splits)
  then have id: "rq_TenantID r = tenant" "rq_ID r = i" using assms(2) by (auto simp: approvals_inv_def)
  obtain e r' where d: "Decide wall r (if rs_At resp = 0 then resp\<lparr>rs_At := now\<rparr> else resp) = (e, r')"
    by fastforce
  have "rq_TenantID r' = tenant" "rq_ID r' = i" using Decide_keeps [OF d] id by simp_all
  then have u: "approval_Update ctx r' st = (None, put2 tenant i r' st)" using g by (simp add: approval_Update_def)
  have "st' = put2 tenant i r' st \<and> out = (case e of None \<Rightarrow> Inr r' | Some e \<Rightarrow> Inl e)"
    using assms(1) by (auto simp: Service_Decide_def Inr d u Let_def split: option.splits)
  with g d show ?thesis using decided by blast
qed

lemma expire_inv: "request_inv r \<Longrightarrow> overdue now r \<Longrightarrow> request_inv (r\<lparr>rq_State := ApprovalExpired\<rparr>)"
  by (auto simp: request_inv_def overdue_def)

lemma get2_swept:
  "get2 (snd (ExpireOverdue now st)) t i =
     map_option (\<lambda>r. if overdue now r then r\<lparr>rq_State := ApprovalExpired\<rparr> else r) (get2 st t i)"
  by (simp add: ExpireOverdue_def get2_map_tbl2)

lemma put2_approvals_inv:
  assumes "approvals_inv st" "request_inv r" "rq_TenantID r = t" "rq_ID r = i" "rq_ExpiresAt r \<noteq> 0"
  shows "approvals_inv (put2 t i r st)"
  using assms by (auto simp: approvals_inv_def get2_put2)

lemma approvals_step_inv: "approvals_step st st' \<Longrightarrow> approvals_inv st \<Longrightarrow> approvals_inv st'"
proof (induction rule: approvals_step.induct)
  case (requested r now ctx getSpec newid st out st' trail)
  from requested(5) show ?case
  proof (cases rule: RequestApproval_cases)
    case (stored r')
    moreover have "rq_ExpiresAt r' \<noteq> 0" using stored(1) requested(4) by (simp add: defaultApprovalTTL_def)
    ultimately show ?thesis using requested(6) route_inv [OF requested(1-3)] by (simp add: put2_approvals_inv)
  qed (use requested(6) in simp)
next
  case (voted ctx wall now tenant i resp st out st' trail)
  from voted(1,2) show ?case
  proof (cases rule: Service_Decide_cases)
    case (decided r r' e)
    have "request_inv r" "rq_TenantID r = tenant" "rq_ID r = i" "rq_ExpiresAt r \<noteq> 0"
      using decided(1) voted(2) by (auto simp: approvals_inv_def)
    then show ?thesis using Decide_inv [OF decided(3)] Decide_keeps [OF decided(3)] voted(2)
      by (simp add: decided(4) put2_approvals_inv)
  qed (use voted(2) in simp)
next
  case (swept now st n st')
  have "st' = snd (ExpireOverdue now st)" using swept(1) by (simp add: ExpireOverdueApprovals_def)
  then show ?case using swept(2) by (auto simp: approvals_inv_def get2_swept expire_inv)
qed

lemma approvals_reach_inv: "approvals_step\<^sup>*\<^sup>* [] st \<Longrightarrow> approvals_inv st"
  by (induction rule: rtranclp_induct) (auto simp: approvals_inv_def [of "[]"] intro: approvals_step_inv)

lemma Decide_nonpending: "rq_State r \<noteq> ApprovalPending \<Longrightarrow> Decide wall r resp = (Some Conflict, r)"
  by (simp add: Decide_def)

text \<open>No step changes a settled request or moves a deadline.\<close>

lemma step_keeps:
  assumes "approvals_step st st'" "approvals_inv st" "get2 st t i = Some r"
  shows "\<exists>r'. get2 st' t i = Some r' \<and> rq_ExpiresAt r' = rq_ExpiresAt r \<and> (rq_State r \<noteq> ApprovalPending \<longrightarrow> r' = r)"
  using assms
proof (induction rule: approvals_step.induct)
  case (requested q now ctx getSpec newid st out st' trail)
  from requested(5) show ?case
  proof (cases rule: RequestApproval_cases)
    case (stored q')
    then show ?thesis using requested(7) by (auto simp: get2_put2)
  qed (use requested(7) in simp)
next
  case (voted ctx wall now tenant j resp st out st' trail)
  from voted(1,2) show ?case
  proof (cases rule: Service_Decide_cases)
    case (decided q q' e)
    then show ?thesis using voted(3) Decide_keeps [OF decided(3)]
      by (cases "tenant = t \<and> j = i") (auto simp: get2_put2 Decide_nonpending)
  qed (use voted(3) in simp)
next
  case (swept now st n st')
  then show ?case by (auto simp: ExpireOverdueApprovals_def get2_swept overdue_def dest!: arg_cong [where f = snd])
qed

lemma steps_keep:
  "approvals_step\<^sup>*\<^sup>* st st' \<Longrightarrow> approvals_inv st \<Longrightarrow> get2 st t i = Some r \<Longrightarrow> approvals_inv st' \<and>
     (\<exists>r'. get2 st' t i = Some r' \<and> rq_ExpiresAt r' = rq_ExpiresAt r \<and> (rq_State r \<noteq> ApprovalPending \<longrightarrow> r' = r))"
proof (induction rule: rtranclp_induct)
  case (step u v)
  then obtain r' where r': "approvals_inv u" "get2 u t i = Some r'" "rq_ExpiresAt r' = rq_ExpiresAt r"
    "rq_State r \<noteq> ApprovalPending \<longrightarrow> r' = r" by blast
  from step_keeps [OF step.hyps(2) r'(1,2)] r' approvals_step_inv [OF step.hyps(2) r'(1)] show ?case by auto
qed simp

lemma final_kept: "approvals_step\<^sup>*\<^sup>* st st' \<Longrightarrow> approvals_inv st \<Longrightarrow> get2 st t i = Some r \<Longrightarrow>
    rq_State r \<noteq> ApprovalPending \<Longrightarrow> get2 st' t i = Some r"
  using steps_keep by blast

lemma deadline_kept: "approvals_step\<^sup>*\<^sup>* st st' \<Longrightarrow> approvals_inv st \<Longrightarrow> get2 st t i = Some r \<Longrightarrow>
    \<exists>r'. get2 st' t i = Some r' \<and> rq_ExpiresAt r' = rq_ExpiresAt r"
  using steps_keep by blast

section \<open>Safety: what an approval is worth\<close>



text \<open>The routing trusts the state of the request it is given: a caller who sends a request that says approved gets
  it stored as approved, without a single vote, although the specification asks for two distinct approvers.\<close>

definition strict_spec :: SpecVersion where
  "strict_spec = auto_spec\<lparr>vn_Spec := zero_spec\<lparr>sp_Governance := (sp_Governance zero_spec)\<lparr>gv_MinApprovals := 2,
     gv_SegregationOfDuties := True\<rparr>\<rparr>\<rparr>"

theorem RequestApproval_trusts_state:
  "\<exists>r r' st trail. RequestApproval admin (Inr strict_spec) ''apr'' 5 r [] = (Inr r', st, trail) \<and>
     get2 st ''t'' ''apr'' = Some r' \<and> Approved r' \<and> rq_Responses r' = [] \<and> rq_MinApprovals r' = 2"
proof (intro exI conjI)
  let ?r = "sample_request\<lparr>rq_State := ApprovalApproved, rq_ID := '''', rq_TenantID := ''t'', rq_MinApprovals := 0\<rparr>"
  show "RequestApproval admin (Inr strict_spec) ''apr'' 5 ?r [] =
      (Inr (route (Inr strict_spec) ''apr'' 5 ?r), put2 ''t'' ''apr'' (route (Inr strict_spec) ''apr'' 5 ?r) [],
       [writeAudit ActionApprovalRequested OutcomeSuccess ''ann'' ''r''])" by code_simp
qed (simp_all add: get2_put2, code_simp+)

text \<open>Two votes for a request that needs two, and a run that only sweeps after the request was made.\<close>

definition requested_store :: approval_store where
  "requested_store = fst (snd (RequestApproval admin (Inr strict_spec) ''apr'' 5 sample_request []))"

definition voted_store :: approval_store where
  "voted_store = fst (snd (Service_Decide admin 9 9 ''t'' ''apr'' (vote_of ''cyd'' True)
     (fst (snd (Service_Decide admin 9 9 ''t'' ''apr'' (vote_of ''bob'' True) requested_store)))))"

lemma voted_step: "approvals_step st (fst (snd (Service_Decide ctx wall now tenant i resp st)))"
  by (cases "Service_Decide ctx wall now tenant i resp st") (auto intro: approvals_step.voted)

lemma swept_step: "approvals_step st (snd (ExpireOverdueApprovals now st))"
  by (cases "ExpireOverdueApprovals now st") (auto intro: approvals_step.swept)

lemma requested_step: "approvals_step [] requested_store"
proof -
  obtain out trail where "RequestApproval admin (Inr strict_spec) ''apr'' 5 sample_request [] = (out, requested_store, trail)"
    by (cases "RequestApproval admin (Inr strict_spec) ''apr'' 5 sample_request []") (auto simp: requested_store_def)
  then show ?thesis by (rule approvals_step.requested [rotated 4]) (simp_all add: sample_request_def)
qed

lemma case_SomeE: "(case x of None \<Rightarrow> False | Some y \<Rightarrow> P y) \<Longrightarrow> \<exists>y. x = Some y \<and> P y"
  by (cases x) auto

lemma voted_reach: "approvals_step\<^sup>*\<^sup>* [] voted_store"
  unfolding voted_store_def
  by (rule rtranclp.rtrancl_into_rtrancl [where b = "fst (snd (Service_Decide admin 9 9 ''t'' ''apr'' (vote_of ''bob'' True) requested_store))"])
    (rule rtranclp.rtrancl_into_rtrancl [where b = requested_store], rule r_into_rtranclp, rule requested_step, rule voted_step, rule voted_step)


fun demo_run :: "nat \<Rightarrow> approval_store" where
  "demo_run 0 = []"
| "demo_run (Suc 0) = requested_store"
| "demo_run (Suc (Suc k)) = snd (ExpireOverdueApprovals (int k) (demo_run (Suc k)))"


end
