(* ===== verification/ExecRepo.thy ===== *)
theory ExecRepo imports Plan Store Paging Principal begin

text \<open>
  \<open>internal/adapters/memstore/execution.go\<close>: the repository of execution plans and the two claims with which background
  workers take work off it. Each operation holds the repository's lock for its whole body, so it is one step. Two plans
  with the same due time and the same id (of different tenants) may be claimed in either order.
\<close>

record exec_store =
  ex_Plans :: "(TenantID, ID, Plan) tbl2"
  ex_Leases :: "(ID, string) tbl"
  ex_Snapshots :: "(TenantID, string, Snapshot) tbl2"
  ex_Validations :: "(TenantID, ID, execute_ValidationResult) tbl2"

definition CreatePlan :: "Principal option \<Rightarrow> Plan \<Rightarrow> exec_store \<Rightarrow> err option \<times> exec_store" where
  "CreatePlan ctx p st = (case GuardTenant ctx (pl_TenantID p) of Some e \<Rightarrow> (Some e, st)
     | None \<Rightarrow> if get2 (ex_Plans st) (pl_TenantID p) (pl_ID p) \<noteq> None
         then (Some (NewError ErrAlreadyExists ''plan_exists''), st)
         else (None, st\<lparr>ex_Plans := put2 (pl_TenantID p) (pl_ID p) p (ex_Plans st)\<rparr>))"

definition GetPlan :: "Principal option \<Rightarrow> exec_store \<Rightarrow> TenantID \<Rightarrow> ID \<Rightarrow> err + Plan" where
  "GetPlan ctx st tenant id' = (case GuardTenant ctx tenant of Some e \<Rightarrow> Inl e
     | None \<Rightarrow> (case get2 (ex_Plans st) tenant id' of None \<Rightarrow> Inl NotFound | Some p \<Rightarrow> Inr p))"

definition UpdatePlan :: "Principal option \<Rightarrow> Plan \<Rightarrow> exec_store \<Rightarrow> err option \<times> exec_store" where
  "UpdatePlan ctx p st = (case GuardTenant ctx (pl_TenantID p) of Some e \<Rightarrow> (Some e, st)
     | None \<Rightarrow> if get2 (ex_Plans st) (pl_TenantID p) (pl_ID p) = None then (Some NotFound, st)
         else (None, st\<lparr>ex_Plans := put2 (pl_TenantID p) (pl_ID p) p (ex_Plans st)\<rparr>))"

definition ListPlans :: "(string \<times> string \<Rightarrow> string) \<Rightarrow> (string \<Rightarrow> (string \<times> string) option) \<Rightarrow> (gotime \<Rightarrow> string) \<Rightarrow>
    Principal option \<Rightarrow> exec_store \<Rightarrow> TenantID \<Rightarrow> PlanState list \<Rightarrow> ListOptions \<Rightarrow> err + Plan Page" where
  "ListPlans enc dec stamp ctx st tenant states opts = (case GuardTenant ctx tenant of Some e \<Rightarrow> Inl e
     | None \<Rightarrow> let items = filter (\<lambda>p. states = [] \<or> pl_State p \<in> set states) (map snd (rows (ex_Plans st) tenant));
           keyOf = (\<lambda>p. (stamp (pl_CreatedAt p), pl_ID p))
         in Inr (paginate enc dec (sortByCreatedThenID keyOf items) opts keyOf))"

section \<open>Claims\<close>

text \<open>The body the two claims share: \<open>due\<close> is the time a plan became eligible, \<open>None\<close> while it is not, and \<open>move\<close> its
  transition.\<close>

definition candidates :: "(Plan \<Rightarrow> gotime option) \<Rightarrow> (TenantID, ID, Plan) tbl2 \<Rightarrow> (TenantID \<times> ID \<times> gotime) list" where
  "candidates due m = List.map_filter (\<lambda>(t, i, p). map_option (\<lambda>d. (t, i, d)) (due p)) (keyed2 m)"

definition candidate_lt :: "TenantID \<times> ID \<times> gotime \<Rightarrow> TenantID \<times> ID \<times> gotime \<Rightarrow> bool" where
  "candidate_lt a b = (let (_, ai, ad) = a; (_, bi, bd) = b in if ad \<noteq> bd then ad < bd else ai < bi)"

definition claim_limit :: "int \<Rightarrow> int" where
  "claim_limit n = (if n \<le> 0 then 50 else n)"

definition claim_one :: "(Plan \<Rightarrow> Plan) \<Rightarrow> string \<Rightarrow> TenantID \<times> ID \<times> gotime \<Rightarrow> Plan list \<times> exec_store \<Rightarrow> Plan list \<times> exec_store" where
  "claim_one move worker c acc = (case c of (t, i, _) \<Rightarrow> (case get2 (ex_Plans (snd acc)) t i of None \<Rightarrow> acc
     | Some p \<Rightarrow> (fst acc @ [move p], (snd acc)\<lparr>ex_Plans := put2 t i (move p) (ex_Plans (snd acc)),
         ex_Leases := tbl_put i worker (ex_Leases (snd acc))\<rparr>)))"

definition claim :: "(Plan \<Rightarrow> gotime option) \<Rightarrow> (Plan \<Rightarrow> Plan) \<Rightarrow> string \<Rightarrow> int \<Rightarrow> exec_store \<Rightarrow> Plan list \<times> exec_store" where
  "claim due move worker limit st = (let
     cs = stable_sort candidate_lt (candidates due (ex_Plans st));
     cs = (if int (length cs) > claim_limit limit then take (nat (claim_limit limit)) cs else cs)
   in fold (claim_one move worker) cs ([], st))"

definition due_plan :: "gotime \<Rightarrow> Plan \<Rightarrow> gotime option" where
  "due_plan now p = (if pl_State p \<noteq> PlanApproved \<and> pl_State p \<noteq> PlanScheduled then None
     else (case pl_ScheduledFor p of None \<Rightarrow> Some (pl_CreatedAt p)
       | Some t \<Rightarrow> if now < t then None else Some t))"

definition ClaimDuePlans :: "gotime \<Rightarrow> string \<Rightarrow> int \<Rightarrow> exec_store \<Rightarrow> Plan list \<times> exec_store" where
  "ClaimDuePlans now worker limit st =
     claim (due_plan now) (\<lambda>p. p\<lparr>pl_State := PlanPreflight, pl_StartedAt := Some now\<rparr>) worker limit st"

definition validation_due :: "gotime \<Rightarrow> Plan \<Rightarrow> gotime option" where
  "validation_due now p = (if pl_State p \<noteq> PlanExecuted then None
     else (case pl_FinishedAt p of None \<Rightarrow> None
       | Some t \<Rightarrow> let ready = t + vp_ObservationWindow (pl_Validation p) in if now < ready then None else Some ready))"

definition ClaimPlansAwaitingValidation :: "gotime \<Rightarrow> string \<Rightarrow> int \<Rightarrow> exec_store \<Rightarrow> Plan list \<times> exec_store" where
  "ClaimPlansAwaitingValidation now worker limit st =
     claim (validation_due now) (\<lambda>p. p\<lparr>pl_State := PlanValidating\<rparr>) worker limit st"

section \<open>Snapshots and validations\<close>

definition snapshotKey :: "ID \<Rightarrow> ID \<Rightarrow> string" where
  "snapshotKey plan resource = plan @ ''/'' @ resource"

definition SaveSnapshot :: "Principal option \<Rightarrow> Snapshot \<Rightarrow> exec_store \<Rightarrow> err option \<times> exec_store" where
  "SaveSnapshot ctx s st = (case GuardTenant ctx (sn_TenantID s) of Some e \<Rightarrow> (Some e, st)
     | None \<Rightarrow> (None, st\<lparr>ex_Snapshots := put2 (sn_TenantID s) (snapshotKey (sn_PlanID s) (sn_ResourceID s)) s (ex_Snapshots st)\<rparr>))"

definition GetSnapshot :: "Principal option \<Rightarrow> exec_store \<Rightarrow> TenantID \<Rightarrow> ID \<Rightarrow> ID \<Rightarrow> err + Snapshot" where
  "GetSnapshot ctx st tenant plan resource = (case GuardTenant ctx tenant of Some e \<Rightarrow> Inl e
     | None \<Rightarrow> (case get2 (ex_Snapshots st) tenant (snapshotKey plan resource) of None \<Rightarrow> Inl NotFound | Some s \<Rightarrow> Inr s))"

definition SaveValidation :: "Principal option \<Rightarrow> execute_ValidationResult \<Rightarrow> exec_store \<Rightarrow> err option \<times> exec_store" where
  "SaveValidation ctx v st = (case GuardTenant ctx (vr_TenantID v) of Some e \<Rightarrow> (Some e, st)
     | None \<Rightarrow> (None, st\<lparr>ex_Validations := put2 (vr_TenantID v) (vr_PlanID v) v (ex_Validations st)\<rparr>))"

definition GetValidation :: "Principal option \<Rightarrow> exec_store \<Rightarrow> TenantID \<Rightarrow> ID \<Rightarrow> err + execute_ValidationResult" where
  "GetValidation ctx st tenant plan = (case GuardTenant ctx tenant of Some e \<Rightarrow> Inl e
     | None \<Rightarrow> (case get2 (ex_Validations st) tenant plan of None \<Rightarrow> Inl NotFound | Some v \<Rightarrow> Inr v))"

section \<open>What a claim takes\<close>

definition plan_key :: "Plan \<Rightarrow> TenantID \<times> ID" where
  "plan_key p = (pl_TenantID p, pl_ID p)"

definition candidate_key :: "TenantID \<times> ID \<times> gotime \<Rightarrow> TenantID \<times> ID" where
  "candidate_key c = (fst c, fst (snd c))"

definition plans_ok :: "exec_store \<Rightarrow> bool" where
  "plans_ok st \<longleftrightarrow> wf2 (ex_Plans st) \<and> (\<forall>t i p. get2 (ex_Plans st) t i = Some p \<longrightarrow> plan_key p = (t, i))"

lemma swo_candidate: "strict_weak_order candidate_lt"
proof -
  have eq: "candidate_lt = then_by (by_asc (snd \<circ> snd)) (by_asc (fst \<circ> snd))"
    by (intro ext) (auto simp: candidate_lt_def then_by_def by_asc_def)
  show ?thesis unfolding eq by (intro swo_then_by swo_by_asc)
qed

interpretation due_order: strict_weak_order candidate_lt
  by (rule swo_candidate)

lemma candidates_iff:
  "wf2 m \<Longrightarrow> (t, i, d) \<in> set (candidates due m) \<longleftrightarrow> (\<exists>p. get2 m t i = Some p \<and> due p = Some d)"
proof -
  assume m: "wf2 m"
  have "(t, i, d) \<in> set (candidates due m) \<longleftrightarrow> (\<exists>p. (t, i, p) \<in> set (keyed2 m) \<and> due p = Some d)"
    by (fastforce simp: candidates_def map_filter_def image_iff split: option.splits)
  then show ?thesis using keyed2_iff [OF m] by simp
qed

lemma map_filter_keys: "distinct (map (\<lambda>(t, k, v). (t, k)) xs) \<Longrightarrow>
  distinct (map candidate_key (List.map_filter (\<lambda>(t, i, p). map_option (\<lambda>d. (t, i, d)) (due p)) xs))"
  by (induction xs) (force simp: map_filter_def candidate_key_def)+

lemma distinct_candidates: "wf2 m \<Longrightarrow> distinct (map candidate_key (candidates due m))"
  unfolding candidates_def by (rule map_filter_keys [OF distinct_keyed2])

lemma fold_claim:
  assumes "distinct (map candidate_key cs)" "\<forall>c \<in> set cs. get2 (ex_Plans st) (fst c) (fst (snd c)) \<noteq> None"
  shows "fst (fold (claim_one move w) cs (acc, st)) = acc @ map (\<lambda>(t, i, _). move (the (get2 (ex_Plans st) t i))) cs \<and>
    (\<forall>t i. get2 (ex_Plans (snd (fold (claim_one move w) cs (acc, st)))) t i =
       (if (t, i) \<in> candidate_key ` set cs then map_option move (get2 (ex_Plans st) t i) else get2 (ex_Plans st) t i)) \<and>
    (wf2 (ex_Plans st) \<longrightarrow> wf2 (ex_Plans (snd (fold (claim_one move w) cs (acc, st)))))"
  using assms
proof (induction cs arbitrary: acc st)
  case (Cons c cs)
  obtain t i d where c: "c = (t, i, d)" by (cases c)
  obtain p where p: "get2 (ex_Plans st) t i = Some p" using Cons.prems(2) by (auto simp: c)
  define st1 where "st1 = st\<lparr>ex_Plans := put2 t i (move p) (ex_Plans st), ex_Leases := tbl_put i w (ex_Leases st)\<rparr>"
  have step: "claim_one move w c (acc, st) = (acc @ [move p], st1)" by (simp add: claim_one_def c p st1_def)
  have new: "(t, i) \<notin> candidate_key ` set cs" using Cons.prems(1) by (auto simp: c candidate_key_def)
  have g: "get2 (ex_Plans st1) t' i' = (if t' = t \<and> i' = i then Some (move p) else get2 (ex_Plans st) t' i')" for t' i'
    by (simp add: st1_def get2_put2)
  have pre: "\<forall>c \<in> set cs. get2 (ex_Plans st1) (fst c) (fst (snd c)) \<noteq> None"
    using Cons.prems(2) by (auto simp: g)
  have dist: "distinct (map candidate_key cs)" using Cons.prems(1) by simp
  note IH = Cons.IH [where st = st1 and acc = "acc @ [move p]", OF dist pre]
  have other: "(t', i') \<noteq> (t, i)" if "(t', i', d') \<in> set cs" for t' i' d'
    using new that by (force simp: candidate_key_def)
  have same: "map (\<lambda>(t, i, _). move (the (get2 (ex_Plans st1) t i))) cs = map (\<lambda>(t, i, _). move (the (get2 (ex_Plans st) t i))) cs"
    by (rule map_cong [OF refl]) (auto simp: g dest: other)
  have w: "wf2 (ex_Plans st) \<longrightarrow> wf2 (ex_Plans st1)" by (simp add: st1_def)
  have f: "fold (claim_one move w) (c # cs) (acc, st) = fold (claim_one move w) cs (acc @ [move p], st1)" by (simp add: step)
  show ?case unfolding f using IH [unfolded same] w new p by (auto simp: g c candidate_key_def)
qed simp

text \<open>The interface of the two claims: a moved plan is not due for any later claim, and keeps its identity.\<close>

locale claim_queue =
  fixes due :: "gotime \<Rightarrow> Plan \<Rightarrow> gotime option"
    and move :: "gotime \<Rightarrow> Plan \<Rightarrow> Plan"
  assumes moved: "due now' (move now p) = None"
    and keeps: "plan_key (move now p) = plan_key p"
begin

definition taken :: "gotime \<Rightarrow> int \<Rightarrow> exec_store \<Rightarrow> (TenantID \<times> ID \<times> gotime) list" where
  "taken now n st = take (nat (claim_limit n)) (stable_sort candidate_lt (candidates (due now) (ex_Plans st)))"

lemma claim_taken: "claim (due now) (move now) w n st = fold (claim_one (move now) w) (taken now n st) ([], st)"
proof -
  have "0 \<le> claim_limit n" by (simp add: claim_limit_def)
  then show ?thesis by (simp add: claim_def taken_def Let_def)
qed

lemma taken_due: "wf2 (ex_Plans st) \<Longrightarrow> (t, i, d) \<in> set (taken now n st) \<Longrightarrow>
    \<exists>p. get2 (ex_Plans st) t i = Some p \<and> due now p = Some d"
  by (auto simp: taken_def dest!: in_set_takeD simp: candidates_iff)

lemma distinct_taken: "wf2 (ex_Plans st) \<Longrightarrow> distinct (map candidate_key (taken now n st))"
proof -
  assume m: "wf2 (ex_Plans st)"
  have "mset (map candidate_key (stable_sort candidate_lt xs)) = mset (map candidate_key xs)" for xs by simp
  then have "distinct (map candidate_key (stable_sort candidate_lt (candidates (due now) (ex_Plans st))))"
    using distinct_candidates [OF m] mset_eq_imp_distinct_iff by blast
  then show ?thesis by (simp add: taken_def take_map [symmetric])
qed

lemma claimed:
  assumes "plans_ok st" and "claim (due now) (move now) w n st = (ps, st')"
  shows "map plan_key ps = map candidate_key (taken now n st)"
    and "get2 (ex_Plans st') t i = (if (t, i) \<in> plan_key ` set ps then map_option (move now) (get2 (ex_Plans st) t i)
      else get2 (ex_Plans st) t i)"
    and "p \<in> set ps \<Longrightarrow> get2 (ex_Plans st') (pl_TenantID p) (pl_ID p) = Some p"
    and "plans_ok st'" and "distinct (map plan_key ps)" and "int (length ps) \<le> claim_limit n"
    and "p \<in> set ps \<Longrightarrow> \<exists>q d. get2 (ex_Plans st) (pl_TenantID p) (pl_ID p) = Some q \<and> due now q = Some d \<and> p = move now q"
proof -
  have m: "wf2 (ex_Plans st)" using assms(1) by (simp add: plans_ok_def)
  have pres: "\<forall>c \<in> set (taken now n st). get2 (ex_Plans st) (fst c) (fst (snd c)) \<noteq> None"
    using taken_due [OF m] by fastforce
  note F = fold_claim [where st = st and acc = "[]" and move = "move now" and w = w, OF distinct_taken [OF m] pres,
      folded claim_taken, unfolded assms(2) fst_conv snd_conv append_Nil]
  have ps: "ps = map (\<lambda>(t, i, _). move now (the (get2 (ex_Plans st) t i))) (taken now n st)" using F by blast
  have key: "plan_key (move now (the (get2 (ex_Plans st) t i))) = (t, i)" if "(t, i, d) \<in> set (taken now n st)" for t i d
    using taken_due [OF m that] assms(1) by (auto simp: keeps plans_ok_def)
  show k: "map plan_key ps = map candidate_key (taken now n st)"
    by (simp add: ps candidate_key_def) (auto simp: key)
  then have ks: "plan_key ` set ps = candidate_key ` set (taken now n st)" by (metis list.set_map)
  show g: "get2 (ex_Plans st') t i = (if (t, i) \<in> plan_key ` set ps then map_option (move now) (get2 (ex_Plans st) t i)
      else get2 (ex_Plans st) t i)" for t i
    unfolding ks using F by blast
  show "distinct (map plan_key ps)" using distinct_taken [OF m] by (simp add: k)
  have "0 \<le> claim_limit n" by (simp add: claim_limit_def)
  then show "int (length ps) \<le> claim_limit n" by (simp add: ps taken_def)
  show "plans_ok st'" using F assms(1) m by (auto simp: plans_ok_def keeps split: if_splits)
  show q: "\<exists>q d. get2 (ex_Plans st) (pl_TenantID p) (pl_ID p) = Some q \<and> due now q = Some d \<and> p = move now q"
    if "p \<in> set ps" for p
  proof -
    obtain t i d where c: "(t, i, d) \<in> set (taken now n st)" "p = move now (the (get2 (ex_Plans st) t i))"
      using \<open>p \<in> set ps\<close> by (auto simp: ps)
    then have "plan_key p = (t, i)" using key by simp
    then show ?thesis using taken_due [OF m c(1)] c(2) by (auto simp: plan_key_def)
  qed
  show "get2 (ex_Plans st') (pl_TenantID p) (pl_ID p) = Some p" if "p \<in> set ps"
    using q [OF that] that by (auto simp: g) (force simp: plan_key_def image_iff)
qed

lemma exclusive:
  assumes "plans_ok st" and "claim (due now) (move now) w n st = (ps, st1)" and "claim (due now') (move now') w' n' st1 = (qs, st2)"
  shows "plan_key ` set ps \<inter> plan_key ` set qs = {}"
proof (rule ccontr)
  assume "\<not> ?thesis"
  then obtain k where "k \<in> plan_key ` set ps" "k \<in> plan_key ` set qs" by blast
  then obtain p q where pq: "p \<in> set ps" "q \<in> set qs" "plan_key p = plan_key q" by (metis imageE)
  obtain r where r: "p = move now r" using claimed(7) [OF assms(1,2) pq(1)] by blast
  have "get2 (ex_Plans st1) (pl_TenantID q) (pl_ID q) = Some p"
    using claimed(3) [OF assms(1,2) pq(1)] pq(3) by (simp add: plan_key_def)
  then have "due now' p \<noteq> None" using claimed(7) [OF claimed(4) [OF assms(1,2)] assms(3) pq(2)] by auto
  then show False by (simp add: r moved)
qed

lemma earliest:
  assumes "plans_ok st" and "claim (due now) (move now) w n st = (ps, st1)" and "get2 (ex_Plans st) t i = Some p"
    and "due now p = Some d" and "(t, i) \<notin> plan_key ` set ps"
  shows "int (length ps) = claim_limit n \<and>
    (\<forall>q \<in> set ps. \<exists>r e. get2 (ex_Plans st) (pl_TenantID q) (pl_ID q) = Some r \<and> due now r = Some e \<and> e \<le> d)"
proof -
  let ?s = "stable_sort candidate_lt (candidates (due now) (ex_Plans st))" and ?n = "nat (claim_limit n)"
  have m: "wf2 (ex_Plans st)" using assms(1) by (simp add: plans_ok_def)
  have ks: "plan_key ` set ps = candidate_key ` set (taken now n st)" and len: "length ps = length (taken now n st)"
    using claimed(1) [OF assms(1,2)] by (metis list.set_map, metis length_map)
  have "(t, i, d) \<in> set ?s" using assms(3,4) by (simp add: candidates_iff [OF m])
  moreover have "(t, i, d) \<notin> set (taken now n st)"
  proof
    assume "(t, i, d) \<in> set (taken now n st)"
    then have "candidate_key (t, i, d) \<in> plan_key ` set ps" unfolding ks by (rule imageI)
    then show False using assms(5) by (simp add: candidate_key_def)
  qed
  ultimately have rest: "(t, i, d) \<in> set (drop ?n ?s)" by (metis Un_iff append_take_drop_id set_append taken_def)
  then have "?n < length ?s" by (metis drop_all empty_iff empty_set not_le)
  then have l: "int (length ps) = claim_limit n" by (simp add: len taken_def claim_limit_def)
  have le: "e \<le> d" if "(t', i', e) \<in> set (taken now n st)" for t' i' e
  proof -
    have "sorted_by candidate_lt (take ?n ?s @ drop ?n ?s)" using due_order.sorted_stable_sort by simp
    then have "\<not> candidate_lt (t, i, d) (t', i', e)"
      using that rest unfolding sorted_by_def sorted_wrt_append taken_def by blast
    then show ?thesis by (auto simp: candidate_lt_def split: if_splits)
  qed
  have "\<exists>r e. get2 (ex_Plans st) (pl_TenantID q) (pl_ID q) = Some r \<and> due now r = Some e \<and> e \<le> d" if "q \<in> set ps" for q
  proof -
    have "plan_key q \<in> candidate_key ` set (taken now n st)" using ks \<open>q \<in> set ps\<close> by blast
    then obtain e where e: "(pl_TenantID q, pl_ID q, e) \<in> set (taken now n st)"
      by (auto simp: plan_key_def candidate_key_def)
    then show ?thesis using taken_due [OF m e] le [OF e] by auto
  qed
  with l show ?thesis by blast
qed

end

interpretation due_plans: claim_queue due_plan "\<lambda>now p. p\<lparr>pl_State := PlanPreflight, pl_StartedAt := Some now\<rparr>"
  by unfold_locales (simp_all add: due_plan_def plan_key_def)

interpretation awaiting: claim_queue validation_due "\<lambda>_ p. p\<lparr>pl_State := PlanValidating\<rparr>"
  by unfold_locales (simp_all add: validation_due_def plan_key_def)

text \<open>C8: claims of work that awaits validation: two workers never claim the same plan, each claim is at most as long as
  asked for, takes only plans whose observation window has closed, leaves them validating in the repository, and prefers
  the ones that waited longest.\<close>

theorem ClaimPlansAwaitingValidation_exclusive:
  assumes "plans_ok st" and "ClaimPlansAwaitingValidation now w n st = (ps, st1)"
    and "ClaimPlansAwaitingValidation now' w' n' st1 = (qs, st2)"
  shows "plan_key ` set ps \<inter> plan_key ` set qs = {} \<and> distinct (map plan_key ps) \<and> int (length ps) \<le> claim_limit n \<and>
    (\<forall>p \<in> set ps. pl_State p = PlanValidating \<and> get2 (ex_Plans st1) (pl_TenantID p) (pl_ID p) = Some p \<and>
       (\<exists>t. pl_FinishedAt p = Some t \<and> t + vp_ObservationWindow (pl_Validation p) \<le> now)) \<and>
    (\<forall>t i p d. get2 (ex_Plans st) t i = Some p \<and> validation_due now p = Some d \<and> (t, i) \<notin> plan_key ` set ps \<longrightarrow>
       int (length ps) = claim_limit n \<and> (\<forall>q \<in> set ps. \<exists>f. pl_FinishedAt q = Some f \<and>
         f + vp_ObservationWindow (pl_Validation q) \<le> d))"
proof -
  note C = assms(2,3) [unfolded ClaimPlansAwaitingValidation_def]
  have due: "\<exists>f. pl_FinishedAt p = Some f \<and> validation_due now r = Some (f + vp_ObservationWindow (pl_Validation p)) \<and>
      f + vp_ObservationWindow (pl_Validation p) \<le> now \<and> pl_State p = PlanValidating"
    if "p \<in> set ps" "get2 (ex_Plans st) (pl_TenantID p) (pl_ID p) = Some r" for p r
    using awaiting.claimed(7) [OF assms(1) C(1) that(1)] that(2)
    by (auto simp: validation_due_def Let_def split: option.splits if_splits)
  have ex: "\<exists>r. get2 (ex_Plans st) (pl_TenantID p) (pl_ID p) = Some r" if "p \<in> set ps" for p
    using awaiting.claimed(7) [OF assms(1) C(1) that] by blast
  have E: "int (length ps) = claim_limit n \<and> (\<forall>q \<in> set ps. \<exists>f. pl_FinishedAt q = Some f \<and>
         f + vp_ObservationWindow (pl_Validation q) \<le> d)"
    if "get2 (ex_Plans st) t i = Some p" "validation_due now p = Some d" "(t, i) \<notin> plan_key ` set ps" for t i p d
    using awaiting.earliest [OF assms(1) C(1) that] due by fastforce
  have A: "pl_State p = PlanValidating \<and> get2 (ex_Plans st1) (pl_TenantID p) (pl_ID p) = Some p \<and>
       (\<exists>t. pl_FinishedAt p = Some t \<and> t + vp_ObservationWindow (pl_Validation p) \<le> now)" if "p \<in> set ps" for p
    using due [OF that] ex [OF that] awaiting.claimed(3) [OF assms(1) C(1) that] by blast
  show ?thesis
  proof (intro conjI allI impI)
    fix t i p d
    assume "get2 (ex_Plans st) t i = Some p \<and> validation_due now p = Some d \<and> (t, i) \<notin> plan_key ` set ps"
    then show "int (length ps) = claim_limit n"
      "\<forall>q \<in> set ps. \<exists>f. pl_FinishedAt q = Some f \<and> f + vp_ObservationWindow (pl_Validation q) \<le> d" using E by blast+
  qed (use A awaiting.exclusive [OF assms(1) C] awaiting.claimed(5,6) [OF assms(1) C(1)] in blast)+
qed

definition done_plan :: "ID \<Rightarrow> gotime \<Rightarrow> Plan" where
  "done_plan i t = sample_plan\<lparr>pl_ID := i, pl_State := PlanExecuted, pl_FinishedAt := Some t\<rparr>"

definition two_done :: exec_store where
  "two_done = \<lparr>ex_Plans = put2 ''t'' ''a'' (done_plan ''a'' 15) (put2 ''t'' ''b'' (done_plan ''b'' 12) []), ex_Leases = [],
     ex_Snapshots = [], ex_Validations = []\<rparr>"

lemma two_done_ok: "plans_ok two_done"
  by (auto simp: plans_ok_def two_done_def get2_put2 plan_key_def done_plan_def sample_plan_def split: if_splits)

theorem ClaimPlansAwaitingValidation_exclusive_witness:
  "let (ps, st1) = ClaimPlansAwaitingValidation 100 ''w1'' 1 two_done;
       (qs, st2) = ClaimPlansAwaitingValidation 100 ''w2'' 1 st1
   in map plan_key ps = [(''t'', ''b'')] \<and> map plan_key qs = [(''t'', ''a'')] \<and> plan_key ` set ps \<inter> plan_key ` set qs = {}"
proof -
  obtain ps st1 where p: "ClaimPlansAwaitingValidation 100 ''w1'' 1 two_done = (ps, st1)" by fastforce
  obtain qs st2 where q: "ClaimPlansAwaitingValidation 100 ''w2'' 1 st1 = (qs, st2)" by fastforce
  have "map plan_key (fst (ClaimPlansAwaitingValidation 100 ''w1'' 1 two_done)) = [(''t'', ''b'')]"
    "map plan_key (fst (ClaimPlansAwaitingValidation 100 ''w2'' 1
       (snd (ClaimPlansAwaitingValidation 100 ''w1'' 1 two_done)))) = [(''t'', ''a'')]" by code_simp+
  then show ?thesis using ClaimPlansAwaitingValidation_exclusive [OF two_done_ok p q] by (simp add: p q)
qed

end
