(* ===== verification/Metrics.thy ===== *)
theory Metrics imports Assessment Principal Store begin

text \<open>
  Utilisation data: the summary of a sample (\<open>Percentiles\<close>, \<open>internal/domain/core/assessment.go\<close>), the summaries of a
  resource (\<open>ResourceMetrics\<close>, \<open>internal/ports/repositories.go\<close>) and their repository
  (\<open>internal/adapters/memstore/metric.go\<close>). The square root is a parameter; custom metrics, units, dimensions and
  sources carry no behaviour and are left out.
\<close>

definition empty_percentiles :: "rat \<Rightarrow> Percentiles" where
  "empty_percentiles coverage = \<lparr>pc_Min = 0, pc_P50 = 0, pc_P90 = 0, pc_P95 = 0, pc_P99 = 0, pc_Max = 0, pc_Mean = 0,
     pc_StdDev = 0, pc_Samples = 0, pc_Coverage = coverage, pc_Stability = 0, pc_Trend = 0, pc_Seasonal = False,
     pc_PeakHours = []\<rparr>"

text \<open>A running sum of \<open>float64\<close> values.\<close>

definition fsum :: "rat list \<Rightarrow> rat" where
  "fsum xs = foldl (\<lambda>s x. f64 (s + x)) 0 xs"

definition SummarizeSamples :: "(rat \<Rightarrow> rat) \<Rightarrow> rat list \<Rightarrow> rat \<Rightarrow> Percentiles" where
  "SummarizeSamples sqrt64 values coverage = (if values = [] then empty_percentiles coverage
     else let
       xs = sort values;
       n = i2f (int (length xs));
       mean = f64 (fsum xs / n);
       variance = f64 (fsum (map (\<lambda>v. let d = f64 (v - mean) in f64 (d * d)) xs) / n);
       std = sqrt64 variance;
       p = \<lparr>pc_Min = xs ! 0, pc_P50 = quantile xs (f64 (50 / 100)), pc_P90 = quantile xs (f64 (90 / 100)),
         pc_P95 = quantile xs (f64 (95 / 100)), pc_P99 = quantile xs (f64 (99 / 100)), pc_Max = xs ! (length xs - 1),
         pc_Mean = mean, pc_StdDev = std, pc_Samples = int (length xs), pc_Coverage = coverage, pc_Stability = 0,
         pc_Trend = 0, pc_Seasonal = False, pc_PeakHours = []\<rparr>
     in if 0 < mean then p\<lparr>pc_Stability := max 0 (f64 (1 - f64 (std / mean)))\<rparr>
        else if std = 0 then p\<lparr>pc_Stability := 1\<rparr> else p)"

definition Percentiles_Label :: "Percentiles \<Rightarrow> string" where
  "Percentiles_Label p = (if pc_Samples p = 0 then ''no data''
     else if f64 (85 / 100) < pc_Stability p \<and> pc_P99 p < 20 then ''consistently idle''
     else if f64 (8 / 10) < pc_Stability p then ''steady''
     else if f64 (4 * max (pc_P50 p) 1) < pc_P99 p then ''spiky''
     else if pc_Seasonal p then ''cyclical'' else ''variable'')"

section \<open>Summaries of a resource\<close>

record ResourceMetrics =
  rm_ResourceID :: ID
  rm_TenantID :: TenantID
  rm_Window :: Period
  rm_CPU :: "Percentiles option"
  rm_Memory :: "Percentiles option"
  rm_DiskUsed :: "Percentiles option"
  rm_NetworkIn :: "Percentiles option"
  rm_NetworkOut :: "Percentiles option"
  rm_IOPS :: "Percentiles option"
  rm_Throughput :: "Percentiles option"
  rm_Requests :: "Percentiles option"
  rm_LatencyP99 :: "Percentiles option"
  rm_ErrorRate :: "Percentiles option"
  rm_Concurrency :: "Percentiles option"
  rm_Connections :: "Percentiles option"
  rm_Coverage :: rat

definition HasSignal :: "ResourceMetrics \<Rightarrow> rat \<Rightarrow> bool" where
  "HasSignal m minCoverage \<longleftrightarrow> minCoverage \<le> rm_Coverage m \<and>
     (rm_CPU m \<noteq> None \<or> rm_Memory m \<noteq> None \<or> rm_Requests m \<noteq> None \<or> rm_IOPS m \<noteq> None)"

record MetricPoint =
  mp_At :: gotime
  mp_Value :: rat

record MetricSeries =
  ms_ResourceID :: ID
  ms_MetricName :: string
  ms_Points :: "MetricPoint list"
  ms_Summary :: Percentiles

type_synonym summaries = "(TenantID, ID, ResourceMetrics) tbl2"

text \<open>The summaries before the first foreign one are stored.\<close>

fun save_summaries :: "TenantID \<Rightarrow> ResourceMetrics list \<Rightarrow> summaries \<Rightarrow> err option \<times> summaries" where
  "save_summaries tenant [] m = (None, m)"
| "save_summaries tenant (x # xs) m = (if rm_TenantID x \<noteq> tenant then (Some (NewError ErrTenantMismatch ''tenant_mismatch''), m)
     else save_summaries tenant xs (put2 tenant (rm_ResourceID x) x m))"

definition SaveSummaries :: "Principal option \<Rightarrow> TenantID \<Rightarrow> ResourceMetrics list \<Rightarrow> summaries \<Rightarrow> err option \<times> summaries" where
  "SaveSummaries ctx tenant xs m = (case GuardTenant ctx tenant of Some e \<Rightarrow> (Some e, m) | None \<Rightarrow> save_summaries tenant xs m)"

definition GetSummary :: "Principal option \<Rightarrow> summaries \<Rightarrow> TenantID \<Rightarrow> ID \<Rightarrow> err + ResourceMetrics" where
  "GetSummary ctx m tenant i = (case GuardTenant ctx tenant of Some e \<Rightarrow> Inl e
     | None \<Rightarrow> (case get2 m tenant i of None \<Rightarrow> Inl NotFound | Some x \<Rightarrow> Inr x))"

definition LoadSummaries :: "Principal option \<Rightarrow> summaries \<Rightarrow> TenantID \<Rightarrow> ID list \<Rightarrow> err + (ID, ResourceMetrics) tbl" where
  "LoadSummaries ctx m tenant ids = (case GuardTenant ctx tenant of Some e \<Rightarrow> Inl e
     | None \<Rightarrow> Inr (if ids = [] then rows m tenant
         else fold (\<lambda>i out. case get2 m tenant i of Some x \<Rightarrow> tbl_put i x out | None \<Rightarrow> out) ids []))"

type_synonym series_store = "(TenantID, MetricSeries list) tbl"

text \<open>The first series of the same resource and metric is replaced.\<close>

fun put_series :: "MetricSeries \<Rightarrow> MetricSeries list \<Rightarrow> MetricSeries list" where
  "put_series s [] = [s]"
| "put_series s (e # es) = (if ms_ResourceID e = ms_ResourceID s \<and> ms_MetricName e = ms_MetricName s then s # es
     else e # put_series s es)"

definition tenant_series :: "series_store \<Rightarrow> TenantID \<Rightarrow> MetricSeries list" where
  "tenant_series m tenant = (case tbl_get m tenant of None \<Rightarrow> [] | Some xs \<Rightarrow> xs)"

definition SaveSeries :: "Principal option \<Rightarrow> TenantID \<Rightarrow> MetricSeries list \<Rightarrow> series_store \<Rightarrow> err option \<times> series_store" where
  "SaveSeries ctx tenant xs m = (case GuardTenant ctx tenant of Some e \<Rightarrow> (Some e, m)
     | None \<Rightarrow> (None, tbl_put tenant (fold put_series xs (tenant_series m tenant)) m))"

definition GetSeries :: "Principal option \<Rightarrow> series_store \<Rightarrow> TenantID \<Rightarrow> ID \<Rightarrow> string \<Rightarrow> err + MetricSeries" where
  "GetSeries ctx m tenant i metric = (case GuardTenant ctx tenant of Some e \<Rightarrow> Inl e
     | None \<Rightarrow> (case find (\<lambda>s. ms_ResourceID s = i \<and> ms_MetricName s = metric) (tenant_series m tenant) of
         None \<Rightarrow> Inl NotFound | Some s \<Rightarrow> Inr s))"

section \<open>Properties\<close>

lemma get2_save_summaries:
  assumes "save_summaries tenant xs m = (None, m')"
  shows "get2 m' t i = (if t = tenant then (case find (\<lambda>x. rm_ResourceID x = i) (rev xs) of Some x \<Rightarrow> Some x | None \<Rightarrow> get2 m t i)
    else get2 m t i)"
  using assms
proof (induction xs arbitrary: m)
  case (Cons x xs)
  have "find P (ys @ [x]) = (case find P ys of None \<Rightarrow> (if P x then Some x else None) | Some y \<Rightarrow> Some y)" for P and ys :: "ResourceMetrics list"
    by (induction ys) auto
  with Cons show ?case by (auto simp: get2_put2 split: if_splits option.splits)
qed auto

lemma save_summaries_partial:
  "(fst (save_summaries tenant xs m) = None) = (\<forall>x \<in> set xs. rm_TenantID x = tenant)"
  by (induction xs arbitrary: m) auto

definition series_key :: "MetricSeries \<Rightarrow> ID \<times> string" where
  "series_key s = (ms_ResourceID s, ms_MetricName s)"

lemma put_series_keys:
  "set (map series_key (put_series s es)) = insert (series_key s) (set (map series_key es))"
  "distinct (map series_key es) \<Longrightarrow> distinct (map series_key (put_series s es))"
  by (induction es) (auto simp: series_key_def)

lemma find_put_series:
  "find (\<lambda>x. series_key x = k) (put_series s es) = (if k = series_key s then Some s else find (\<lambda>x. series_key x = k) es)"
  by (induction es) (auto simp: series_key_def)

text \<open>Round trip: with every key stored at most once, as \<open>SaveSeries\<close> keeps it, reading a series returns the one
  written last.\<close>

theorem GetSeries_SaveSeries:
  assumes "GuardTenant ctx tenant = None"
  shows "GetSeries ctx (snd (SaveSeries ctx tenant [s] m)) tenant (ms_ResourceID s) (ms_MetricName s) = Inr s"
proof -
  have "(\<lambda>x. ms_ResourceID x = ms_ResourceID s \<and> ms_MetricName x = ms_MetricName s) = (\<lambda>x. series_key x = series_key s)"
    by (simp add: series_key_def)
  then show ?thesis
    by (simp add: GetSeries_def SaveSeries_def assms tenant_series_def update_conv' find_put_series)
qed

lemma sorted_nth_ends:
  assumes "xs \<noteq> []"
  shows "sort xs ! 0 = Min (set xs)" "sort xs ! (length xs - 1) = Max (set xs)"
proof -
  have n: "0 < length (sort xs)" using assms by simp
  have le: "sort xs ! i \<le> sort xs ! j" if "i \<le> j" "j < length xs" for i j
    using that by (intro sorted_nth_mono) simp_all
  have mem: "sort xs ! i \<in> set xs" if "i < length xs" for i
    using nth_mem [of i "sort xs"] that by simp
  have mono: "sort xs ! 0 \<le> x \<and> x \<le> sort xs ! (length xs - 1)" if x: "x \<in> set xs" for x
  proof -
    from x have "x \<in> set (sort xs)" by simp
    then obtain i where "i < length xs" "x = sort xs ! i" unfolding in_set_conv_nth by auto
    then show ?thesis using le [of 0 i] le [of i "length xs - 1"] by simp
  qed
  show "sort xs ! 0 = Min (set xs)"
    by (rule Min_eqI [symmetric]) (use n mono mem in simp_all)
  show "sort xs ! (length xs - 1) = Max (set xs)"
    by (rule Max_eqI [symmetric]) (use n mono mem in simp_all)
qed



end
