(* ===== verification/AutoBase.thy ===== *)
theory AutoBase imports ApprovalFlow ExecRepo Savings Resource Estate Metrics begin

text \<open>
  What the automation service (\<open>internal/application/automation\<close>) works on: the repositories it writes as one state, the
  world outside the repository as an environment of functions, and the bookkeeping of savings and audit records that its
  operations share (\<open>service.go\<close>, \<open>internal/adapters/memstore/savings.go\<close> and \<open>recommendation.go\<close>). The functions of
  the environment take the number of outside interactions so far, so they may answer differently each time. A failed audit
  write or a failed bookkeeping write is logged and ignored, as in the code. Events and texts are not modelled.
\<close>

datatype aws_call = CallApply ID ID string | CallRollback ID ID string

record auto_state =
  as_Exec :: exec_store
  as_Approvals :: approval_store
  as_Recs :: "(TenantID, ID, Recommendation) tbl2"
  as_Savings :: "(TenantID, ID, SavingsRecord) tbl2"
  as_Outcomes :: "Outcome list"
  as_Audit :: "audit_note list"
  as_Calls :: "aws_call list"
  as_Tick :: nat

text \<open>\<open>en_Others\<close> is what other workers did to the plans while this one waited for the lock; \<open>en_Wait\<close> is the error of a
  context whose deadline passes during a backoff; \<open>en_DecisionID\<close> is the
  id of the decision the evaluation returns; the cost and metric repositories are optional; \<open>en_Executor\<close> tells for which actions an executor is registered.\<close>

record auto_env =
  en_Ctx :: "Principal option"
  en_Evaluate :: "nat \<Rightarrow> TenantID \<Rightarrow> ID \<Rightarrow> (TenantID, ID, Recommendation) tbl2 \<Rightarrow>
    (err + Decision) \<times> (TenantID, ID, Recommendation) tbl2"
  en_DecisionID :: "nat \<Rightarrow> ID"
  en_Spec :: "nat \<Rightarrow> err + SpecVersion"
  en_Resource :: "nat \<Rightarrow> ID \<Rightarrow> err + Resource"
  en_Account :: "nat \<Rightarrow> AccountID \<Rightarrow> err + AWSAccount"
  en_Executor :: "ActionType \<Rightarrow> bool"
  en_Assume :: "nat \<Rightarrow> AWSAccount \<Rightarrow> err option"
  en_Plan :: "nat \<Rightarrow> Recommendation \<Rightarrow> Resource \<Rightarrow> bool \<Rightarrow> string \<Rightarrow> err + Plan"
  en_Preflight :: "nat \<Rightarrow> Plan \<Rightarrow> err option"
  en_Apply :: "nat \<Rightarrow> Plan \<Rightarrow> Step \<Rightarrow> err option"
  en_Undo :: "nat \<Rightarrow> Plan \<Rightarrow> Step \<Rightarrow> err option"
  en_Wait :: "nat \<Rightarrow> int \<Rightarrow> err option"
  en_Lock :: "nat \<Rightarrow> string \<Rightarrow> err option"
  en_Others :: "nat \<Rightarrow> exec_store \<Rightarrow> exec_store"
  en_Clock :: "nat \<Rightarrow> gotime"
  en_Wall :: "nat \<Rightarrow> gotime"
  en_NewID :: "nat \<Rightarrow> ID"
  en_Cost :: "(nat \<Rightarrow> ID \<Rightarrow> Period \<Rightarrow> err + Money) option"
  en_Metrics :: "(nat \<Rightarrow> ID \<Rightarrow> err + ResourceMetrics) option"

definition tick :: "auto_state \<Rightarrow> auto_state" where
  "tick st = st\<lparr>as_Tick := as_Tick st + 1\<rparr>"

definition auto_label :: "string \<Rightarrow> string" where
  "auto_label actor = (if actor = '''' then ''cloudoptix/automation'' else actor)"

definition auto_audit :: "AuditAction \<Rightarrow> AuditOutcome \<Rightarrow> string \<Rightarrow> ID \<Rightarrow> auto_state \<Rightarrow> auto_state" where
  "auto_audit action out actor plan st = st\<lparr>as_Audit := as_Audit st @
     [\<lparr>nt_Action = action, nt_Outcome = out, nt_Actor = auto_label actor, nt_SubjectID = plan\<rparr>]\<rparr>"

definition lockKeyForPlan :: "TenantID \<Rightarrow> ID \<Rightarrow> string" where
  "lockKeyForPlan tenant plan = ''automation:plan:'' @ tenant @ '':'' @ plan"

text \<open>Writing a plan back when the error is only logged.\<close>

definition store_plan :: "auto_env \<Rightarrow> Plan \<Rightarrow> auto_state \<Rightarrow> auto_state" where
  "store_plan e p st = st\<lparr>as_Exec := snd (UpdatePlan (en_Ctx e) p (as_Exec st))\<rparr>"

section \<open>Recommendations and savings\<close>

definition rec_Get :: "Principal option \<Rightarrow> (TenantID, ID, Recommendation) tbl2 \<Rightarrow> TenantID \<Rightarrow> ID \<Rightarrow> err + Recommendation" where
  "rec_Get ctx m tenant id' = (case GuardTenant ctx tenant of Some e \<Rightarrow> Inl e
     | None \<Rightarrow> (case get2 m tenant id' of None \<Rightarrow> Inl NotFound | Some r \<Rightarrow> Inr r))"

definition rec_Update :: "Principal option \<Rightarrow> gotime \<Rightarrow> Recommendation \<Rightarrow> (TenantID, ID, Recommendation) tbl2 \<Rightarrow>
    err option \<times> (TenantID, ID, Recommendation) tbl2" where
  "rec_Update ctx wall r m = (case GuardTenant ctx (rc_TenantID r) of Some e \<Rightarrow> (Some e, m)
     | None \<Rightarrow> if get2 m (rc_TenantID r) (rc_ID r) = None then (Some NotFound, m)
         else (None, put2 (rc_TenantID r) (rc_ID r) (r\<lparr>rc_UpdatedAt := wall\<rparr>) m))"

definition store_rec :: "auto_env \<Rightarrow> Recommendation \<Rightarrow> auto_state \<Rightarrow> auto_state" where
  "store_rec e r st = st\<lparr>as_Recs := snd (rec_Update (en_Ctx e) (en_Wall e (as_Tick st)) r (as_Recs st))\<rparr>"

definition savings_Get :: "Principal option \<Rightarrow> (TenantID, ID, SavingsRecord) tbl2 \<Rightarrow> TenantID \<Rightarrow> ID \<Rightarrow> err + SavingsRecord" where
  "savings_Get ctx m tenant id' = (case GuardTenant ctx tenant of Some e \<Rightarrow> Inl e
     | None \<Rightarrow> (case get2 m tenant id' of None \<Rightarrow> Inl NotFound | Some r \<Rightarrow> Inr r))"

definition savings_Save :: "Principal option \<Rightarrow> SavingsRecord \<Rightarrow> (TenantID, ID, SavingsRecord) tbl2 \<Rightarrow>
    err option \<times> (TenantID, ID, SavingsRecord) tbl2" where
  "savings_Save ctx r m = (case GuardTenant ctx (sr_TenantID r) of Some e \<Rightarrow> (Some e, m)
     | None \<Rightarrow> (None, put2 (sr_TenantID r) (sr_RecommendationID r) r m))"

definition loseSavings :: "auto_env \<Rightarrow> TenantID \<Rightarrow> string \<Rightarrow> gotime \<Rightarrow> ID \<Rightarrow> auto_state \<Rightarrow> auto_state" where
  "loseSavings e tenant reason now rec st = (case savings_Get (en_Ctx e) (as_Savings st) tenant rec of Inl _ \<Rightarrow> st
     | Inr sr \<Rightarrow> st\<lparr>as_Savings := snd (savings_Save (en_Ctx e) (MarkLost sr reason now) (as_Savings st))\<rparr>)"

definition retireConflictingSavings :: "auto_env \<Rightarrow> TenantID \<Rightarrow> Recommendation \<Rightarrow> gotime \<Rightarrow> auto_state \<Rightarrow> auto_state" where
  "retireConflictingSavings e tenant rec now st = (if \<not> rc_MutuallyExclusive rec then st
     else fold (loseSavings e tenant ''mutually exclusive'' now) (rc_AlternativeIDs rec) st)"

definition potential_record :: "ID \<Rightarrow> TenantID \<Rightarrow> Recommendation \<Rightarrow> gotime \<Rightarrow> SavingsRecord" where
  "potential_record newid tenant rec now = \<lparr>sr_ID = newid, sr_TenantID = tenant, sr_RecommendationID = rc_ID rec, sr_PlanID = '''',
     sr_RuleID = fi_RuleID (rc_Finding rec), sr_Stage = StagePotential, sr_PotentialMonthly = rc_EstimatedMonthlySaving rec,
     sr_ApprovedMonthly = zero_money, sr_ExecutedMonthly = zero_money, sr_ValidatedMonthly = zero_money,
     sr_RealizedMonthly = zero_money, sr_StageHistory = [], sr_Lost = False, sr_LostReason = '''', sr_CreatedAt = now,
     sr_UpdatedAt = now\<rparr>"

definition touchSavings :: "auto_env \<Rightarrow> TenantID \<Rightarrow> Recommendation \<Rightarrow> ID \<Rightarrow> SavingsStage \<Rightarrow> Money \<Rightarrow> string \<Rightarrow> string \<Rightarrow> gotime \<Rightarrow>
    auto_state \<Rightarrow> auto_state" where
  "touchSavings e tenant rec plan to amount actor reason now st = (let
     (sr, st) = (case savings_Get (en_Ctx e) (as_Savings st) tenant (rc_ID rec) of
         Inr sr \<Rightarrow> (sr, st)
       | Inl _ \<Rightarrow> (potential_record (en_NewID e (as_Tick st)) tenant rec now, retireConflictingSavings e tenant rec now (tick st)));
     sr = (if \<not> id_IsZero plan then sr\<lparr>sr_PlanID := plan\<rparr> else sr);
     sr = Advance sr to amount (auto_label actor) reason now
   in st\<lparr>as_Savings := snd (savings_Save (en_Ctx e) sr (as_Savings st))\<rparr>)"

section \<open>Bookkeeping leaves plans, approvals and calls alone\<close>

text \<open>What the safety arguments depend on, and the operations that do not touch it.\<close>

definition core_state :: "auto_state \<Rightarrow> exec_store \<times> approval_store \<times> aws_call list" where
  "core_state st = (as_Exec st, as_Approvals st, as_Calls st)"

lemma core_tick [simp]: "core_state (tick st) = core_state st"
  by (simp add: core_state_def tick_def)

lemma core_audit [simp]: "core_state (auto_audit a out who plan st) = core_state st"
  by (simp add: core_state_def auto_audit_def)

lemma core_store_rec [simp]: "core_state (store_rec e r st) = core_state st"
  by (simp add: core_state_def store_rec_def)

lemma core_lose [simp]: "core_state (loseSavings e t reason now rec st) = core_state st"
  by (simp add: core_state_def loseSavings_def split: sum.split)

lemma core_fold_lose [simp]: "core_state (fold (loseSavings e t reason now) rs st) = core_state st"
  by (induction rs arbitrary: st) simp_all

lemma core_retire [simp]: "core_state (retireConflictingSavings e t rec now st) = core_state st"
  by (simp add: retireConflictingSavings_def)

lemma core_set_savings [simp]: "core_state (st\<lparr>as_Savings := x\<rparr>) = core_state st"
  by (simp add: core_state_def)

lemma core_touch [simp]: "core_state (touchSavings e t rec plan to amount actor reason now st) = core_state st"
  by (simp add: touchSavings_def Let_def split: sum.split)

lemma store_plan_simps [simp]:
  "as_Approvals (store_plan e p st) = as_Approvals st" "as_Calls (store_plan e p st) = as_Calls st"
  "as_Exec (store_plan e p st) = snd (UpdatePlan (en_Ctx e) p (as_Exec st))"
  by (simp_all add: store_plan_def)

lemma core_simps:
  "core_state st = core_state st' \<Longrightarrow> as_Exec st = as_Exec st'"
  "core_state st = core_state st' \<Longrightarrow> as_Approvals st = as_Approvals st'"
  "core_state st = core_state st' \<Longrightarrow> as_Calls st = as_Calls st'"
  by (simp_all add: core_state_def)

lemmas core_proj [simp] = core_tick [THEN core_simps(1)] core_tick [THEN core_simps(2)] core_tick [THEN core_simps(3)]
  core_audit [THEN core_simps(1)] core_audit [THEN core_simps(2)] core_audit [THEN core_simps(3)]
  core_store_rec [THEN core_simps(1)] core_store_rec [THEN core_simps(2)] core_store_rec [THEN core_simps(3)]
  core_lose [THEN core_simps(1)] core_lose [THEN core_simps(2)] core_lose [THEN core_simps(3)]
  core_touch [THEN core_simps(1)] core_touch [THEN core_simps(2)] core_touch [THEN core_simps(3)]

end
