(* ===== verification/Automation.thy ===== *)
theory Automation imports AutoBase begin

text \<open>
  \<open>internal/application/automation/execute.go\<close> and \<open>rollback.go\<close>: running an approved plan step by step, with the
  authorization re-checked at the last moment, bounded retries and an immediate rollback when a step that must not fail
  fails. Every call of an executor is recorded in \<open>as_Calls\<close>. An operation returns the plan, the error and the state, as
  the code returns a plan beside most errors. Errors built by \<open>fmt.Errorf\<close> with \<open>%w\<close> are the error they wrap.
\<close>

definition zero_plan :: Plan where
  "zero_plan = \<lparr>pl_ID = '''', pl_TenantID = '''', pl_RecommendationID = '''', pl_Action = ActionType.ActionOther '''', pl_AccountID = '''',
     pl_ResourceIDs = [], pl_Steps = [], pl_Snapshots = [], pl_Rollback = None,
     pl_Validation = \<lparr>vp_ObservationWindow = 0, vp_BaselineWindow = 0, vp_Checks = [], vp_AutoRollbackOn = [], vp_MinSamples = 0\<rparr>,
     pl_ExpectedMonthlySaving = zero_money, pl_State = PlanOther '''', pl_ApprovalID = '''', pl_PolicyDecisionID = '''',
     pl_ScheduledFor = None, pl_DryRun = False, pl_RequestedBy = '''', pl_CreatedAt = 0, pl_StartedAt = None,
     pl_FinishedAt = None\<rparr>"

section \<open>Retries\<close>

definition defaultStepMaxRetries :: int where "defaultStepMaxRetries = 3"
definition retryBaseDelay :: int where "retryBaseDelay = 500000000"
definition retryMaxDelay :: int where "retryMaxDelay = 10000000000"

fun backoff_loop :: "nat \<Rightarrow> int \<Rightarrow> int" where
  "backoff_loop 0 d = d"
| "backoff_loop (Suc n) d = (let d = 2 * d in if d \<ge> retryMaxDelay then retryMaxDelay else backoff_loop n d)"

definition backoffDuration :: "nat \<Rightarrow> int" where
  "backoffDuration attempt = backoff_loop attempt retryBaseDelay"

text \<open>The loop both directions share: \<open>call\<close> is one call of the executor, \<open>ev\<close> its record, \<open>left\<close> the attempts that
  remain after this one.\<close>

fun attempts :: "(nat \<Rightarrow> Step \<Rightarrow> err option) \<Rightarrow> (nat \<Rightarrow> int \<Rightarrow> err option) \<Rightarrow> (Step \<Rightarrow> aws_call) \<Rightarrow> nat \<Rightarrow> nat \<Rightarrow> Step \<Rightarrow>
    auto_state \<Rightarrow> err option \<times> Step \<times> auto_state" where
  "attempts call wait ev attempt left s st = (let
     s = s\<lparr>st_Attempts := st_Attempts s + 1\<rparr>;
     r = call (as_Tick st) s;
     st = tick (st\<lparr>as_Calls := as_Calls st @ [ev s]\<rparr>)
   in case r of None \<Rightarrow> (None, s, st)
      | Some er \<Rightarrow> if \<not> Retryable (Some er) then (Some er, s, st)
          else (case left of 0 \<Rightarrow> (Some er, s, st)
            | Suc n \<Rightarrow> (case wait (as_Tick st) (backoffDuration attempt) of Some w \<Rightarrow> (Some w, s, tick st)
              | None \<Rightarrow> attempts call wait ev (attempt + 1) n s (tick st))))"

definition default_retries :: "Step \<Rightarrow> Step" where
  "default_retries s = (if st_MaxRetries s \<le> 0 then s\<lparr>st_MaxRetries := defaultStepMaxRetries\<rparr> else s)"

definition set_step :: "nat \<Rightarrow> Step \<Rightarrow> Plan \<Rightarrow> Plan" where
  "set_step i s p = p\<lparr>pl_Steps := (pl_Steps p)[i := s]\<rparr>"

definition applyStepWithRetry :: "auto_env \<Rightarrow> Plan \<Rightarrow> nat \<Rightarrow> Step \<Rightarrow> auto_state \<Rightarrow> err option \<times> Step \<times> auto_state" where
  "applyStepWithRetry e p i s st = (let s = default_retries s in
     attempts (\<lambda>n s. en_Apply e n (set_step i s p) s) (en_Wait e) (\<lambda>s. CallApply (pl_ID p) (st_ID s) (st_IdempotencyKey s))
       0 (nat (st_MaxRetries s)) s st)"

definition rollback_steps :: "Plan \<Rightarrow> Step list" where
  "rollback_steps p = (case pl_Rollback p of None \<Rightarrow> [] | Some rb \<Rightarrow> rb_Steps rb)"

definition set_rollback_step :: "nat \<Rightarrow> Step \<Rightarrow> Plan \<Rightarrow> Plan" where
  "set_rollback_step i s p = p\<lparr>pl_Rollback := map_option (\<lambda>rb. rb\<lparr>rb_Steps := (rb_Steps rb)[i := s]\<rparr>) (pl_Rollback p)\<rparr>"

definition applyRollbackStepWithRetry :: "auto_env \<Rightarrow> Plan \<Rightarrow> nat \<Rightarrow> Step \<Rightarrow> auto_state \<Rightarrow> err option \<times> Step \<times> auto_state" where
  "applyRollbackStepWithRetry e p i s st = (let s = default_retries s in
     attempts (\<lambda>n s. en_Undo e n (set_rollback_step i s p) s) (en_Wait e)
       (\<lambda>s. CallRollback (pl_ID p) (st_ID s) (st_IdempotencyKey s)) 0 (nat (st_MaxRetries s)) s st)"

section \<open>Rollback\<close>

text \<open>The reverse steps with the given indices; the names of those that failed, first to last.\<close>

fun undo_steps :: "auto_env \<Rightarrow> string \<Rightarrow> nat list \<Rightarrow> Plan \<Rightarrow> auto_state \<Rightarrow> string list \<times> Plan \<times> auto_state" where
  "undo_steps e actor [] p st = ([], p, st)"
| "undo_steps e actor (i # is) p st = (let
     s = (rollback_steps p ! i)\<lparr>st_State := StepRunning\<rparr>;
     (r, s, st) = applyRollbackStepWithRetry e (set_rollback_step i s p) i s st
   in case r of
     Some _ \<Rightarrow> (let s = s\<lparr>st_State := StepFailed\<rparr>;
         (failed, p, st) = undo_steps e actor is (set_rollback_step i s p)
           (auto_audit ActionRollbackFailed OutcomeFailure actor (pl_ID p) st)
       in (st_Name s # failed, p, st))
   | None \<Rightarrow> undo_steps e actor is (set_rollback_step i (s\<lparr>st_State := StepRolledBack\<rparr>) p)
       (auto_audit ActionExecutionStep OutcomeSuccess actor (pl_ID p) st))"

text \<open>The callers have checked that the plan carries a rollback plan.\<close>

definition runRollback :: "auto_env \<Rightarrow> TenantID \<Rightarrow> Plan \<Rightarrow> Recommendation \<Rightarrow> string \<Rightarrow> string \<Rightarrow> auto_state \<Rightarrow>
    Plan \<times> err option \<times> auto_state" where
  "runRollback e tenant p rec actor reason st = (let
     p = p\<lparr>pl_State := PlanRollingBack\<rparr>;
     st = auto_audit ActionRollbackStarted OutcomeSuccess actor (pl_ID p) (store_plan e p st);
     (failed, p, st) = undo_steps e actor [0..<length (rollback_steps p)] p st;
     finished = en_Clock e (as_Tick st);
     st = tick st
   in if failed = [] then (let p = p\<lparr>pl_State := PlanRolledBack, pl_FinishedAt := Some finished\<rparr> in
        (case UpdatePlan (en_Ctx e) p (as_Exec st) of
          (Some er, _) \<Rightarrow> (p, Some er, st)
        | (None, ex) \<Rightarrow> (let
            st = loseSavings e tenant reason finished (pl_RecommendationID p) (st\<lparr>as_Exec := ex\<rparr>);
            st = store_rec e (rec\<lparr>rc_Status := StatusRolledBack, rc_UpdatedAt := finished\<rparr>) st
          in (p, None, auto_audit ActionRollbackCompleted OutcomeSuccess actor (pl_ID p) st))))
      else (let p = p\<lparr>pl_State := PlanRollbackFailed, pl_FinishedAt := Some finished\<rparr> in
        (p, Some (NewError ErrUnavailable ''rollback_failed''),
         auto_audit ActionRollbackFailed OutcomeFailure actor (pl_ID p) (store_plan e p st))))"

text \<open>The loads that precede a run: recommendation, resource, account, executor, session.\<close>

definition open_session :: "auto_env \<Rightarrow> TenantID \<Rightarrow> Plan \<Rightarrow> auto_state \<Rightarrow> err + Recommendation \<times> Resource \<times> AWSAccount" where
  "open_session e tenant p st = (case rec_Get (en_Ctx e) (as_Recs st) tenant (pl_RecommendationID p) of Inl er \<Rightarrow> Inl er
     | Inr rec \<Rightarrow> (case en_Resource e (as_Tick st) (fi_ResourceID (rc_Finding rec)) of Inl er \<Rightarrow> Inl er
     | Inr res \<Rightarrow> (case en_Account e (as_Tick st) (res_AccountID res) of Inl er \<Rightarrow> Inl er
     | Inr account \<Rightarrow> if \<not> en_Executor e (pl_Action p) then Inl (NewError ErrNotImplemented ''no_executor'')
         else (case en_Assume e (as_Tick st) account of Some er \<Rightarrow> Inl er
           | None \<Rightarrow> Inr (rec, res, account)))))"

definition Rollback :: "auto_env \<Rightarrow> TenantID \<Rightarrow> ID \<Rightarrow> string \<Rightarrow> string \<Rightarrow> auto_state \<Rightarrow> Plan \<times> err option \<times> auto_state" where
  "Rollback e tenant plan reason actor st = (case GetPlan (en_Ctx e) (as_Exec st) tenant plan of
     Inl er \<Rightarrow> (zero_plan, Some er, st)
   | Inr p \<Rightarrow> if pl_State p \<notin> {PlanExecuted, PlanValidating, PlanValidated, PlanFailed}
       then (p, Some (NewError ErrPreconditionOff ''cannot_rollback''), st)
     else if (case pl_Rollback p of None \<Rightarrow> True | Some rb \<Rightarrow> \<not> rb_Feasible rb)
       then (p, Some (NewError ErrPreconditionOff ''rollback_infeasible''), st)
     else (case en_Lock e (as_Tick st) (lockKeyForPlan tenant plan) of Some er \<Rightarrow> (p, Some er, tick st)
       | None \<Rightarrow> (let
           st = tick st;
           st = st\<lparr>as_Exec := en_Others e (as_Tick st) (as_Exec st)\<rparr>
         in case open_session e tenant p st of Inl er \<Rightarrow> (p, Some er, tick st)
            | Inr (rec, res, account) \<Rightarrow> runRollback e tenant p rec actor reason (tick st))))"

section \<open>Execution\<close>

text \<open>The last check before anything is sent: the verdict of governance now, and the approval attached to the plan.\<close>

definition reconfirmAuthorization :: "auto_env \<Rightarrow> TenantID \<Rightarrow> Plan \<Rightarrow> auto_state \<Rightarrow> err option \<times> auto_state" where
  "reconfirmAuthorization e tenant p st = (let
     (verdict, recs) = en_Evaluate e (as_Tick st) tenant (pl_RecommendationID p) (as_Recs st);
     st = tick (st\<lparr>as_Recs := recs\<rparr>)
   in (case verdict of Inl er \<Rightarrow> Some er
      | Inr d \<Rightarrow> if de_Effect d = EffectProhibit then Some (NewError ErrForbidden ''change_prohibited'')
          else if de_Effect d = EffectAutoExecute then None
          else if id_IsZero (pl_ApprovalID p) then Some (NewError ErrPreconditionOff ''no_approval'')
          else (case approval_Get (en_Ctx e) (as_Approvals st) tenant (pl_ApprovalID p) of Inl er \<Rightarrow> Some er
            | Inr appr \<Rightarrow> if rq_State appr \<noteq> ApprovalApproved then Some (NewError ErrPreconditionOff ''not_approved'') else None),
      st))"

definition persistSnapshots :: "auto_env \<Rightarrow> Plan \<Rightarrow> auto_state \<Rightarrow> auto_state" where
  "persistSnapshots e p st = st\<lparr>as_Exec := fold (\<lambda>s ex. snd (SaveSnapshot (en_Ctx e) s ex)) (pl_Snapshots p) (as_Exec st)\<rparr>"

text \<open>The forward steps with the given indices; the error of the step that aborted the run, if one did.\<close>

fun run_steps :: "auto_env \<Rightarrow> string \<Rightarrow> nat list \<Rightarrow> Plan \<Rightarrow> auto_state \<Rightarrow> err option \<times> Plan \<times> auto_state" where
  "run_steps e actor [] p st = (None, p, st)"
| "run_steps e actor (i # is) p st = (let s = pl_Steps p ! i in
     if st_State s = StepSucceeded \<or> st_State s = StepSkipped then run_steps e actor is p st
     else (let
       s = s\<lparr>st_State := StepRunning\<rparr>;
       (r, s, st) = applyStepWithRetry e (set_step i s p) i s st
     in case r of
       Some er \<Rightarrow> (let
           s = s\<lparr>st_State := StepFailed\<rparr>;
           p = set_step i s p;
           st = auto_audit ActionExecutionStep OutcomeFailure actor (pl_ID p) (store_plan e p st)
         in if st_AbortOnFailure s then (Some er, p, st) else run_steps e actor is p st)
     | None \<Rightarrow> (let
           s = s\<lparr>st_State := StepSucceeded\<rparr>;
           p = set_step i s p;
           st = auto_audit ActionExecutionStep OutcomeSuccess actor (pl_ID p) (store_plan e p st);
           st = (if st_Kind s = StepSnapshot then persistSnapshots e p st else st)
         in run_steps e actor is p st)))"

definition failPlan :: "auto_env \<Rightarrow> TenantID \<Rightarrow> Plan \<Rightarrow> string \<Rightarrow> string \<Rightarrow> gotime \<Rightarrow> auto_state \<Rightarrow> Plan \<times> err option \<times> auto_state" where
  "failPlan e tenant p actor reason now st = (let
     p = p\<lparr>pl_State := PlanFailed\<rparr>;
     st = loseSavings e tenant reason now (pl_RecommendationID p) (store_plan e p st)
   in (p, Some (Foreign reason), auto_audit ActionExecutionFailed OutcomeFailure actor (pl_ID p) st))"

definition failAndRollback :: "auto_env \<Rightarrow> TenantID \<Rightarrow> Plan \<Rightarrow> Recommendation \<Rightarrow> AWSAccount \<Rightarrow> string \<Rightarrow> string \<Rightarrow> gotime \<Rightarrow>
    auto_state \<Rightarrow> Plan \<times> err option \<times> auto_state" where
  "failAndRollback e tenant p rec account actor reason now st = (let
     p = p\<lparr>pl_State := PlanFailed\<rparr>;
     st = auto_audit ActionExecutionFailed OutcomeFailure actor (pl_ID p) (store_plan e p st)
   in case en_Assume e (as_Tick st) account of
     Some er \<Rightarrow> (p, Some er, loseSavings e tenant reason now (pl_RecommendationID p) (tick st))
   | None \<Rightarrow> (case runRollback e tenant p rec actor reason (tick st) of
       (q, Some er, st) \<Rightarrow> (q, Some er, st)
     | (q, None, st) \<Rightarrow> (q, Some (Foreign reason), st)))"

text \<open>From the executor's preflight to the end of the run.\<close>

definition run_plan :: "auto_env \<Rightarrow> TenantID \<Rightarrow> Plan \<Rightarrow> Recommendation \<Rightarrow> AWSAccount \<Rightarrow> string \<Rightarrow> gotime \<Rightarrow> auto_state \<Rightarrow>
    Plan \<times> err option \<times> auto_state" where
  "run_plan e tenant p rec account actor now st = (case en_Preflight e (as_Tick st) p of
     Some _ \<Rightarrow> failPlan e tenant p actor ''preflight failed'' now (tick st)
   | None \<Rightarrow> (let st = tick st; p = p\<lparr>pl_State := PlanExecuting, pl_StartedAt := Some now\<rparr> in
     case UpdatePlan (en_Ctx e) p (as_Exec st) of (Some er, _) \<Rightarrow> (p, Some er, st)
     | (None, ex) \<Rightarrow> (let
         st = auto_audit ActionExecutionStarted OutcomeSuccess actor (pl_ID p) (st\<lparr>as_Exec := ex\<rparr>);
         (aborted, p, st) = run_steps e actor [0..<length (pl_Steps p)] p st
       in if aborted \<noteq> None then failAndRollback e tenant p rec account actor ''step failed'' now st
          else (let
            finished = en_Clock e (as_Tick st);
            st = tick st;
            p = p\<lparr>pl_State := PlanExecuted, pl_FinishedAt := Some finished\<rparr>
          in case UpdatePlan (en_Ctx e) p (as_Exec st) of (Some er, _) \<Rightarrow> (p, Some er, st)
             | (None, ex) \<Rightarrow> (let
                 st = touchSavings e tenant rec (pl_ID p) StageExecuted (rc_EstimatedMonthlySaving rec) actor
                   ''AWS mutation succeeded'' finished (st\<lparr>as_Exec := ex\<rparr>);
                 st = store_rec e (rec\<lparr>rc_Status := StatusExecuted, rc_UpdatedAt := finished\<rparr>) st
               in (p, None, auto_audit ActionExecutionSucceeded OutcomeSuccess actor (pl_ID p) st))))))"

text \<open>From the lock on: the plan is loaded again.\<close>

definition execute_locked :: "auto_env \<Rightarrow> TenantID \<Rightarrow> ID \<Rightarrow> string \<Rightarrow> gotime \<Rightarrow> auto_state \<Rightarrow> Plan \<times> err option \<times> auto_state" where
  "execute_locked e tenant plan actor now st = (case GetPlan (en_Ctx e) (as_Exec st) tenant plan of
     Inl er \<Rightarrow> (zero_plan, Some er, st)
   | Inr p \<Rightarrow> if \<not> Executable p now then (p, Some (NewError ErrPreconditionOff ''not_executable''), st)
     else (case open_session e tenant p st of Inl er \<Rightarrow> (p, Some er, tick st)
       | Inr (rec, res, account) \<Rightarrow> run_plan e tenant p rec account actor now (tick st)))"

definition Execute :: "auto_env \<Rightarrow> TenantID \<Rightarrow> ID \<Rightarrow> string \<Rightarrow> auto_state \<Rightarrow> Plan \<times> err option \<times> auto_state" where
  "Execute e tenant plan actor st = (let now = en_Clock e (as_Tick st); st = tick st in
     case GetPlan (en_Ctx e) (as_Exec st) tenant plan of Inl er \<Rightarrow> (zero_plan, Some er, st)
   | Inr p \<Rightarrow> (case reconfirmAuthorization e tenant p st of
       (Some er, st) \<Rightarrow> (let p = p\<lparr>pl_State := PlanFailed\<rparr> in
         (p, Some er, auto_audit ActionExecutionFailed OutcomeDenied actor (pl_ID p) (store_plan e p st)))
     | (None, st) \<Rightarrow> (let
         (promoted, p, st) = (if pl_State p = PlanAwaitingApproval then (let p = p\<lparr>pl_State := PlanApproved\<rparr> in
             (case UpdatePlan (en_Ctx e) p (as_Exec st) of (Some er, _) \<Rightarrow> (Some er, p, st)
              | (None, ex) \<Rightarrow> (None, p, st\<lparr>as_Exec := ex\<rparr>)))
           else (None, p, st))
       in if promoted \<noteq> None then (p, promoted, st)
          else if \<not> Executable p now then (p, Some (NewError ErrPreconditionOff ''not_executable''), st)
          else (case en_Lock e (as_Tick st) (lockKeyForPlan tenant plan) of Some er \<Rightarrow> (p, Some er, tick st)
            | None \<Rightarrow> (let st = tick st in
                execute_locked e tenant plan actor now (st\<lparr>as_Exec := en_Others e (as_Tick st) (as_Exec st)\<rparr>))))))"

section \<open>Attempts\<close>

lemma backoff_loop: "0 < d \<Longrightarrow> d < retryMaxDelay \<Longrightarrow> backoff_loop n d = min retryMaxDelay (d * 2 ^ n)"
proof (induction n arbitrary: d)
  case (Suc n)
  show ?case
  proof (cases "retryMaxDelay \<le> 2 * d")
    case True
    have "2 * d * 1 \<le> 2 * d * 2 ^ n" using Suc.prems by (intro mult_left_mono) simp_all
    then have "2 * d \<le> d * 2 ^ Suc n" by simp
    with True show ?thesis by (simp add: Let_def)
  next
    case False
    then show ?thesis using Suc.IH [of "2 * d"] Suc.prems by (simp add: Let_def mult.assoc mult.left_commute)
  qed
qed simp

text \<open>The delay between two attempts is the base delay doubled once per attempt and capped: it never shrinks and
  never exceeds ten seconds.\<close>

theorem backoffDuration_closed: "backoffDuration attempt = min 10000000000 (500000000 * 2 ^ attempt)"
  using backoff_loop [of retryBaseDelay attempt] by (simp add: backoffDuration_def retryBaseDelay_def retryMaxDelay_def)

lemma attempts_calls:
  assumes "attempts call wait ev a n s st = (r, s', st')" and "\<And>s k. ev (s\<lparr>st_Attempts := k\<rparr>) = ev s"
  shows "\<exists>k. 0 < k \<and> k \<le> Suc n \<and> as_Calls st' = as_Calls st @ replicate k (ev s) \<and>
    s' = s\<lparr>st_Attempts := st_Attempts s + int k\<rparr> \<and> as_Exec st' = as_Exec st \<and> as_Approvals st' = as_Approvals st \<and>
    as_Recs st' = as_Recs st \<and> as_Savings st' = as_Savings st"
  using assms(1)
proof (induction n arbitrary: a s st)
  case 0
  then show ?case
    by (intro exI [of _ 1]) (auto simp: Let_def tick_def assms(2) split: option.splits if_splits)
next
  case (Suc n)
  let ?s = "s\<lparr>st_Attempts := st_Attempts s + 1\<rparr>"
  let ?st = "tick (st\<lparr>as_Calls := as_Calls st @ [ev ?s]\<rparr>)"
  have stop: ?case if "s' = ?s" "as_Calls st' = as_Calls ?st" "as_Exec st' = as_Exec st" "as_Approvals st' = as_Approvals st"
      "as_Recs st' = as_Recs st" "as_Savings st' = as_Savings st"
    using that by (intro exI [of _ 1]) (simp add: tick_def assms(2))
  show ?case
  proof (cases "call (as_Tick st) ?s")
    case None
    then show ?thesis using Suc.prems by (intro stop) (auto simp: Let_def tick_def)
  next
    case (Some er)
    show ?thesis
    proof (cases "Retryable (Some er) \<and> wait (as_Tick ?st) (backoffDuration a) = None")
      case True
      then have "attempts call wait ev (a + 1) n ?s (tick ?st) = (r, s', st')"
        using Suc.prems Some by (auto simp: Let_def)
      from Suc.IH [OF this] obtain k where k: "0 < k" "k \<le> Suc n" "as_Calls st' = as_Calls (tick ?st) @ replicate k (ev ?s)"
        "s' = ?s\<lparr>st_Attempts := st_Attempts ?s + int k\<rparr>" "as_Exec st' = as_Exec (tick ?st)"
        "as_Approvals st' = as_Approvals (tick ?st)" "as_Recs st' = as_Recs (tick ?st)" "as_Savings st' = as_Savings (tick ?st)"
        by blast
      then show ?thesis by (intro exI [of _ "Suc k"]) (simp add: tick_def assms(2))
    next
      case False
      then show ?thesis using Suc.prems Some
        by (intro stop) (auto simp: Let_def tick_def split: if_splits option.splits)
    qed
  qed
qed

text \<open>Every attempt at a step is the same call, and there are at most \<open>MaxRetries + 1\<close>.\<close>

lemma applyStepWithRetry_calls:
  assumes "applyStepWithRetry e p i s st = (r, s', st')"
  shows "\<exists>k. 0 < k \<and> int k \<le> st_MaxRetries (default_retries s) + 1 \<and>
    as_Calls st' = as_Calls st @ replicate k (CallApply (pl_ID p) (st_ID s) (st_IdempotencyKey s)) \<and>
    s' = (default_retries s)\<lparr>st_Attempts := st_Attempts s + int k\<rparr> \<and> as_Exec st' = as_Exec st \<and>
    as_Approvals st' = as_Approvals st \<and> as_Recs st' = as_Recs st \<and> as_Savings st' = as_Savings st"
proof -
  have f: "st_ID (default_retries s) = st_ID s" "st_IdempotencyKey (default_retries s) = st_IdempotencyKey s"
    "st_Attempts (default_retries s) = st_Attempts s" "0 < st_MaxRetries (default_retries s)"
    by (simp_all add: default_retries_def defaultStepMaxRetries_def)
  from attempts_calls [OF assms [unfolded applyStepWithRetry_def Let_def]] show ?thesis
    using f by (fastforce simp: nat_le_iff)
qed

lemma applyRollbackStepWithRetry_calls:
  assumes "applyRollbackStepWithRetry e p i s st = (r, s', st')"
  shows "\<exists>k. 0 < k \<and> int k \<le> st_MaxRetries (default_retries s) + 1 \<and>
    as_Calls st' = as_Calls st @ replicate k (CallRollback (pl_ID p) (st_ID s) (st_IdempotencyKey s)) \<and>
    s' = (default_retries s)\<lparr>st_Attempts := st_Attempts s + int k\<rparr> \<and> as_Exec st' = as_Exec st \<and>
    as_Approvals st' = as_Approvals st \<and> as_Recs st' = as_Recs st \<and> as_Savings st' = as_Savings st"
proof -
  have f: "st_ID (default_retries s) = st_ID s" "st_IdempotencyKey (default_retries s) = st_IdempotencyKey s"
    "st_Attempts (default_retries s) = st_Attempts s" "0 < st_MaxRetries (default_retries s)"
    by (simp_all add: default_retries_def defaultStepMaxRetries_def)
  from attempts_calls [OF assms [unfolded applyRollbackStepWithRetry_def Let_def]] show ?thesis
    using f by (fastforce simp: nat_le_iff)
qed

section \<open>What the loops keep\<close>

definition step_key :: "Step \<Rightarrow> ID \<times> string" where
  "step_key s = (st_ID s, st_IdempotencyKey s)"

definition has_plan :: "exec_store \<Rightarrow> Plan \<Rightarrow> bool" where
  "has_plan ex p \<longleftrightarrow> get2 (ex_Plans ex) (pl_TenantID p) (pl_ID p) \<noteq> None"

text \<open>The identity of a plan: what no step of a run changes.\<close>

definition plan_id :: "Plan \<Rightarrow> TenantID \<times> ID \<times> ID \<times> ActionType \<times> ID" where
  "plan_id p = (pl_TenantID p, pl_ID p, pl_RecommendationID p, pl_Action p, pl_ApprovalID p)"

lemma plan_id_simps [simp]:
  "plan_id (p\<lparr>pl_State := x\<rparr>) = plan_id p" "plan_id (p\<lparr>pl_StartedAt := t\<rparr>) = plan_id p" "plan_id (p\<lparr>pl_FinishedAt := t\<rparr>) = plan_id p"
  "plan_id (set_step i s p) = plan_id p" "plan_id (set_rollback_step i s p) = plan_id p"
  by (simp_all add: plan_id_def set_step_def set_rollback_step_def)

lemma plan_idD: "plan_id p = plan_id q \<Longrightarrow> pl_TenantID p = pl_TenantID q \<and> pl_ID p = pl_ID q \<and>
    pl_RecommendationID p = pl_RecommendationID q \<and> pl_Action p = pl_Action q \<and> pl_ApprovalID p = pl_ApprovalID q"
  by (simp add: plan_id_def)

lemma has_plan_id: "plan_id p = plan_id q \<Longrightarrow> has_plan ex p = has_plan ex q"
  by (simp add: has_plan_def plan_id_def)

lemma rollback_steps_simps [simp]:
  "rollback_steps (p\<lparr>pl_State := x\<rparr>) = rollback_steps p" "rollback_steps (p\<lparr>pl_StartedAt := t\<rparr>) = rollback_steps p"
  "rollback_steps (p\<lparr>pl_FinishedAt := t\<rparr>) = rollback_steps p" "rollback_steps (set_step i s p) = rollback_steps p"
  "rollback_steps (set_rollback_step i s p) = (rollback_steps p)[i := s]"
  by (simp_all add: rollback_steps_def set_step_def set_rollback_step_def split: option.split)

lemma UpdatePlan_ok:
  "GuardTenant ctx (pl_TenantID p) = None \<Longrightarrow> has_plan ex p \<Longrightarrow>
    UpdatePlan ctx p ex = (None, ex\<lparr>ex_Plans := put2 (pl_TenantID p) (pl_ID p) p (ex_Plans ex)\<rparr>)"
  by (simp add: UpdatePlan_def has_plan_def)

lemma UpdatePlan_has_plan: "has_plan ex q \<Longrightarrow> has_plan (snd (UpdatePlan ctx p ex)) q"
  by (auto simp: UpdatePlan_def has_plan_def get2_put2 split: option.split)

lemma store_plan_has_plan [simp]: "has_plan (as_Exec st) q \<Longrightarrow> has_plan (as_Exec (store_plan e p st)) q"
  by (simp add: UpdatePlan_has_plan)

lemma SaveSnapshot_plans [simp]: "ex_Plans (snd (SaveSnapshot ctx s ex)) = ex_Plans ex"
  by (simp add: SaveSnapshot_def split: option.split)

lemma fold_SaveSnapshot_plans [simp]: "ex_Plans (fold (\<lambda>s ex. snd (SaveSnapshot ctx s ex)) ss ex) = ex_Plans ex"
  by (induction ss arbitrary: ex) simp_all

lemma persistSnapshots_simps [simp]:
  "has_plan (as_Exec (persistSnapshots e p st)) q = has_plan (as_Exec st) q"
  "as_Calls (persistSnapshots e p st) = as_Calls st" "as_Approvals (persistSnapshots e p st) = as_Approvals st"
  by (simp_all add: persistSnapshots_def has_plan_def)

lemma step_key_simps [simp]:
  "step_key (s\<lparr>st_State := x\<rparr>) = step_key s" "step_key ((default_retries s)\<lparr>st_Attempts := k\<rparr>) = step_key s"
  "step_key (default_retries s) = step_key s"
  by (simp_all add: step_key_def default_retries_def)

lemma map_list_update_same: "f x = f (xs ! i) \<Longrightarrow> map f (xs[i := x]) = map f xs"
  by (cases "i < length xs") (simp_all add: map_update list_update_same_conv list_update_beyond)

lemma undo_steps_facts:
  assumes "undo_steps e actor js p st = (failed, p', st')" and "set js \<subseteq> {..<length (rollback_steps p)}"
  shows "plan_id p' = plan_id p \<and> as_Exec st' = as_Exec st \<and> as_Approvals st' = as_Approvals st \<and>
    (\<exists>cs. as_Calls st' = as_Calls st @ cs \<and>
       (\<forall>i \<in> set js. \<exists>sid key. step_key (rollback_steps p ! i) = (sid, key) \<and> CallRollback (pl_ID p) sid key \<in> set cs) \<and>
       (\<forall>c \<in> set cs. \<exists>sid key. c = CallRollback (pl_ID p) sid key))"
  using assms
proof (induction js arbitrary: p st failed)
  case (Cons i js)
  define s where "s = (rollback_steps p ! i)\<lparr>st_State := StepRunning\<rparr>"
  define p1 where "p1 = set_rollback_step i s p"
  obtain r t st1 where a: "applyRollbackStepWithRetry e p1 i s st = (r, t, st1)" by (metis prod_cases3)
  obtain k where k: "0 < k" "as_Calls st1 = as_Calls st @ replicate k (CallRollback (pl_ID p1) (st_ID s) (st_IdempotencyKey s))"
    "t = (default_retries s)\<lparr>st_Attempts := st_Attempts s + int k\<rparr>" "as_Exec st1 = as_Exec st" "as_Approvals st1 = as_Approvals st"
    using applyRollbackStepWithRetry_calls [OF a] by blast
  define t' where "t' = t\<lparr>st_State := (if r = None then StepRolledBack else StepFailed)\<rparr>"
  define p2 where "p2 = set_rollback_step i t' p"
  define st2 where "st2 = (if r = None then auto_audit ActionExecutionStep OutcomeSuccess actor (pl_ID p) st1
    else auto_audit ActionRollbackFailed OutcomeFailure actor (pl_ID p) st1)"
  have tk: "step_key t' = step_key (rollback_steps p ! i)" by (simp add: t'_def k(3) s_def)
  obtain failed2 where rest: "undo_steps e actor js p2 st2 = (failed2, p', st')"
  proof (cases r)
    case None
    then show ?thesis using Cons.prems(1) a that
      by (simp add: Let_def s_def [symmetric] p1_def [symmetric] p2_def st2_def t'_def)
  next
    case (Some x)
    then show ?thesis using Cons.prems(1) a that
      by (auto simp: Let_def s_def [symmetric] p1_def [symmetric] p2_def st2_def t'_def split: prod.splits)
  qed
  have p2: "plan_id p2 = plan_id p" by (simp add: p2_def)
  have keys: "map step_key (rollback_steps p2) = map step_key (rollback_steps p)"
    using tk by (simp add: p2_def map_list_update_same)
  have key: "step_key (rollback_steps p2 ! j) = step_key (rollback_steps p ! j)"
    if "j \<in> set (i # js)" for j
  proof -
    have "j < length (rollback_steps p)" "length (rollback_steps p2) = length (rollback_steps p)"
      using Cons.prems(2) that by (auto simp: p2_def)
    then show ?thesis using keys by (metis nth_map)
  qed
  have "set js \<subseteq> {..<length (rollback_steps p2)}" using Cons.prems(2) by (simp add: p2_def)
  from Cons.IH [OF rest this] obtain cs where cs: "plan_id p' = plan_id p2" "as_Exec st' = as_Exec st2" "as_Approvals st' = as_Approvals st2"
    "as_Calls st' = as_Calls st2 @ cs"
    "\<forall>i \<in> set js. \<exists>sid key. step_key (rollback_steps p2 ! i) = (sid, key) \<and> CallRollback (pl_ID p2) sid key \<in> set cs"
    "\<forall>c \<in> set cs. \<exists>sid key. c = CallRollback (pl_ID p2) sid key" by blast
  have id: "pl_ID p2 = pl_ID p" "pl_ID p1 = pl_ID p" by (simp_all add: p2_def p1_def set_rollback_step_def)
  have st2: "as_Exec st2 = as_Exec st" "as_Approvals st2 = as_Approvals st"
    "as_Calls st2 = as_Calls st @ replicate k (CallRollback (pl_ID p) (st_ID s) (st_IdempotencyKey s))"
    using k by (simp_all add: st2_def id)
  have sk: "step_key (rollback_steps p ! i) = (st_ID s, st_IdempotencyKey s)" by (simp add: s_def step_key_def)
  show ?case
    using cs p2 st2 k(1) sk by (intro conjI exI [of _ "replicate k (CallRollback (pl_ID p) (st_ID s) (st_IdempotencyKey s)) @ cs"])
      (auto simp: id key)
qed simp

lemma run_steps_facts:
  assumes "run_steps e actor js p st = (r, p', st')"
  shows "plan_id p' = plan_id p \<and> rollback_steps p' = rollback_steps p \<and> pl_Rollback p' = pl_Rollback p \<and>
    as_Approvals st' = as_Approvals st \<and> (\<forall>q. has_plan (as_Exec st) q \<longrightarrow> has_plan (as_Exec st') q) \<and>
    (\<exists>cs. as_Calls st' = as_Calls st @ cs \<and> (\<forall>c \<in> set cs. \<exists>sid key. c = CallApply (pl_ID p) sid key))"
  using assms
proof (induction js arbitrary: p st)
  case (Cons i js)
  show ?case
  proof (cases "st_State (pl_Steps p ! i) = StepSucceeded \<or> st_State (pl_Steps p ! i) = StepSkipped")
    case True
    then show ?thesis using Cons by (simp add: Let_def)
  next
    case False
    define s where "s = (pl_Steps p ! i)\<lparr>st_State := StepRunning\<rparr>"
    define p1 where "p1 = set_step i s p"
    obtain x t st1 where a: "applyStepWithRetry e p1 i s st = (x, t, st1)" by (metis prod_cases3)
    obtain k where k: "as_Calls st1 = as_Calls st @ replicate k (CallApply (pl_ID p1) (st_ID s) (st_IdempotencyKey s))"
      "as_Exec st1 = as_Exec st" "as_Approvals st1 = as_Approvals st"
      using applyStepWithRetry_calls [OF a] by blast
    define p2 where "p2 = set_step i (t\<lparr>st_State := (if x = None then StepSucceeded else StepFailed)\<rparr>) p"
    define st2 where "st2 = auto_audit ActionExecutionStep (if x = None then OutcomeSuccess else OutcomeFailure) actor (pl_ID p2)
      (store_plan e p2 st1)"
    define st3 where "st3 = (if x = None \<and> st_Kind t = StepSnapshot then persistSnapshots e p2 st2 else st2)"
    have idp: "plan_id p2 = plan_id p" by (simp add: p2_def p1_def)
    have id: "rollback_steps p2 = rollback_steps p" "pl_Rollback p2 = pl_Rollback p" "pl_ID p2 = pl_ID p"
      "pl_ID p1 = pl_ID p" by (simp_all add: p2_def p1_def set_step_def rollback_steps_def)
    have st3: "as_Approvals st3 = as_Approvals st" "\<forall>q. has_plan (as_Exec st) q \<longrightarrow> has_plan (as_Exec st3) q"
      "as_Calls st3 = as_Calls st @ replicate k (CallApply (pl_ID p) (st_ID s) (st_IdempotencyKey s))"
      using k by (simp_all add: st3_def st2_def id UpdatePlan_has_plan)
    consider (stop) "r = x" "p' = p2" "st' = st3" | (go) "run_steps e actor js p2 st3 = (r, p', st')"
    proof (cases x)
      case None
      then show thesis using Cons.prems False a that(2)
        by (simp add: Let_def s_def [symmetric] p1_def [symmetric] p2_def st2_def st3_def cong: if_cong)
    next
      case (Some er)
      have "run_steps e actor (i # js) p st = (if st_AbortOnFailure t then (Some er, p2, st3) else run_steps e actor js p2 st3)"
        using False a Some
        by (simp add: Let_def s_def [symmetric] p1_def [symmetric] p2_def st2_def st3_def)
      then show thesis using Cons.prems that Some by (cases "st_AbortOnFailure t") simp_all
    qed
    then show ?thesis
    proof cases
      case stop
      then show ?thesis using idp id st3 by auto
    next
      case go
      from Cons.IH [OF go] show ?thesis using idp id st3 by fastforce
    qed
  qed
qed simp

lemma runRollback_facts:
  assumes "runRollback e tenant p rec actor reason st = (q, er, st')"
    and "GuardTenant (en_Ctx e) (pl_TenantID p) = None" and "has_plan (as_Exec st) p"
  shows "plan_id q = plan_id p \<and> get2 (ex_Plans (as_Exec st')) (pl_TenantID p) (pl_ID p) = Some q \<and>
    (er = None \<and> pl_State q = PlanRolledBack \<or> er \<noteq> None \<and> pl_State q = PlanRollbackFailed) \<and>
    as_Approvals st' = as_Approvals st \<and>
    (\<exists>cs. as_Calls st' = as_Calls st @ cs \<and>
       (\<forall>s \<in> set (rollback_steps p). CallRollback (pl_ID p) (st_ID s) (st_IdempotencyKey s) \<in> set cs) \<and>
       (\<forall>c \<in> set cs. \<exists>sid key. c = CallRollback (pl_ID p) sid key))"
proof -
  define p1 where "p1 = p\<lparr>pl_State := PlanRollingBack\<rparr>"
  define st1 where "st1 = auto_audit ActionRollbackStarted OutcomeSuccess actor (pl_ID p1) (store_plan e p1 st)"
  obtain failed p2 st2 where u: "undo_steps e actor [0..<length (rollback_steps p1)] p1 st1 = (failed, p2, st2)" by (metis prod_cases3)
  have "set [0..<length (rollback_steps p1)] \<subseteq> {..<length (rollback_steps p1)}" by auto
  from undo_steps_facts [OF u this] obtain cs where F: "plan_id p2 = plan_id p1" "as_Exec st2 = as_Exec st1"
    "as_Approvals st2 = as_Approvals st1" "as_Calls st2 = as_Calls st1 @ cs"
    "\<forall>i \<in> set [0..<length (rollback_steps p1)]. \<exists>sid key. step_key (rollback_steps p1 ! i) = (sid, key) \<and>
      CallRollback (pl_ID p1) sid key \<in> set cs"
    "\<forall>c \<in> set cs. \<exists>sid key. c = CallRollback (pl_ID p1) sid key" by blast
  have id: "plan_id p2 = plan_id p" "pl_ID p1 = pl_ID p" "rollback_steps p1 = rollback_steps p" "pl_TenantID p2 = pl_TenantID p"
    "pl_ID p2 = pl_ID p" using F(1) plan_idD [of p2 p1] by (simp_all add: p1_def)
  have cover: "CallRollback (pl_ID p) (st_ID s) (st_IdempotencyKey s) \<in> set cs" if "s \<in> set (rollback_steps p)" for s
  proof -
    obtain i where "i < length (rollback_steps p)" "s = rollback_steps p ! i" using \<open>s \<in> _\<close> by (metis in_set_conv_nth)
    then show ?thesis using F(5) id by (fastforce simp: step_key_def)
  qed
  have h: "has_plan (as_Exec st2) p2" using assms(3) F(2) has_plan_id [OF id(1)] by (simp add: st1_def UpdatePlan_has_plan)
  define p3 where "p3 = p2\<lparr>pl_State := (if failed = [] then PlanRolledBack else PlanRollbackFailed),
    pl_FinishedAt := Some (en_Clock e (as_Tick st2))\<rparr>"
  have id3: "plan_id p3 = plan_id p" "pl_TenantID p3 = pl_TenantID p" "pl_ID p3 = pl_ID p" using id by (simp_all add: p3_def)
  have up: "UpdatePlan (en_Ctx e) p3 (as_Exec st2) =
      (None, (as_Exec st2)\<lparr>ex_Plans := put2 (pl_TenantID p) (pl_ID p) p3 (ex_Plans (as_Exec st2))\<rparr>)"
    using UpdatePlan_ok [of "en_Ctx e" p3 "as_Exec st2"] assms(2) h id3 has_plan_id [of p3 p2] id by simp
  have calls: "as_Calls st2 = as_Calls st @ cs" "as_Approvals st2 = as_Approvals st" using F by (simp_all add: st1_def)
  have "q = p3 \<and> as_Exec st' = (as_Exec st2)\<lparr>ex_Plans := put2 (pl_TenantID p) (pl_ID p) p3 (ex_Plans (as_Exec st2))\<rparr> \<and>
    as_Calls st' = as_Calls st2 \<and> as_Approvals st' = as_Approvals st2 \<and>
    (er = None \<and> failed = [] \<or> er \<noteq> None \<and> failed \<noteq> [])"
  proof (cases "failed = []")
    case True
    then have e: "p2\<lparr>pl_State := PlanRolledBack, pl_FinishedAt := Some (en_Clock e (as_Tick st2))\<rparr> = p3" by (simp add: p3_def)
    show ?thesis using assms(1) True
      by (auto simp: runRollback_def Let_def p1_def [symmetric] st1_def [symmetric] u e up)
  next
    case False
    then have e: "p2\<lparr>pl_State := PlanRollbackFailed, pl_FinishedAt := Some (en_Clock e (as_Tick st2))\<rparr> = p3" by (simp add: p3_def)
    have "runRollback e tenant p rec actor reason st = (p3, Some (NewError ErrUnavailable ''rollback_failed''),
        auto_audit ActionRollbackFailed OutcomeFailure actor (pl_ID p2) (store_plan e p3 (tick st2)))"
      using False by (simp add: runRollback_def Let_def p1_def [symmetric] st1_def [symmetric] u e)
    then have "q = p3" "er \<noteq> None" "st' = auto_audit ActionRollbackFailed OutcomeFailure actor (pl_ID p2) (store_plan e p3 (tick st2))"
      using assms(1) by simp_all
    then show ?thesis using False by (simp add: up)
  qed
  then show ?thesis using id3 calls cover F(6) id by (auto simp: get2_put2 p3_def)
qed

section \<open>What a run leaves behind\<close>

definition only_applies :: "Plan \<Rightarrow> aws_call list \<Rightarrow> bool" where
  "only_applies p cs \<longleftrightarrow> (\<forall>c \<in> set cs. \<exists>sid key. c = CallApply (pl_ID p) sid key)"

definition only_plan :: "Plan \<Rightarrow> aws_call list \<Rightarrow> bool" where
  "only_plan p cs \<longleftrightarrow> (\<forall>c \<in> set cs. \<exists>sid key. c = CallApply (pl_ID p) sid key \<or> c = CallRollback (pl_ID p) sid key)"

definition all_undone :: "Plan \<Rightarrow> aws_call list \<Rightarrow> bool" where
  "all_undone p cs \<longleftrightarrow> (\<forall>s \<in> set (rollback_steps p). CallRollback (pl_ID p) (st_ID s) (st_IdempotencyKey s) \<in> set cs)"

text \<open>The outcomes of a run: executed; undone or not fully undone, every reverse step having been called; or failed before
  the first call, or failed because no session for the rollback could be opened.\<close>

definition run_outcome :: "auto_env \<Rightarrow> Plan \<Rightarrow> Plan \<Rightarrow> err option \<Rightarrow> aws_call list \<Rightarrow> bool" where
  "run_outcome e p q er cs \<longleftrightarrow>
     (er = None \<and> pl_State q = PlanExecuted \<and> only_applies p cs) \<or>
     (er \<noteq> None \<and> (pl_State q = PlanRolledBack \<or> pl_State q = PlanRollbackFailed) \<and> all_undone p cs) \<or>
     (er \<noteq> None \<and> pl_State q = PlanFailed \<and> only_applies p cs \<and> (cs = [] \<or> (\<exists>n a. en_Assume e n a \<noteq> None)))"

lemma failAndRollback_facts:
  assumes "failAndRollback e tenant p rec account actor reason now st = (q, er, st')"
    and "GuardTenant (en_Ctx e) (pl_TenantID p) = None" and "has_plan (as_Exec st) p"
  shows "plan_id q = plan_id p \<and> get2 (ex_Plans (as_Exec st')) (pl_TenantID p) (pl_ID p) = Some q \<and>
    as_Approvals st' = as_Approvals st \<and> er \<noteq> None \<and>
    (\<exists>cs. as_Calls st' = as_Calls st @ cs \<and> only_plan p cs \<and>
       ((pl_State q = PlanRolledBack \<or> pl_State q = PlanRollbackFailed) \<and> all_undone p cs \<or>
        pl_State q = PlanFailed \<and> cs = [] \<and> (\<exists>n a. en_Assume e n a \<noteq> None)))"
proof -
  define p1 where "p1 = p\<lparr>pl_State := PlanFailed\<rparr>"
  define st1 where "st1 = auto_audit ActionExecutionFailed OutcomeFailure actor (pl_ID p1) (store_plan e p1 st)"
  have id: "plan_id p1 = plan_id p" "pl_TenantID p1 = pl_TenantID p" "pl_ID p1 = pl_ID p" "rollback_steps p1 = rollback_steps p"
    by (simp_all add: p1_def)
  have h: "has_plan (as_Exec st) p1" using assms(3) has_plan_id [OF id(1)] by simp
  have st1: "as_Approvals st1 = as_Approvals st" "as_Calls st1 = as_Calls st"
    "get2 (ex_Plans (as_Exec st1)) (pl_TenantID p) (pl_ID p) = Some p1"
    using h assms(2) UpdatePlan_ok [of "en_Ctx e" p1 "as_Exec st"] by (simp_all add: st1_def id get2_put2)
  then have h1: "has_plan (as_Exec st1) p1" by (simp add: has_plan_def id)
  show ?thesis
  proof (cases "en_Assume e (as_Tick st1) account")
    case (Some x)
    then have "q = p1" "er = Some x" "st' = loseSavings e tenant reason now (pl_RecommendationID p1) (tick st1)"
      using assms(1) by (auto simp: failAndRollback_def Let_def p1_def [symmetric] st1_def [symmetric])
    then show ?thesis using id st1 Some by (auto simp: p1_def only_plan_def)
  next
    case None
    obtain q' er' st2 where r: "runRollback e tenant p1 rec actor reason (tick st1) = (q', er', st2)" by (metis prod_cases3)
    have "q = q' \<and> er \<noteq> None \<and> st' = st2"
      using assms(1) None r by (cases er') (auto simp: failAndRollback_def Let_def p1_def [symmetric] st1_def [symmetric])
    with runRollback_facts [OF r] assms(2) st1 h1 id show ?thesis
      by (fastforce simp: all_undone_def only_plan_def)
  qed
qed

lemma run_plan_facts:
  assumes "run_plan e tenant p rec account actor now st = (q, er, st')"
    and "GuardTenant (en_Ctx e) (pl_TenantID p) = None" and "has_plan (as_Exec st) p"
  shows "plan_id q = plan_id p \<and> get2 (ex_Plans (as_Exec st')) (pl_TenantID p) (pl_ID p) = Some q \<and>
    as_Approvals st' = as_Approvals st \<and>
    (\<exists>cs. as_Calls st' = as_Calls st @ cs \<and> only_plan p cs \<and> run_outcome e p q er cs)"
proof (cases "en_Preflight e (as_Tick st) p")
  case (Some x)
  define p1 where "p1 = p\<lparr>pl_State := PlanFailed\<rparr>"
  have id: "plan_id p1 = plan_id p" "pl_TenantID p1 = pl_TenantID p" "pl_ID p1 = pl_ID p" by (simp_all add: p1_def)
  have h: "has_plan (as_Exec st) p1" using assms(3) has_plan_id [OF id(1)] by simp
  have "q = p1" "er = Some (Foreign ''preflight failed'')" "st' = auto_audit ActionExecutionFailed OutcomeFailure actor (pl_ID p1)
      (loseSavings e tenant ''preflight failed'' now (pl_RecommendationID p1) (store_plan e p1 (tick st)))"
    using assms(1) Some by (auto simp: run_plan_def failPlan_def Let_def p1_def [symmetric])
  then show ?thesis using UpdatePlan_ok [of "en_Ctx e" p1 "as_Exec st"] h assms(2) id
    by (intro conjI exI [of _ "[]"]) (simp_all add: get2_put2 run_outcome_def only_plan_def only_applies_def, simp_all add: p1_def)
next
  case None
  define p1 where "p1 = p\<lparr>pl_State := PlanExecuting, pl_StartedAt := Some now\<rparr>"
  have id: "plan_id p1 = plan_id p" "pl_TenantID p1 = pl_TenantID p" "pl_ID p1 = pl_ID p" "rollback_steps p1 = rollback_steps p"
    by (simp_all add: p1_def)
  define ex1 where "ex1 = (as_Exec st)\<lparr>ex_Plans := put2 (pl_TenantID p) (pl_ID p) p1 (ex_Plans (as_Exec st))\<rparr>"
  have up1: "UpdatePlan (en_Ctx e) p1 (as_Exec st) = (None, ex1)"
    using UpdatePlan_ok [of "en_Ctx e" p1 "as_Exec st"] assms(2,3) has_plan_id [OF id(1)] id by (simp add: ex1_def)
  define st1 where "st1 = auto_audit ActionExecutionStarted OutcomeSuccess actor (pl_ID p1) ((tick st)\<lparr>as_Exec := ex1\<rparr>)"
  have st1: "as_Calls st1 = as_Calls st" "as_Approvals st1 = as_Approvals st" "has_plan (as_Exec st1) p1"
    by (simp_all add: st1_def tick_def ex1_def has_plan_def get2_put2 id)
  obtain r p2 st2 where run: "run_steps e actor [0..<length (pl_Steps p1)] p1 st1 = (r, p2, st2)" by (metis prod_cases3)
  from run_steps_facts [OF run] obtain cs where F: "plan_id p2 = plan_id p1" "rollback_steps p2 = rollback_steps p1"
    "as_Approvals st2 = as_Approvals st1" "has_plan (as_Exec st2) p1" "as_Calls st2 = as_Calls st1 @ cs"
    "\<forall>c \<in> set cs. \<exists>sid key. c = CallApply (pl_ID p1) sid key" using st1(3) by blast
  have id2: "plan_id p2 = plan_id p" "pl_TenantID p2 = pl_TenantID p" "pl_ID p2 = pl_ID p" "rollback_steps p2 = rollback_steps p"
    using F id plan_idD [of p2 p1] by simp_all
  have h2: "has_plan (as_Exec st2) p2" using F(4) has_plan_id [OF F(1)] by simp
  have app: "only_applies p cs" using F(6) id by (simp add: only_applies_def)
  have step: "run_plan e tenant p rec account actor now st = (if r \<noteq> None
      then failAndRollback e tenant p2 rec account actor ''step failed'' now st2
      else (let finished = en_Clock e (as_Tick st2); st = tick st2; p = p2\<lparr>pl_State := PlanExecuted, pl_FinishedAt := Some finished\<rparr>
        in case UpdatePlan (en_Ctx e) p (as_Exec st) of (Some er, _) \<Rightarrow> (p, Some er, st)
         | (None, ex) \<Rightarrow> (let
             st = touchSavings e tenant rec (pl_ID p) StageExecuted (rc_EstimatedMonthlySaving rec) actor
               ''AWS mutation succeeded'' finished (st\<lparr>as_Exec := ex\<rparr>);
             st = store_rec e (rec\<lparr>rc_Status := StatusExecuted, rc_UpdatedAt := finished\<rparr>) st
           in (p, None, auto_audit ActionExecutionSucceeded OutcomeSuccess actor (pl_ID p) st))))"
    using None by (simp add: run_plan_def Let_def p1_def [symmetric] up1 st1_def [symmetric] run)
  show ?thesis
  proof (cases "r = None")
    case False
    then have f: "failAndRollback e tenant p2 rec account actor ''step failed'' now st2 = (q, er, st')"
      using assms(1) step by simp
    from failAndRollback_facts [OF f] assms(2) h2 id2 obtain ds where D: "plan_id q = plan_id p"
      "get2 (ex_Plans (as_Exec st')) (pl_TenantID p) (pl_ID p) = Some q" "as_Approvals st' = as_Approvals st2" "er \<noteq> None"
      "as_Calls st' = as_Calls st2 @ ds" "only_plan p2 ds"
      "(pl_State q = PlanRolledBack \<or> pl_State q = PlanRollbackFailed) \<and> all_undone p2 ds \<or>
        pl_State q = PlanFailed \<and> ds = [] \<and> (\<exists>n a. en_Assume e n a \<noteq> None)" by auto
    have "run_outcome e p q er (cs @ ds)"
      using D(4,7) app id2 by (auto simp: run_outcome_def all_undone_def)
    moreover have "only_plan p (cs @ ds)" using app D(6) id2 by (auto simp: only_plan_def only_applies_def)
    ultimately show ?thesis using D F(3,5) st1 by auto
  next
    case True
    define p3 where "p3 = p2\<lparr>pl_State := PlanExecuted, pl_FinishedAt := Some (en_Clock e (as_Tick st2))\<rparr>"
    have id3: "plan_id p3 = plan_id p" "pl_TenantID p3 = pl_TenantID p" "pl_ID p3 = pl_ID p" "pl_State p3 = PlanExecuted"
      using id2 by (simp_all add: p3_def)
    define ex3 where "ex3 = (as_Exec st2)\<lparr>ex_Plans := put2 (pl_TenantID p) (pl_ID p) p3 (ex_Plans (as_Exec st2))\<rparr>"
    have up3: "UpdatePlan (en_Ctx e) p3 (as_Exec st2) = (None, ex3)"
      using UpdatePlan_ok [of "en_Ctx e" p3 "as_Exec st2"] assms(2) h2 has_plan_id [of p3 p2] id2 id3 by (simp add: ex3_def)
    have "q = p3 \<and> er = None \<and> core_state st' = core_state ((tick st2)\<lparr>as_Exec := ex3\<rparr>)"
      using assms(1) step True by (auto simp: Let_def p3_def [symmetric] up3)
    then have "q = p3" "er = None" "as_Exec st' = ex3" "as_Calls st' = as_Calls st2" "as_Approvals st' = as_Approvals st2"
      by (auto simp: core_state_def tick_def)
    moreover have "only_plan p cs" using app by (auto simp: only_plan_def only_applies_def)
    ultimately show ?thesis using id3 app F(3,5) st1 by (auto simp: ex3_def get2_put2 run_outcome_def)
  qed
qed

section \<open>Execute\<close>

lemma reconfirm_core:
  "reconfirmAuthorization e tenant p st = (er, st') \<Longrightarrow> core_state st' = core_state st"
  by (auto simp: reconfirmAuthorization_def Let_def core_state_def tick_def split: prod.splits)

lemma reconfirm_ok:
  assumes "reconfirmAuthorization e tenant p st = (None, st')"
  shows "\<exists>d. fst (en_Evaluate e (as_Tick st) tenant (pl_RecommendationID p) (as_Recs st)) = Inr d \<and> de_Effect d \<noteq> EffectProhibit \<and>
    (de_Effect d = EffectAutoExecute \<or> (\<exists>a. get2 (as_Approvals st) tenant (pl_ApprovalID p) = Some a \<and> Approved a))"
proof -
  obtain v recs where v: "en_Evaluate e (as_Tick st) tenant (pl_RecommendationID p) (as_Recs st) = (v, recs)" by fastforce
  then obtain d where d: "v = Inr d" "de_Effect d \<noteq> EffectProhibit"
    using assms by (cases v) (auto simp: reconfirmAuthorization_def Let_def split: if_splits)
  show ?thesis
  proof (cases "de_Effect d = EffectAutoExecute")
    case False
    then obtain a where "approval_Get (en_Ctx e) (as_Approvals st) tenant (pl_ApprovalID p) = Inr a" "rq_State a = ApprovalApproved"
      using assms v d by (auto simp: reconfirmAuthorization_def Let_def tick_def split: if_splits sum.splits)
    then show ?thesis using v d by (auto simp: approval_Get_def Approved_def split: option.splits)
  qed (use v d in auto)
qed

lemma execute_locked_cases:
  assumes "execute_locked e tenant plan actor now st = (q, er, st')"
  obtains (refused) "core_state st' = core_state st"
    | (run) p rec account where "GetPlan (en_Ctx e) (as_Exec st) tenant plan = Inr p" "Executable p now"
        "run_plan e tenant p rec account actor now (tick st) = (q, er, st')"
proof (cases "GetPlan (en_Ctx e) (as_Exec st) tenant plan")
  case (Inl x)
  then show ?thesis using assms refused by (auto simp: execute_locked_def)
next
  case (Inr p)
  show ?thesis
  proof (cases "Executable p now")
    case False
    then show ?thesis using assms refused Inr by (auto simp: execute_locked_def)
  next
    case True
    show ?thesis
    proof (cases "open_session e tenant p st")
      case (Inl x)
      then have "st' = tick st" using assms True Inr by (auto simp: execute_locked_def)
      then show ?thesis using refused by simp
    next
      case (Inr s)
      obtain rec res account where s: "s = (rec, res, account)" by (cases s)
      show ?thesis using assms True \<open>GetPlan _ _ _ _ = Inr p\<close> Inr s
        by (intro run [of p rec account]) (simp_all add: execute_locked_def)
    qed
  qed
qed

text \<open>The states in which the lock is taken: those of the call, but for a promoted plan.\<close>

lemma Execute_cases:
  assumes "Execute e tenant plan actor st = (q, er, st')"
  obtains (unsent) "as_Calls st' = as_Calls st" "as_Approvals st' = as_Approvals st"
    | (sent) p st1 n ex p' rec account st2 where
        "GetPlan (en_Ctx e) (as_Exec st) tenant plan = Inr p"
        "reconfirmAuthorization e tenant p (tick st) = (None, st1)"
        "ex = as_Exec st \<or> ex = snd (UpdatePlan (en_Ctx e) (p\<lparr>pl_State := PlanApproved\<rparr>) (as_Exec st))"
        "as_Exec st2 = en_Others e n ex" "as_Calls st2 = as_Calls st" "as_Approvals st2 = as_Approvals st"
        "GetPlan (en_Ctx e) (as_Exec st2) tenant plan = Inr p'" "Executable p' (en_Clock e (as_Tick st))"
        "run_plan e tenant p' rec account actor (en_Clock e (as_Tick st)) st2 = (q, er, st')"
proof (cases "GetPlan (en_Ctx e) (as_Exec st) tenant plan")
  case (Inl x)
  then have "st' = tick st" using assms by (simp add: Execute_def Let_def)
  then show ?thesis using unsent by simp
next
  case (Inr p)
  let ?now = "en_Clock e (as_Tick st)"
  obtain au st1 where au: "reconfirmAuthorization e tenant p (tick st) = (au, st1)" by fastforce
  have c1: "as_Exec st1 = as_Exec st" "as_Approvals st1 = as_Approvals st" "as_Calls st1 = as_Calls st"
    using reconfirm_core [OF au] by (simp_all add: core_state_def tick_def)
  show ?thesis
  proof (cases au)
    case (Some x)
    define p1 where "p1 = p\<lparr>pl_State := PlanFailed\<rparr>"
    have "st' = auto_audit ActionExecutionFailed OutcomeDenied actor (pl_ID p1) (store_plan e p1 st1)"
      using assms Inr au Some by (auto simp: Execute_def Let_def p1_def)
    then show ?thesis using unsent c1 by simp
  next
    case None
    define p1 where "p1 = (if pl_State p = PlanAwaitingApproval then p\<lparr>pl_State := PlanApproved\<rparr> else p)"
    define up where "up = (if pl_State p = PlanAwaitingApproval then UpdatePlan (en_Ctx e) p1 (as_Exec st1) else (None, as_Exec st1))"
    have up: "fst up = None \<Longrightarrow> snd up = as_Exec st \<or> snd up = snd (UpdatePlan (en_Ctx e) (p\<lparr>pl_State := PlanApproved\<rparr>) (as_Exec st))"
      by (auto simp: up_def p1_def c1)
    define st2 where "st2 = (if fst up = None then st1\<lparr>as_Exec := snd up\<rparr> else st1)"
    have E: "Execute e tenant plan actor st = (if fst up \<noteq> None then (p1, fst up, st2)
        else if \<not> Executable p1 ?now then (p1, Some (NewError ErrPreconditionOff ''not_executable''), st2)
        else (case en_Lock e (as_Tick st2) (lockKeyForPlan tenant plan) of Some er \<Rightarrow> (p1, Some er, tick st2)
          | None \<Rightarrow> let st = tick st2 in
              execute_locked e tenant plan actor ?now (st\<lparr>as_Exec := en_Others e (as_Tick st) (as_Exec st)\<rparr>)))"
      using Inr au None by (cases "pl_State p = PlanAwaitingApproval"; cases "fst up"; cases up)
        (simp_all add: Execute_def Let_def p1_def up_def st2_def split: option.split)
    have c2: "as_Calls st2 = as_Calls st" "as_Approvals st2 = as_Approvals st" using c1 by (simp_all add: st2_def)
    consider (a) "st' = st2 \<or> st' = tick st2" | (b) "fst up = None" "execute_locked e tenant plan actor ?now
        ((tick st2)\<lparr>as_Exec := en_Others e (as_Tick (tick st2)) (as_Exec (tick st2))\<rparr>) = (q, er, st')"
      using assms E by (auto simp: Let_def split: if_splits option.splits)
    then show ?thesis
    proof cases
      case a
      then show ?thesis using unsent c2 by auto
    next
      case b
      let ?st3 = "(tick st2)\<lparr>as_Exec := en_Others e (as_Tick (tick st2)) (as_Exec (tick st2))\<rparr>"
      have ex: "as_Exec (tick st2) = snd up" using b(1) by (simp add: st2_def)
      from b(2) show ?thesis
      proof (cases rule: execute_locked_cases)
        case refused
        then show ?thesis using unsent c2 by (simp add: core_state_def tick_def)
      next
        case (run p' rec account)
        show ?thesis
          by (rule sent [OF Inr au [unfolded None] up [OF b(1)], of "tick ?st3" "as_Tick (tick st2)" p' rec account])
            (use run c2 ex in \<open>simp_all add: tick_def\<close>)
      qed
    qed
  qed
qed

text \<open>Other workers keep the plans where they are.\<close>

definition others_ok :: "auto_env \<Rightarrow> bool" where
  "others_ok e \<longleftrightarrow> (\<forall>n ex. plans_ok ex \<longrightarrow> plans_ok (en_Others e n ex))"

lemma GetPlan_key: "plans_ok ex \<Longrightarrow> GetPlan ctx ex tenant plan = Inr p \<Longrightarrow>
    get2 (ex_Plans ex) tenant plan = Some p \<and> plan_key p = (tenant, plan) \<and> GuardTenant ctx tenant = None"
  by (auto simp: GetPlan_def plans_ok_def split: option.splits)

lemma UpdatePlan_plans_ok: "plans_ok ex \<Longrightarrow> plans_ok (snd (UpdatePlan ctx p ex))"
  by (auto simp: plans_ok_def UpdatePlan_def get2_put2 plan_key_def split: option.splits)

text \<open>C2: nothing is sent without fresh authority: when an execution calls the executor at all, governance allowed the
  change in that very call, and unless it cleared it for unattended execution the approval attached to the plan is
  approved: by enough distinct principals, in time, and not by the requester where that is forbidden. The plan that runs
  passes the start condition, and every call names it.\<close>

theorem Execute_authorized:
  assumes "Execute e tenant plan actor st = (q, er, st')" and "as_Calls st' \<noteq> as_Calls st"
    and "plans_ok (as_Exec st)" and "others_ok e" and "approvals_step\<^sup>*\<^sup>* [] (as_Approvals st)"
  shows "\<exists>p d. get2 (ex_Plans (as_Exec st)) tenant plan = Some p \<and>
      fst (en_Evaluate e (as_Tick st + 1) tenant (pl_RecommendationID p) (as_Recs st)) = Inr d \<and> de_Effect d \<noteq> EffectProhibit \<and>
      (de_Effect d = EffectAutoExecute \<or> (\<exists>a. get2 (as_Approvals st) tenant (pl_ApprovalID p) = Some a \<and> Approved a \<and>
         required_approvals a \<le> int (card (rs_Principal ` {x \<in> set (rq_Responses a). rs_Approved x})) \<and>
         (\<forall>x \<in> set (rq_Responses a). rs_Approved x \<and> rs_At x \<le> rq_ExpiresAt a) \<and>
         (rq_RequireDistinctApprover a \<longrightarrow> rq_RequestedBy a \<notin> rs_Principal ` set (rq_Responses a)))) \<and>
      (\<exists>p' cs. plan_key p' = (tenant, plan) \<and> Executable p' (en_Clock e (as_Tick st)) \<and>
         as_Calls st' = as_Calls st @ cs \<and> only_plan p' cs)"
  using assms(1)
proof (cases rule: Execute_cases)
  case unsent
  then show ?thesis using assms(2) by simp
next
  case (sent p st1 n ex p' rec account st2)
  have p: "get2 (ex_Plans (as_Exec st)) tenant plan = Some p" "plan_key p = (tenant, plan)"
    using GetPlan_key [OF assms(3) sent(1)] by simp_all
  have "plans_ok ex" using sent(3) assms(3) UpdatePlan_plans_ok by blast
  then have p': "get2 (ex_Plans (as_Exec st2)) tenant plan = Some p'" "plan_key p' = (tenant, plan)"
    "GuardTenant (en_Ctx e) tenant = None"
    using GetPlan_key [OF _ sent(7)] sent(4) assms(4) by (simp_all add: others_ok_def)
  obtain cs where cs: "as_Calls st' = as_Calls st @ cs" "only_plan p' cs"
    using run_plan_facts [OF sent(9)] p' sent(5) by (auto simp: plan_key_def has_plan_def)
  obtain d where d: "fst (en_Evaluate e (as_Tick st + 1) tenant (pl_RecommendationID p) (as_Recs st)) = Inr d"
    "de_Effect d \<noteq> EffectProhibit"
    "de_Effect d = EffectAutoExecute \<or> (\<exists>a. get2 (as_Approvals st) tenant (pl_ApprovalID p) = Some a \<and> Approved a)"
    using reconfirm_ok [OF sent(2)] by (auto simp: tick_def)
  have seg: "required_approvals a \<le> int (card (rs_Principal ` {x \<in> set (rq_Responses a). rs_Approved x})) \<and>
      (\<forall>x \<in> set (rq_Responses a). rs_Approved x \<and> rs_At x \<le> rq_ExpiresAt a) \<and>
      (rq_RequireDistinctApprover a \<longrightarrow> rq_RequestedBy a \<notin> rs_Principal ` set (rq_Responses a))"
    if "get2 (as_Approvals st) tenant (pl_ApprovalID p) = Some a" "Approved a" for a
    using approvals_reach_inv [OF assms(5)] that inv_approved [of a] by (auto simp: approvals_inv_def Approved_def)
  show ?thesis using p(1) d seg p'(2) sent(8) cs by blast
qed


section \<open>Concrete runs\<close>

definition demo_account :: AWSAccount where
  "demo_account = \<lparr>acc_TenantID = ''t'', acc_AccountID = ''acct'', acc_Regions = [], acc_AccessMode = AccessSimulated,
     acc_RoleARNs = [], acc_ExternalID = '''', acc_State = ConnPending, acc_GrantedScopes = []\<rparr>"

definition demo_decision :: "Effect \<Rightarrow> Decision" where
  "demo_decision eff = production_late\<lparr>de_Effect := eff\<rparr>"

definition demo_env :: "Effect \<Rightarrow> auto_env" where
  "demo_env eff = \<lparr>en_Ctx = admin, en_Evaluate = (\<lambda>_ _ _ m. (Inr (demo_decision eff), m)),
     en_DecisionID = (\<lambda>n. ''dec''), en_Spec = (\<lambda>_. Inr strict_spec),
     en_Resource = (\<lambda>_ _. Inr no_resource), en_Account = (\<lambda>_ _. Inr demo_account), en_Executor = (\<lambda>_. True),
     en_Assume = (\<lambda>_ _. None), en_Plan = (\<lambda>_ _ _ _ _. Inr sample_plan), en_Preflight = (\<lambda>_ _. None),
     en_Apply = (\<lambda>_ _ _. None), en_Undo = (\<lambda>_ _ _. None), en_Wait = (\<lambda>_ _. None), en_Lock = (\<lambda>_ _. None),
     en_Others = (\<lambda>_ x. x), en_Clock = (\<lambda>n. 10 + int n), en_Wall = (\<lambda>n. 10 + int n), en_NewID = (\<lambda>n. ''id''),
     en_Cost = None, en_Metrics = None\<rparr>"

definition demo_plan :: Plan where
  "demo_plan = sample_plan\<lparr>pl_State := PlanAwaitingApproval, pl_ApprovalID := ''apr'',
     pl_Rollback := Some \<lparr>rb_Steps = [sample_step StepMutate], rb_Feasible = True, rb_DataLossRisk = RiskNone\<rparr>\<rparr>"

definition demo_state :: "Plan \<Rightarrow> auto_state" where
  "demo_state p = \<lparr>as_Exec = \<lparr>ex_Plans = put2 ''t'' ''p'' p [], ex_Leases = [], ex_Snapshots = [], ex_Validations = []\<rparr>,
     as_Approvals = voted_store, as_Recs = put2 ''t'' ''r'' sample_recommendation [], as_Savings = [], as_Outcomes = [],
     as_Audit = [], as_Calls = [], as_Tick = 0\<rparr>"

lemma demo_ok: "plan_key p = (''t'', ''p'') \<Longrightarrow> plans_ok (as_Exec (demo_state p))"
  by (auto simp: plans_ok_def demo_state_def get2_put2 split: if_splits)

lemma demo_others: "others_ok (demo_env eff)"
  by (simp add: others_ok_def demo_env_def)

lemma demo_key: "plan_key demo_plan = (''t'', ''p'')"
  by (simp add: plan_key_def demo_plan_def sample_plan_def)

lemma demo_run: "case Execute (demo_env EffectRequireApproval) ''t'' ''p'' ''ann'' (demo_state demo_plan) of
    (q, er, st) \<Rightarrow> er = None \<and> pl_State q = PlanExecuted \<and> as_Calls st = [CallApply ''p'' ''s'' ''k'', CallApply ''p'' ''s'' ''k'']"
  by code_simp

theorem Execute_authorized_witness:
  "\<exists>q st' a. Execute (demo_env EffectRequireApproval) ''t'' ''p'' ''ann'' (demo_state demo_plan) = (q, None, st') \<and>
     length (as_Calls st') = 2 \<and> get2 voted_store ''t'' ''apr'' = Some a \<and> Approved a"
proof -
  obtain q er st' where x: "Execute (demo_env EffectRequireApproval) ''t'' ''p'' ''ann'' (demo_state demo_plan) = (q, er, st')"
    by (metis prod_cases3)
  have r: "er = None" "as_Calls st' = [CallApply ''p'' ''s'' ''k'', CallApply ''p'' ''s'' ''k'']"
    using demo_run by (simp_all add: x)
  have c: "as_Calls st' \<noteq> as_Calls (demo_state demo_plan)" by (simp add: r demo_state_def)
  have a: "approvals_step\<^sup>*\<^sup>* [] (as_Approvals (demo_state demo_plan))" by (simp add: demo_state_def voted_reach)
  from Execute_authorized [OF x c demo_ok [OF demo_key] demo_others a] obtain p d where
    p: "get2 (ex_Plans (as_Exec (demo_state demo_plan))) ''t'' ''p'' = Some p"
    "fst (en_Evaluate (demo_env EffectRequireApproval) (as_Tick (demo_state demo_plan) + 1) ''t'' (pl_RecommendationID p)
      (as_Recs (demo_state demo_plan))) = Inr d"
    "de_Effect d = EffectAutoExecute \<or> (\<exists>a. get2 (as_Approvals (demo_state demo_plan)) ''t'' (pl_ApprovalID p) = Some a \<and> Approved a)"
    by blast
  have "p = demo_plan" "de_Effect d \<noteq> EffectAutoExecute" using p(1,2) by (auto simp: demo_state_def get2_put2 demo_env_def demo_decision_def)
  then show ?thesis using p(3) x r by (auto simp: demo_state_def demo_plan_def)
qed



definition half_plan :: Plan where
  "half_plan = demo_plan\<lparr>pl_State := PlanApproved, pl_Steps := [(sample_step StepSnapshot)\<lparr>st_ID := ''snap''\<rparr>,
     (sample_step StepMutate)\<lparr>st_ID := ''mut''\<rparr>, sample_step StepVerify],
     pl_Rollback := Some \<lparr>rb_Steps = [], rb_Feasible = False, rb_DataLossRisk = RiskHigh\<rparr>\<rparr>"

definition half_env :: auto_env where
  "half_env = (demo_env EffectAutoExecute)\<lparr>en_Apply := (\<lambda>_ _ s. if st_ID s = ''s'' then Some Invalid else None)\<rparr>"

lemma attempts_ok: "call (as_Tick st) (s\<lparr>st_Attempts := st_Attempts s + 1\<rparr>) = None \<Longrightarrow> attempts call wait ev a n s st =
   (None, s\<lparr>st_Attempts := st_Attempts s + 1\<rparr>, tick (st\<lparr>as_Calls := as_Calls st @ [ev (s\<lparr>st_Attempts := st_Attempts s + 1\<rparr>)]\<rparr>))"
  by (simp add: Let_def)

lemma attempts_fatal: "call (as_Tick st) (s\<lparr>st_Attempts := st_Attempts s + 1\<rparr>) = Some er \<Longrightarrow> \<not> Retryable (Some er) \<Longrightarrow>
   attempts call wait ev a n s st =
   (Some er, s\<lparr>st_Attempts := st_Attempts s + 1\<rparr>, tick (st\<lparr>as_Calls := as_Calls st @ [ev (s\<lparr>st_Attempts := st_Attempts s + 1\<rparr>)]\<rparr>))"
  by (simp add: Let_def)

lemma admin_t: "GuardTenant admin ''t'' = None" by code_simp

lemma fatal: "\<not> Retryable (Some Invalid)" by code_simp

lemmas run_eval = Let_def rollback_steps_def applyStepWithRetry_def default_retries_def persistSnapshots_def set_step_def
  store_plan_def auto_audit_def tick_def UpdatePlan_def get2_put2 admin_t fatal attempts_ok attempts_fatal half_env_def half_plan_def
  demo_env_def demo_plan_def sample_plan_def sample_step_def demo_state_def demo_decision_def Executable_def

lemma failAndRollback_no_steps:
  assumes "rollback_steps p = []" and "\<And>n. en_Assume e n account = None" and "GuardTenant (en_Ctx e) (pl_TenantID p) = None"
    and "get2 (ex_Plans (as_Exec st)) (pl_TenantID p) (pl_ID p) \<noteq> None"
  shows "\<exists>q st'. failAndRollback e tenant p rec account actor reason now st = (q, Some (Foreign reason), st') \<and>
    pl_State q = PlanRolledBack \<and> as_Calls st' = as_Calls st"
proof -
  have u: "GuardTenant ctx (pl_TenantID p) = None \<Longrightarrow> get2 (ex_Plans ex) (pl_TenantID p) (pl_ID p) \<noteq> None \<Longrightarrow>
    UpdatePlan ctx p ex = (None, ex\<lparr>ex_Plans := put2 (pl_TenantID p) (pl_ID p) p (ex_Plans ex)\<rparr>)" for ctx p ex
    by (simp add: UpdatePlan_def)
  show ?thesis using assms
    by (simp add: failAndRollback_def runRollback_def rollback_steps_def store_plan_def auto_audit_def tick_def u get2_put2 Let_def
        cong: let_weak_cong)
qed

lemma half_run_starts: "Execute half_env ''t'' ''p'' ''ann'' (demo_state half_plan) =
    run_plan half_env ''t'' half_plan sample_recommendation demo_account ''ann'' 10 ((demo_state half_plan)\<lparr>as_Tick := 4\<rparr>)"
  by (simp add: Execute_def execute_locked_def reconfirmAuthorization_def open_session_def rec_Get_def GetPlan_def run_eval eval_nat_numeral
      cong: if_cong del: attempts.simps)

lemma half_run_fails: "\<exists>p st. Execute half_env ''t'' ''p'' ''ann'' (demo_state half_plan) =
    failAndRollback half_env ''t'' p sample_recommendation demo_account ''ann'' ''step failed'' 10 st \<and>
    rollback_steps p = [] \<and> pl_TenantID p = ''t'' \<and> get2 (ex_Plans (as_Exec st)) (pl_TenantID p) (pl_ID p) \<noteq> None \<and>
    as_Calls st = [CallApply ''p'' ''snap'' ''k'', CallApply ''p'' ''mut'' ''k'', CallApply ''p'' ''s'' ''k'']"
  unfolding half_run_starts by (simp add: run_plan_def run_eval cong: if_cong del: attempts.simps) (intro exI conjI, rule refl, simp_all add: get2_put2)

lemma half_env_ports: "en_Ctx half_env = admin" "en_Assume half_env n account = None"
  by (simp_all add: half_env_def demo_env_def)


end
