(* ===== verification/AutoPlan.thy ===== *)
theory AutoPlan imports Automation begin

text \<open>
  \<open>internal/application/automation/plan.go\<close>: building an execution plan for a recommendation, declaring how it will be
  judged, asking for the approval it needs, and cancelling it. The governance service that is asked for an approval is the
  one of theory \<open>ApprovalFlow\<close>; the texts of the approval packet are not modelled.
\<close>

definition defaultObservationWindow :: int where "defaultObservationWindow = 30 * 60000000000"
definition defaultMinValidationSamples :: int where "defaultMinValidationSamples = 1"

definition cost_check :: ValidationCheck where
  "cost_check = \<lparr>vc_Name = ''cost_not_worse'', vc_Metric = ''monthly_cost'', vc_Statistic = ''avg'',
     vc_Comparison = ''no_worse_than_pct'', vc_Threshold = 5, vc_Critical = False\<rparr>"

definition error_check :: ValidationCheck where
  "error_check = \<lparr>vc_Name = ''error_rate_bounded'', vc_Metric = ''error_rate'', vc_Statistic = ''p99'',
     vc_Comparison = ''below_absolute'', vc_Threshold = f64 (5 / 100), vc_Critical = True\<rparr>"

definition capacity_check :: ValidationCheck where
  "capacity_check = \<lparr>vc_Name = ''capacity_headroom'', vc_Metric = ''cpu_utilization'', vc_Statistic = ''p99'',
     vc_Comparison = ''below_absolute'', vc_Threshold = 95, vc_Critical = True\<rparr>"

definition watched_closely :: "Recommendation \<Rightarrow> bool" where
  "watched_closely rec \<longleftrightarrow> rc_Reversibility rec = ReversibilityNone \<or> rc_Reversibility rec = ReversibilitySlow \<or>
     ra_Level (rc_Risk rec) = RiskHigh \<or> ra_Level (rc_Risk rec) = RiskCritical"

definition buildValidationPlan :: "Recommendation \<Rightarrow> Spec \<Rightarrow> ValidationPlan" where
  "buildValidationPlan rec sp = (let
     window = wrap64 (au_ValidationWindowMinutes (sp_Automation sp) * 60000000000);
     window = (if window \<le> 0 then defaultObservationWindow else window);
     checks = [cost_check, error_check] @ (if watched_closely rec then [capacity_check] else []);
     autoRollbackOn = (if au_AutoRollback (sp_Automation sp) then map vc_Name (filter vc_Critical checks) else [])
   in \<lparr>vp_ObservationWindow = window, vp_BaselineWindow = window, vp_Checks = checks, vp_AutoRollbackOn = autoRollbackOn,
     vp_MinSamples = defaultMinValidationSamples\<rparr>)"

record PlanOptions =
  po_DryRun :: bool
  po_ScheduledFor :: "gotime option"
  po_RequestedBy :: string

definition approval_request :: "TenantID \<Rightarrow> Plan \<Rightarrow> Decision \<Rightarrow> ID \<Rightarrow> string \<Rightarrow> gotime \<Rightarrow> Request" where
  "approval_request tenant p d pd actor now = \<lparr>rq_ID = '''', rq_TenantID = tenant, rq_SubjectKind = SubjectExecutionPlan,
     rq_SubjectID = pl_ID p, rq_PolicyDecisionID = pd, rq_RequiredRoles = de_Approvers d, rq_MinApprovals = de_MinApprovals d,
     rq_RequireDistinctApprover = de_RequireDistinctApprover d, rq_State = ApprovalOther '''', rq_Responses = [],
     rq_RequestedBy = actor, rq_RequestedAt = now, rq_ExpiresAt = 0, rq_DecidedAt = None, rq_ExecuteAfter = None\<rparr>"

definition requestApprovalFor :: "auto_env \<Rightarrow> TenantID \<Rightarrow> Plan \<Rightarrow> Decision \<Rightarrow> ID \<Rightarrow> string \<Rightarrow> gotime \<Rightarrow> auto_state \<Rightarrow>
    (err + Request) \<times> auto_state" where
  "requestApprovalFor e tenant p d pd actor now st = (let
     (r, ap, notes) = RequestApproval (en_Ctx e) (en_Spec e (as_Tick st)) (en_NewID e (as_Tick st)) (en_Clock e (as_Tick st))
       (approval_request tenant p d pd actor now) (as_Approvals st)
   in (r, tick (st\<lparr>as_Approvals := ap, as_Audit := as_Audit st @ notes\<rparr>)))"

text \<open>What the service checks of a plan an executor built.\<close>

definition plan_acceptable :: "Plan \<Rightarrow> bool" where
  "plan_acceptable p \<longleftrightarrow> pl_Rollback p \<noteq> None \<and>
     \<not> (list_ex (\<lambda>s. st_Kind s = StepMutate) (pl_Steps p) \<and> \<not> list_ex (\<lambda>s. st_Kind s = StepSnapshot) (pl_Steps p))"

text \<open>The fields the service sets, from the specification to the state.\<close>

definition declare_plan :: "Recommendation \<Rightarrow> Spec \<Rightarrow> ID \<Rightarrow> PlanOptions \<Rightarrow> gotime \<Rightarrow> Plan \<Rightarrow> Plan" where
  "declare_plan rec sp pd opts now p = p\<lparr>pl_Validation := buildValidationPlan rec sp, pl_RecommendationID := rc_ID rec,
     pl_PolicyDecisionID := pd, pl_ScheduledFor := po_ScheduledFor opts, pl_RequestedBy := po_RequestedBy opts,
     pl_CreatedAt := now\<rparr>"

definition authorize_plan :: "auto_env \<Rightarrow> TenantID \<Rightarrow> Decision \<Rightarrow> ID \<Rightarrow> string \<Rightarrow> gotime \<Rightarrow> Plan \<Rightarrow> auto_state \<Rightarrow>
    (err + Plan) \<times> auto_state" where
  "authorize_plan e tenant d pd actor now p st =
    (if de_Effect d = EffectAutoExecute then (Inr (p\<lparr>pl_State := PlanApproved\<rparr>), st)
     else (case requestApprovalFor e tenant p d pd actor now st of
         (Inl er, st) \<Rightarrow> (Inl er, st)
       | (Inr a, st) \<Rightarrow> (Inr (p\<lparr>pl_ApprovalID := rq_ID a, pl_State := PlanAwaitingApproval\<rparr>), st)))"

definition record_plan :: "auto_env \<Rightarrow> TenantID \<Rightarrow> Recommendation \<Rightarrow> string \<Rightarrow> gotime \<Rightarrow> Plan \<Rightarrow> auto_state \<Rightarrow>
    (err + Plan) \<times> auto_state" where
  "record_plan e tenant rec actor now p st = (case CreatePlan (en_Ctx e) p (as_Exec st) of
     (Some er, _) \<Rightarrow> (Inl er, st)
   | (None, ex) \<Rightarrow> (let
       st = touchSavings e tenant rec (pl_ID p) StagePlanned (rc_EstimatedMonthlySaving rec) actor
         ''execution plan constructed with a rollback plan'' now (st\<lparr>as_Exec := ex\<rparr>);
       status = (if pl_State p = PlanAwaitingApproval then StatusUnderReview else StatusScheduled);
       st = store_rec e (rec\<lparr>rc_Status := status, rc_UpdatedAt := now\<rparr>) st
     in (Inr p, auto_audit ActionPlanCreated OutcomeSuccess actor (pl_ID p) st)))"

text \<open>Unlike governance, this service does not replace a missing specification.\<close>

definition active_spec :: "err + SpecVersion \<Rightarrow> err + Spec" where
  "active_spec getActive = (case getActive of Inl er \<Rightarrow> Inl er | Inr v \<Rightarrow> Inr (vn_Spec v))"

text \<open>From the answer of governance on.\<close>

definition build_plan :: "auto_env \<Rightarrow> TenantID \<Rightarrow> Recommendation \<Rightarrow> Resource \<Rightarrow> AWSAccount \<Rightarrow> Decision \<Rightarrow> ID \<Rightarrow> PlanOptions \<Rightarrow>
    gotime \<Rightarrow> auto_state \<Rightarrow> (err + Plan) \<times> auto_state" where
  "build_plan e tenant rec res account d pd opts now st =
    (case en_Assume e (as_Tick st) account of Some er \<Rightarrow> (Inl er, tick st)
     | None \<Rightarrow> (case en_Plan e (as_Tick st) rec res (po_DryRun opts) (po_RequestedBy opts) of Inl er \<Rightarrow> (Inl er, tick st)
     | Inr p \<Rightarrow> let st = tick st in
         if \<not> plan_acceptable p then (Inl Invalid, st)
         else (case active_spec (en_Spec e (as_Tick st)) of Inl er \<Rightarrow> (Inl er, tick st)
           | Inr sp \<Rightarrow> (case authorize_plan e tenant d pd (po_RequestedBy opts) now
                  (declare_plan rec sp pd opts now p) (tick st) of
               (Inl er, st) \<Rightarrow> (Inl er, st)
             | (Inr p, st) \<Rightarrow> record_plan e tenant rec (po_RequestedBy opts) now p st))))"

definition PlanExecution :: "auto_env \<Rightarrow> TenantID \<Rightarrow> ID \<Rightarrow> PlanOptions \<Rightarrow> auto_state \<Rightarrow> (err + Plan) \<times> auto_state" where
  "PlanExecution e tenant recID opts st = (let now = en_Clock e (as_Tick st); st = tick st in
     case rec_Get (en_Ctx e) (as_Recs st) tenant recID of Inl er \<Rightarrow> (Inl er, st)
   | Inr rec \<Rightarrow> if Status_Terminal (rc_Status rec) then (Inl (NewError ErrPreconditionOff ''recommendation_terminal''), st)
     else if rc_Action rec = ActionAdvisoryOnly then (Inl Invalid, st)
     else (case en_Resource e (as_Tick st) (fi_ResourceID (rc_Finding rec)) of Inl er \<Rightarrow> (Inl er, st)
     | Inr res \<Rightarrow> (case en_Account e (as_Tick st) (res_AccountID res) of Inl er \<Rightarrow> (Inl er, st)
     | Inr account \<Rightarrow> if \<not> en_Executor e (rc_Action rec) then (Inl (NewError ErrNotImplemented ''no_executor''), st)
       else (let
           pd = en_DecisionID e (as_Tick st);
           (verdict, recs) = en_Evaluate e (as_Tick st) tenant recID (as_Recs st);
           st = tick (st\<lparr>as_Recs := recs\<rparr>)
         in case verdict of Inl er \<Rightarrow> (Inl er, st)
          | Inr d \<Rightarrow> if de_Effect d = EffectProhibit then (Inl (NewError ErrForbidden ''change_prohibited''), st)
              else build_plan e tenant rec res account d pd opts now st))))"

definition Cancel :: "auto_env \<Rightarrow> TenantID \<Rightarrow> ID \<Rightarrow> string \<Rightarrow> string \<Rightarrow> auto_state \<Rightarrow> err option \<times> auto_state" where
  "Cancel e tenant plan reason actor st = (let now = en_Clock e (as_Tick st); st = tick st in
     case GetPlan (en_Ctx e) (as_Exec st) tenant plan of Inl er \<Rightarrow> (Some er, st)
   | Inr p \<Rightarrow> if pl_State p \<notin> {PlanDraft, PlanAwaitingApproval, PlanApproved, PlanScheduled}
       then (Some (NewError ErrPreconditionOff ''cannot_cancel''), st)
     else (let p = p\<lparr>pl_State := PlanCancelled\<rparr> in
       case UpdatePlan (en_Ctx e) p (as_Exec st) of (Some er, _) \<Rightarrow> (Some er, st)
       | (None, ex) \<Rightarrow> (let st = loseSavings e tenant reason now (pl_RecommendationID p) (st\<lparr>as_Exec := ex\<rparr>)
           in (None, auto_audit ActionExecutionFailed OutcomeDenied actor (pl_ID p) st))))"

section \<open>What each step leaves alone\<close>

lemma lose_recs [simp]: "as_Recs (loseSavings e t reason now rec st) = as_Recs st"
  by (simp add: loseSavings_def split: sum.split)

lemma fold_lose_recs [simp]: "as_Recs (fold (loseSavings e t reason now) rs st) = as_Recs st"
  by (induction rs arbitrary: st) simp_all

lemma tick_simps [simp]: "as_Recs (tick st) = as_Recs st" "as_Tick (tick st) = as_Tick st + 1"
  by (simp_all add: tick_def)

lemma touch_recs [simp]: "as_Recs (touchSavings e t rec plan to amount actor reason now st) = as_Recs st"
  by (simp add: touchSavings_def retireConflictingSavings_def Let_def split: sum.split)

lemma audit_recs [simp]: "as_Recs (auto_audit a out who plan st) = as_Recs st"
  by (simp add: auto_audit_def)

lemma authorize_cases:
  assumes "authorize_plan e tenant d pd actor now p st = (Inr q, st')"
  obtains (auto) "de_Effect d = EffectAutoExecute" "q = p\<lparr>pl_State := PlanApproved\<rparr>" "st' = st"
    | (ask) a trail where "de_Effect d \<noteq> EffectAutoExecute"
        "q = p\<lparr>pl_ApprovalID := rq_ID a, pl_State := PlanAwaitingApproval\<rparr>"
        "RequestApproval (en_Ctx e) (en_Spec e (as_Tick st)) (en_NewID e (as_Tick st)) (en_Clock e (as_Tick st))
          (approval_request tenant p d pd actor now) (as_Approvals st) = (Inr a, as_Approvals st', trail)"
        "as_Exec st' = as_Exec st" "as_Calls st' = as_Calls st" "as_Recs st' = as_Recs st"
proof (cases "de_Effect d = EffectAutoExecute")
  case True
  then show ?thesis using assms auto by (simp add: authorize_plan_def)
next
  case False
  then show ?thesis using assms ask
    by (auto simp: authorize_plan_def requestApprovalFor_def Let_def tick_def split: prod.splits sum.splits)
qed

lemma record_cases:
  assumes "record_plan e tenant rec actor now p st = (Inr q, st')"
  shows "q = p" "get2 (ex_Plans (as_Exec st)) (pl_TenantID p) (pl_ID p) = None" "GuardTenant (en_Ctx e) (pl_TenantID p) = None"
    "as_Exec st' = (as_Exec st)\<lparr>ex_Plans := put2 (pl_TenantID p) (pl_ID p) p (ex_Plans (as_Exec st))\<rparr>"
    "as_Calls st' = as_Calls st" "as_Approvals st' = as_Approvals st"
    "\<exists>wall. as_Recs st' = snd (rec_Update (en_Ctx e) wall (rec\<lparr>rc_Status := (if pl_State p = PlanAwaitingApproval
       then StatusUnderReview else StatusScheduled), rc_UpdatedAt := now\<rparr>) (as_Recs st))"
  using assms
  by (auto simp: record_plan_def CreatePlan_def Let_def store_rec_def split: option.splits prod.splits if_splits)

text \<open>A plan that is built: everything that was decided on the way.\<close>

lemma PlanExecution_cases:
  assumes "PlanExecution e tenant recID opts st = (Inr p, st')"
  obtains rec d recs p0 sp st1 st2 where
    "rec_Get (en_Ctx e) (as_Recs st) tenant recID = Inr rec" "\<not> Status_Terminal (rc_Status rec)" "rc_Action rec \<noteq> ActionAdvisoryOnly"
    "en_Evaluate e (as_Tick st + 1) tenant recID (as_Recs st) = (Inr d, recs)" "de_Effect d \<noteq> EffectProhibit"
    "plan_acceptable p0" "core_state st1 = core_state st" "as_Recs st1 = recs"
    "authorize_plan e tenant d (en_DecisionID e (as_Tick st + 1)) (po_RequestedBy opts) (en_Clock e (as_Tick st))
       (declare_plan rec sp (en_DecisionID e (as_Tick st + 1)) opts (en_Clock e (as_Tick st)) p0) st1 = (Inr p, st2)"
    "record_plan e tenant rec (po_RequestedBy opts) (en_Clock e (as_Tick st)) p st2 = (Inr p, st')"
proof -
  let ?now = "en_Clock e (as_Tick st)" and ?pd = "en_DecisionID e (as_Tick st + 1)"
  let ?ev = "en_Evaluate e (as_Tick st + 1) tenant recID (as_Recs st)"
  obtain verdict recs where ev: "?ev = (verdict, recs)" by fastforce
  define st0 where "st0 = tick ((tick st)\<lparr>as_Recs := recs\<rparr>)"
  have c: "core_state st0 = core_state st" "as_Recs st0 = recs" by (simp_all add: st0_def core_state_def tick_def)
  from assms obtain rec res account d where 1:
    "rec_Get (en_Ctx e) (as_Recs st) tenant recID = Inr rec" "\<not> Status_Terminal (rc_Status rec)" "rc_Action rec \<noteq> ActionAdvisoryOnly"
    "verdict = Inr d" "de_Effect d \<noteq> EffectProhibit"
    "build_plan e tenant rec res account d ?pd opts ?now st0 = (Inr p, st')"
    by (auto simp: PlanExecution_def Let_def ev [simplified] st0_def split: sum.splits if_splits)
  from 1(6) obtain p0 sp q st2 where 2: "plan_acceptable p0"
    "authorize_plan e tenant d ?pd (po_RequestedBy opts) ?now (declare_plan rec sp ?pd opts ?now p0) (tick (tick st0)) = (Inr q, st2)"
    "record_plan e tenant rec (po_RequestedBy opts) ?now q st2 = (Inr p, st')"
    by (auto simp: build_plan_def Let_def split: option.splits sum.splits if_splits prod.splits)
  have "q = p" using record_cases(1) [OF 2(3)] by simp
  then show thesis using 1(1-5) 2 c ev by (intro that [of rec d recs p0 "tick (tick st0)" sp st2]) simp_all
qed

lemma rec_Get_Inr: "rec_Get ctx m tenant i = Inr rec \<longleftrightarrow> GuardTenant ctx tenant = None \<and> get2 m tenant i = Some rec"
  by (auto simp: rec_Get_def split: option.splits)


text \<open>C19: planning undoes the record of the decision it asked for: the evaluation stores its decision, the approval flag and
  the clearance with the recommendation, and the plan then writes back the copy it loaded before, so that these three
  are what they were, while the plan itself names the new decision.\<close>

theorem PlanExecution_loses_decision:
  assumes "PlanExecution e tenant recID opts st = (Inr p, st')"
    and "get2 (as_Recs st) tenant recID = Some rec" "rc_TenantID rec = tenant" "rc_ID rec = recID"
    and "get2 (snd (en_Evaluate e (as_Tick st + 1) tenant recID (as_Recs st))) tenant recID \<noteq> None"
  shows "pl_PolicyDecisionID p = en_DecisionID e (as_Tick st + 1) \<and> (\<exists>stored. get2 (as_Recs st') tenant recID = Some stored \<and>
    rc_PolicyDecisionID stored = rc_PolicyDecisionID rec \<and> rc_RequiresApproval stored = rc_RequiresApproval rec \<and>
    rc_AutoExecutable stored = rc_AutoExecutable rec)"
  using assms(1)
proof (cases rule: PlanExecution_cases)
  case (1 rec' d recs p0 sp st1 st2)
  note rc = record_cases [OF 1(10)]
  have same: "rec' = rec" "GuardTenant (en_Ctx e) tenant = None" using 1(1) assms(2) by (simp_all add: rec_Get_Inr)
  have there: "get2 recs tenant recID \<noteq> None" using assms(5) 1(4) by simp
  have r2: "as_Recs st2 = recs" and pd: "pl_PolicyDecisionID p = en_DecisionID e (as_Tick st + 1)"
    using 1(9) by (cases rule: authorize_cases; simp add: 1(8) declare_plan_def)+
  from rc(7) r2 same obtain wall where "as_Recs st' = snd (rec_Update (en_Ctx e) wall (rec\<lparr>rc_Status := (if pl_State p =
      PlanAwaitingApproval then StatusUnderReview else StatusScheduled), rc_UpdatedAt := en_Clock e (as_Tick st)\<rparr>) recs)"
    by auto
  then show ?thesis using pd same(2) there assms(3,4) by (auto simp: rec_Update_def get2_put2)
qed

lemma Execute_not_waiting:
  assumes "get2 (ex_Plans (as_Exec st)) tenant plan = Some p"
    and "pl_State p \<notin> {PlanApproved, PlanScheduled, PlanAwaitingApproval}"
  shows "as_Calls (snd (snd (Execute e tenant plan who st))) = as_Calls st"
proof -
  obtain er st1 where r: "reconfirmAuthorization e tenant p (tick st) = (er, st1)" by fastforce
  have c: "as_Calls st1 = as_Calls st" using reconfirm_core [OF r] by (simp add: core_state_def tick_def)
  show ?thesis using assms r c
    by (cases "GuardTenant (en_Ctx e) tenant") (auto simp: Execute_def GetPlan_def Let_def Executable_def split: option.split)
qed

text \<open>C21: executing a plan before its approval is decided ends it: nothing is sent, the plan is failed in the repository, and
  as long as that plan is stored no later execution sends anything either, even when the approval is granted meanwhile.\<close>

theorem premature_execution:
  assumes "PlanExecution e tenant recID opts st = (Inr p, st')" and "pl_TenantID p = tenant"
    and "\<And>d. fst (en_Evaluate e (as_Tick st' + 1) tenant (pl_RecommendationID p) (as_Recs st')) = Inr d \<Longrightarrow>
      de_Effect d \<noteq> EffectAutoExecute" and "pl_State p = PlanAwaitingApproval"
  shows "\<exists>q er st2. Execute e tenant (pl_ID p) actor st' = (q, Some er, st2) \<and> as_Calls st2 = as_Calls st' \<and>
    get2 (ex_Plans (as_Exec st2)) tenant (pl_ID p) = Some q \<and> pl_State q = PlanFailed \<and>
    (\<forall>e' who st3. get2 (ex_Plans (as_Exec st3)) tenant (pl_ID p) = Some q \<longrightarrow>
       as_Calls (snd (snd (Execute e' tenant (pl_ID p) who st3))) = as_Calls st3)"
  using assms(1)
proof (cases rule: PlanExecution_cases)
  case (1 rec d recs p0 sp st1 st2)
  note rc = record_cases [OF 1(10)]
  have g: "GuardTenant (en_Ctx e) tenant = None" using 1(1) by (simp add: rec_Get_Inr)
  obtain a where a: "get2 (as_Approvals st') tenant (pl_ApprovalID p) = Some a" "rq_State a = ApprovalPending"
    using 1(9)
  proof (cases rule: authorize_cases)
    case auto
    then show ?thesis using assms(4) by simp
  next
    case (ask a trail)
    from ask(3) have "as_Approvals st2 = put2 tenant (rq_ID a) a (as_Approvals st1)" "rq_State a = ApprovalPending"
      by (cases rule: RequestApproval_cases; auto simp: approval_request_def)+
    with ask(2) rc(6) that show ?thesis by (simp add: get2_put2)
  qed
  have stored: "get2 (ex_Plans (as_Exec st')) tenant (pl_ID p) = Some p" using rc(4) assms(2) by (simp add: get2_put2)
  obtain er st4 where r: "reconfirmAuthorization e tenant p (tick st') = (er, st4)" by fastforce
  have c4: "as_Exec st4 = as_Exec st'" "as_Calls st4 = as_Calls st'"
    using reconfirm_core [OF r] by (simp_all add: core_state_def tick_def)
  obtain x where x: "er = Some x"
  proof (cases er)
    case None
    from reconfirm_ok [OF r [unfolded None]] a assms(3) show ?thesis by (auto simp: tick_def Approved_def)
  qed (use that in blast)
  let ?q = "p\<lparr>pl_State := PlanFailed\<rparr>"
  have "\<exists>st2. Execute e tenant (pl_ID p) actor st' = (?q, Some x, st2) \<and> as_Calls st2 = as_Calls st' \<and>
      get2 (ex_Plans (as_Exec st2)) tenant (pl_ID p) = Some ?q"
    using stored g r x c4 assms(2) by (simp add: Execute_def GetPlan_def Let_def UpdatePlan_def get2_put2)
  moreover have "pl_State ?q = PlanFailed" by simp
  ultimately show ?thesis using Execute_not_waiting [of _ tenant "pl_ID p" ?q] by (metis empty_iff insert_iff PlanState.distinct)
qed


section \<open>Concrete runs\<close>

text \<open>A governance that records its verdict with the recommendation, as the code does.\<close>

definition plan_env :: "Effect \<Rightarrow> auto_env" where
  "plan_env eff = (demo_env eff)\<lparr>en_Evaluate := (\<lambda>n tenant i m. (Inr (demo_decision eff), case get2 m tenant i of None \<Rightarrow> m
     | Some r \<Rightarrow> put2 tenant i (record_decision ''dec'' 10 (demo_decision eff) r) m))\<rparr>"

definition open_state :: auto_state where
  "open_state = \<lparr>as_Exec = \<lparr>ex_Plans = [], ex_Leases = [], ex_Snapshots = [], ex_Validations = []\<rparr>, as_Approvals = [],
     as_Recs = put2 ''t'' ''r'' sample_recommendation [], as_Savings = [], as_Outcomes = [], as_Audit = [], as_Calls = [],
     as_Tick = 0\<rparr>"

definition by_ann :: PlanOptions where
  "by_ann = \<lparr>po_DryRun = False, po_ScheduledFor = None, po_RequestedBy = ''ann''\<rparr>"

lemma plan_run: "case PlanExecution (plan_env EffectRequireApproval) ''t'' ''r'' by_ann open_state of
    (r, st) \<Rightarrow> (case r of Inl _ \<Rightarrow> False | Inr p \<Rightarrow> pl_TenantID p = ''t'' \<and> pl_ID p = ''p'' \<and> pl_State p = PlanAwaitingApproval \<and>
      pl_PolicyDecisionID p = ''dec'' \<and> as_Calls st = [])"
  by code_simp

lemma plan_run_obtains:
  obtains p st' where "PlanExecution (plan_env EffectRequireApproval) ''t'' ''r'' by_ann open_state = (Inr p, st')"
    "pl_TenantID p = ''t''" "pl_ID p = ''p''" "pl_State p = PlanAwaitingApproval" "pl_PolicyDecisionID p = ''dec''" "as_Calls st' = []"
  using plan_run by (auto split: prod.splits sum.splits)


lemma open_rec: "get2 (as_Recs open_state) ''t'' ''r'' = Some sample_recommendation" "rc_TenantID sample_recommendation = ''t''"
    "rc_ID sample_recommendation = ''r''" "rc_PolicyDecisionID sample_recommendation = []"
  by (simp_all add: open_state_def get2_put2 sample_recommendation_def)

theorem PlanExecution_loses_decision_witness:
  "\<exists>p st' stored. PlanExecution (plan_env EffectRequireApproval) ''t'' ''r'' by_ann open_state = (Inr p, st') \<and>
     pl_PolicyDecisionID p = ''dec'' \<and> get2 (as_Recs st') ''t'' ''r'' = Some stored \<and> rc_PolicyDecisionID stored = [] \<and>
     (\<exists>evaluated. get2 (snd (en_Evaluate (plan_env EffectRequireApproval) 1 ''t'' ''r'' (as_Recs open_state))) ''t'' ''r'' = Some evaluated \<and>
        rc_PolicyDecisionID evaluated = ''dec'')"
proof -
  obtain p st' where r: "PlanExecution (plan_env EffectRequireApproval) ''t'' ''r'' by_ann open_state = (Inr p, st')"
    "pl_PolicyDecisionID p = ''dec''" by (rule plan_run_obtains)
  have ev: "get2 (snd (en_Evaluate (plan_env EffectRequireApproval) (as_Tick open_state + 1) ''t'' ''r'' (as_Recs open_state))) ''t'' ''r''
    = Some (record_decision ''dec'' 10 (demo_decision EffectRequireApproval) sample_recommendation)"
    by (simp add: plan_env_def open_rec get2_put2)
  from PlanExecution_loses_decision [OF r(1) open_rec(1-3)] ev obtain stored where
    "get2 (as_Recs st') ''t'' ''r'' = Some stored" "rc_PolicyDecisionID stored = []" by (auto simp: open_rec)
  then show ?thesis using r ev
    by (intro exI conjI) (auto simp: record_decision_def open_state_def intro!: exI)
qed

theorem premature_execution_witness:
  "\<exists>p st' q er st2. PlanExecution (plan_env EffectRequireApproval) ''t'' ''r'' by_ann open_state = (Inr p, st') \<and>
     Execute (plan_env EffectRequireApproval) ''t'' ''p'' ''ann'' st' = (q, Some er, st2) \<and> as_Calls st2 = [] \<and> pl_State q = PlanFailed"
proof -
  obtain p st' where r: "PlanExecution (plan_env EffectRequireApproval) ''t'' ''r'' by_ann open_state = (Inr p, st')"
    "pl_TenantID p = ''t''" "pl_ID p = ''p''" "pl_State p = PlanAwaitingApproval" "as_Calls st' = []" by (rule plan_run_obtains)
  have "de_Effect d \<noteq> EffectAutoExecute" if "fst (en_Evaluate (plan_env EffectRequireApproval) (as_Tick st' + 1) ''t''
      (pl_RecommendationID p) (as_Recs st')) = Inr d" for d
    using that by (auto simp: plan_env_def demo_decision_def)
  from premature_execution [OF r(1,2) this r(4)] show ?thesis using r by (metis (no_types, lifting))
qed


end
