(* ===== verification/AutoValidate.thy ===== *)
theory AutoValidate imports AutoPlan begin

text \<open>
  \<open>internal/application/automation/validate.go\<close>: judging an executed plan against the checks declared before it ran, from
  billed cost and utilisation, with the automatic rollback, the ladder of savings and the outcome recorded for learning.
  The cost and metric repositories are optional functions of the environment. Explanations and events are not modelled.
\<close>

definition pctChange :: "rat \<Rightarrow> rat \<Rightarrow> rat" where
  "pctChange baseline observed = (if baseline = 0 then (if observed = 0 then 0 else 100)
     else f64 (f64 (f64 (observed - baseline) / baseline) * 100))"

definition evaluateComparison :: "string \<Rightarrow> rat \<Rightarrow> rat \<Rightarrow> rat \<Rightarrow> bool \<times> rat" where
  "evaluateComparison comparison baseline observed threshold =
    (if comparison = ''no_worse_than_pct'' then (let c = pctChange baseline observed in (c \<le> threshold, c))
     else if comparison = ''improved_by_pct'' then (let c = pctChange observed baseline in (threshold \<le> c, c))
     else if comparison = ''below_absolute'' then (observed \<le> threshold, f64 (observed - threshold))
     else if comparison = ''above_absolute'' then (threshold \<le> observed, f64 (threshold - observed))
     else (False, 0))"

definition statisticValue :: "Percentiles \<Rightarrow> string \<Rightarrow> rat" where
  "statisticValue p statistic =
    (if statistic = ''p50'' then pc_P50 p else if statistic = ''p90'' then pc_P90 p
     else if statistic = ''p95'' then pc_P95 p else if statistic = ''p99'' then pc_P99 p
     else if statistic = ''max'' then pc_Max p
     else if statistic = ''avg'' \<or> statistic = ''mean'' then pc_Mean p else pc_P95 p)"

definition percentilesFor :: "ResourceMetrics \<Rightarrow> string \<Rightarrow> Percentiles option" where
  "percentilesFor m metric = (if metric = ''cpu_utilization'' then rm_CPU m
     else if metric = ''error_rate'' then rm_ErrorRate m
     else if metric = ''latency_p99_ms'' then rm_LatencyP99 m else None)"

definition blank_outcome :: "ValidationCheck \<Rightarrow> CheckOutcome" where
  "blank_outcome c = \<lparr>co_Name = vc_Name c, co_Metric = vc_Metric c, co_Baseline = 0, co_Observed = 0,
     co_Threshold = vc_Threshold c, co_ChangePct = 0, co_Passed = False, co_Critical = vc_Critical c, co_Samples = 0\<rparr>"

text \<open>The measured values of a check: baseline, observation and number of samples.\<close>

definition measure_cost :: "auto_env \<Rightarrow> Recommendation \<Rightarrow> Resource \<Rightarrow> Period \<Rightarrow> CheckOutcome \<Rightarrow> auto_state \<Rightarrow>
    CheckOutcome \<times> auto_state" where
  "measure_cost e rec res observed out st = (let
     out = out\<lparr>co_Baseline := Units (fi_CurrentMonthlyCost (rc_Finding rec)),
       co_Observed := Units (ss_MonthlyCost (rc_ProposedState rec))\<rparr>
   in case en_Cost e of None \<Rightarrow> (out, st)
    | Some cost \<Rightarrow> (case cost (as_Tick st) (res_ID res) observed of Inl _ \<Rightarrow> (out, tick st)
      | Inr t \<Rightarrow> (let hours = Hours observed in
          if 0 < hours then (out\<lparr>co_Observed := Units (Monthly (Div t (f64 (hours / 24)))), co_Samples := 1\<rparr>, tick st)
          else (out, tick st))))"

definition measure_metric :: "auto_env \<Rightarrow> Resource \<Rightarrow> ValidationCheck \<Rightarrow> CheckOutcome \<Rightarrow> auto_state \<Rightarrow> CheckOutcome \<times> auto_state" where
  "measure_metric e res check out st = (case en_Metrics e of None \<Rightarrow> (out, st)
    | Some metrics \<Rightarrow> (case metrics (as_Tick st) (res_ID res) of Inl _ \<Rightarrow> (out, tick st)
      | Inr summary \<Rightarrow> (case percentilesFor summary (vc_Metric check) of None \<Rightarrow> (out, tick st)
          | Some p \<Rightarrow> (out\<lparr>co_Observed := statisticValue p (vc_Statistic check), co_Samples := pc_Samples p\<rparr>, tick st))))"

definition evaluateCheck :: "auto_env \<Rightarrow> Recommendation \<Rightarrow> Resource \<Rightarrow> Period \<Rightarrow> ValidationCheck \<Rightarrow> auto_state \<Rightarrow>
    CheckOutcome \<times> auto_state" where
  "evaluateCheck e rec res observed check st = (let
     (out, st) = (if vc_Metric check = ''monthly_cost'' then measure_cost e rec res observed (blank_outcome check) st
       else if vc_Metric check \<in> {''cpu_utilization'', ''error_rate'', ''latency_p99_ms''}
       then measure_metric e res check (blank_outcome check) st
       else (blank_outcome check, st));
     (passed, change) = evaluateComparison (vc_Comparison check) (co_Baseline out) (co_Observed out) (vc_Threshold check)
   in (out\<lparr>co_Passed := passed, co_ChangePct := change\<rparr>, st))"

fun evaluate_checks :: "auto_env \<Rightarrow> Recommendation \<Rightarrow> Resource \<Rightarrow> Period \<Rightarrow> ValidationCheck list \<Rightarrow> auto_state \<Rightarrow>
    CheckOutcome list \<times> auto_state" where
  "evaluate_checks e rec res observed [] st = ([], st)"
| "evaluate_checks e rec res observed (c # cs) st = (let
     (out, st) = evaluateCheck e rec res observed c st;
     (outs, st) = evaluate_checks e rec res observed cs st
   in (out # outs, st))"

definition findCheck :: "CheckOutcome list \<Rightarrow> string \<Rightarrow> CheckOutcome option" where
  "findCheck checks metric = find (\<lambda>c. co_Metric c = metric) checks"

definition autoRollbackTriggered :: "string list \<Rightarrow> CheckOutcome list \<Rightarrow> bool" where
  "autoRollbackTriggered names checks \<longleftrightarrow> names \<noteq> [] \<and> list_ex (\<lambda>c. co_Name c \<in> set names \<and> \<not> co_Passed c) checks"

definition outcomeFor :: "Verdict \<Rightarrow> AuditOutcome" where
  "outcomeFor v = (if v = VerdictSuccess \<or> v = VerdictPartialSuccess then OutcomeSuccess
     else if v = VerdictFailure then OutcomeFailure else OutcomePartial)"

text \<open>\<open>SaveOutcome\<close> of the savings repository; the id it invents is not modelled.\<close>

definition SaveOutcome :: "Principal option \<Rightarrow> Outcome \<Rightarrow> Outcome list \<Rightarrow> err option \<times> Outcome list" where
  "SaveOutcome ctx o' os = (case GuardTenant ctx (oc_TenantID o') of Some er \<Rightarrow> (Some er, os) | None \<Rightarrow> (None, os @ [o']))"

definition recordOutcome :: "auto_env \<Rightarrow> TenantID \<Rightarrow> Recommendation \<Rightarrow> execute_ValidationResult \<Rightarrow> auto_state \<Rightarrow> auto_state" where
  "recordOutcome e tenant rec r st = (let
     o' = \<lparr>oc_TenantID = tenant, oc_RuleID = fi_RuleID (rc_Finding rec), oc_Action = rc_Action rec,
       oc_PredictedMonthlySaving = rc_EstimatedMonthlySaving rec, oc_ActualMonthlySaving = vr_ObservedMonthlySaving r,
       oc_Verdict = vr_Verdict r, oc_RolledBack = vr_RollbackTriggered r, oc_SavingRatio = 0, oc_ObservedAt = vr_EvaluatedAt r\<rparr>;
     o' = (if \<not> IsZero (oc_PredictedMonthlySaving o')
       then o'\<lparr>oc_SavingRatio := Ratio (oc_ActualMonthlySaving o') (oc_PredictedMonthlySaving o')\<rparr> else o')
   in st\<lparr>as_Outcomes := snd (SaveOutcome (en_Ctx e) o' (as_Outcomes st))\<rparr>)"

definition save_validation :: "auto_env \<Rightarrow> execute_ValidationResult \<Rightarrow> auto_state \<Rightarrow> auto_state" where
  "save_validation e r st = st\<lparr>as_Exec := snd (SaveValidation (en_Ctx e) r (as_Exec st))\<rparr>"

definition zero_result :: execute_ValidationResult where
  "zero_result = \<lparr>vr_ID = '''', vr_TenantID = '''', vr_PlanID = '''', vr_Verdict = VerdictOther '''',
     vr_BaselineWindow = \<lparr>Start = 0, End = 0\<rparr>, vr_ObservedWindow = \<lparr>Start = 0, End = 0\<rparr>, vr_Checks = [],
     vr_PredictedMonthlySaving = zero_money, vr_ObservedMonthlySaving = zero_money, vr_SavingAccuracy = 0,
     vr_UnattributedDelta = zero_money, vr_RollbackTriggered = False, vr_EvaluatedAt = 0\<rparr>"

text \<open>The verdict over the evaluated checks.\<close>

definition judge :: "ID \<Rightarrow> TenantID \<Rightarrow> Plan \<Rightarrow> Recommendation \<Rightarrow> Period \<Rightarrow> Period \<Rightarrow> CheckOutcome list \<Rightarrow> gotime \<Rightarrow>
    execute_ValidationResult" where
  "judge newid tenant p rec baseline observed checks now = (let
     r = \<lparr>vr_ID = newid, vr_TenantID = tenant, vr_PlanID = pl_ID p, vr_Verdict = VerdictOther '''', vr_BaselineWindow = baseline,
       vr_ObservedWindow = observed, vr_Checks = checks, vr_PredictedMonthlySaving = rc_EstimatedMonthlySaving rec,
       vr_ObservedMonthlySaving = rc_EstimatedMonthlySaving rec, vr_SavingAccuracy = 0, vr_UnattributedDelta = zero_money,
       vr_RollbackTriggered = False, vr_EvaluatedAt = now\<rparr>;
     r = (case findCheck checks ''monthly_cost'' of None \<Rightarrow> r
       | Some c \<Rightarrow> if 0 < co_Samples c then r\<lparr>vr_ObservedMonthlySaving := USDollars (f64 (co_Baseline c - co_Observed c))\<rparr> else r)
   in ValidationResult_Decide r (vp_MinSamples (pl_Validation p)))"

definition settle_success :: "auto_env \<Rightarrow> TenantID \<Rightarrow> Plan \<Rightarrow> Recommendation \<Rightarrow> Verdict \<Rightarrow> Money \<Rightarrow> gotime \<Rightarrow> auto_state \<Rightarrow> auto_state" where
  "settle_success e tenant p rec v attributed now st = (let
     st = store_plan e (p\<lparr>pl_State := PlanValidated\<rparr>) st;
     st = touchSavings e tenant rec (pl_ID p) StageValidated attributed '''' ''observation window closed'' now st;
     st = (if v = VerdictSuccess then touchSavings e tenant rec (pl_ID p) StageRealized attributed ''''
       ''all validation checks passed against measured data'' now st else st)
   in store_rec e (rec\<lparr>rc_Status := StatusValidated, rc_UpdatedAt := now\<rparr>) st)"

definition settle_failure :: "auto_env \<Rightarrow> TenantID \<Rightarrow> Plan \<Rightarrow> Recommendation \<Rightarrow> gotime \<Rightarrow> auto_state \<Rightarrow> auto_state" where
  "settle_failure e tenant p rec now st = (let
     st = store_plan e (p\<lparr>pl_State := PlanFailed\<rparr>) st;
     st = loseSavings e tenant ''validation failed'' now (pl_RecommendationID p) st
   in store_rec e (rec\<lparr>rc_Status := StatusFailed, rc_UpdatedAt := now\<rparr>) st)"

text \<open>What the verdict does: the result as recorded, the error of an automatic rollback, the state.\<close>

definition settle :: "auto_env \<Rightarrow> TenantID \<Rightarrow> Plan \<Rightarrow> Recommendation \<Rightarrow> Money \<Rightarrow> execute_ValidationResult \<Rightarrow> gotime \<Rightarrow> auto_state \<Rightarrow>
    execute_ValidationResult \<times> err option \<times> auto_state" where
  "settle e tenant p rec attributed r now st = (let
     (r, er, st) =
       (if vr_Verdict r = VerdictSuccess \<or> vr_Verdict r = VerdictPartialSuccess
        then (r, None, settle_success e tenant p rec (vr_Verdict r) attributed now st)
        else if vr_Verdict r = VerdictFailure then
          (if autoRollbackTriggered (vp_AutoRollbackOn (pl_Validation p)) (vr_Checks r) then (let
               r = r\<lparr>vr_RollbackTriggered := True\<rparr>;
               (_, er, st) = Rollback e tenant (pl_ID p) ''auto-rollback'' ''cloudoptix/automation'' (save_validation e r st)
             in (r, er, st))
           else (r, None, settle_failure e tenant p rec now st))
        else (r, None, st))
   in (r, er, if vr_Verdict r \<noteq> VerdictInconclusive then recordOutcome e tenant rec r st else st))"

text \<open>From the loaded recommendation and resource on; \<open>None\<close> is the panic of the attribution on mixed currencies.\<close>

definition validate_loaded :: "auto_env \<Rightarrow> TenantID \<Rightarrow> Plan \<Rightarrow> gotime \<Rightarrow> gotime \<Rightarrow> Recommendation \<Rightarrow> Resource \<Rightarrow> gotime \<Rightarrow> auto_state \<Rightarrow>
    (execute_ValidationResult \<times> err option \<times> auto_state) option" where
  "validate_loaded e tenant p began finished rec res now st = (let
     vp = pl_Validation p;
     baseline = \<lparr>Start = began - vp_BaselineWindow vp, End = began\<rparr>;
     close = finished + vp_ObservationWindow vp;
     observed = \<lparr>Start = finished, End = (if close < now then close else now)\<rparr>;
     (checks, st) = evaluate_checks e rec res observed (vp_Checks vp) st;
     r = judge (en_NewID e (as_Tick st)) tenant p rec baseline observed checks now;
     st = tick st
   in case AttributableSaving (vr_PredictedMonthlySaving r) (vr_ObservedMonthlySaving r) of None \<Rightarrow> None
    | Some (attributed, unattributed) \<Rightarrow> (let
        r = (if \<not> IsZero unattributed then r\<lparr>vr_UnattributedDelta := unattributed\<rparr> else r);
        st = auto_audit ActionValidationResult (outcomeFor (vr_Verdict r)) '''' (pl_ID p) (save_validation e r st)
      in Some (settle e tenant p rec attributed r now st)))"

definition Validate :: "auto_env \<Rightarrow> TenantID \<Rightarrow> ID \<Rightarrow> auto_state \<Rightarrow> (execute_ValidationResult \<times> err option \<times> auto_state) option" where
  "Validate e tenant plan st = (let now = en_Clock e (as_Tick st); st = tick st; refuse = (\<lambda>er. Some (zero_result, Some er, st)) in
     case GetPlan (en_Ctx e) (as_Exec st) tenant plan of Inl er \<Rightarrow> refuse er
   | Inr p \<Rightarrow> if pl_State p \<noteq> PlanExecuted \<and> pl_State p \<noteq> PlanValidating
       then refuse (NewError ErrPreconditionOff ''not_validatable'')
     else (case pl_FinishedAt p of None \<Rightarrow> refuse Invalid
     | Some finished \<Rightarrow> (case rec_Get (en_Ctx e) (as_Recs st) tenant (pl_RecommendationID p) of Inl er \<Rightarrow> refuse er
       | Inr rec \<Rightarrow> (case en_Resource e (as_Tick st) (fi_ResourceID (rc_Finding rec)) of Inl er \<Rightarrow> refuse er
         | Inr res \<Rightarrow> (let
             (p, st) = (if pl_State p = PlanExecuted then (let p = p\<lparr>pl_State := PlanValidating\<rparr> in
                 (p, auto_audit ActionValidationStarted OutcomeSuccess '''' (pl_ID p) (store_plan e p st))) else (p, st))
           in case pl_StartedAt p of None \<Rightarrow> None
            | Some began \<Rightarrow> validate_loaded e tenant p began finished rec res now st)))))"

section \<open>What evaluating and settling touch\<close>

lemma evaluateCheck_core: "evaluateCheck e rec res observed c st = (out, st') \<Longrightarrow>
    core_state st' = core_state st \<and> as_Recs st' = as_Recs st \<and> as_Savings st' = as_Savings st \<and> as_Outcomes st' = as_Outcomes st \<and>
    co_Name out = vc_Name c \<and> co_Metric out = vc_Metric c \<and> co_Critical out = vc_Critical c"
  by (auto simp: evaluateCheck_def measure_cost_def measure_metric_def blank_outcome_def tick_def core_state_def Let_def
      split: prod.splits if_splits option.splits sum.splits)

lemma evaluate_checks_core: "evaluate_checks e rec res observed cs st = (outs, st') \<Longrightarrow>
    core_state st' = core_state st \<and> as_Recs st' = as_Recs st \<and> as_Savings st' = as_Savings st \<and> as_Outcomes st' = as_Outcomes st \<and>
    map co_Name outs = map vc_Name cs"
  by (induction cs arbitrary: st outs) (auto simp: Let_def split: prod.splits dest!: evaluateCheck_core)

lemma save_validation_simps [simp]:
  "as_Approvals (save_validation e r st) = as_Approvals st" "as_Calls (save_validation e r st) = as_Calls st"
  "ex_Plans (as_Exec (save_validation e r st)) = ex_Plans (as_Exec st)" "as_Recs (save_validation e r st) = as_Recs st"
  "as_Savings (save_validation e r st) = as_Savings st" "as_Outcomes (save_validation e r st) = as_Outcomes st"
  by (simp_all add: save_validation_def SaveValidation_def split: option.split)

lemma recordOutcome_core [simp]: "core_state (recordOutcome e tenant rec r st) = core_state st"
  by (simp add: recordOutcome_def core_state_def Let_def)

lemmas recordOutcome_proj [simp] = recordOutcome_core [THEN core_simps(1)] recordOutcome_core [THEN core_simps(2)]
  recordOutcome_core [THEN core_simps(3)]

lemma recordOutcome_savings [simp]: "as_Savings (recordOutcome e tenant rec r st) = as_Savings st"
  by (simp add: recordOutcome_def Let_def)

lemma UpdatePlan_stored:
  assumes "GuardTenant ctx (pl_TenantID p) = None" and "get2 (ex_Plans ex) (pl_TenantID p) (pl_ID p) \<noteq> None"
  shows "get2 (ex_Plans (snd (UpdatePlan ctx p ex))) t i = (if (t, i) = plan_key p then Some p else get2 (ex_Plans ex) t i)"
  using assms by (auto simp: UpdatePlan_def get2_put2 plan_key_def)

text \<open>A validation that was not refused: the plan, now validating and stored, and the judgement that is settled.\<close>

lemma Validate_cases:
  assumes "Validate e tenant plan st = Some (r, er, st')"
  obtains (refused) x where "r = zero_result" "er = Some x" "st' = tick st"
    | (judged) p rec res finished began st1 checks st2 r0 attributed un st3 where
        "GetPlan (en_Ctx e) (as_Exec st) tenant plan = Inr p" "pl_State p = PlanExecuted \<or> pl_State p = PlanValidating"
        "pl_FinishedAt p = Some finished" "pl_StartedAt p = Some began"
        "rec_Get (en_Ctx e) (as_Recs st) tenant (pl_RecommendationID p) = Inr rec"
        "as_Exec st1 = (if pl_State p = PlanExecuted then snd (UpdatePlan (en_Ctx e) (p\<lparr>pl_State := PlanValidating\<rparr>) (as_Exec st)) else as_Exec st)"
        "as_Calls st1 = as_Calls st" "as_Approvals st1 = as_Approvals st" "as_Savings st1 = as_Savings st" "as_Outcomes st1 = as_Outcomes st"
        "evaluate_checks e rec res \<lparr>Start = finished, End = (if finished + vp_ObservationWindow (pl_Validation p) < en_Clock e (as_Tick st)
            then finished + vp_ObservationWindow (pl_Validation p) else en_Clock e (as_Tick st))\<rparr> (vp_Checks (pl_Validation p)) st1 = (checks, st2)"
        "r0 = judge (en_NewID e (as_Tick st2)) tenant (p\<lparr>pl_State := PlanValidating\<rparr>) rec
            \<lparr>Start = began - vp_BaselineWindow (pl_Validation p), End = began\<rparr> \<lparr>Start = finished, End = (if finished +
              vp_ObservationWindow (pl_Validation p) < en_Clock e (as_Tick st)
              then finished + vp_ObservationWindow (pl_Validation p) else en_Clock e (as_Tick st))\<rparr> checks (en_Clock e (as_Tick st))"
        "AttributableSaving (vr_PredictedMonthlySaving r0) (vr_ObservedMonthlySaving r0) = Some (attributed, un)"
        "st3 = auto_audit ActionValidationResult (outcomeFor (vr_Verdict r0)) '''' (pl_ID p)
            (save_validation e (if \<not> IsZero un then r0\<lparr>vr_UnattributedDelta := un\<rparr> else r0) (tick st2))"
        "settle e tenant (p\<lparr>pl_State := PlanValidating\<rparr>) rec attributed (if \<not> IsZero un then r0\<lparr>vr_UnattributedDelta := un\<rparr> else r0)
            (en_Clock e (as_Tick st)) st3 = (r, er, st')"
proof -
  have same: "p\<lparr>pl_State := PlanValidating\<rparr> = p" if "pl_State p = PlanValidating" for p
    using that by simp
  show thesis
  proof (cases "\<exists>x. r = zero_result \<and> er = Some x \<and> st' = tick st")
    case True
    then show ?thesis using refused by blast
  next
    case False
    with assms obtain p finished rec res where 1:
      "GetPlan (en_Ctx e) (as_Exec st) tenant plan = Inr p" "pl_State p = PlanExecuted \<or> pl_State p = PlanValidating"
      "pl_FinishedAt p = Some finished" "rec_Get (en_Ctx e) (as_Recs st) tenant (pl_RecommendationID p) = Inr rec"
      by (auto simp: Validate_def Let_def split: sum.splits if_splits option.splits)
    define p1 where "p1 = p\<lparr>pl_State := PlanValidating\<rparr>"
    define st1 where "st1 = (if pl_State p = PlanExecuted
      then auto_audit ActionValidationStarted OutcomeSuccess '''' (pl_ID p) (store_plan e p1 (tick st)) else tick st)"
    from assms False 1 obtain began res where 2: "pl_StartedAt p = Some began"
      "validate_loaded e tenant p1 began finished rec res (en_Clock e (as_Tick st)) st1 = Some (r, er, st')"
      by (auto simp: Validate_def Let_def p1_def st1_def same split: sum.splits if_splits option.splits)
    have s1: "as_Exec st1 = (if pl_State p = PlanExecuted then snd (UpdatePlan (en_Ctx e) p1 (as_Exec st)) else as_Exec st)"
        "as_Calls st1 = as_Calls st" "as_Approvals st1 = as_Approvals st" "as_Savings st1 = as_Savings st" "as_Outcomes st1 = as_Outcomes st"
      by (simp_all add: st1_def auto_audit_def store_plan_def tick_def)
    let ?w = "vp_ObservationWindow (pl_Validation p)" and ?now = "en_Clock e (as_Tick st)"
    let ?obs = "\<lparr>Start = finished, End = (if finished + ?w < ?now then finished + ?w else ?now)\<rparr>"
    obtain checks st2 where ev: "evaluate_checks e rec res ?obs (vp_Checks (pl_Validation p)) st1 = (checks, st2)" by fastforce
    define r0 where "r0 = judge (en_NewID e (as_Tick st2)) tenant p1 rec
      \<lparr>Start = began - vp_BaselineWindow (pl_Validation p), End = began\<rparr> ?obs checks ?now"
    have p1: "pl_Validation p1 = pl_Validation p" "pl_ID p1 = pl_ID p" by (simp_all add: p1_def)
    from 2(2) obtain attributed un where 3: "AttributableSaving (vr_PredictedMonthlySaving r0) (vr_ObservedMonthlySaving r0) = Some (attributed, un)"
      "settle e tenant p1 rec attributed (if \<not> IsZero un then r0\<lparr>vr_UnattributedDelta := un\<rparr> else r0) ?now
        (auto_audit ActionValidationResult (outcomeFor (vr_Verdict (if \<not> IsZero un then r0\<lparr>vr_UnattributedDelta := un\<rparr> else r0))) '''' (pl_ID p)
            (save_validation e (if \<not> IsZero un then r0\<lparr>vr_UnattributedDelta := un\<rparr> else r0) (tick st2))) = (r, er, st')"
      by (auto simp: validate_loaded_def Let_def p1 ev simp flip: r0_def cong: if_cong split: option.splits)
    have v: "vr_Verdict (if \<not> IsZero un then r0\<lparr>vr_UnattributedDelta := un\<rparr> else r0) = vr_Verdict r0" by simp
    show ?thesis using judged [OF 1(1-3) 2(1) 1(4) s1 [unfolded p1_def] ev r0_def [unfolded p1_def] 3(1) refl] 3(2)
      by (simp only: v p1_def)
  qed
qed

lemma judge_fields [simp]: "vr_Checks (judge i t p rec b o' checks now) = checks"
  by (simp add: judge_def ValidationResult_Decide_def Let_def split: option.split prod.split)

lemma judge_verdict:
  fixes i t p rec b o' checks now
  defines "v \<equiv> vr_Verdict (judge i t p rec b o' checks now)" and "n \<equiv> vp_MinSamples (pl_Validation p)"
  shows "(v = VerdictFailure) = (\<exists>c \<in> set checks. n \<le> co_Samples c \<and> \<not> co_Passed c \<and> co_Critical c)"
    and "(v = VerdictSuccess) = ((\<exists>c \<in> set checks. n \<le> co_Samples c) \<and> (\<forall>c \<in> set checks. n \<le> co_Samples c \<longrightarrow> co_Passed c))"
    and "(v = VerdictInconclusive) = (\<forall>c \<in> set checks. co_Samples c < n)"
    and "v \<in> {VerdictFailure, VerdictInconclusive, VerdictPartialSuccess, VerdictSuccess}"
proof -
  obtain r where r: "judge i t p rec b o' checks now = ValidationResult_Decide r n" "vr_Checks r = checks"
    unfolding judge_def n_def Let_def
    by (cases "findCheck checks ''monthly_cost''"; cases "0 < co_Samples (the (findCheck checks ''monthly_cost''))") auto
  have v: "v = vr_Verdict (ValidationResult_Decide r n)" by (simp only: v_def r(1))
  note d = Decide_verdict [of r n]
  show "(v = VerdictFailure) = (\<exists>c \<in> set checks. n \<le> co_Samples c \<and> \<not> co_Passed c \<and> co_Critical c)"
    using d unfolding v r(2) by blast
  show "(v = VerdictSuccess) = ((\<exists>c \<in> set checks. n \<le> co_Samples c) \<and> (\<forall>c \<in> set checks. n \<le> co_Samples c \<longrightarrow> co_Passed c))"
    using d unfolding v r(2) by blast
  show "(v = VerdictInconclusive) = (\<forall>c \<in> set checks. co_Samples c < n)"
    using d unfolding v r(2) by blast
  show "v \<in> {VerdictFailure, VerdictInconclusive, VerdictPartialSuccess, VerdictSuccess}"
    by (simp add: v ValidationResult_Decide_def Let_def split: prod.split)
qed

lemma settle_success_facts:
  assumes "plan_key p = (tenant, plan)" and "GuardTenant (en_Ctx e) tenant = None" and "get2 (ex_Plans (as_Exec st)) tenant plan \<noteq> None"
  shows "get2 (ex_Plans (as_Exec (settle_success e tenant p rec v amount now st))) tenant plan = Some (p\<lparr>pl_State := PlanValidated\<rparr>)"
    and "as_Calls (settle_success e tenant p rec v amount now st) = as_Calls st"
  using assms UpdatePlan_stored [of "en_Ctx e" "p\<lparr>pl_State := PlanValidated\<rparr>" "as_Exec st" tenant plan]
  by (simp_all add: settle_success_def Let_def plan_key_def)

lemma settle_failure_facts:
  assumes "plan_key p = (tenant, plan)" and "GuardTenant (en_Ctx e) tenant = None" and "get2 (ex_Plans (as_Exec st)) tenant plan \<noteq> None"
  shows "get2 (ex_Plans (as_Exec (settle_failure e tenant p rec now st))) tenant plan = Some (p\<lparr>pl_State := PlanFailed\<rparr>)"
    and "as_Calls (settle_failure e tenant p rec now st) = as_Calls st"
  using assms UpdatePlan_stored [of "en_Ctx e" "p\<lparr>pl_State := PlanFailed\<rparr>" "as_Exec st" tenant plan]
  by (simp_all add: settle_failure_def Let_def plan_key_def)

lemma Validate_facts:
  assumes "Validate e tenant plan st = Some (r, er, st')" and "get2 (ex_Plans (as_Exec st)) tenant plan = Some p"
    and "plan_key p = (tenant, plan)"
  shows "(r = zero_result \<and> er \<noteq> None \<and> core_state st' = core_state st) \<or>
    (pl_State p \<in> {PlanExecuted, PlanValidating} \<and>
     ((vr_Verdict r = VerdictSuccess \<or> vr_Verdict r = VerdictPartialSuccess) \<and> er = None \<and> as_Calls st' = as_Calls st \<and>
        get2 (ex_Plans (as_Exec st')) tenant plan = Some (p\<lparr>pl_State := PlanValidated\<rparr>) \<and>
        (\<forall>c \<in> set (vr_Checks r). vp_MinSamples (pl_Validation p) \<le> co_Samples c \<and> co_Critical c \<longrightarrow> co_Passed c)
      \<or> vr_Verdict r = VerdictInconclusive \<and> er = None \<and> as_Calls st' = as_Calls st \<and> as_Outcomes st' = as_Outcomes st \<and>
        as_Savings st' = as_Savings st \<and> get2 (ex_Plans (as_Exec st')) tenant plan = Some (p\<lparr>pl_State := PlanValidating\<rparr>) \<and>
        (\<forall>c \<in> set (vr_Checks r). co_Samples c < vp_MinSamples (pl_Validation p))
      \<or> vr_Verdict r = VerdictFailure \<and>
        (\<exists>c \<in> set (vr_Checks r). vp_MinSamples (pl_Validation p) \<le> co_Samples c \<and> \<not> co_Passed c \<and> co_Critical c) \<and>
        (if vr_RollbackTriggered r
         then (\<exists>c \<in> set (vr_Checks r). co_Name c \<in> set (vp_AutoRollbackOn (pl_Validation p)) \<and> \<not> co_Passed c) \<and>
           (\<exists>st4 q st5. get2 (ex_Plans (as_Exec st4)) tenant plan = Some (p\<lparr>pl_State := PlanValidating\<rparr>) \<and> as_Calls st4 = as_Calls st \<and>
              Rollback e tenant plan ''auto-rollback'' ''cloudoptix/automation'' st4 = (q, er, st5) \<and> core_state st' = core_state st5)
         else er = None \<and> as_Calls st' = as_Calls st \<and>
           get2 (ex_Plans (as_Exec st')) tenant plan = Some (p\<lparr>pl_State := PlanFailed\<rparr>))))"
  using assms(1)
proof (cases rule: Validate_cases)
  case (refused x)
  then show ?thesis by simp
next
  case (judged p' rec res finished began st1 checks st2 r0 attributed un st3)
  let ?p = "p\<lparr>pl_State := PlanValidating\<rparr>" and ?r = "if \<not> IsZero un then r0\<lparr>vr_UnattributedDelta := un\<rparr> else r0"
  have p: "p' = p" "GuardTenant (en_Ctx e) tenant = None"
    using judged(1) assms(2) by (auto simp: GetPlan_def split: option.splits)
  have key: "plan_key ?p = (tenant, plan)" "pl_TenantID p = tenant" "pl_ID p = plan" using assms(3) by (simp_all add: plan_key_def)
  have "get2 (ex_Plans (as_Exec st1)) tenant plan = Some ?p"
    using judged(2,6) p key assms(2) UpdatePlan_stored [of "en_Ctx e" ?p "as_Exec st" tenant plan] by auto
  moreover have c2: "core_state st2 = core_state st1" "as_Savings st2 = as_Savings st1" "as_Outcomes st2 = as_Outcomes st1"
    using evaluate_checks_core [OF judged(11)] by simp_all
  ultimately have st3: "get2 (ex_Plans (as_Exec st3)) tenant plan = Some ?p" "as_Calls st3 = as_Calls st"
      "as_Savings st3 = as_Savings st" "as_Outcomes st3 = as_Outcomes st"
    using judged(7-10) core_simps [OF c2(1)] by (simp_all add: judged(14) auto_audit_def) (simp_all add: tick_def)
  have r: "vr_Verdict ?r = vr_Verdict r0" "vr_Checks ?r = checks" "\<not> vr_RollbackTriggered ?r"
    using judged(12) by (simp_all add: judge_def ValidationResult_Decide_def Let_def split: option.split prod.split)
  obtain i b w n where j: "r0 = judge i tenant ?p rec b w checks n" using judged(12) p(1) by blast
  note v = judge_verdict [of i tenant ?p rec b w checks n, folded j, simplified]
  note fin = judged(15) [unfolded p(1) settle_def Let_def r(1,2)]
  have state: "pl_State p \<in> {PlanExecuted, PlanValidating}" using judged(2) p(1) by simp
  from v(4) consider "vr_Verdict r0 = VerdictFailure" | "vr_Verdict r0 = VerdictInconclusive"
    | "vr_Verdict r0 = VerdictSuccess \<or> vr_Verdict r0 = VerdictPartialSuccess" by blast
  then show ?thesis
  proof cases
    case 1
    note bad = v(1) [THEN iffD1, OF 1]
    show ?thesis
    proof (cases "autoRollbackTriggered (vp_AutoRollbackOn (pl_Validation p)) checks")
      case True
      let ?rt = "?r\<lparr>vr_RollbackTriggered := True\<rparr>"
      obtain q x st5 where rb: "Rollback e tenant plan ''auto-rollback'' ''cloudoptix/automation'' (save_validation e ?rt st3) = (q, x, st5)"
        by (metis prod_cases3)
      have "r = ?rt" "er = x" "core_state st' = core_state st5"
        using fin 1 True rb r(1) by (auto simp: key split: if_splits)
      moreover have "\<exists>c \<in> set checks. co_Name c \<in> set (vp_AutoRollbackOn (pl_Validation p)) \<and> \<not> co_Passed c"
        using True by (auto simp: autoRollbackTriggered_def list_ex_iff)
      ultimately show ?thesis using state bad rb st3(1,2) r 1
        by (intro disjI2 conjI) (auto intro!: exI [of _ "save_validation e ?rt st3"])
    next
      case False
      with fin 1 have "r = ?r" "er = None" "st' = recordOutcome e tenant rec ?r (settle_failure e tenant ?p rec (en_Clock e (as_Tick st)) st3)"
        by (auto split: if_splits)
      with settle_failure_facts [OF key(1) p(2), of st3 rec] st3 show ?thesis using state bad r 1
        by (intro disjI2 conjI) auto
    qed
  next
    case 2
    with fin have x: "r = ?r" "er = None" "st' = st3" using r(1) by (simp_all split: if_splits)
    have "vr_Verdict r = VerdictInconclusive" "vr_Checks r = checks" using x(1) r(1,2) 2 by simp_all
    then show ?thesis using state st3 v(3) 2 x(2,3) by simp
  next
    case 3
    with fin have x: "r = ?r" "er = None"
      "\<exists>w. st' = recordOutcome e tenant rec ?r (settle_success e tenant ?p rec w attributed (en_Clock e (as_Tick st)) st3)"
      by (auto split: if_splits)
    have "vr_Verdict r = VerdictSuccess \<or> vr_Verdict r = VerdictPartialSuccess" "vr_Checks r = checks" using x(1) r(1,2) 3 by simp_all
    moreover have "get2 (ex_Plans (as_Exec st')) tenant plan = Some (p\<lparr>pl_State := PlanValidated\<rparr>)" "as_Calls st' = as_Calls st"
      using x(3) settle_success_facts [OF key(1) p(2), of st3 rec] st3 by auto
    moreover have "\<not> (\<exists>c \<in> set checks. vp_MinSamples (pl_Validation p) \<le> co_Samples c \<and> \<not> co_Passed c \<and> co_Critical c)"
      using v(1) 3 by auto
    ultimately show ?thesis using state x(2) by blast
  qed
qed


text \<open>C18: an inconclusive validation is never repeated: it leaves the plan validating, and no claim of plans that await
  validation, at any time and for any limit, ever returns that plan again or moves it on.\<close>

theorem inconclusive_never_retried:
  assumes "Validate e tenant plan st = Some (r, None, st')" and "get2 (ex_Plans (as_Exec st)) tenant plan = Some p"
    and "plan_key p = (tenant, plan)" and "vr_Verdict r = VerdictInconclusive"
  shows "\<exists>q. get2 (ex_Plans (as_Exec st')) tenant plan = Some q \<and> pl_State q = PlanValidating \<and>
    (\<forall>ex now w n ps ex'. plans_ok ex \<and> get2 (ex_Plans ex) tenant plan = Some q \<and> ClaimPlansAwaitingValidation now w n ex = (ps, ex') \<longrightarrow>
       (tenant, plan) \<notin> plan_key ` set ps \<and> plans_ok ex' \<and> get2 (ex_Plans ex') tenant plan = Some q)"
proof -
  let ?q = "p\<lparr>pl_State := PlanValidating\<rparr>"
  have q: "get2 (ex_Plans (as_Exec st')) tenant plan = Some ?q"
    using Validate_facts [OF assms(1-3)] assms(4) by (auto simp: zero_result_def)
  have "(tenant, plan) \<notin> plan_key ` set ps \<and> plans_ok ex' \<and> get2 (ex_Plans ex') tenant plan = Some ?q"
    if ex: "plans_ok ex" "get2 (ex_Plans ex) tenant plan = Some ?q" and c: "ClaimPlansAwaitingValidation now w n ex = (ps, ex')"
    for ex now w n ps ex'
  proof -
    note claimed = awaiting.claimed [OF ex(1) c [unfolded ClaimPlansAwaitingValidation_def]]
    have "(tenant, plan) \<notin> plan_key ` set ps"
    proof
      assume "(tenant, plan) \<in> plan_key ` set ps"
      then obtain x where x: "x \<in> set ps" "(tenant, plan) = plan_key x" by blast
      from claimed(7) [OF x(1)] x(2) ex(2) show False by (auto simp: plan_key_def validation_due_def)
    qed
    then show ?thesis using claimed(2) [of tenant plan] claimed(4) ex(2) by simp
  qed
  then have "\<forall>ex now w n ps ex'. plans_ok ex \<and> get2 (ex_Plans ex) tenant plan = Some ?q \<and>
      ClaimPlansAwaitingValidation now w n ex = (ps, ex') \<longrightarrow>
      (tenant, plan) \<notin> plan_key ` set ps \<and> plans_ok ex' \<and> get2 (ex_Plans ex') tenant plan = Some ?q" by blast
  moreover have "pl_State ?q = PlanValidating" by simp
  ultimately show ?thesis using q by blast
qed

section \<open>A bill that has not arrived\<close>

lemma i2f_pos: "0 < n \<Longrightarrow> 0 < i2f n"
  using i2f_nonneg [of n] i2f_eq_0 [of n] by (simp add: less_le)

lemma Hours_pos: "Start p < End p \<Longrightarrow> 0 < Hours p"
proof -
  assume "Start p < End p"
  then have d: "0 < Duration p" by (simp add: Duration_def time_Sub_def)
  let ?h = "Duration p div nanos_per_hour" and ?r = "Duration p mod nanos_per_hour"
  have n: "(0::int) < nanos_per_hour" by simp
  have hr: "0 \<le> ?h" "0 \<le> ?r" using d n by (simp_all add: pos_imp_zdiv_nonneg_iff)
  have "0 < i2f ?h + f64 (i2f ?r / i2f nanos_per_hour)"
  proof (cases "?h = 0")
    case True
    then have "0 < ?r" using d hr(2) by (metis div_mult_mod_eq add_0 mult_zero_left less_le)
    then have "0 < f64 (i2f ?r / i2f nanos_per_hour)" using n by (intro f64_pos divide_pos_pos i2f_pos)
    then show ?thesis using i2f_nonneg [OF hr(1)] by simp
  next
    case False
    then have "0 < i2f ?h" using hr(1) by (intro i2f_pos) simp
    moreover have "0 \<le> f64 (i2f ?r / i2f nanos_per_hour)" using hr(2) n by (intro f64_nonneg divide_nonneg_nonneg i2f_nonneg) simp_all
    ultimately show ?thesis by simp
  qed
  then have "0 < f64 (i2f ?h + f64 (i2f (Duration p - ?h * nanos_per_hour) / i2f nanos_per_hour))"
    by (intro f64_pos) (simp add: minus_div_mult_eq_mod)
  then show ?thesis using d by (simp add: Hours_def Let_def)
qed

lemma no_bill_no_cost: "Units (Monthly (Div ZeroUSD x)) = 0"
  by (simp add: Units_def Monthly_def Scale_def Div_def ZeroUSD_def round_to_int64_def)

text \<open>A check against measured cost that finds no billed amount passes with one sample and an observation of nothing.\<close>

lemma cost_check_no_bill:
  assumes "evaluateCheck e rec res obs cost_check st = (out, st')" and "en_Cost e = Some (\<lambda>_ _ _. Inr ZeroUSD)"
    and "Start obs < End obs" and "0 \<le> micros (fi_CurrentMonthlyCost (rc_Finding rec))"
  shows "co_Samples out = 1 \<and> co_Passed out \<and> co_Observed out = 0 \<and> co_Metric out = ''monthly_cost'' \<and>
    co_Baseline out = Units (fi_CurrentMonthlyCost (rc_Finding rec))"
proof -
  let ?b = "Units (fi_CurrentMonthlyCost (rc_Finding rec))"
  have b: "0 \<le> ?b" "f64 (- ?b) = - ?b"
    using assms(4) by (auto simp: Units_def f64_minus MicrosPerUnit_def intro!: f64_nonneg divide_nonneg_nonneg i2f_nonneg)
  have "f64 (- (1::rat)) = - 1" "f64 (- (100::rat)) = - 100" by (simp_all add: f64_minus)
  then have "pctChange ?b 0 \<le> 5" using b by (auto simp: pctChange_def)
  then show ?thesis using assms(1-3) Hours_pos [of obs]
    by (auto simp: evaluateCheck_def measure_cost_def cost_check_def blank_outcome_def evaluateComparison_def no_bill_no_cost Let_def)
qed

lemma metric_checks_unmeasured:
  assumes "evaluate_checks e rec res obs cs st = (outs, st')" and "en_Metrics e = None"
    and "\<forall>c \<in> set cs. vc_Metric c \<in> {''cpu_utilization'', ''error_rate'', ''latency_p99_ms''}"
  shows "\<forall>x \<in> set outs. co_Samples x = 0"
  using assms
proof (induction cs arbitrary: st outs st')
  case (Cons c cs)
  obtain o' st1 where o: "evaluateCheck e rec res obs c st = (o', st1)" by fastforce
  obtain os st2 where os: "evaluate_checks e rec res obs cs st1 = (os, st2)" by fastforce
  have "co_Samples o' = 0" using o Cons.prems(2,3)
    by (auto simp: evaluateCheck_def measure_metric_def blank_outcome_def Let_def split: prod.splits)
  then show ?case using Cons.IH [OF os] Cons.prems o os by auto
qed simp

lemma built_checks: "vp_Checks (buildValidationPlan rec sp) = cost_check # error_check # (if watched_closely rec then [capacity_check] else [])"
  "vp_MinSamples (buildValidationPlan rec sp) = 1" "0 < vp_ObservationWindow (buildValidationPlan rec sp)"
  by (simp_all add: buildValidationPlan_def defaultMinValidationSamples_def defaultObservationWindow_def Let_def)

section \<open>Savings after a settlement\<close>

definition savings_ok :: "(TenantID, ID, SavingsRecord) tbl2 \<Rightarrow> bool" where
  "savings_ok m \<longleftrightarrow> (\<forall>t i sr. get2 m t i = Some sr \<longrightarrow> sr_TenantID sr = t \<and> sr_RecommendationID sr = i)"

lemma MarkLost_keys [simp]: "sr_TenantID (MarkLost r x t) = sr_TenantID r" "sr_RecommendationID (MarkLost r x t) = sr_RecommendationID r"
    "sr_Stage (MarkLost r x t) = sr_Stage r"
  by (simp_all add: MarkLost_def)

lemma Advance_keys [simp]: "sr_TenantID (Advance r to amount who why t) = sr_TenantID r"
    "sr_RecommendationID (Advance r to amount who why t) = sr_RecommendationID r"
  by (cases to; simp add: Advance_def Let_def)+

lemma Advance_stage: "sr_Stage (Advance r to amount who why t) = (if Stage_Order (sr_Stage r) < Stage_Order to then to else sr_Stage r)"
  by (cases "Stage_Order (sr_Stage r) < Stage_Order to") (simp_all add: Advance_fields Advance_stays)

lemma Advance_realizes: "sr_Stage r \<noteq> StageRealized \<Longrightarrow> sr_RealizedMonthly (Advance r StageRealized amount who why t) = amount"
  by (cases "sr_Stage r") (simp_all add: Advance_def Let_def)

lemma savings_Save_ok: "savings_ok m \<Longrightarrow> savings_ok (snd (savings_Save ctx r m))"
  by (auto simp: savings_ok_def savings_Save_def get2_put2 split: option.split)

lemma lose_savings_ok: "savings_ok (as_Savings st) \<Longrightarrow> savings_ok (as_Savings (loseSavings e t why now i st))"
  by (simp add: loseSavings_def savings_Save_ok split: sum.split)

lemma retire_savings_ok: "savings_ok (as_Savings st) \<Longrightarrow> savings_ok (as_Savings (retireConflictingSavings e t rec now st))"
proof -
  have "savings_ok (as_Savings st) \<Longrightarrow> savings_ok (as_Savings (fold (loseSavings e t why now) is st))" for why "is" st
    by (induction "is" arbitrary: st) (simp_all add: lose_savings_ok)
  then show "savings_ok (as_Savings st) \<Longrightarrow> ?thesis" by (simp add: retireConflictingSavings_def)
qed

text \<open>The record that is advanced: the stored one, or a new one in the first stage.\<close>

lemma touchSavings_record:
  assumes "savings_ok (as_Savings st)" and "GuardTenant (en_Ctx e) tenant = None"
  shows "savings_ok (as_Savings (touchSavings e tenant rec plan to amount actor why now st))"
    and "\<exists>old. (get2 (as_Savings st) tenant (rc_ID rec) = Some old \<or> get2 (as_Savings st) tenant (rc_ID rec) = None \<and> sr_Stage old = StagePotential) \<and>
      get2 (as_Savings (touchSavings e tenant rec plan to amount actor why now st)) tenant (rc_ID rec) =
        Some (Advance (if \<not> id_IsZero plan then old\<lparr>sr_PlanID := plan\<rparr> else old) to amount (auto_label actor) why now)"
proof -
  let ?adv = "\<lambda>old. Advance (if \<not> id_IsZero plan then old\<lparr>sr_PlanID := plan\<rparr> else old) to amount (auto_label actor) why now"
  have t: "as_Savings (tick st) = as_Savings st" by (simp add: tick_def)
  obtain old st1 where o: "touchSavings e tenant rec plan to amount actor why now st =
      st1\<lparr>as_Savings := snd (savings_Save (en_Ctx e) (?adv old) (as_Savings st1))\<rparr>" "savings_ok (as_Savings st1)"
      "sr_TenantID old = tenant" "sr_RecommendationID old = rc_ID rec"
      "get2 (as_Savings st) tenant (rc_ID rec) = Some old \<or> get2 (as_Savings st) tenant (rc_ID rec) = None \<and> sr_Stage old = StagePotential"
  proof (cases "get2 (as_Savings st) tenant (rc_ID rec)")
    case None
    then show ?thesis using assms retire_savings_ok [of "tick st"] t
      by (intro that [of "potential_record (en_NewID e (as_Tick st)) tenant rec now" "retireConflictingSavings e tenant rec now (tick st)"])
        (simp_all add: touchSavings_def savings_Get_def Let_def potential_record_def)
  next
    case (Some old)
    then show ?thesis using assms
      by (intro that [of old st]) (auto simp: touchSavings_def savings_Get_def Let_def savings_ok_def)
  qed
  have k: "sr_TenantID (?adv old) = tenant" "sr_RecommendationID (?adv old) = rc_ID rec" using o(3,4) by simp_all
  show "savings_ok (as_Savings (touchSavings e tenant rec plan to amount actor why now st))"
    using o(1,2) by (simp add: savings_Save_ok)
  show "\<exists>old. (get2 (as_Savings st) tenant (rc_ID rec) = Some old \<or> get2 (as_Savings st) tenant (rc_ID rec) = None \<and> sr_Stage old = StagePotential) \<and>
      get2 (as_Savings (touchSavings e tenant rec plan to amount actor why now st)) tenant (rc_ID rec) = Some (?adv old)"
    using o(1,5) k assms(2) by (intro exI [of _ old]) (simp add: savings_Save_def get2_put2 del: Advance_keys)
qed

lemma keep_savings [simp]: "as_Savings (store_plan e p st) = as_Savings st" "as_Savings (store_rec e r st) = as_Savings st"
    "as_Savings (auto_audit a out who plan st) = as_Savings st" "as_Savings (tick st) = as_Savings st"
  by (simp_all add: store_plan_def store_rec_def auto_audit_def tick_def)

lemma touch_stage:
  assumes "savings_ok (as_Savings st)" and "GuardTenant (en_Ctx e) tenant = None"
    and "\<And>sr. get2 (as_Savings st) tenant (rc_ID rec) = Some sr \<Longrightarrow> sr_Stage sr \<noteq> StageRealized"
  obtains sr where "get2 (as_Savings (touchSavings e tenant rec plan to amount actor why now st)) tenant (rc_ID rec) = Some sr"
    "to \<noteq> StageRealized \<Longrightarrow> sr_Stage sr \<noteq> StageRealized"
    "to = StageRealized \<Longrightarrow> sr_Stage sr = StageRealized \<and> sr_RealizedMonthly sr = amount"
proof -
  from touchSavings_record(2) [OF assms(1,2), of rec plan to amount actor why now] obtain old where
    old: "get2 (as_Savings st) tenant (rc_ID rec) = Some old \<or> sr_Stage old = StagePotential"
      "get2 (as_Savings (touchSavings e tenant rec plan to amount actor why now st)) tenant (rc_ID rec) =
        Some (Advance (if \<not> id_IsZero plan then old\<lparr>sr_PlanID := plan\<rparr> else old) to amount (auto_label actor) why now)"
    by blast
  define r where "r = (if \<not> id_IsZero plan then old\<lparr>sr_PlanID := plan\<rparr> else old)"
  have "sr_Stage old \<noteq> StageRealized" using old(1) assms(3) by auto
  then have r: "sr_Stage r \<noteq> StageRealized" by (simp add: r_def)
  moreover have "Stage_Order (sr_Stage r) < Stage_Order StageRealized" using r by (cases "sr_Stage r") simp_all
  ultimately show thesis using old(2) that unfolding r_def [symmetric]
    by (metis Advance_realizes Advance_stage)
qed

lemma settle_success_realizes:
  assumes "savings_ok (as_Savings st)" and "GuardTenant (en_Ctx e) tenant = None"
    and "\<And>sr. get2 (as_Savings st) tenant (rc_ID rec) = Some sr \<Longrightarrow> sr_Stage sr \<noteq> StageRealized"
  shows "\<exists>sr. get2 (as_Savings (settle_success e tenant p rec VerdictSuccess amount now st)) tenant (rc_ID rec) = Some sr \<and>
    sr_Stage sr = StageRealized \<and> sr_RealizedMonthly sr = amount"
proof -
  define st0 where "st0 = store_plan e (p\<lparr>pl_State := PlanValidated\<rparr>) st"
  define st1 where "st1 = touchSavings e tenant rec (pl_ID p) StageValidated amount '''' ''observation window closed'' now st0"
  have ok0: "savings_ok (as_Savings st0)" and ok1: "savings_ok (as_Savings st1)"
    using assms(1,2) touchSavings_record(1) by (simp_all add: st0_def st1_def)
  have "sr_Stage sr \<noteq> StageRealized" if "get2 (as_Savings st1) tenant (rc_ID rec) = Some sr" for sr
    using touch_stage [OF ok0 assms(2), of rec "pl_ID p" StageValidated amount "''''" "''observation window closed''" now]
      that assms(3) by (auto simp: st0_def st1_def)
  from touch_stage [OF ok1 assms(2) this, of _ "pl_ID p" StageRealized amount "''''" "''all validation checks passed against measured data''" now]
  show ?thesis unfolding settle_success_def Let_def st0_def [symmetric] st1_def [symmetric] by fastforce
qed

lemma AttributableSaving_returns:
  assumes "Currency predicted = Currency measured"
  shows "\<exists>a u. AttributableSaving predicted measured = Some (a, u)"
proof -
  have "Currency (Scale predicted k) = Currency predicted" for k by (simp add: Scale_def Currency_def)
  then obtain s where "MustSub measured (Scale predicted FavourableVarianceTolerance) = Some s"
    using assms by (simp add: MustSub_Some_iff)
  then show ?thesis by (simp add: AttributableSaving_def Let_def)
qed

lemma Validate_starts:
  assumes "get2 (ex_Plans (as_Exec st)) tenant plan = Some p" "plan_key p = (tenant, plan)" "GuardTenant (en_Ctx e) tenant = None"
    and "pl_State p = PlanExecuted" "pl_StartedAt p = Some began" "pl_FinishedAt p = Some finished"
    and "get2 (as_Recs st) tenant (pl_RecommendationID p) = Some rec"
    and "en_Resource e (as_Tick st + 1) (fi_ResourceID (rc_Finding rec)) = Inr res"
  shows "Validate e tenant plan st = validate_loaded e tenant (p\<lparr>pl_State := PlanValidating\<rparr>) began finished rec res (en_Clock e (as_Tick st))
    (auto_audit ActionValidationStarted OutcomeSuccess '''' (pl_ID p) (store_plan e (p\<lparr>pl_State := PlanValidating\<rparr>) (tick st)))"
  using assms by (simp add: Validate_def GetPlan_def rec_Get_def Let_def)

lemma judge_unmeasured:
  assumes "\<And>c. findCheck checks ''monthly_cost'' = Some c \<Longrightarrow> co_Samples c = 0"
  shows "vr_ObservedMonthlySaving (judge i t p rec b o' checks now) = rc_EstimatedMonthlySaving rec"
    "vr_PredictedMonthlySaving (judge i t p rec b o' checks now) = rc_EstimatedMonthlySaving rec"
  using assms by (cases "findCheck checks ''monthly_cost''"; simp add: judge_def ValidationResult_Decide_def Let_def split: prod.split)+

text \<open>Without any measurement nothing is decided.\<close>

lemma unmeasured_inconclusive:
  assumes "get2 (ex_Plans (as_Exec st)) tenant plan = Some p" "plan_key p = (tenant, plan)" "GuardTenant (en_Ctx e) tenant = None"
    and "pl_State p = PlanExecuted" "pl_StartedAt p = Some began" "pl_FinishedAt p = Some finished"
    and "get2 (as_Recs st) tenant (pl_RecommendationID p) = Some rec"
    and "en_Resource e (as_Tick st + 1) (fi_ResourceID (rc_Finding rec)) = Inr res"
    and "pl_Validation p = buildValidationPlan rec sp" "en_Cost e = None" "en_Metrics e = None"
  shows "\<exists>r st'. Validate e tenant plan st = Some (r, None, st') \<and> vr_Verdict r = VerdictInconclusive"
proof -
  let ?now = "en_Clock e (as_Tick st)" and ?p = "p\<lparr>pl_State := PlanValidating\<rparr>" and ?w = "vp_ObservationWindow (pl_Validation p)"
  let ?obs = "\<lparr>Start = finished, End = (if finished + ?w < ?now then finished + ?w else ?now)\<rparr>"
  define st1 where "st1 = auto_audit ActionValidationStarted OutcomeSuccess '''' (pl_ID p) (store_plan e ?p (tick st))"
  note V = Validate_starts [OF assms(1-8), folded st1_def]
  obtain out sta where out: "evaluateCheck e rec res ?obs cost_check st1 = (out, sta)" by fastforce
  obtain os st2 where os: "evaluate_checks e rec res ?obs (error_check # (if watched_closely rec then [capacity_check] else [])) sta = (os, st2)"
    by fastforce
  have ev: "evaluate_checks e rec res ?obs (vp_Checks (pl_Validation p)) st1 = (out # os, st2)"
    using out os by (simp add: assms(9) built_checks(1) Let_def)
  have o1: "co_Samples out = 0" using out assms(10)
    by (auto simp: evaluateCheck_def measure_cost_def cost_check_def blank_outcome_def Let_def split: prod.splits)
  have o2: "\<forall>x \<in> set os. co_Samples x = 0"
    by (rule metric_checks_unmeasured [OF os assms(11)]) (simp add: error_check_def capacity_check_def)
  define r0 where "r0 = judge (en_NewID e (as_Tick st2)) tenant ?p rec \<lparr>Start = began - vp_BaselineWindow (pl_Validation p), End = began\<rparr>
    ?obs (out # os) ?now"
  have v: "vr_Verdict r0 = VerdictInconclusive" unfolding r0_def using o1 o2
    by (intro judge_verdict(3) [THEN iffD2]) (auto simp: assms(9) built_checks(2))
  have "co_Samples c = 0" if "find (\<lambda>c. co_Metric c = ''monthly_cost'') (out # os) = Some c" for c
  proof -
    have "c \<in> set (out # os)" using that unfolding find_Some_iff by (metis nth_mem)
    then show ?thesis using o1 o2 by auto
  qed
  then have obs: "vr_ObservedMonthlySaving r0 = rc_EstimatedMonthlySaving rec" "vr_PredictedMonthlySaving r0 = rc_EstimatedMonthlySaving rec"
    unfolding r0_def using judge_unmeasured [of "out # os"] by (simp_all add: findCheck_def)
  obtain a u where au: "AttributableSaving (rc_EstimatedMonthlySaving rec) (rc_EstimatedMonthlySaving rec) = Some (a, u)"
    using AttributableSaving_returns by metis
  show ?thesis using v by (simp add: V validate_loaded_def ev Let_def au obs settle_def flip: r0_def cong: if_cong)
qed

text \<open>C20: a bill that has not arrived counts as a measured saving: when the cost repository knows no amount for the window and
  no utilisation is collected, the validation of any plan built by this service succeeds, measures the whole current cost
  as saved, marks the plan validated and books the saving as realized, up to the tolerance above the prediction.\<close>

theorem missing_bill_is_success:
  assumes "get2 (ex_Plans (as_Exec st)) tenant plan = Some p" "plan_key p = (tenant, plan)" "GuardTenant (en_Ctx e) tenant = None"
    and "pl_State p = PlanExecuted" "pl_StartedAt p = Some began" "pl_FinishedAt p = Some finished" "finished < en_Clock e (as_Tick st)"
    and "pl_Validation p = buildValidationPlan rec sp" "get2 (as_Recs st) tenant (pl_RecommendationID p) = Some rec"
    and "en_Resource e (as_Tick st + 1) (fi_ResourceID (rc_Finding rec)) = Inr res"
    and "0 \<le> micros (fi_CurrentMonthlyCost (rc_Finding rec))" "Currency (rc_EstimatedMonthlySaving rec) = USD"
    and "en_Cost e = Some (\<lambda>_ _ _. Inr ZeroUSD)" "en_Metrics e = None" "savings_ok (as_Savings st)"
    and "\<And>sr. get2 (as_Savings st) tenant (rc_ID rec) = Some sr \<Longrightarrow> sr_Stage sr \<noteq> StageRealized"
  shows "\<exists>r st' sr attributed un. Validate e tenant plan st = Some (r, None, st') \<and> vr_Verdict r = VerdictSuccess \<and>
    vr_ObservedMonthlySaving r = USDollars (Units (fi_CurrentMonthlyCost (rc_Finding rec))) \<and>
    get2 (ex_Plans (as_Exec st')) tenant plan = Some (p\<lparr>pl_State := PlanValidated\<rparr>) \<and>
    AttributableSaving (rc_EstimatedMonthlySaving rec) (vr_ObservedMonthlySaving r) = Some (attributed, un) \<and>
    get2 (as_Savings st') tenant (rc_ID rec) = Some sr \<and> sr_Stage sr = StageRealized \<and> sr_RealizedMonthly sr = attributed"
proof -
  let ?now = "en_Clock e (as_Tick st)" and ?p = "p\<lparr>pl_State := PlanValidating\<rparr>" and ?w = "vp_ObservationWindow (pl_Validation p)"
  let ?b = "Units (fi_CurrentMonthlyCost (rc_Finding rec))"
  let ?obs = "\<lparr>Start = finished, End = (if finished + ?w < ?now then finished + ?w else ?now)\<rparr>"
  define st1 where "st1 = auto_audit ActionValidationStarted OutcomeSuccess '''' (pl_ID p) (store_plan e ?p (tick st))"
  have key: "pl_TenantID p = tenant" "pl_ID p = plan" "plan_key ?p = (tenant, plan)" using assms(2) by (simp_all add: plan_key_def)
  note V = Validate_starts [OF assms(1-6,9,10), folded st1_def]
  obtain out sta where out: "evaluateCheck e rec res ?obs cost_check st1 = (out, sta)" by fastforce
  obtain os st2 where os: "evaluate_checks e rec res ?obs (error_check # (if watched_closely rec then [capacity_check] else [])) sta = (os, st2)"
    by fastforce
  have ev: "evaluate_checks e rec res ?obs (vp_Checks (pl_Validation p)) st1 = (out # os, st2)"
    using out os by (simp add: assms(8) built_checks(1) Let_def)
  have "Start ?obs < End ?obs" using assms(7,8) built_checks(3) [of rec sp] by simp
  note o1 = cost_check_no_bill [OF out assms(13) this assms(11)]
  have o2: "\<forall>x \<in> set os. co_Samples x = 0"
    by (rule metric_checks_unmeasured [OF os assms(14)]) (simp add: error_check_def capacity_check_def)
  have n: "vp_MinSamples (pl_Validation p) = 1" by (simp add: assms(8) built_checks(2))
  define r0 where "r0 = judge (en_NewID e (as_Tick st2)) tenant ?p rec \<lparr>Start = began - vp_BaselineWindow (pl_Validation p), End = began\<rparr>
    ?obs (out # os) ?now"
  have v: "vr_Verdict r0 = VerdictSuccess" unfolding r0_def using o1 o2 n by (intro judge_verdict(2) [THEN iffD2]) auto
  have "f64 ?b = ?b" by (simp add: Units_def)
  then have obs: "vr_ObservedMonthlySaving r0 = USDollars ?b" "vr_PredictedMonthlySaving r0 = rc_EstimatedMonthlySaving rec"
    "vr_RollbackTriggered r0 = False"
    using o1 by (simp_all add: r0_def judge_def findCheck_def ValidationResult_Decide_def Let_def split: prod.split)
  have "Currency (USDollars ?b) = USD" by (simp add: USDollars_def NewMoney_def Currency_def)
  then obtain a u where au: "AttributableSaving (rc_EstimatedMonthlySaving rec) (USDollars ?b) = Some (a, u)"
    using AttributableSaving_returns assms(12) by metis
  let ?r = "if \<not> IsZero u then r0\<lparr>vr_UnattributedDelta := u\<rparr> else r0"
  define st3 where "st3 = auto_audit ActionValidationResult (outcomeFor (vr_Verdict ?r)) '''' (pl_ID p) (save_validation e ?r (tick st2))"
  define S where "S = recordOutcome e tenant rec ?r (settle_success e tenant ?p rec VerdictSuccess a ?now st3)"
  have "validate_loaded e tenant ?p began finished rec res ?now st1 = Some (settle e tenant ?p rec a ?r ?now st3)"
    by (simp add: validate_loaded_def ev Let_def au obs st3_def flip: r0_def cong: if_cong)
  moreover have "settle e tenant ?p rec a ?r ?now st3 =
      (?r, None, recordOutcome e tenant rec ?r (settle_success e tenant ?p rec VerdictSuccess a ?now st3))"
    using v by (simp add: settle_def Let_def)
  ultimately have val: "Validate e tenant plan st = Some (?r, None, S)" by (simp only: V S_def)
  note c2 = evaluate_checks_core [OF ev]
  have sav: "as_Savings st3 = as_Savings st" using c2 by (simp add: st3_def) (simp add: st1_def)
  have "get2 (ex_Plans (as_Exec st1)) tenant plan = Some ?p"
    using UpdatePlan_stored [of "en_Ctx e" ?p "as_Exec st" tenant plan] assms(1-3) key by (simp add: st1_def)
  then have "get2 (ex_Plans (as_Exec st3)) tenant plan = Some ?p" using core_simps(1) [of st2 st1] c2 by (simp add: st3_def)
  then have stored: "get2 (ex_Plans (as_Exec S)) tenant plan = Some (p\<lparr>pl_State := PlanValidated\<rparr>)"
    using settle_success_facts(1) [OF key(3) assms(3), of st3 rec VerdictSuccess a ?now] by (simp add: S_def)
  from settle_success_realizes [of st3 e tenant rec ?p a ?now] assms(3,15,16) sav obtain sr where
    sr: "get2 (as_Savings S) tenant (rc_ID rec) = Some sr" "sr_Stage sr = StageRealized" "sr_RealizedMonthly sr = a"
    by (auto simp: S_def)
  have "vr_Verdict ?r = VerdictSuccess" "vr_ObservedMonthlySaving ?r = USDollars ?b" using v obs by simp_all
  then show ?thesis using val stored au sr by metis
qed

section \<open>Concrete runs\<close>

definition built_plan :: Plan where
  "built_plan = demo_plan\<lparr>pl_State := PlanExecuted, pl_StartedAt := Some 1, pl_FinishedAt := Some 2,
     pl_Validation := buildValidationPlan sample_recommendation zero_spec\<rparr>"

definition bill_env :: auto_env where
  "bill_env = (demo_env EffectAutoExecute)\<lparr>en_Cost := Some (\<lambda>_ _ _. Inr ZeroUSD)\<rparr>"

lemma built_key: "plan_key built_plan = (''t'', ''p'')"
  by (simp add: plan_key_def built_plan_def demo_plan_def sample_plan_def)

lemma built_stored: "get2 (ex_Plans (as_Exec (demo_state built_plan))) ''t'' ''p'' = Some built_plan" "as_Calls (demo_state built_plan) = []"
  by (simp_all add: demo_state_def get2_put2)

lemma built_facts:
  "pl_State built_plan = PlanExecuted" "pl_StartedAt built_plan = Some 1" "pl_FinishedAt built_plan = Some 2"
  "pl_Validation built_plan = buildValidationPlan sample_recommendation zero_spec"
  "get2 (as_Recs (demo_state built_plan)) ''t'' (pl_RecommendationID built_plan) = Some sample_recommendation"
  by (simp_all add: built_plan_def demo_state_def get2_put2 demo_plan_def sample_plan_def)

lemma demo_ports: "GuardTenant (en_Ctx (demo_env eff)) ''t'' = None" "en_Resource (demo_env eff) n i = Inr no_resource"
    "en_Cost (demo_env eff) = None" "en_Metrics (demo_env eff) = None"
  by (simp_all add: demo_env_def admin_t)

lemma blind_obtains:
  obtains r st' where "Validate (demo_env EffectAutoExecute) ''t'' ''p'' (demo_state built_plan) = Some (r, None, st')"
    "vr_Verdict r = VerdictInconclusive"
  using unmeasured_inconclusive [OF built_stored(1) built_key demo_ports(1) built_facts(1,2,3,5) demo_ports(2) built_facts(4) demo_ports(3,4)]
  by blast


theorem inconclusive_never_retried_witness:
  "\<exists>r st' q. Validate (demo_env EffectAutoExecute) ''t'' ''p'' (demo_state built_plan) = Some (r, None, st') \<and>
     vr_Verdict r = VerdictInconclusive \<and> get2 (ex_Plans (as_Exec st')) ''t'' ''p'' = Some q \<and> pl_State q = PlanValidating"
proof -
  obtain r st' where r: "Validate (demo_env EffectAutoExecute) ''t'' ''p'' (demo_state built_plan) = Some (r, None, st')"
    "vr_Verdict r = VerdictInconclusive" by (rule blind_obtains)
  show ?thesis using inconclusive_never_retried [OF r(1) built_stored(1) built_key r(2)] r by blast
qed

theorem missing_bill_is_success_witness:
  "\<exists>r st' sr. Validate bill_env ''t'' ''p'' (demo_state built_plan) = Some (r, None, st') \<and> vr_Verdict r = VerdictSuccess \<and>
     get2 (as_Savings st') ''t'' ''r'' = Some sr \<and> sr_Stage sr = StageRealized"
proof -
  have s: "savings_ok (as_Savings (demo_state built_plan))" "get2 (as_Savings (demo_state built_plan)) t i = None" for t i
    by (simp_all add: demo_state_def savings_ok_def get2_def rows_def)
  have p: "pl_State built_plan = PlanExecuted" "pl_StartedAt built_plan = Some 1" "pl_FinishedAt built_plan = Some 2"
    "pl_Validation built_plan = buildValidationPlan sample_recommendation zero_spec" by (simp_all add: built_plan_def)
  have rec: "get2 (as_Recs (demo_state built_plan)) ''t'' (pl_RecommendationID built_plan) = Some sample_recommendation"
    "0 \<le> micros (fi_CurrentMonthlyCost (rc_Finding sample_recommendation))"
    "Currency (rc_EstimatedMonthlySaving sample_recommendation) = USD" "rc_ID sample_recommendation = ''r''"
    by (simp_all add: demo_state_def get2_put2 built_plan_def demo_plan_def sample_plan_def sample_recommendation_def sample_finding_def Currency_def)
  have e: "GuardTenant (en_Ctx bill_env) ''t'' = None" "2 < en_Clock bill_env (as_Tick (demo_state built_plan))"
    "en_Cost bill_env = Some (\<lambda>_ _ _. Inr ZeroUSD)" "en_Metrics bill_env = None" "\<exists>res. en_Resource bill_env n i = Inr res" for n i
    by (simp_all add: bill_env_def demo_env_def admin_t)
  obtain res where res: "en_Resource bill_env (as_Tick (demo_state built_plan) + 1) (fi_ResourceID (rc_Finding sample_recommendation)) = Inr res"
    using e(5) by blast
  from missing_bill_is_success [OF built_stored(1) built_key e(1) p(1-3) e(2) p(4) rec(1) res rec(2,3) e(3,4) s(1)] s(2) rec(4)
  show ?thesis by auto
qed

end
