(* ===== verification/RecRepo.thy ===== *)
theory RecRepo imports AutoBase begin

text \<open>
  \<open>internal/adapters/memstore/recommendation.go\<close> and \<open>savings.go\<close>: the repositories of recommendations, savings records,
  outcomes and calibrations. Every operation holds one lock for its body, so it is one step. Ties of an unstable
  sort (outcomes observed at the same instant) keep their stored order here. Reasons of a status are not modelled.
\<close>

section \<open>Recommendations\<close>

record RecommendationFilter =
  rf_Statuses :: "Status list"
  rf_Categories :: "optimize_Category list"
  rf_Actions :: "ActionType list"
  rf_RuleIDs :: "RuleID list"
  rf_Environments :: "Environment list"
  rf_AccountIDs :: "AccountID list"
  rf_ApplicationID :: ID
  rf_ResourceID :: ID
  rf_MinSaving :: Money
  rf_MinConfidence :: rat
  rf_MaxRisk :: RiskLevel
  rf_AutoExecutableOnly :: bool

definition no_filter :: RecommendationFilter where
  "no_filter = \<lparr>rf_Statuses = [], rf_Categories = [], rf_Actions = [], rf_RuleIDs = [], rf_Environments = [], rf_AccountIDs = [],
     rf_ApplicationID = '''', rf_ResourceID = '''', rf_MinSaving = zero_money, rf_MinConfidence = 0, rf_MaxRisk = RiskOther '''',
     rf_AutoExecutableOnly = False\<rparr>"

definition resourceApplications :: "Resource list \<Rightarrow> (ID \<times> ID) list" where
  "resourceApplications rs = map (\<lambda>r. (res_ID r, res_ApplicationID r)) (filter (\<lambda>r. \<not> id_IsZero (res_ApplicationID r)) rs)"

definition matchesRecommendationFilter :: "Recommendation \<Rightarrow> RecommendationFilter \<Rightarrow> (ID \<times> ID) list \<Rightarrow> bool" where
  "matchesRecommendationFilter rec f app \<longleftrightarrow>
     (rf_Statuses f = [] \<or> rc_Status rec \<in> set (rf_Statuses f)) \<and>
     (rf_Categories f = [] \<or> fi_Category (rc_Finding rec) \<in> set (rf_Categories f)) \<and>
     (rf_Actions f = [] \<or> rc_Action rec \<in> set (rf_Actions f)) \<and>
     (rf_RuleIDs f = [] \<or> fi_RuleID (rc_Finding rec) \<in> set (rf_RuleIDs f)) \<and>
     (rf_Environments f = [] \<or> fi_Environment (rc_Finding rec) \<in> set (rf_Environments f)) \<and>
     (rf_AccountIDs f = [] \<or> fi_AccountID (rc_Finding rec) \<in> set (rf_AccountIDs f)) \<and>
     (id_IsZero (rf_ApplicationID f) \<or>
       (case map_of app (fi_ResourceID (rc_Finding rec)) of Some a \<Rightarrow> a | None \<Rightarrow> '''') = rf_ApplicationID f) \<and>
     (id_IsZero (rf_ResourceID f) \<or> fi_ResourceID (rc_Finding rec) = rf_ResourceID f) \<and>
     (IsZero (rf_MinSaving f) \<or> \<not> LessThan (rc_EstimatedMonthlySaving rec) (rf_MinSaving f)) \<and>
     \<not> (0 < rf_MinConfidence f \<and> rc_Confidence rec < rf_MinConfidence f) \<and>
     (rf_MaxRisk f = RiskOther '''' \<or> RiskLevel_Order (ra_Level (rc_Risk rec)) \<le> RiskLevel_Order (rf_MaxRisk f)) \<and>
     \<not> (rf_AutoExecutableOnly f \<and> \<not> rc_AutoExecutable rec)"

text \<open>\<open>stamp\<close> is \<open>Format(sortTimeLayout)\<close>; \<open>estate\<close> are the resources of the tenant.\<close>

definition rec_key :: "(gotime \<Rightarrow> string) \<Rightarrow> Recommendation \<Rightarrow> string \<times> string" where
  "rec_key stamp rec = (stamp (rc_CreatedAt rec), rc_ID rec)"

definition rec_List :: "(string \<times> string \<Rightarrow> string) \<Rightarrow> (string \<Rightarrow> (string \<times> string) option) \<Rightarrow> (gotime \<Rightarrow> string) \<Rightarrow>
    Principal option \<Rightarrow> Resource list \<Rightarrow> (TenantID, ID, Recommendation) tbl2 \<Rightarrow> TenantID \<Rightarrow> RecommendationFilter \<Rightarrow>
    ListOptions \<Rightarrow> err + Recommendation Page" where
  "rec_List enc dec stamp ctx estate m tenant f opts = (case GuardTenant ctx tenant of Some e \<Rightarrow> Inl e
     | None \<Rightarrow> let app = (if id_IsZero (rf_ApplicationID f) then [] else resourceApplications estate);
           items = filter (\<lambda>rec. matchesRecommendationFilter rec f app) (map snd (rows m tenant))
         in Inr (paginate enc dec (sortByCreatedThenID (rec_key stamp) items) opts (rec_key stamp)))"

text \<open>The records before the first foreign one are stored; \<open>fresh\<close> are the ids drawn for records without one.\<close>

fun save_batch :: "TenantID \<Rightarrow> (nat \<Rightarrow> ID) \<Rightarrow> nat \<Rightarrow> Recommendation list \<Rightarrow> (TenantID, ID, Recommendation) tbl2 \<Rightarrow>
    err option \<times> (TenantID, ID, Recommendation) tbl2" where
  "save_batch tenant fresh n [] m = (None, m)"
| "save_batch tenant fresh n (rec # recs) m = (if rc_TenantID rec \<noteq> tenant
     then (Some (NewError ErrTenantMismatch ''tenant_mismatch''), m)
     else let rec = (if id_IsZero (rc_ID rec) then rec\<lparr>rc_ID := fresh n\<rparr> else rec)
       in save_batch tenant fresh (n + 1) recs (put2 tenant (rc_ID rec) rec m))"

definition SaveBatch :: "Principal option \<Rightarrow> TenantID \<Rightarrow> (nat \<Rightarrow> ID) \<Rightarrow> Recommendation list \<Rightarrow>
    (TenantID, ID, Recommendation) tbl2 \<Rightarrow> err option \<times> (TenantID, ID, Recommendation) tbl2" where
  "SaveBatch ctx tenant fresh recs m = (case GuardTenant ctx tenant of Some e \<Rightarrow> (Some e, m)
     | None \<Rightarrow> save_batch tenant fresh 0 recs m)"

definition rec_UpdateStatus :: "Principal option \<Rightarrow> gotime \<Rightarrow> TenantID \<Rightarrow> ID \<Rightarrow> Status \<Rightarrow> (TenantID, ID, Recommendation) tbl2 \<Rightarrow>
    err option \<times> (TenantID, ID, Recommendation) tbl2" where
  "rec_UpdateStatus ctx wall tenant i status m = (case GuardTenant ctx tenant of Some e \<Rightarrow> (Some e, m)
     | None \<Rightarrow> (case get2 m tenant i of None \<Rightarrow> (Some NotFound, m)
       | Some rec \<Rightarrow> (None, put2 tenant i (rec\<lparr>rc_Status := status, rc_UpdatedAt := wall\<rparr>) m)))"

definition stale :: "gotime \<Rightarrow> ID list \<Rightarrow> ID \<Rightarrow> Recommendation \<Rightarrow> bool" where
  "stale before keep i rec \<longleftrightarrow> \<not> (i \<in> set keep \<or> Status_Terminal (rc_Status rec) \<or> \<not> rc_CreatedAt rec < before)"

definition SupersedeStale :: "Principal option \<Rightarrow> gotime \<Rightarrow> TenantID \<Rightarrow> gotime \<Rightarrow> ID list \<Rightarrow> (TenantID, ID, Recommendation) tbl2 \<Rightarrow>
    (err + int) \<times> (TenantID, ID, Recommendation) tbl2" where
  "SupersedeStale ctx wall tenant before keep m = (case GuardTenant ctx tenant of Some e \<Rightarrow> (Inl e, m)
     | None \<Rightarrow> (case map_of m tenant of None \<Rightarrow> (Inr 0, m)
       | Some s \<Rightarrow> (Inr (int (length (filter (\<lambda>(i, rec). stale before keep i rec) s))),
           tbl_put tenant (map_tbl (\<lambda>i rec. if stale before keep i rec
             then rec\<lparr>rc_Status := StatusSuperseded, rc_UpdatedAt := wall\<rparr> else rec) s) m)))"

record RecommendationSummary =
  rs_Open :: int
  rs_TotalMonthlySaving :: Money
  rs_ByCategory :: "optimize_Category \<Rightarrow> int"
  rs_SavingByCategory :: "optimize_Category \<Rightarrow> Money"
  rs_ByRisk :: "RiskLevel \<Rightarrow> int"
  rs_AutoExecutable :: int
  rs_AwaitingApproval :: int
  rs_Alternatives :: int

definition empty_summary :: RecommendationSummary where
  "empty_summary = \<lparr>rs_Open = 0, rs_TotalMonthlySaving = ZeroUSD, rs_ByCategory = (\<lambda>_. 0), rs_SavingByCategory = (\<lambda>_. zero_money),
     rs_ByRisk = (\<lambda>_. 0), rs_AutoExecutable = 0, rs_AwaitingApproval = 0, rs_Alternatives = 0\<rparr>"

definition summarize_one :: "Recommendation \<Rightarrow> RecommendationSummary \<Rightarrow> RecommendationSummary option" where
  "summarize_one rec s = (let c = fi_Category (rc_Finding rec); r = ra_Level (rc_Risk rec) in
     if rc_Status rec = StatusOpen then (let
         s = s\<lparr>rs_Open := rs_Open s + 1, rs_ByCategory := (rs_ByCategory s)(c := rs_ByCategory s c + 1),
           rs_ByRisk := (rs_ByRisk s)(r := rs_ByRisk s r + 1)\<rparr>;
         s = (if rc_AutoExecutable rec then s\<lparr>rs_AutoExecutable := rs_AutoExecutable s + 1\<rparr> else s)
       in if \<not> CountsTowardTotal rec then Some (s\<lparr>rs_Alternatives := rs_Alternatives s + 1\<rparr>)
       else do { t \<leftarrow> MustAdd (rs_TotalMonthlySaving s) (rc_EstimatedMonthlySaving rec);
           k \<leftarrow> MustAdd (rs_SavingByCategory s c) (rc_EstimatedMonthlySaving rec);
           Some (s\<lparr>rs_TotalMonthlySaving := t, rs_SavingByCategory := (rs_SavingByCategory s)(c := k)\<rparr>) })
     else if rc_Status rec = StatusUnderReview then Some (s\<lparr>rs_AwaitingApproval := rs_AwaitingApproval s + 1\<rparr>)
     else Some s)"

text \<open>\<open>None\<close> is the panic of adding amounts in different currencies.\<close>

definition rec_Summary :: "Principal option \<Rightarrow> (TenantID, ID, Recommendation) tbl2 \<Rightarrow> TenantID \<Rightarrow>
    (err + RecommendationSummary) option" where
  "rec_Summary ctx m tenant = (case GuardTenant ctx tenant of Some e \<Rightarrow> Some (Inl e)
     | None \<Rightarrow> map_option Inr (fold_opt summarize_one (map snd (rows m tenant)) empty_summary))"

section \<open>Savings, outcomes and calibrations\<close>

definition matchingRecords :: "(TenantID, ID, SavingsRecord) tbl2 \<Rightarrow> TenantID \<Rightarrow> Period \<Rightarrow> SavingsRecord list" where
  "matchingRecords m tenant period =
     filter (\<lambda>r. Period_IsZero period \<or> Contains period (sr_CreatedAt r)) (map snd (rows m tenant))"

definition savings_List :: "(gotime \<Rightarrow> string) \<Rightarrow> Principal option \<Rightarrow> (TenantID, ID, SavingsRecord) tbl2 \<Rightarrow> TenantID \<Rightarrow>
    Period \<Rightarrow> err + SavingsRecord list" where
  "savings_List stamp ctx m tenant period = (case GuardTenant ctx tenant of Some e \<Rightarrow> Inl e
     | None \<Rightarrow> Inr (sortByCreatedThenID (\<lambda>r. (stamp (sr_CreatedAt r), sr_ID r)) (matchingRecords m tenant period)))"

definition savings_Funnel :: "Principal option \<Rightarrow> (TenantID, ID, SavingsRecord) tbl2 \<Rightarrow> TenantID \<Rightarrow> Period \<Rightarrow>
    (err + Funnel) option" where
  "savings_Funnel ctx m tenant period = (case GuardTenant ctx tenant of Some e \<Rightarrow> Some (Inl e)
     | None \<Rightarrow> map_option Inr (BuildFunnel (matchingRecords m tenant period)))"

definition ListOutcomes :: "Principal option \<Rightarrow> Outcome list \<Rightarrow> TenantID \<Rightarrow> RuleID \<Rightarrow> int \<Rightarrow> err + Outcome list" where
  "ListOutcomes ctx os tenant rule limit = (case GuardTenant ctx tenant of Some e \<Rightarrow> Inl e
     | None \<Rightarrow> let items = stable_sort (by_desc oc_ObservedAt)
             (filter (\<lambda>x. oc_TenantID x = tenant \<and> (rule = '''' \<or> oc_RuleID x = rule)) os)
         in Inr (if 0 < limit \<and> limit < int (length items) then take (nat limit) items else items))"

type_synonym calibrations = "(TenantID, RuleID, RuleCalibration) tbl2"

definition SaveCalibration :: "Principal option \<Rightarrow> TenantID \<Rightarrow> RuleID \<Rightarrow> RuleCalibration \<Rightarrow> calibrations \<Rightarrow> err option \<times> calibrations" where
  "SaveCalibration ctx tenant rule c m = (case GuardTenant ctx tenant of Some e \<Rightarrow> (Some e, m)
     | None \<Rightarrow> (None, put2 tenant rule c m))"

definition LoadCalibrations :: "Principal option \<Rightarrow> calibrations \<Rightarrow> TenantID \<Rightarrow> err + (RuleID, RuleCalibration) tbl" where
  "LoadCalibrations ctx m tenant = (case GuardTenant ctx tenant of Some e \<Rightarrow> Inl e | None \<Rightarrow> Inr (rows m tenant))"

end
