(* ===== verification/ResRepo.thy ===== *)
theory ResRepo imports Principal Resource Topology Store Paging begin

text \<open>
  \<open>internal/adapters/memstore/resource.go\<close>: the repository of resources and their relationships. A store holds the
  resources and the index by natural key of every tenant, and the edges. Every operation holds one lock for its body; the
  reads that follow each other in \<open>LoadTopology\<close> see the same store here. Identifiers and tenants of edges are not modelled.
\<close>

record resource_store =
  st_Resources :: "(TenantID, ID, Resource) tbl2"
  st_ResourceByKey :: "(TenantID, string, ID) tbl2"
  st_Relationships :: "(TenantID, Relationship list) tbl"

definition no_resources :: resource_store where
  "no_resources = \<lparr>st_Resources = [], st_ResourceByKey = [], st_Relationships = []\<rparr>"

section \<open>Writing resources\<close>

text \<open>One resource: a known key keeps its identifier and its first sight, everything else is refreshed; \<open>fresh\<close> is the
  identifier drawn for a new resource without one.\<close>

definition upsert_one :: "TenantID \<Rightarrow> ID \<Rightarrow> Resource \<Rightarrow> resource_store \<Rightarrow> resource_store" where
  "upsert_one tenant fresh res s = (case get2 (st_ResourceByKey s) tenant (Resource_Key res) of
     Some i \<Rightarrow> (case get2 (st_Resources s) tenant i of
         Some existing \<Rightarrow> let res = res\<lparr>res_ID := res_ID existing\<rparr>;
             res = (if 0 < res_FirstSeenAt existing then res\<lparr>res_FirstSeenAt := res_FirstSeenAt existing\<rparr> else res)
           in s\<lparr>st_Resources := put2 tenant (res_ID res) res (st_Resources s)\<rparr>
       | None \<Rightarrow> s\<lparr>st_Resources := put2 tenant '''' (res\<lparr>res_ID := ''''\<rparr>) (st_Resources s)\<rparr>)
   | None \<Rightarrow> let res = (if id_IsZero (res_ID res) then res\<lparr>res_ID := fresh\<rparr> else res);
         res = (if res_FirstSeenAt res = 0 then res\<lparr>res_FirstSeenAt := res_LastSeenAt res\<rparr> else res)
       in s\<lparr>st_ResourceByKey := put2 tenant (Resource_Key res) (res_ID res) (st_ResourceByKey s),
            st_Resources := put2 tenant (res_ID res) res (st_Resources s)\<rparr>)"

fun upsert_batch :: "TenantID \<Rightarrow> (nat \<Rightarrow> ID) \<Rightarrow> nat \<Rightarrow> Resource list \<Rightarrow> resource_store \<Rightarrow> nat \<times> err option \<times> resource_store" where
  "upsert_batch tenant fresh n [] s = (n, None, s)"
| "upsert_batch tenant fresh n (res # rs) s = (if res_TenantID res \<noteq> tenant
     then (n, Some (NewError ErrTenantMismatch ''tenant_mismatch''), s)
     else upsert_batch tenant fresh (n + 1) rs (upsert_one tenant (fresh n) res s))"

definition UpsertBatch :: "Principal option \<Rightarrow> TenantID \<Rightarrow> (nat \<Rightarrow> ID) \<Rightarrow> Resource list \<Rightarrow> resource_store \<Rightarrow>
    nat \<times> err option \<times> resource_store" where
  "UpsertBatch ctx tenant fresh rs s = (case GuardTenant ctx tenant of Some e \<Rightarrow> (0, Some e, s)
     | None \<Rightarrow> upsert_batch tenant fresh 0 rs s)"

definition absent :: "AccountID \<Rightarrow> Region \<Rightarrow> Kind list \<Rightarrow> string list \<Rightarrow> Resource \<Rightarrow> bool" where
  "absent account region kinds seenKeys res \<longleftrightarrow>
     \<not> (res_Deleted res \<or> res_AccountID res \<noteq> account \<or> res_Region res \<noteq> region \<or> res_Kind res \<notin> set kinds) \<and>
     Resource_Key res \<notin> set seenKeys"

definition MarkAbsent :: "Principal option \<Rightarrow> TenantID \<Rightarrow> AccountID \<Rightarrow> Region \<Rightarrow> Kind list \<Rightarrow> string list \<Rightarrow> gotime \<Rightarrow>
    resource_store \<Rightarrow> (err + nat) \<times> resource_store" where
  "MarkAbsent ctx tenant account region kinds seenKeys t s = (case GuardTenant ctx tenant of Some e \<Rightarrow> (Inl e, s)
     | None \<Rightarrow> let rs = rows (st_Resources s) tenant; gone = absent account region kinds seenKeys in
         (Inr (length (filter (\<lambda>(i, res). gone res) rs)),
          s\<lparr>st_Resources := tbl_put tenant (map_tbl (\<lambda>i res. if gone res
            then res\<lparr>res_Deleted := True, res_LastSeenAt := t\<rparr> else res) rs) (st_Resources s)\<rparr>))"

section \<open>Reading resources\<close>

definition resource_Get :: "Principal option \<Rightarrow> resource_store \<Rightarrow> TenantID \<Rightarrow> ID \<Rightarrow> err + Resource" where
  "resource_Get ctx s tenant i = (case GuardTenant ctx tenant of Some e \<Rightarrow> Inl e
     | None \<Rightarrow> (case get2 (st_Resources s) tenant i of None \<Rightarrow> Inl NotFound | Some res \<Rightarrow> Inr res))"

definition GetByNativeID :: "Principal option \<Rightarrow> resource_store \<Rightarrow> TenantID \<Rightarrow> AccountID \<Rightarrow> Region \<Rightarrow> string \<Rightarrow> err + Resource" where
  "GetByNativeID ctx s tenant account region native = (case GuardTenant ctx tenant of Some e \<Rightarrow> Inl e
     | None \<Rightarrow> (case find (\<lambda>res. res_AccountID res = account \<and> res_Region res = region \<and> res_NativeID res = native)
           (map snd (rows (st_Resources s) tenant)) of None \<Rightarrow> Inl NotFound | Some res \<Rightarrow> Inr res))"

record ResourceFilter =
  ff_AccountIDs :: "AccountID list"
  ff_Regions :: "Region list"
  ff_Kinds :: "Kind list"
  ff_Categories :: "cloud_Category list"
  ff_Environments :: "Environment list"
  ff_ApplicationID :: ID
  ff_WorkloadID :: ID
  ff_States :: "State list"
  ff_TagKey :: string
  ff_TagValue :: string
  ff_Search :: string
  ff_MinMonthlyCost :: Money
  ff_IncludeDeleted :: bool

definition every_resource :: ResourceFilter where
  "every_resource = \<lparr>ff_AccountIDs = [], ff_Regions = [], ff_Kinds = [], ff_Categories = [], ff_Environments = [],
     ff_ApplicationID = '''', ff_WorkloadID = '''', ff_States = [], ff_TagKey = '''', ff_TagValue = '''', ff_Search = '''',
     ff_MinMonthlyCost = zero_money, ff_IncludeDeleted = False\<rparr>"

definition containsVal :: "'a list \<Rightarrow> 'a \<Rightarrow> bool" where
  "containsVal xs v = list_ex (\<lambda>x. x = v) xs"

definition matchesResourceFilter :: "Resource \<Rightarrow> ResourceFilter \<Rightarrow> bool" where
  "matchesResourceFilter res f \<longleftrightarrow>
     (\<not> res_Deleted res \<or> ff_IncludeDeleted f) \<and>
     (ff_AccountIDs f = [] \<or> containsVal (ff_AccountIDs f) (res_AccountID res)) \<and>
     (ff_Regions f = [] \<or> containsVal (ff_Regions f) (res_Region res)) \<and>
     (ff_Kinds f = [] \<or> containsVal (ff_Kinds f) (res_Kind res)) \<and>
     (ff_Categories f = [] \<or> containsVal (ff_Categories f) (Kind_Category (res_Kind res))) \<and>
     (ff_Environments f = [] \<or> containsVal (ff_Environments f) (res_Environment res)) \<and>
     (id_IsZero (ff_ApplicationID f) \<or> res_ApplicationID res = ff_ApplicationID f) \<and>
     (id_IsZero (ff_WorkloadID f) \<or> res_WorkloadID res = ff_WorkloadID f) \<and>
     (ff_States f = [] \<or> containsVal (ff_States f) (res_State res)) \<and>
     (ff_TagKey f = '''' \<or> (case Tags_Get (res_Tags res) (ff_TagKey f) of None \<Rightarrow> False
       | Some v \<Rightarrow> ff_TagValue f = '''' \<or> equal_fold v (ff_TagValue f))) \<and>
     (ff_Search f = '''' \<or> str_contains
       (to_lower (DisplayName res @ '' '' @ res_NativeID res @ '' '' @ res_ARN res @ '' '' @ res_Owner res)) (to_lower (ff_Search f))) \<and>
     (IsZero (ff_MinMonthlyCost f) \<or> \<not> LessThan (res_MonthlyCost res) (ff_MinMonthlyCost f))"

definition filtered :: "resource_store \<Rightarrow> TenantID \<Rightarrow> ResourceFilter \<Rightarrow> Resource list" where
  "filtered s tenant f = filter (\<lambda>res. matchesResourceFilter res f) (map snd (rows (st_Resources s) tenant))"

text \<open>\<open>stamp\<close> is \<open>Format(sortTimeLayout)\<close>.\<close>

definition resource_List :: "(string \<times> string \<Rightarrow> string) \<Rightarrow> (string \<Rightarrow> (string \<times> string) option) \<Rightarrow> (gotime \<Rightarrow> string) \<Rightarrow>
    Principal option \<Rightarrow> resource_store \<Rightarrow> TenantID \<Rightarrow> ResourceFilter \<Rightarrow> ListOptions \<Rightarrow> err + Resource Page" where
  "resource_List enc dec stamp ctx s tenant f opts = (case GuardTenant ctx tenant of Some e \<Rightarrow> Inl e
     | None \<Rightarrow> let keyOf = (\<lambda>res. (stamp (res_LastSeenAt res), res_ID res)) in
         Inr (paginate enc dec (sortByCreatedThenID keyOf (filtered s tenant f)) opts keyOf))"

definition LoadInventory :: "Principal option \<Rightarrow> resource_store \<Rightarrow> TenantID \<Rightarrow> ResourceFilter \<Rightarrow> err + Inventory" where
  "LoadInventory ctx s tenant f = (case GuardTenant ctx tenant of Some e \<Rightarrow> Inl e
     | None \<Rightarrow> Inr (NewInventory (filtered s tenant f)))"

definition resource_Count :: "Principal option \<Rightarrow> resource_store \<Rightarrow> TenantID \<Rightarrow> ResourceFilter \<Rightarrow> err + nat" where
  "resource_Count ctx s tenant f = (case GuardTenant ctx tenant of Some e \<Rightarrow> Inl e | None \<Rightarrow> Inr (length (filtered s tenant f)))"

section \<open>Relationships\<close>

definition relationships :: "resource_store \<Rightarrow> TenantID \<Rightarrow> Relationship list" where
  "relationships s tenant = (case tbl_get (st_Relationships s) tenant of None \<Rightarrow> [] | Some es \<Rightarrow> es)"

definition in_scan :: "resource_store \<Rightarrow> TenantID \<Rightarrow> AccountID \<Rightarrow> Region \<Rightarrow> ID \<Rightarrow> bool" where
  "in_scan s tenant account region i \<longleftrightarrow> (case get2 (st_Resources s) tenant i of None \<Rightarrow> False
     | Some res \<Rightarrow> res_AccountID res = account \<and> res_Region res = region)"

definition ReplaceRelationships :: "Principal option \<Rightarrow> TenantID \<Rightarrow> AccountID \<Rightarrow> Region \<Rightarrow> Relationship list \<Rightarrow> resource_store \<Rightarrow>
    err option \<times> resource_store" where
  "ReplaceRelationships ctx tenant account region es s = (case GuardTenant ctx tenant of Some e \<Rightarrow> (Some e, s)
     | None \<Rightarrow> let inScope = in_scan s tenant account region;
           kept = filter (\<lambda>e. \<not> inScope (FromID e) \<and> \<not> inScope (ToID e)) (relationships s tenant)
         in (None, s\<lparr>st_Relationships := tbl_put tenant (kept @ es) (st_Relationships s)\<rparr>))"

definition LoadTopology :: "Principal option \<Rightarrow> resource_store \<Rightarrow> TenantID \<Rightarrow> ResourceFilter \<Rightarrow> err + Topology" where
  "LoadTopology ctx s tenant f = (case GuardTenant ctx tenant of Some e \<Rightarrow> Inl e
     | None \<Rightarrow> let ids = set (map res_ID (filtered s tenant f)) in
         Inr (NewTopology (filter (\<lambda>e. FromID e \<in> ids \<and> ToID e \<in> ids) (relationships s tenant))))"

end
