(* ===== verification/Engine.thy ===== *)
theory Engine imports Metrics Contract Conflict Topology SpecModel Savings Store begin

text \<open>
  The rule engine, \<open>internal/application/optimization\<close>: what a rule may read (\<open>EvalContext\<close>), the thresholds with
  their tenant overrides and the registry (\<open>engine.go\<close>), the helpers and guards every rule shares (\<open>rule.go\<close>,
  \<open>util.go\<close>). The pricing catalogue is a record of functions. Texts of findings and evidences are not modelled; the id
  drawn for a finding is a function of the rule and the resource, since a rule makes at most one finding for a resource.
\<close>

section \<open>What a rule reads\<close>

record InstanceSpec =
  is_Type :: string
  is_Family :: string
  is_Size :: string
  is_Generation :: int
  is_VCPU :: rat
  is_MemoryGiB :: rat
  is_NetworkGbps :: rat
  is_EBSOptimized :: bool
  is_Architecture :: string
  is_Burstable :: bool
  is_SuccessorType :: string

record PricingCatalog =
  pr_InstancePrice :: "Region \<Rightarrow> string \<Rightarrow> string \<Rightarrow> Money option"
  pr_SpotPrice :: "Region \<Rightarrow> string \<Rightarrow> Money option"
  pr_StoragePrice :: "Region \<Rightarrow> string \<Rightarrow> Money option"
  pr_IOPSPrice :: "Region \<Rightarrow> string \<Rightarrow> Money option"
  pr_ThroughputPrice :: "Region \<Rightarrow> string \<Rightarrow> Money option"
  pr_DatabasePrice :: "Region \<Rightarrow> string \<Rightarrow> string \<Rightarrow> bool \<Rightarrow> Money option"
  pr_CachePrice :: "Region \<Rightarrow> string \<Rightarrow> string \<Rightarrow> Money option"
  pr_ServicePrice :: "Region \<Rightarrow> string \<Rightarrow> string \<Rightarrow> Money option"
  pr_DataTransferPrice :: "Region \<Rightarrow> string \<Rightarrow> Money option"
  pr_InstanceSpec :: "string \<Rightarrow> InstanceSpec option"
  pr_InstanceFamily :: "string \<Rightarrow> string list"
  pr_CommitmentPrice :: "Region \<Rightarrow> string \<Rightarrow> string \<Rightarrow> string \<Rightarrow> Money option"

text \<open>A definition of the rule pack and one tenant's deviation from it.\<close>

record RuleDef =
  rd_Enabled :: bool
  rd_Thresholds :: "(string, rat) tbl"

record tenantOverride =
  to_enabled :: "bool option"
  to_thresholds :: "(string, rat) tbl"

record ThresholdSource =
  ts_defs :: "(RuleID, RuleDef) tbl"
  ts_overrides :: "(TenantID, RuleID, tenantOverride) tbl2"

record EvalContext =
  ec_TenantID :: TenantID
  ec_Inventory :: Inventory
  ec_Topology :: Topology
  ec_Metrics :: "(ID, ResourceMetrics) tbl"
  ec_CostByResource :: "(ID, Money) tbl"
  ec_Pricing :: PricingCatalog
  ec_Spec :: Spec
  ec_Calibrations :: "(RuleID, RuleCalibration) tbl"
  ec_Thresholds :: ThresholdSource
  ec_Now :: gotime
  ec_NewID :: "RuleID \<Rightarrow> ID \<Rightarrow> ID"

section \<open>Thresholds\<close>

definition no_override :: tenantOverride where
  "no_override = \<lparr>to_enabled = None, to_thresholds = []\<rparr>"

definition SetTenantOverride :: "TenantID \<Rightarrow> RuleID \<Rightarrow> bool option \<Rightarrow> (string, rat) tbl option \<Rightarrow> ThresholdSource \<Rightarrow>
    ThresholdSource" where
  "SetTenantOverride tenant rule enabled thresholds ts = (let
     cur = (case get2 (ts_overrides ts) tenant rule of None \<Rightarrow> no_override | Some x \<Rightarrow> x);
     cur = (if enabled \<noteq> None then cur\<lparr>to_enabled := enabled\<rparr> else cur);
     cur = (case thresholds of None \<Rightarrow> cur
       | Some t \<Rightarrow> cur\<lparr>to_thresholds := fold (\<lambda>(k, v). tbl_put k v) t (to_thresholds cur)\<rparr>)
   in ts\<lparr>ts_overrides := put2 tenant rule cur (ts_overrides ts)\<rparr>)"

definition lookupOverride :: "ThresholdSource \<Rightarrow> TenantID \<Rightarrow> RuleID \<Rightarrow> tenantOverride option" where
  "lookupOverride ts tenant rule = get2 (ts_overrides ts) tenant rule"

definition ts_Enabled :: "ThresholdSource \<Rightarrow> TenantID \<Rightarrow> RuleID \<Rightarrow> bool \<Rightarrow> bool" where
  "ts_Enabled ts tenant rule shippedDefault =
    (case Option.bind (lookupOverride ts tenant rule) to_enabled of Some b \<Rightarrow> b
     | None \<Rightarrow> (case tbl_get (ts_defs ts) rule of Some d \<Rightarrow> rd_Enabled d | None \<Rightarrow> shippedDefault))"

text \<open>The value of a key, when the tenant or the pack sets it; the three readers below share the lookup.\<close>

definition ts_value :: "ThresholdSource \<Rightarrow> TenantID \<Rightarrow> RuleID \<Rightarrow> string \<Rightarrow> rat option" where
  "ts_value ts tenant rule key =
    (case Option.bind (lookupOverride ts tenant rule) (\<lambda>x. tbl_get (to_thresholds x) key) of Some v \<Rightarrow> Some v
     | None \<Rightarrow> Option.bind (tbl_get (ts_defs ts) rule) (\<lambda>d. tbl_get (rd_Thresholds d) key))"

definition resolveFloat :: "ThresholdSource \<Rightarrow> TenantID \<Rightarrow> RuleID \<Rightarrow> string \<Rightarrow> rat \<Rightarrow> rat" where
  "resolveFloat ts tenant rule key fallback = (case ts_value ts tenant rule key of Some v \<Rightarrow> v | None \<Rightarrow> fallback)"

definition ts_Int :: "ThresholdSource \<Rightarrow> TenantID \<Rightarrow> RuleID \<Rightarrow> string \<Rightarrow> int \<Rightarrow> int" where
  "ts_Int ts tenant rule key fallback = f2i (f64 (resolveFloat ts tenant rule key (i2f fallback) + 1 / 2))"

definition ts_Bool :: "ThresholdSource \<Rightarrow> TenantID \<Rightarrow> RuleID \<Rightarrow> string \<Rightarrow> bool \<Rightarrow> bool" where
  "ts_Bool ts tenant rule key fallback = (case ts_value ts tenant rule key of Some v \<Rightarrow> v \<noteq> 0 | None \<Rightarrow> fallback)"

definition ts_Duration :: "ThresholdSource \<Rightarrow> TenantID \<Rightarrow> RuleID \<Rightarrow> string \<Rightarrow> int \<Rightarrow> int \<Rightarrow> int" where
  "ts_Duration ts tenant rule key unit fallback =
    (case ts_value ts tenant rule key of Some v \<Rightarrow> f2i (f64 (v * i2f unit)) | None \<Rightarrow> fallback)"

text \<open>Reading a threshold of the rule at hand.\<close>

definition threshold :: "EvalContext \<Rightarrow> RuleID \<Rightarrow> string \<Rightarrow> rat \<Rightarrow> rat" where
  "threshold ctx rule key fallback = resolveFloat (ec_Thresholds ctx) (ec_TenantID ctx) rule key fallback"

definition threshold_int :: "EvalContext \<Rightarrow> RuleID \<Rightarrow> string \<Rightarrow> int \<Rightarrow> int" where
  "threshold_int ctx rule key fallback = ts_Int (ec_Thresholds ctx) (ec_TenantID ctx) rule key fallback"

definition threshold_hours :: "EvalContext \<Rightarrow> RuleID \<Rightarrow> string \<Rightarrow> int \<Rightarrow> int" where
  "threshold_hours ctx rule key fallback =
     ts_Duration (ec_Thresholds ctx) (ec_TenantID ctx) rule key nanos_per_hour (fallback * nanos_per_hour)"

section \<open>Small helpers\<close>

fun index_of_fold :: "nat \<Rightarrow> string list \<Rightarrow> string \<Rightarrow> int" where
  "index_of_fold i [] w = -1"
| "index_of_fold i (v # vs) w = (if to_lower (trim_space v) = w then int i else index_of_fold (i + 1) vs w)"

definition indexOfFold :: "string list \<Rightarrow> string \<Rightarrow> int" where
  "indexOfFold xs want = index_of_fold 0 xs (to_lower (trim_space want))"

text \<open>\<open>strconv.ParseFloat\<close> on decimal numbers: a sign, digits with at most one point, an exponent. The other spellings it
  accepts (hexadecimal, infinities, not-a-number) count as errors here.\<close>

fun digits :: "int \<Rightarrow> string \<Rightarrow> int" where
  "digits acc [] = acc"
| "digits acc (c # cs) = digits (10 * acc + (of_char c - 48)) cs"

definition parse_exponent :: "string \<Rightarrow> int option" where
  "parse_exponent s = (case s of [] \<Rightarrow> Some 0
     | e # r \<Rightarrow> if e \<noteq> CHR ''e'' \<and> e \<noteq> CHR ''E'' then None else
         let neg = (case r of c # _ \<Rightarrow> c = CHR ''-'' | [] \<Rightarrow> False);
           ds = (case r of c # cs \<Rightarrow> if c = CHR ''-'' \<or> c = CHR ''+'' then cs else r | [] \<Rightarrow> [])
         in if ds = [] \<or> \<not> list_all is_digit ds then None else Some (if neg then - digits 0 ds else digits 0 ds))"

definition ParseFloat :: "string \<Rightarrow> rat option" where
  "ParseFloat s = (let
     neg = (case s of c # _ \<Rightarrow> c = CHR ''-'' | [] \<Rightarrow> False);
     s = (case s of c # cs \<Rightarrow> if c = CHR ''-'' \<or> c = CHR ''+'' then cs else s | [] \<Rightarrow> []);
     whole = takeWhile is_digit s; rest = dropWhile is_digit s;
     frac = (case rest of c # cs \<Rightarrow> if c = CHR ''.'' then takeWhile is_digit cs else [] | [] \<Rightarrow> []);
     rest = (case rest of c # cs \<Rightarrow> if c = CHR ''.'' then dropWhile is_digit cs else rest | [] \<Rightarrow> [])
   in if whole = [] \<and> frac = [] then None
      else (case parse_exponent rest of None \<Rightarrow> None
        | Some e \<Rightarrow> let m = (of_int (digits 0 (whole @ frac)) / 10 ^ length frac :: rat);
            v = (if 0 \<le> e then m * 10 ^ nat e else m / 10 ^ nat (- e))
          in Some (f64 (if neg then - v else v))))"

definition parseFloatAttr :: "string \<Rightarrow> rat \<Rightarrow> rat" where
  "parseFloatAttr v def = (if v = '''' then def else (case ParseFloat (trim_space v) of None \<Rightarrow> def | Some f \<Rightarrow> f))"

definition parseIntAttr :: "string \<Rightarrow> int \<Rightarrow> int" where
  "parseIntAttr v def = f2i (f64 (parseFloatAttr v (i2f def) + 1 / 2))"

definition daysSince :: "gotime \<Rightarrow> gotime \<Rightarrow> rat" where
  "daysSince t now = (if t = 0 then 0 else f64 (Hours \<lparr>Start = t, End = now\<rparr> / 24))"

definition minFloat :: "rat \<Rightarrow> rat \<Rightarrow> rat" where "minFloat a b = (if a < b then a else b)"
definition maxFloat :: "rat \<Rightarrow> rat \<Rightarrow> rat" where "maxFloat a b = (if a > b then a else b)"

definition dbSizeLadder :: "string list" where
  "dbSizeLadder = [''micro'', ''small'', ''medium'', ''large'', ''xlarge'', ''2xlarge'', ''4xlarge'', ''8xlarge'', ''12xlarge'',
     ''16xlarge'', ''24xlarge'']"

text \<open>The part before the last point and the part after it; both must be there.\<close>

definition last_point :: "string \<Rightarrow> (string \<times> string) option" where
  "last_point s = (let sz = rev (takeWhile (\<lambda>c. c \<noteq> CHR ''.'') (rev s)); n = length s - length sz in
     if n \<le> 1 \<or> sz = [] then None else Some (take (n - 1) s, sz))"

definition stepDBClass :: "string \<Rightarrow> bool \<Rightarrow> string option" where
  "stepDBClass class' larger = (case last_point class' of None \<Rightarrow> None
     | Some (prefix, sz) \<Rightarrow> let pos = indexOfFold dbSizeLadder sz in
         if pos < 0 then None
         else if larger then (if pos + 1 \<ge> int (length dbSizeLadder) then None
           else Some (prefix @ ''.'' @ dbSizeLadder ! nat (pos + 1)))
         else if pos = 0 then None else Some (prefix @ ''.'' @ dbSizeLadder ! nat (pos - 1)))"

definition HoursPerMonth :: rat where "HoursPerMonth = 730"

section \<open>Guards every rule shares\<close>

definition MetricsFor :: "EvalContext \<Rightarrow> ID \<Rightarrow> ResourceMetrics option" where
  "MetricsFor ctx i = tbl_get (ec_Metrics ctx) i"

definition CostFor :: "EvalContext \<Rightarrow> Resource \<Rightarrow> Money" where
  "CostFor ctx r = (case tbl_get (ec_CostByResource ctx) (res_ID r) of
     Some c \<Rightarrow> if \<not> IsZero c then c else res_MonthlyCost r | None \<Rightarrow> res_MonthlyCost r)"

definition HasSufficientData :: "ResourceMetrics \<Rightarrow> rat \<Rightarrow> int \<Rightarrow> bool" where
  "HasSufficientData m minCoverage minWindow \<longleftrightarrow> HasSignal m minCoverage \<and> minWindow \<le> Duration (rm_Window m)"

definition MetricEvidence :: "string \<Rightarrow> Percentiles option \<Rightarrow> string \<Rightarrow> Evidence" where
  "MetricEvidence label p source = \<lparr>ev_Kind = ''metric'', ev_Label = label, ev_Source = source, ev_Percentiles = p\<rparr>"

definition ConfigEvidence :: "string \<Rightarrow> Evidence" where
  "ConfigEvidence label = \<lparr>ev_Kind = ''config'', ev_Label = label, ev_Source = ''discovery'', ev_Percentiles = None\<rparr>"

definition CostEvidence :: "string \<Rightarrow> string \<Rightarrow> Evidence" where
  "CostEvidence label source = \<lparr>ev_Kind = ''cost'', ev_Label = label, ev_Source = source, ev_Percentiles = None\<rparr>"

definition TopologyEvidence :: "string \<Rightarrow> Evidence" where
  "TopologyEvidence label = \<lparr>ev_Kind = ''topology'', ev_Label = label, ev_Source = ''discovery'', ev_Percentiles = None\<rparr>"

definition capSaving :: "Money \<Rightarrow> Money \<Rightarrow> Money" where
  "capSaving saving current = (if IsZero current then saving
     else if Ratio saving current > f64 (102 / 100) then current else saving)"

definition NewFinding :: "EvalContext \<Rightarrow> RuleID \<Rightarrow> optimize_Category \<Rightarrow> Resource \<Rightarrow> Severity \<Rightarrow> Evidence list \<Rightarrow> Money \<Rightarrow> Money \<Rightarrow>
    err + Finding" where
  "NewFinding ctx rule category r severity evidence current saving = (let
     f = \<lparr>fi_ID = ec_NewID ctx rule (res_ID r), fi_TenantID = ec_TenantID ctx, fi_RuleID = rule, fi_Category = category,
       fi_ResourceID = res_ID r, fi_ResourceKind = res_Kind r, fi_AccountID = res_AccountID r, fi_Region = res_Region r,
       fi_Environment = res_Environment r, fi_Severity = severity, fi_Evidence = evidence, fi_CurrentMonthlyCost = current,
       fi_EstimatedMonthlySaving = capSaving saving current\<rparr>
   in case Finding_Validate f of Some e \<Rightarrow> Inl e | None \<Rightarrow> Inr f)"

text \<open>The excluded tags are a Go map; which entry decides does not matter, since the answer is whether one does.\<close>

definition ExcludedBySpec :: "Spec \<Rightarrow> Resource \<Rightarrow> ActionType \<Rightarrow> bool" where
  "ExcludedBySpec sp r action = (let op = sp_Optimization sp in
     list_ex (\<lambda>a. equal_fold a (action_string action)) (op_ExcludedActions op) \<or>
     list_ex (\<lambda>i. i \<noteq> '''' \<and> (equal_fold i (res_NativeID r) \<or> equal_fold i (res_ARN r) \<or> equal_fold i (DisplayName r)))
       (op_ExcludedResources op) \<or>
     list_ex (\<lambda>(k, v). case Tags_Get (res_Tags r) k of None \<Rightarrow> False
       | Some got \<Rightarrow> v = '''' \<or> v = ''*'' \<or> equal_fold got v) (op_ExcludedTags op))"

definition MeetsMinSaving :: "Spec \<Rightarrow> rat \<Rightarrow> Money \<Rightarrow> bool" where
  "MeetsMinSaving sp ruleMinimum saving = (let t = op_MinSavingThreshold (sp_Optimization sp);
     floor' = (if t > ruleMinimum then t else ruleMinimum) in floor' \<le> Units saving)"

definition RiskTolerance :: "Spec \<Rightarrow> int" where
  "RiskTolerance sp = (let t = to_lower (trim_space (op_RiskTolerance (sp_Optimization sp))) in
     if t = ''high'' then 2 else if t = ''medium'' \<or> t = ''moderate'' then 1 else 0)"

definition SpotAllowed :: "Spec \<Rightarrow> bool" where
  "SpotAllowed sp \<longleftrightarrow> op_SpotAllowed (sp_Optimization sp) \<and> 1 \<le> RiskTolerance sp"

definition InterruptionTolerant :: "string \<Rightarrow> bool" where
  "InterruptionTolerant t \<longleftrightarrow> t \<in> {''worker'', ''batch'', ''stream'', ''ml_training'', ''microservice'', ''api''}"

definition matchedWorkload :: "Spec \<Rightarrow> Resource \<Rightarrow> SpecWorkload option" where
  "matchedWorkload sp r = (let
     tagName = Tags_First (res_Tags r) [''workload'', ''Workload'', ''cloudoptix:workload''];
     name = Assessment.Normalize (DisplayName r)
   in case find (\<lambda>w. tagName \<noteq> '''' \<and> equal_fold tagName (wl_Name w)) (sp_Workloads sp) of Some w \<Rightarrow> Some w
      | None \<Rightarrow> find (\<lambda>w. let wn = Assessment.Normalize (wl_Name w) in wn \<noteq> '''' \<and> has_prefix name wn) (sp_Workloads sp))"

definition matchedTransactions :: "Spec \<Rightarrow> Resource \<Rightarrow> TransactionSpec list" where
  "matchedTransactions sp r = (case matchedWorkload sp r of None \<Rightarrow> []
     | Some w \<Rightarrow> filter (\<lambda>tx. list_ex (\<lambda>wn. equal_fold wn (wl_Name w)) (tx_Workloads tx)) (bu_Transactions (sp_Business sp)))"

section \<open>Rules\<close>

text \<open>The outcome of a rule's decision: the code panics when it adds amounts in different currencies.\<close>

datatype 'a decision = Panic | Skip | Found 'a

definition need :: "'a option \<Rightarrow> ('a \<Rightarrow> 'b decision) \<Rightarrow> 'b decision" where
  "need x f = (case x of None \<Rightarrow> Skip | Some y \<Rightarrow> f y)"

definition must :: "'a option \<Rightarrow> ('a \<Rightarrow> 'b decision) \<Rightarrow> 'b decision" where
  "must x f = (case x of None \<Rightarrow> Panic | Some y \<Rightarrow> f y)"

text \<open>The last two checks of every decision: the saving is worth it, and the specification does not exclude the change.\<close>

definition worthwhile :: "EvalContext \<Rightarrow> RuleID \<Rightarrow> rat \<Rightarrow> Resource \<Rightarrow> ActionType \<Rightarrow> Money \<Rightarrow> bool" where
  "worthwhile ctx rule fallback r action saving \<longleftrightarrow>
     \<not> (\<not> MeetsMinSaving (ec_Spec ctx) (threshold ctx rule ''min_monthly_saving'' fallback) saving \<or>
        ExcludedBySpec (ec_Spec ctx) r action)"

record RuleAction =
  ac_Type :: ActionType
  ac_Parameters :: "(string \<times> param) list"
  ac_ProposedState :: StateSnapshot
  ac_Reversibility :: Reversibility
  ac_Complexity :: Complexity
  ac_ConflictDomain :: ConflictDomain

definition advisory :: RuleAction where
  "advisory = \<lparr>ac_Type = ActionAdvisoryOnly, ac_Parameters = [], ac_ProposedState = zero_snapshot,
     ac_Reversibility = ReversibilityOther '''', ac_Complexity = ComplexityOther '''', ac_ConflictDomain = ConflictDomainNone\<rparr>"

definition action :: "ActionType \<Rightarrow> (string \<times> param) list \<Rightarrow> StateSnapshot \<Rightarrow> Reversibility \<Rightarrow> Complexity \<Rightarrow> RuleAction" where
  "action a params proposed rv cx = \<lparr>ac_Type = a, ac_Parameters = params, ac_ProposedState = proposed, ac_Reversibility = rv,
     ac_Complexity = cx, ac_ConflictDomain = ConflictDomainNone\<rparr>"

definition resolvedConflictDomain :: "RuleAction \<Rightarrow> ConflictDomain" where
  "resolvedConflictDomain a = (if ac_ConflictDomain a \<noteq> ConflictDomainNone then ac_ConflictDomain a
     else DefaultConflictDomain (ac_Type a))"

text \<open>What a rule reports about a resource: severity, evidence, current cost and saving.\<close>

type_synonym claimed = "Severity \<times> Evidence list \<times> Money \<times> Money"

record FullRule =
  fr_ID :: RuleID
  fr_Category :: optimize_Category
  fr_Action :: ActionType
  fr_Enabled :: bool
  fr_Applies :: "Resource \<Rightarrow> bool"
  fr_Claim :: "EvalContext \<Rightarrow> Resource \<Rightarrow> claimed decision"
  fr_BuildAction :: "EvalContext \<Rightarrow> Resource \<Rightarrow> RuleAction option"

text \<open>The body all \<open>Evaluate\<close> methods share, around the rule's own decision; \<open>None\<close> is the panic.\<close>

definition rule_Evaluate :: "FullRule \<Rightarrow> EvalContext \<Rightarrow> Resource \<Rightarrow> (err + Finding list) option" where
  "rule_Evaluate rule ctx r = (case fr_Claim rule ctx r of Panic \<Rightarrow> None | Skip \<Rightarrow> Some (Inr [])
     | Found (severity, evidence, current, saving) \<Rightarrow>
         (case NewFinding ctx (fr_ID rule) (fr_Category rule) r severity evidence current saving of
            Inl e \<Rightarrow> Some (Inl e) | Inr f \<Rightarrow> Some (Inr [f])))"

text \<open>The shape of the two methods of a rule around its decision function.\<close>

definition claim_of :: "'d decision \<Rightarrow> ('d \<Rightarrow> claimed) \<Rightarrow> claimed decision" where
  "claim_of d f = (case d of Panic \<Rightarrow> Panic | Skip \<Rightarrow> Skip | Found x \<Rightarrow> Found (f x))"

definition action_of :: "'d decision \<Rightarrow> ('d \<Rightarrow> RuleAction option) \<Rightarrow> RuleAction option" where
  "action_of d f = (case d of Panic \<Rightarrow> None | Skip \<Rightarrow> Some advisory | Found x \<Rightarrow> f x)"

section \<open>The registry\<close>

text \<open>\<open>Register\<close> panics (\<open>None\<close>) on a duplicate and on a rule without an entry in the pack.\<close>

definition Register :: "ThresholdSource \<Rightarrow> FullRule \<Rightarrow> FullRule list \<Rightarrow> FullRule list option" where
  "Register ts rule rules = (if fr_ID rule \<in> fr_ID ` set rules then None
     else if tbl_get (ts_defs ts) (fr_ID rule) = None then None else Some (rules @ [rule]))"

definition Rules :: "FullRule list \<Rightarrow> FullRule list" where
  "Rules rules = stable_sort (by_asc fr_ID) rules"

definition Registry_Get :: "FullRule list \<Rightarrow> RuleID \<Rightarrow> FullRule option" where
  "Registry_Get rules i = find (\<lambda>x. fr_ID x = i) rules"

record EvalDiagnostics =
  di_ResourcesConsidered :: int
  di_RulesEvaluated :: int
  di_RulesSkippedDisabled :: int
  di_FindingsProduced :: int
  di_FindingsRejected :: int
  di_Errors :: "err list"

definition no_diagnostics :: EvalDiagnostics where
  "no_diagnostics = \<lparr>di_ResourcesConsidered = 0, di_RulesEvaluated = 0, di_RulesSkippedDisabled = 0, di_FindingsProduced = 0,
     di_FindingsRejected = 0, di_Errors = []\<rparr>"

definition keep_finding :: "Finding \<Rightarrow> Finding list \<times> EvalDiagnostics \<Rightarrow> Finding list \<times> EvalDiagnostics" where
  "keep_finding f s = (case s of (fs, d) \<Rightarrow> (case Finding_Validate f of
     Some _ \<Rightarrow> (fs, d\<lparr>di_FindingsRejected := di_FindingsRejected d + 1\<rparr>)
   | None \<Rightarrow> (fs @ [f], d\<lparr>di_FindingsProduced := di_FindingsProduced d + 1\<rparr>)))"

text \<open>One resource under one rule; the request context is never cancelled here.\<close>

definition evaluate_resource :: "EvalContext \<Rightarrow> FullRule \<Rightarrow> Resource \<Rightarrow> Finding list \<times> EvalDiagnostics \<Rightarrow>
    (Finding list \<times> EvalDiagnostics) option" where
  "evaluate_resource ctx rule r s = (if res_Deleted r \<or> \<not> fr_Applies rule r then Some s
     else (case rule_Evaluate rule ctx r of None \<Rightarrow> None
       | Some (Inl e) \<Rightarrow> Some (fst s, (snd s)\<lparr>di_Errors := di_Errors (snd s) @ [e]\<rparr>)
       | Some (Inr fs) \<Rightarrow> Some (fold keep_finding fs s)))"

definition evaluate_rule :: "EvalContext \<Rightarrow> Resource list \<Rightarrow> FullRule \<Rightarrow> Finding list \<times> EvalDiagnostics \<Rightarrow>
    (Finding list \<times> EvalDiagnostics) option" where
  "evaluate_rule ctx rs rule s = (case s of (fs, d) \<Rightarrow>
     if \<not> ts_Enabled (ec_Thresholds ctx) (ec_TenantID ctx) (fr_ID rule) (fr_Enabled rule)
     then Some (fs, d\<lparr>di_RulesSkippedDisabled := di_RulesSkippedDisabled d + 1\<rparr>)
     else fold_opt (evaluate_resource ctx rule) rs (fs, d\<lparr>di_RulesEvaluated := di_RulesEvaluated d + 1\<rparr>))"

definition Registry_Evaluate :: "FullRule list \<Rightarrow> EvalContext \<Rightarrow> (Finding list \<times> EvalDiagnostics) option" where
  "Registry_Evaluate rules ctx = (let rs = stable_sort (by_asc res_ID) (resources (ec_Inventory ctx)) in
     fold_opt (evaluate_rule ctx rs) (Rules rules)
       ([], no_diagnostics\<lparr>di_ResourcesConsidered := int (length rs)\<rparr>))"

section \<open>Automation for decisions\<close>

named_theorems decisions \<open>elimination of the steps of a decision\<close>

lemma need_Found [decisions]: "need x f = Found d \<longleftrightarrow> (\<exists>y. x = Some y \<and> f y = Found d)"
  by (cases x) (auto simp: need_def)

lemma must_Found [decisions]: "must x f = Found d \<longleftrightarrow> (\<exists>y. x = Some y \<and> f y = Found d)"
  by (cases x) (auto simp: must_def)

lemma claim_of_Found [decisions]: "claim_of d f = Found c \<longleftrightarrow> (\<exists>x. d = Found x \<and> c = f x)"
  by (cases d) (auto simp: claim_of_def)

lemma action_of_Some [decisions]: "action_of d f = Some a \<longleftrightarrow> (d = Skip \<and> a = advisory) \<or> (\<exists>x. d = Found x \<and> f x = Some a)"
  by (cases d) (auto simp: action_of_def)

lemma if_Found [decisions]:
  "(if b then Skip else x) = Found d \<longleftrightarrow> \<not> b \<and> x = Found d" "(if b then x else Skip) = Found d \<longleftrightarrow> b \<and> x = Found d"
  by auto

lemma worthwhile_allowed [decisions]: "worthwhile ctx rule fb r a saving \<Longrightarrow> \<not> ExcludedBySpec (ec_Spec ctx) r a"
  by (simp add: worthwhile_def)

section \<open>What a rule promises\<close>

named_theorems claim_defs \<open>definitions of the rules, their decisions and their claims\<close>
named_theorems action_defs \<open>definitions of the rules and their actions\<close>

text \<open>A rule reports only what it has evidence for, and no change that the specification excludes.\<close>

definition sound_rule :: "FullRule \<Rightarrow> bool" where
  "sound_rule rule \<longleftrightarrow> (\<forall>ctx r severity evidence current saving.
     fr_Claim rule ctx r = Found (severity, evidence, current, saving) \<longrightarrow>
     evidence \<noteq> [] \<and> \<not> ExcludedBySpec (ec_Spec ctx) r (fr_Action rule))"

text \<open>A catalogue whose names are not blank, and an action whose parameters meet the contract of its executor.\<close>

definition named_catalog :: "PricingCatalog \<Rightarrow> bool" where
  "named_catalog pr \<longleftrightarrow> (\<forall>t sp. pr_InstanceSpec pr t = Some sp \<longrightarrow> trim_space t \<noteq> [] \<and> trim_space (is_Type sp) \<noteq> [])"

definition meets_contract :: "RuleAction \<Rightarrow> bool" where
  "meets_contract a \<longleftrightarrow> (case ParameterContractFor (ac_Type a) of None \<Rightarrow> True
     | Some c \<Rightarrow> Satisfied c (map_of (ac_Parameters a)))"

definition contracted_rule :: "FullRule \<Rightarrow> bool" where
  "contracted_rule rule \<longleftrightarrow> (\<forall>ctx r a. named_catalog (ec_Pricing ctx) \<longrightarrow> fr_BuildAction rule ctx r = Some a \<longrightarrow>
     ac_Type a \<in> {fr_Action rule, ActionAdvisoryOnly} \<and> meets_contract a)"

text \<open>A catalogue without prices and a context over some resources, for examples.\<close>

definition bare_catalog :: PricingCatalog where
  "bare_catalog = \<lparr>pr_InstancePrice = (\<lambda>_ _ _. None), pr_SpotPrice = (\<lambda>_ _. None), pr_StoragePrice = (\<lambda>_ _. None),
     pr_IOPSPrice = (\<lambda>_ _. None), pr_ThroughputPrice = (\<lambda>_ _. None), pr_DatabasePrice = (\<lambda>_ _ _ _. None),
     pr_CachePrice = (\<lambda>_ _ _. None), pr_ServicePrice = (\<lambda>_ _ _. None), pr_DataTransferPrice = (\<lambda>_ _. None),
     pr_InstanceSpec = (\<lambda>_. None), pr_InstanceFamily = (\<lambda>_. []), pr_CommitmentPrice = (\<lambda>_ _ _ _. None)\<rparr>"

definition bare_context :: "Resource list \<Rightarrow> gotime \<Rightarrow> EvalContext" where
  "bare_context rs now = \<lparr>ec_TenantID = ''t'', ec_Inventory = NewInventory rs, ec_Topology = NewTopology [], ec_Metrics = [],
     ec_CostByResource = [], ec_Pricing = bare_catalog, ec_Spec = zero_spec, ec_Calibrations = [],
     ec_Thresholds = \<lparr>ts_defs = [], ts_overrides = []\<rparr>, ec_Now = now, ec_NewID = (\<lambda>rule i. rule @ i)\<rparr>"

end
