(* ===== verification/RulesCompute.thy ===== *)
theory RulesCompute imports Engine Calendar begin

text \<open>
  The rules for instances, \<open>internal/application/optimization/rule_ec2_*.go\<close>. A rule \<open>X\<close> is modelled by \<open>X_Applies\<close>,
  its decision \<open>decideX\<close>, what its \<open>Evaluate\<close> reports (\<open>X_Evaluate\<close>, completed by \<open>rule_Evaluate\<close>), its \<open>X_BuildAction\<close>
  and the record \<open>X\<close> that collects them under the identifier and the attributes of its \<open>Info\<close>. A decision yields the
  values the two methods use.
\<close>

section \<open>Shared by the rules\<close>

definition resized_to :: "string \<Rightarrow> InstanceSpec \<Rightarrow> Money \<Rightarrow> StateSnapshot" where
  "resized_to t sp cost = zero_snapshot\<lparr>ss_InstanceType := t, ss_VCPU := is_VCPU sp, ss_MemoryGiB := is_MemoryGiB sp,
     ss_MonthlyCost := cost\<rparr>"

definition costs :: "Money \<Rightarrow> StateSnapshot" where
  "costs m = zero_snapshot\<lparr>ss_MonthlyCost := m\<rparr>"

text \<open>The difference of two hourly prices over a month; \<open>None\<close> is the panic on different currencies.\<close>

definition monthly_saving :: "Money \<Rightarrow> Money \<Rightarrow> Money option" where
  "monthly_saving cur cand = map_option (\<lambda>d. Scale d HoursPerMonth) (MustSub cur cand)"

definition parseDateAttr :: "string \<Rightarrow> gotime option" where
  "parseDateAttr v = map_option midnight (parse_date (trim_space v))"

section \<open>Rightsizing on percentiles\<close>

abbreviation "RuleIDEC2Rightsize \<equiv> ''ec2-underutilized-rightsize''"

definition ruleEC2Rightsize_Applies :: "Resource \<Rightarrow> bool" where
  "ruleEC2Rightsize_Applies r \<longleftrightarrow> res_Kind r = KindEC2Instance \<and> res_State r = StateRunning \<and>
     res_Purchase r \<noteq> PurchaseSpot \<and> res_InstanceType r \<noteq> ''''"

text \<open>The walk down the ladder: the first size known to the catalogue decides.\<close>

fun walk_down :: "PricingCatalog \<Rightarrow> rat \<Rightarrow> rat \<Rightarrow> string list \<Rightarrow> (string \<times> InstanceSpec) option" where
  "walk_down pr vcpu mem [] = None"
| "walk_down pr vcpu mem (t # ts) = (case pr_InstanceSpec pr t of None \<Rightarrow> walk_down pr vcpu mem ts
     | Some cs \<Rightarrow> if is_VCPU cs < vcpu \<or> is_MemoryGiB cs < mem then None else Some (t, cs))"

text \<open>The values of a decision: the candidate, its specification, its hourly price, the saving, the metrics.\<close>

definition decideEC2Rightsize :: "EvalContext \<Rightarrow> Resource \<Rightarrow>
    (string \<times> InstanceSpec \<times> Money \<times> Money \<times> ResourceMetrics) decision" where [claim_defs, action_defs]:
  "decideEC2Rightsize ctx r = (let th = threshold ctx RuleIDEC2Rightsize in
     need (MetricsFor ctx (res_ID r)) (\<lambda>m.
     if \<not> HasSufficientData m (th ''min_coverage'' (1 / 2)) (threshold_hours ctx RuleIDEC2Rightsize ''min_window_hours'' 168)
     then Skip else need (rm_CPU m) (\<lambda>cpu.
     if pc_P95 cpu > th ''cpu_p95_max'' 40 \<or> pc_P99 cpu > th ''cpu_p99_max'' 55 then Skip
     else if (case rm_Memory m of None \<Rightarrow> False
       | Some mem \<Rightarrow> pc_P95 mem > th ''mem_p95_max'' 55 \<or> pc_P99 mem > th ''mem_p99_max'' 70) then Skip
     else need (pr_InstanceSpec (ec_Pricing ctx) (res_InstanceType r)) (\<lambda>cur.
     let family = pr_InstanceFamily (ec_Pricing ctx) (res_InstanceType r); idx = indexOfFold family (is_Type cur) in
     if idx \<le> 0 then Skip
     else let headroom = f64 (1 + f64 (th ''headroom_buffer_pct'' 15 / 100));
       neededVCPU = f64 (f64 (is_VCPU cur * f64 (pc_P99 cpu / 100)) * headroom);
       neededMemGiB = (case rm_Memory m of None \<Rightarrow> 0
         | Some mem \<Rightarrow> f64 (f64 (is_MemoryGiB cur * f64 (pc_P99 mem / 100)) * headroom))
     in need (walk_down (ec_Pricing ctx) neededVCPU neededMemGiB (rev (take (nat idx) family))) (\<lambda>(t, cs).
     if t = '''' then Skip
     else need (pr_InstancePrice (ec_Pricing ctx) (res_Region r) (res_InstanceType r) '''') (\<lambda>curPrice.
     need (pr_InstancePrice (ec_Pricing ctx) (res_Region r) t '''') (\<lambda>candPrice.
     if \<not> LessThan candPrice curPrice then Skip
     else must (monthly_saving curPrice candPrice) (\<lambda>saving.
     if \<not> worthwhile ctx RuleIDEC2Rightsize 15 r ActionResizeInstance saving then Skip
     else Found (t, cs, candPrice, saving, m)))))))))"

definition ruleEC2Rightsize_Evaluate :: "EvalContext \<Rightarrow> Resource \<Rightarrow> claimed decision" where [claim_defs]:
  "ruleEC2Rightsize_Evaluate ctx r = claim_of (decideEC2Rightsize ctx r) (\<lambda>(t, cs, price, saving, m).
     (SeverityMedium, MetricEvidence ''CPU utilization'' (rm_CPU m) ''cloudwatch'' #
       (if rm_Memory m \<noteq> None then [MetricEvidence ''Memory utilization'' (rm_Memory m) ''cloudwatch''] else []) @
       [ConfigEvidence ''current instance type'', CostEvidence ''candidate instance type'' ''pricing_catalog''],
      CostFor ctx r, saving))"

definition ruleEC2Rightsize_BuildAction :: "EvalContext \<Rightarrow> Resource \<Rightarrow> RuleAction option" where [action_defs]:
  "ruleEC2Rightsize_BuildAction ctx r = action_of (decideEC2Rightsize ctx r) (\<lambda>(t, cs, price, saving, m).
     Some (action ActionResizeInstance
       [(''instance_type'', PString t), (''current_instance_type'', PString (res_InstanceType r))]
       (resized_to t cs (Scale price HoursPerMonth)) ReversibilityFast ComplexityLow))"

definition ruleEC2Rightsize :: FullRule where [claim_defs, action_defs]:
  "ruleEC2Rightsize = \<lparr>fr_ID = RuleIDEC2Rightsize, fr_Category = CategoryRightsizing, fr_Action = ActionResizeInstance,
     fr_Enabled = True, fr_Applies = ruleEC2Rightsize_Applies, fr_Claim = ruleEC2Rightsize_Evaluate,
     fr_BuildAction = ruleEC2Rightsize_BuildAction\<rparr>"

section \<open>Oversized for the declared workload\<close>

abbreviation "RuleIDEC2OversizedDeclared \<equiv> ''ec2-oversized-declared-workload''"

definition ruleEC2OversizedDeclared_Applies :: "Resource \<Rightarrow> bool" where
  "ruleEC2OversizedDeclared_Applies r \<longleftrightarrow> res_Kind r = KindEC2Instance \<and> res_State r = StateRunning \<and> res_InstanceType r \<noteq> ''''"

text \<open>The walk to the smallest size that is not below the floor.\<close>

fun walk_smallest :: "PricingCatalog \<Rightarrow> rat \<Rightarrow> (string \<times> InstanceSpec) option \<Rightarrow> string list \<Rightarrow> (string \<times> InstanceSpec) option" where
  "walk_smallest pr vcpu best [] = best"
| "walk_smallest pr vcpu best (t # ts) = (case pr_InstanceSpec pr t of None \<Rightarrow> walk_smallest pr vcpu best ts
     | Some cs \<Rightarrow> if is_VCPU cs < vcpu then best else walk_smallest pr vcpu (Some (t, cs)) ts)"

definition decideEC2OversizedDeclared :: "EvalContext \<Rightarrow> Resource \<Rightarrow> (string \<times> InstanceSpec \<times> Money \<times> Money) decision" where [claim_defs, action_defs]:
  "decideEC2OversizedDeclared ctx r =
     need (matchedWorkload (ec_Spec ctx) r) (\<lambda>w.
     if wl_Type w \<noteq> ''batch'' \<and> wl_Type w \<noteq> ''worker'' then Skip
     else need (pr_InstanceSpec (ec_Pricing ctx) (res_InstanceType r)) (\<lambda>cur.
     let maxVCPU = threshold ctx RuleIDEC2OversizedDeclared ''batch_max_vcpu'' 4 in
     if is_VCPU cur \<le> maxVCPU then Skip
     else let family = pr_InstanceFamily (ec_Pricing ctx) (res_InstanceType r); idx = indexOfFold family (is_Type cur) in
     if idx \<le> 0 then Skip
     else need (walk_smallest (ec_Pricing ctx) (maxFloat 1 (f64 (maxVCPU / 2))) None (rev (take (nat idx) family))) (\<lambda>(t, cs).
     if t = '''' then Skip
     else need (pr_InstancePrice (ec_Pricing ctx) (res_Region r) (res_InstanceType r) '''') (\<lambda>curPrice.
     need (pr_InstancePrice (ec_Pricing ctx) (res_Region r) t '''') (\<lambda>candPrice.
     if \<not> LessThan candPrice curPrice then Skip
     else must (monthly_saving curPrice candPrice) (\<lambda>saving.
     if \<not> worthwhile ctx RuleIDEC2OversizedDeclared 15 r ActionResizeInstance saving then Skip
     else Found (t, cs, candPrice, saving)))))))"

definition ruleEC2OversizedDeclared_Evaluate :: "EvalContext \<Rightarrow> Resource \<Rightarrow> claimed decision" where [claim_defs]:
  "ruleEC2OversizedDeclared_Evaluate ctx r = claim_of (decideEC2OversizedDeclared ctx r) (\<lambda>(t, cs, price, saving).
     (SeverityLow, [ConfigEvidence ''declared workload'', ConfigEvidence ''current instance type'',
       CostEvidence ''candidate instance type'' ''pricing_catalog''], CostFor ctx r, saving))"

definition ruleEC2OversizedDeclared_BuildAction :: "EvalContext \<Rightarrow> Resource \<Rightarrow> RuleAction option" where [action_defs]:
  "ruleEC2OversizedDeclared_BuildAction ctx r = action_of (decideEC2OversizedDeclared ctx r) (\<lambda>(t, cs, price, saving).
     Some (action ActionResizeInstance
       [(''instance_type'', PString t), (''current_instance_type'', PString (res_InstanceType r))]
       (resized_to t cs (Scale price HoursPerMonth)) ReversibilityFast ComplexityLow))"

definition ruleEC2OversizedDeclared :: FullRule where [claim_defs, action_defs]:
  "ruleEC2OversizedDeclared = \<lparr>fr_ID = RuleIDEC2OversizedDeclared, fr_Category = CategoryRightsizing,
     fr_Action = ActionResizeInstance, fr_Enabled = True, fr_Applies = ruleEC2OversizedDeclared_Applies,
     fr_Claim = ruleEC2OversizedDeclared_Evaluate, fr_BuildAction = ruleEC2OversizedDeclared_BuildAction\<rparr>"

section \<open>Stopped but still billed\<close>

abbreviation "RuleIDEC2StoppedStorage \<equiv> ''ec2-stopped-still-billing-storage''"

definition ruleEC2StoppedStorage_Applies :: "Resource \<Rightarrow> bool" where
  "ruleEC2StoppedStorage_Applies r \<longleftrightarrow> res_Kind r = KindEC2Instance \<and> res_State r = StateStopped"

definition decideEC2StoppedStorage :: "EvalContext \<Rightarrow> Resource \<Rightarrow> Money decision" where [claim_defs, action_defs]:
  "decideEC2StoppedStorage ctx r = (let stoppedAt = Attr r ''stopped_at'' '''' in
     if stoppedAt = '''' then Skip
     else need (parseDateAttr stoppedAt) (\<lambda>t.
     if daysSince t (ec_Now ctx) < threshold ctx RuleIDEC2StoppedStorage ''min_stopped_days'' 14 then Skip
     else if \<not> worthwhile ctx RuleIDEC2StoppedStorage 5 r ActionAdvisoryOnly (CostFor ctx r) then Skip
     else Found (CostFor ctx r)))"

definition ruleEC2StoppedStorage_Evaluate :: "EvalContext \<Rightarrow> Resource \<Rightarrow> claimed decision" where [claim_defs]:
  "ruleEC2StoppedStorage_Evaluate ctx r = claim_of (decideEC2StoppedStorage ctx r) (\<lambda>cost.
     (SeverityLow, [ConfigEvidence ''stopped since'', CostEvidence ''attributed monthly cost while stopped'' ''cost_engine''],
      cost, cost))"

definition ruleEC2StoppedStorage_BuildAction :: "EvalContext \<Rightarrow> Resource \<Rightarrow> RuleAction option" where [action_defs]:
  "ruleEC2StoppedStorage_BuildAction ctx r =
     Some (action ActionAdvisoryOnly [] zero_snapshot ReversibilityInstant ComplexityLow)"

definition ruleEC2StoppedStorage :: FullRule where [claim_defs, action_defs]:
  "ruleEC2StoppedStorage = \<lparr>fr_ID = RuleIDEC2StoppedStorage, fr_Category = CategoryWaste, fr_Action = ActionAdvisoryOnly,
     fr_Enabled = True, fr_Applies = ruleEC2StoppedStorage_Applies, fr_Claim = ruleEC2StoppedStorage_Evaluate,
     fr_BuildAction = ruleEC2StoppedStorage_BuildAction\<rparr>"

section \<open>Never used\<close>

abbreviation "RuleIDEC2NeverUsed \<equiv> ''ec2-never-used-instance''"

definition ruleEC2NeverUsed_Applies :: "Resource \<Rightarrow> bool" where
  "ruleEC2NeverUsed_Applies r \<longleftrightarrow> res_Kind r = KindEC2Instance \<and> res_State r = StateRunning"

definition decideEC2NeverUsed :: "EvalContext \<Rightarrow> Resource \<Rightarrow> (ResourceMetrics \<times> Money) decision" where [claim_defs, action_defs]:
  "decideEC2NeverUsed ctx r = need (MetricsFor ctx (res_ID r)) (\<lambda>m.
     if \<not> HasSufficientData m (threshold ctx RuleIDEC2NeverUsed ''min_coverage'' (1 / 2))
       (threshold_hours ctx RuleIDEC2NeverUsed ''min_window_hours'' 336) then Skip
     else need (rm_CPU m) (\<lambda>cpu.
     if pc_P99 cpu > threshold ctx RuleIDEC2NeverUsed ''cpu_p99_max'' 2 then Skip
     else if \<not> worthwhile ctx RuleIDEC2NeverUsed 5 r ActionStopInstance (CostFor ctx r) then Skip
     else Found (m, CostFor ctx r)))"

definition ruleEC2NeverUsed_Evaluate :: "EvalContext \<Rightarrow> Resource \<Rightarrow> claimed decision" where [claim_defs]:
  "ruleEC2NeverUsed_Evaluate ctx r = claim_of (decideEC2NeverUsed ctx r) (\<lambda>(m, cost).
     (SeverityMedium, [MetricEvidence ''CPU utilization'' (rm_CPU m) ''cloudwatch''], cost, cost))"

definition ruleEC2NeverUsed_BuildAction :: "EvalContext \<Rightarrow> Resource \<Rightarrow> RuleAction option" where [action_defs]:
  "ruleEC2NeverUsed_BuildAction ctx r = Some (action ActionStopInstance [(''instance_id'', PString (res_NativeID r))]
     (costs ZeroUSD) ReversibilityFast ComplexityTrivial)"

definition ruleEC2NeverUsed :: FullRule where [claim_defs, action_defs]:
  "ruleEC2NeverUsed = \<lparr>fr_ID = RuleIDEC2NeverUsed, fr_Category = CategoryWaste, fr_Action = ActionStopInstance,
     fr_Enabled = True, fr_Applies = ruleEC2NeverUsed_Applies, fr_Claim = ruleEC2NeverUsed_Evaluate,
     fr_BuildAction = ruleEC2NeverUsed_BuildAction\<rparr>"

section \<open>Previous generation\<close>

abbreviation "RuleIDEC2PrevGeneration \<equiv> ''ec2-previous-generation-instance''"

definition ruleEC2PrevGeneration_Applies :: "Resource \<Rightarrow> bool" where
  "ruleEC2PrevGeneration_Applies r \<longleftrightarrow> res_Kind r = KindEC2Instance \<and> State_Active (res_State r) \<and> res_InstanceType r \<noteq> ''''"

definition decideEC2PrevGeneration :: "EvalContext \<Rightarrow> Resource \<Rightarrow> (InstanceSpec \<times> Money \<times> Money) decision" where [claim_defs, action_defs]:
  "decideEC2PrevGeneration ctx r = need (pr_InstanceSpec (ec_Pricing ctx) (res_InstanceType r)) (\<lambda>cs.
     if is_SuccessorType cs = '''' then Skip
     else need (pr_InstanceSpec (ec_Pricing ctx) (is_SuccessorType cs)) (\<lambda>ss.
     if is_VCPU ss < is_VCPU cs \<or> is_MemoryGiB ss < is_MemoryGiB cs then Skip
     else need (pr_InstancePrice (ec_Pricing ctx) (res_Region r) (res_InstanceType r) '''') (\<lambda>cp.
     need (pr_InstancePrice (ec_Pricing ctx) (res_Region r) (is_SuccessorType cs) '''') (\<lambda>sp.
     if \<not> LessThan sp cp then Skip
     else must (monthly_saving cp sp) (\<lambda>sv.
     if \<not> worthwhile ctx RuleIDEC2PrevGeneration 5 r ActionResizeInstance sv then Skip else Found (ss, sp, sv))))))"

definition ruleEC2PrevGeneration_Evaluate :: "EvalContext \<Rightarrow> Resource \<Rightarrow> claimed decision" where [claim_defs]:
  "ruleEC2PrevGeneration_Evaluate ctx r = claim_of (decideEC2PrevGeneration ctx r) (\<lambda>(ss, price, saving).
     (SeverityLow, [ConfigEvidence ''current generation'', CostEvidence ''successor type'' ''pricing_catalog''],
      CostFor ctx r, saving))"

definition ruleEC2PrevGeneration_BuildAction :: "EvalContext \<Rightarrow> Resource \<Rightarrow> RuleAction option" where [action_defs]:
  "ruleEC2PrevGeneration_BuildAction ctx r = action_of (decideEC2PrevGeneration ctx r) (\<lambda>(ss, price, saving).
     Some (action ActionResizeInstance
       [(''instance_type'', PString (is_Type ss)), (''current_instance_type'', PString (res_InstanceType r))]
       (resized_to (is_Type ss) ss (Scale price HoursPerMonth)) ReversibilityFast ComplexityLow))"

definition ruleEC2PrevGeneration :: FullRule where [claim_defs, action_defs]:
  "ruleEC2PrevGeneration = \<lparr>fr_ID = RuleIDEC2PrevGeneration, fr_Category = CategoryRightsizing,
     fr_Action = ActionResizeInstance, fr_Enabled = True, fr_Applies = ruleEC2PrevGeneration_Applies,
     fr_Claim = ruleEC2PrevGeneration_Evaluate, fr_BuildAction = ruleEC2PrevGeneration_BuildAction\<rparr>"

section \<open>Burst credits\<close>

abbreviation "RuleIDEC2BurstCredit \<equiv> ''ec2-burstable-credit-exhaustion''"

definition ruleEC2BurstCredit_Applies :: "Resource \<Rightarrow> bool" where
  "ruleEC2BurstCredit_Applies r \<longleftrightarrow> res_Kind r = KindEC2Instance \<and> State_Active (res_State r) \<and>
     (let t = to_lower (res_InstanceType r) in
      has_prefix t ''t2.'' \<or> has_prefix t ''t3.'' \<or> has_prefix t ''t3a.'' \<or> has_prefix t ''t4g.'')"

definition burstFixedFamilySeed :: "(string \<times> string) list" where
  "burstFixedFamilySeed = [(''t2'', ''m5.large''), (''t3'', ''m5.large''), (''t3a'', ''m5a.large''), (''t4g'', ''m6g.large'')]"

text \<open>The first size of the fixed family that holds the current capacity and has a price.\<close>

fun fixed_candidate :: "PricingCatalog \<Rightarrow> Region \<Rightarrow> InstanceSpec \<Rightarrow> string list \<Rightarrow> (string \<times> Money) option" where
  "fixed_candidate pr region cur [] = None"
| "fixed_candidate pr region cur (t # ts) = (case pr_InstanceSpec pr t of None \<Rightarrow> fixed_candidate pr region cur ts
     | Some cs \<Rightarrow> if is_VCPU cs < is_VCPU cur \<or> is_MemoryGiB cs < is_MemoryGiB cur then fixed_candidate pr region cur ts
         else (case pr_InstancePrice pr region t '''' of None \<Rightarrow> fixed_candidate pr region cur ts
           | Some price \<Rightarrow> Some (t, Scale price HoursPerMonth)))"

definition decideEC2BurstCredit :: "EvalContext \<Rightarrow> Resource \<Rightarrow> (ResourceMetrics \<times> string \<times> Money \<times> Money \<times> Money) decision" where [claim_defs, action_defs]:
  "decideEC2BurstCredit ctx r = need (pr_InstanceSpec (ec_Pricing ctx) (res_InstanceType r)) (\<lambda>cur.
     if \<not> is_Burstable cur then Skip
     else if equal_fold (Attr r ''credit_specification'' ''unlimited'') ''standard'' then Skip
     else need (MetricsFor ctx (res_ID r)) (\<lambda>m. need (rm_CPU m) (\<lambda>cpu.
     if \<not> HasSufficientData m (f64 (4 / 10)) (7 * 24 * nanos_per_hour) then Skip
     else if pc_P50 cpu < threshold ctx RuleIDEC2BurstCredit ''cpu_p50_min'' 35 then Skip
     else need (map_of burstFixedFamilySeed (is_Family cur)) (\<lambda>seed.
     need (fixed_candidate (ec_Pricing ctx) (res_Region r) cur (pr_InstanceFamily (ec_Pricing ctx) seed)) (\<lambda>(t, candMonthly).
     if t = '''' then Skip
     else let actualCost = CostFor ctx r in
     if \<not> GreaterThan actualCost candMonthly then Skip
     else must (MustSub actualCost candMonthly) (\<lambda>saving.
     if \<not> worthwhile ctx RuleIDEC2BurstCredit 8 r ActionResizeInstance saving then Skip
     else Found (m, t, candMonthly, actualCost, saving)))))))"

definition ruleEC2BurstCredit_Evaluate :: "EvalContext \<Rightarrow> Resource \<Rightarrow> claimed decision" where [claim_defs]:
  "ruleEC2BurstCredit_Evaluate ctx r = claim_of (decideEC2BurstCredit ctx r) (\<lambda>(m, t, candMonthly, actualCost, saving).
     (SeverityMedium, [MetricEvidence ''CPU utilization'' (rm_CPU m) ''cloudwatch'', ConfigEvidence ''credit specification'',
       CostEvidence ''attributed bill vs fixed-instance on-demand'' ''cost_engine''], actualCost, saving))"

definition no_spec :: InstanceSpec where
  "no_spec = \<lparr>is_Type = '''', is_Family = '''', is_Size = '''', is_Generation = 0, is_VCPU = 0, is_MemoryGiB = 0,
     is_NetworkGbps = 0, is_EBSOptimized = False, is_Architecture = '''', is_Burstable = False, is_SuccessorType = ''''\<rparr>"

definition ruleEC2BurstCredit_BuildAction :: "EvalContext \<Rightarrow> Resource \<Rightarrow> RuleAction option" where [action_defs]:
  "ruleEC2BurstCredit_BuildAction ctx r = action_of (decideEC2BurstCredit ctx r) (\<lambda>(m, t, candMonthly, actualCost, saving).
     let sp = (case pr_InstanceSpec (ec_Pricing ctx) t of Some sp \<Rightarrow> sp | None \<Rightarrow> no_spec) in
     Some (action ActionResizeInstance
       [(''instance_type'', PString t), (''current_instance_type'', PString (res_InstanceType r))]
       (resized_to t sp candMonthly) ReversibilityFast ComplexityLow))"

definition ruleEC2BurstCredit :: FullRule where [claim_defs, action_defs]:
  "ruleEC2BurstCredit = \<lparr>fr_ID = RuleIDEC2BurstCredit, fr_Category = CategoryRightsizing, fr_Action = ActionResizeInstance,
     fr_Enabled = True, fr_Applies = ruleEC2BurstCredit_Applies, fr_Claim = ruleEC2BurstCredit_Evaluate,
     fr_BuildAction = ruleEC2BurstCredit_BuildAction\<rparr>"

section \<open>Shutdown outside active hours\<close>

abbreviation "RuleIDEC2ScheduleOffHours \<equiv> ''ec2-schedule-off-hours''"

definition ruleEC2ScheduleOffHours_Applies :: "Resource \<Rightarrow> bool" where
  "ruleEC2ScheduleOffHours_Applies r \<longleftrightarrow> res_Kind r = KindEC2Instance \<and> State_Active (res_State r) \<and>
     \<not> IsProduction (res_Environment r) \<and> res_Environment r \<noteq> EnvUnknown"

definition decideEC2ScheduleOffHours :: "EvalContext \<Rightarrow> Resource \<Rightarrow> (ResourceMetrics \<times> Percentiles \<times> rat \<times> Money) decision" where [claim_defs, action_defs]:
  "decideEC2ScheduleOffHours ctx r = need (MetricsFor ctx (res_ID r)) (\<lambda>m. need (rm_CPU m) (\<lambda>cpu.
     if \<not> HasSufficientData m (threshold ctx RuleIDEC2ScheduleOffHours ''min_coverage'' (1 / 2)) (7 * 24 * nanos_per_hour) then Skip
     else if \<not> pc_Seasonal cpu \<or> pc_PeakHours cpu = [] then Skip
     else if pc_P50 cpu > threshold ctx RuleIDEC2ScheduleOffHours ''off_hours_cpu_max'' 5 then Skip
     else let frac = f64 (1 - f64 (i2f (int (length (pc_PeakHours cpu))) / 24)) in
     if frac < threshold ctx RuleIDEC2ScheduleOffHours ''min_off_hours_fraction'' (f64 (35 / 100)) then Skip
     else let saving = Scale (CostFor ctx r) frac in
     if \<not> worthwhile ctx RuleIDEC2ScheduleOffHours 10 r ActionScheduleShutdown saving then Skip
     else Found (m, cpu, frac, saving)))"

definition ruleEC2ScheduleOffHours_Evaluate :: "EvalContext \<Rightarrow> Resource \<Rightarrow> claimed decision" where [claim_defs]:
  "ruleEC2ScheduleOffHours_Evaluate ctx r = claim_of (decideEC2ScheduleOffHours ctx r) (\<lambda>(m, cpu, frac, saving).
     (SeverityLow, [MetricEvidence ''CPU utilization'' (rm_CPU m) ''cloudwatch'',
       ConfigEvidence ''detected active hours (UTC)''], CostFor ctx r, saving))"

text \<open>\<open>%02d\<close>, the remainder towards zero, and the comparison of neighbours in a sorted list.\<close>

definition two_digits :: "int \<Rightarrow> string" where
  "two_digits n = (if n < 0 then ''-'' @ itoa (nat (- n)) else if n < 10 then ''0'' @ itoa (nat n) else itoa (nat n))"

definition go_rem :: "int \<Rightarrow> int \<Rightarrow> int" where
  "go_rem a b = (if 0 \<le> a then a mod b else - ((- a) mod b))"

fun contiguous :: "int list \<Rightarrow> bool" where
  "contiguous (a # b # xs) \<longleftrightarrow> b = a + 1 \<and> contiguous (b # xs)"
| "contiguous _ \<longleftrightarrow> True"

fun join_comma :: "string list \<Rightarrow> string" where
  "join_comma [] = ''''"
| "join_comma [s] = s"
| "join_comma (s # ss) = s @ '','' @ join_comma ss"

definition ScheduleFromActiveHours :: "int list \<Rightarrow> string" where
  "ScheduleFromActiveHours hours = (if hours = [] then '''' else let sorted = sort hours in
     if contiguous sorted
     then ''run '' @ two_digits (hd sorted) @ '':00-'' @ two_digits (go_rem (List.last sorted + 1) 24) @ '':00 UTC daily; stopped otherwise''
     else ''run during UTC hours '' @ join_comma (map two_digits sorted) @ ''; stopped otherwise'')"

definition ruleEC2ScheduleOffHours_BuildAction :: "EvalContext \<Rightarrow> Resource \<Rightarrow> RuleAction option" where [action_defs]:
  "ruleEC2ScheduleOffHours_BuildAction ctx r = action_of (decideEC2ScheduleOffHours ctx r) (\<lambda>(m, cpu, frac, saving).
     map_option (\<lambda>rest. action ActionScheduleShutdown
       [(''schedule'', PString (ScheduleFromActiveHours (pc_PeakHours cpu))), (''off_hours_fraction'', PFloat frac)]
       (costs rest) ReversibilityInstant ComplexityLow) (MustSub (CostFor ctx r) saving))"

definition ruleEC2ScheduleOffHours :: FullRule where [claim_defs, action_defs]:
  "ruleEC2ScheduleOffHours = \<lparr>fr_ID = RuleIDEC2ScheduleOffHours, fr_Category = CategoryScheduling,
     fr_Action = ActionScheduleShutdown, fr_Enabled = True, fr_Applies = ruleEC2ScheduleOffHours_Applies,
     fr_Claim = ruleEC2ScheduleOffHours_Evaluate, fr_BuildAction = ruleEC2ScheduleOffHours_BuildAction\<rparr>"

section \<open>Spot\<close>

abbreviation "RuleIDEC2SpotCandidacy \<equiv> ''ec2-spot-candidacy''"

definition ruleEC2SpotCandidacy_Applies :: "Resource \<Rightarrow> bool" where
  "ruleEC2SpotCandidacy_Applies r \<longleftrightarrow> res_Kind r = KindEC2Instance \<and> State_Active (res_State r) \<and>
     res_Purchase r = PurchaseOnDemand \<and> res_Criticality r \<noteq> CriticalityTier0"

definition decideEC2SpotCandidacy :: "EvalContext \<Rightarrow> Resource \<Rightarrow> (Money \<times> Money \<times> Money) decision" where [claim_defs, action_defs]:
  "decideEC2SpotCandidacy ctx r = (if \<not> SpotAllowed (ec_Spec ctx) \<or> res_Criticality r = CriticalityTier0 then Skip
     else need (matchedWorkload (ec_Spec ctx) r) (\<lambda>w.
     if \<not> InterruptionTolerant (wl_Type w) then Skip
     else if wl_Criticality w = ''TIER_0'' then Skip
     else need (pr_InstancePrice (ec_Pricing ctx) (res_Region r) (res_InstanceType r) '''') (\<lambda>onDemand.
     need (pr_SpotPrice (ec_Pricing ctx) (res_Region r) (res_InstanceType r)) (\<lambda>spot.
     if \<not> LessThan spot onDemand then Skip
     else must (monthly_saving onDemand spot) (\<lambda>saving.
     if \<not> worthwhile ctx RuleIDEC2SpotCandidacy 10 r ActionEnableSpot saving then Skip
     else Found (onDemand, spot, saving))))))"

definition ruleEC2SpotCandidacy_Evaluate :: "EvalContext \<Rightarrow> Resource \<Rightarrow> claimed decision" where [claim_defs]:
  "ruleEC2SpotCandidacy_Evaluate ctx r = claim_of (decideEC2SpotCandidacy ctx r) (\<lambda>(onDemand, spot, saving).
     (SeverityLow, [ConfigEvidence ''declared workload type'', CostEvidence ''on-demand vs recent average spot'' ''pricing_catalog''],
      CostFor ctx r, saving))"

definition ruleEC2SpotCandidacy_BuildAction :: "EvalContext \<Rightarrow> Resource \<Rightarrow> RuleAction option" where [action_defs]:
  "ruleEC2SpotCandidacy_BuildAction ctx r = action_of (decideEC2SpotCandidacy ctx r) (\<lambda>(onDemand, spot, saving).
     Some (action ActionEnableSpot [(''instance_id'', PString (res_NativeID r))]
       ((costs (Scale spot HoursPerMonth))\<lparr>ss_Attributes := [(''purchase_model'', ''spot'')]\<rparr>)
       ReversibilityFast ComplexityMedium))"

definition ruleEC2SpotCandidacy :: FullRule where [claim_defs, action_defs]:
  "ruleEC2SpotCandidacy = \<lparr>fr_ID = RuleIDEC2SpotCandidacy, fr_Category = CategoryCommitment, fr_Action = ActionEnableSpot,
     fr_Enabled = True, fr_Applies = ruleEC2SpotCandidacy_Applies, fr_Claim = ruleEC2SpotCandidacy_Evaluate,
     fr_BuildAction = ruleEC2SpotCandidacy_BuildAction\<rparr>"

section \<open>Commitments\<close>

abbreviation "RuleIDEC2CommitmentGap \<equiv> ''ec2-commitment-coverage-gap''"

definition ruleEC2CommitmentGap_Applies :: "Resource \<Rightarrow> bool" where
  "ruleEC2CommitmentGap_Applies r \<longleftrightarrow> res_Kind r = KindEC2Instance \<and> res_State r = StateRunning \<and> res_Purchase r = PurchaseOnDemand"

definition decideEC2CommitmentGap :: "EvalContext \<Rightarrow> Resource \<Rightarrow> (Money \<times> Money \<times> Money) decision" where [claim_defs, action_defs]:
  "decideEC2CommitmentGap ctx r = (let minDays = threshold ctx RuleIDEC2CommitmentGap ''min_steady_state_days'' 21 in
     if Age r (ec_Now ctx) < wrap64 (f2i (f64 (minDays * 24)) * nanos_per_hour) then Skip
     else if (case MetricsFor ctx (res_ID r) of None \<Rightarrow> False
       | Some m \<Rightarrow> rm_Coverage m > 0 \<and>
           rm_Coverage m < f64 (1 - threshold ctx RuleIDEC2CommitmentGap ''coverage_max'' (f64 (6 / 10)))) then Skip
     else need (pr_InstancePrice (ec_Pricing ctx) (res_Region r) (res_InstanceType r) '''') (\<lambda>onDemand.
     need (pr_CommitmentPrice (ec_Pricing ctx) (res_Region r) (res_InstanceType r) ''1yr'' ''savings_plan_no_upfront'') (\<lambda>spRate.
     if \<not> LessThan spRate onDemand then Skip
     else must (monthly_saving onDemand spRate) (\<lambda>saving.
     if \<not> worthwhile ctx RuleIDEC2CommitmentGap 20 r ActionPurchaseCommitment saving then Skip
     else Found (onDemand, spRate, saving)))))"

definition ruleEC2CommitmentGap_Evaluate :: "EvalContext \<Rightarrow> Resource \<Rightarrow> claimed decision" where [claim_defs]:
  "ruleEC2CommitmentGap_Evaluate ctx r = claim_of (decideEC2CommitmentGap ctx r) (\<lambda>(onDemand, spRate, saving).
     (SeverityLow, [ConfigEvidence ''continuous age'', CostEvidence ''on-demand vs 1yr no-upfront Savings Plan'' ''pricing_catalog''],
      CostFor ctx r, saving))"

definition ruleEC2CommitmentGap_BuildAction :: "EvalContext \<Rightarrow> Resource \<Rightarrow> RuleAction option" where [action_defs]:
  "ruleEC2CommitmentGap_BuildAction ctx r = action_of (decideEC2CommitmentGap ctx r) (\<lambda>(onDemand, spRate, saving).
     Some (action ActionPurchaseCommitment [(''instance_type'', PString (res_InstanceType r)), (''term'', PString ''1yr''),
       (''payment'', PString ''savings_plan_no_upfront'')] (costs (Scale spRate HoursPerMonth)) ReversibilityNone ComplexityMedium))"

definition ruleEC2CommitmentGap :: FullRule where [claim_defs, action_defs]:
  "ruleEC2CommitmentGap = \<lparr>fr_ID = RuleIDEC2CommitmentGap, fr_Category = CategoryCommitment,
     fr_Action = ActionPurchaseCommitment, fr_Enabled = True, fr_Applies = ruleEC2CommitmentGap_Applies,
     fr_Claim = ruleEC2CommitmentGap_Evaluate, fr_BuildAction = ruleEC2CommitmentGap_BuildAction\<rparr>"

end
