(* ===== verification/RulesStorage.thy ===== *)
theory RulesStorage imports RulesCompute begin

text \<open>
  The rules for volumes, snapshots, images and buckets, \<open>internal/application/optimization/rule_ebs_*.go\<close>,
  \<open>rule_s3_*.go\<close>, with the lifecycle parameters of \<open>s3lifecycle.go\<close>; modelled like the rules for instances.
\<close>

section \<open>Unattached volumes\<close>

abbreviation "RuleIDEBSUnattached \<equiv> ''ebs-unattached-volume''"

definition ruleEBSUnattached_Applies :: "Resource \<Rightarrow> bool" where
  "ruleEBSUnattached_Applies r \<longleftrightarrow> res_Kind r = KindEBSVolume \<and> res_State r = StateAvailable"

definition decideEBSUnattached :: "EvalContext \<Rightarrow> Resource \<Rightarrow> Money decision" where [claim_defs, action_defs]:
  "decideEBSUnattached ctx r = (if daysSince (res_FirstSeenAt r) (ec_Now ctx) < threshold ctx RuleIDEBSUnattached ''min_unattached_days'' 7 then Skip
     else if \<not> worthwhile ctx RuleIDEBSUnattached 1 r ActionDeleteVolume (CostFor ctx r) then Skip
     else Found (CostFor ctx r))"

definition ruleEBSUnattached_Evaluate :: "EvalContext \<Rightarrow> Resource \<Rightarrow> claimed decision" where [claim_defs]:
  "ruleEBSUnattached_Evaluate ctx r = claim_of (decideEBSUnattached ctx r) (\<lambda>cost.
     (SeverityLow, [ConfigEvidence ''state'', ConfigEvidence ''observed unattached for''], cost, cost))"

definition ruleEBSUnattached_BuildAction :: "EvalContext \<Rightarrow> Resource \<Rightarrow> RuleAction option" where [action_defs]:
  "ruleEBSUnattached_BuildAction ctx r = Some (action ActionDeleteVolume
     [(''volume_id'', PString (res_NativeID r)), (''snapshot_before_delete'', PBool True)] (costs ZeroUSD)
     ReversibilityNone ComplexityTrivial)"

definition ruleEBSUnattached :: FullRule where [claim_defs, action_defs]:
  "ruleEBSUnattached = \<lparr>fr_ID = RuleIDEBSUnattached, fr_Category = CategoryWaste, fr_Action = ActionDeleteVolume, fr_Enabled = True,
     fr_Applies = ruleEBSUnattached_Applies, fr_Claim = ruleEBSUnattached_Evaluate, fr_BuildAction = ruleEBSUnattached_BuildAction\<rparr>"


section \<open>Overprovisioned volumes\<close>

abbreviation "RuleIDEBSOverprovisioned \<equiv> ''ebs-overprovisioned''"

definition ruleEBSOverprovisioned_Applies :: "Resource \<Rightarrow> bool" where
  "ruleEBSOverprovisioned_Applies r \<longleftrightarrow> res_Kind r = KindEBSVolume \<and> res_State r = StateInUse"

text \<open>The size and its saving, and the operations per second and their saving.\<close>

definition ebs_size_target :: "EvalContext \<Rightarrow> Resource \<Rightarrow> ResourceMetrics \<Rightarrow> rat \<times> Money" where
  "ebs_size_target ctx r m = (let size = ca_StorageGiB (res_Capacity r) in case rm_DiskUsed m of None \<Rightarrow> (size, ZeroUSD)
     | Some du \<Rightarrow> if f64 (pc_P95 du / 100) \<le> threshold ctx RuleIDEBSOverprovisioned ''used_fraction_max'' (f64 (4 / 10)) \<and> size > 0
         then let t = maxFloat 10 (f64 (f64 (size * f64 (pc_P99 du / 100)) * f64 (13 / 10))) in
           if t < size then (t, case pr_StoragePrice (ec_Pricing ctx) (res_Region r) (res_InstanceType r) of
             None \<Rightarrow> ZeroUSD | Some price \<Rightarrow> Scale price (f64 (size - t)))
           else (size, ZeroUSD)
         else (size, ZeroUSD))"

definition ebs_iops_target :: "EvalContext \<Rightarrow> Resource \<Rightarrow> ResourceMetrics \<Rightarrow> int \<times> Money" where
  "ebs_iops_target ctx r m = (let prov = ca_ProvisionedIOPS (res_Capacity r) in case rm_IOPS m of None \<Rightarrow> (prov, ZeroUSD)
     | Some io \<Rightarrow> if prov > 0 then
         (case pr_IOPSPrice (ec_Pricing ctx) (res_Region r) (res_InstanceType r) of None \<Rightarrow> (prov, ZeroUSD)
         | Some price \<Rightarrow> if f64 (pc_P95 io / i2f prov) \<le> threshold ctx RuleIDEBSOverprovisioned ''iops_used_fraction_max'' (1 / 2)
             then let t = f2i (maxFloat 3000 (f64 (pc_P99 io * f64 (13 / 10)))) in
               if t < prov then (t, Scale price (i2f (wrap64 (prov - t)))) else (prov, ZeroUSD)
             else (prov, ZeroUSD))
       else (prov, ZeroUSD))"

definition decideEBSOverprovisioned :: "EvalContext \<Rightarrow> Resource \<Rightarrow> (ResourceMetrics \<times> rat \<times> int \<times> Money) decision" where [claim_defs, action_defs]:
  "decideEBSOverprovisioned ctx r = need (MetricsFor ctx (res_ID r)) (\<lambda>m.
     if rm_Coverage m < threshold ctx RuleIDEBSOverprovisioned ''min_coverage'' (f64 (4 / 10)) then Skip
     else let (targetGiB, sizeSaving) = ebs_size_target ctx r m; (targetIOPS, iopsSaving) = ebs_iops_target ctx r m in
     must (MustAdd sizeSaving iopsSaving) (\<lambda>saved.
     if IsZero saved then Skip
     else if \<not> worthwhile ctx RuleIDEBSOverprovisioned 5 r ActionResizeVolume saved then Skip
     else Found (m, targetGiB, targetIOPS, saved)))"

definition ruleEBSOverprovisioned_Evaluate :: "EvalContext \<Rightarrow> Resource \<Rightarrow> claimed decision" where [claim_defs]:
  "ruleEBSOverprovisioned_Evaluate ctx r = claim_of (decideEBSOverprovisioned ctx r) (\<lambda>(m, targetGiB, targetIOPS, saved).
     (SeverityLow,
      (if rm_DiskUsed m \<noteq> None then [MetricEvidence ''disk usage'' (rm_DiskUsed m) ''cloudwatch''] else []) @
      (if rm_IOPS m \<noteq> None then [MetricEvidence ''provisioned-IOPS utilization'' (rm_IOPS m) ''cloudwatch''] else []) @
      [ConfigEvidence ''allocated''], CostFor ctx r, saved))"

definition ruleEBSOverprovisioned_BuildAction :: "EvalContext \<Rightarrow> Resource \<Rightarrow> RuleAction option" where [action_defs]:
  "ruleEBSOverprovisioned_BuildAction ctx r = action_of (decideEBSOverprovisioned ctx r) (\<lambda>(m, targetGiB, targetIOPS, saved).
     let shrinks = targetGiB < ca_StorageGiB (res_Capacity r) in
     map_option (\<lambda>rest. action ActionResizeVolume
       [(''volume_id'', PString (res_NativeID r)), (''size_gib'', PFloat targetGiB), (''iops'', PInt targetIOPS)]
       ((costs rest)\<lparr>ss_SizeGiB := targetGiB, ss_IOPS := targetIOPS\<rparr>)
       (if shrinks then ReversibilitySlow else ReversibilityFast)
       (if shrinks then ComplexityMedium else ComplexityLow)) (MustSub (CostFor ctx r) saved))"

definition ruleEBSOverprovisioned :: FullRule where [claim_defs, action_defs]:
  "ruleEBSOverprovisioned = \<lparr>fr_ID = RuleIDEBSOverprovisioned, fr_Category = CategoryRightsizing, fr_Action = ActionResizeVolume, fr_Enabled = True,
     fr_Applies = ruleEBSOverprovisioned_Applies, fr_Claim = ruleEBSOverprovisioned_Evaluate, fr_BuildAction = ruleEBSOverprovisioned_BuildAction\<rparr>"


section \<open>Volume type\<close>

abbreviation "RuleIDEBSGp2Gp3 \<equiv> ''ebs-gp2-to-gp3''"

definition ruleEBSGp2Gp3_Applies :: "Resource \<Rightarrow> bool" where
  "ruleEBSGp2Gp3_Applies r \<longleftrightarrow> res_Kind r = KindEBSVolume \<and> res_InstanceType r = ''gp2'' \<and> State_Active (res_State r)"

definition GP2ToGP3Target :: "rat \<Rightarrow> rat \<Rightarrow> int \<times> rat" where
  "GP2ToGP3Target sizeGiB observedThroughputMiBps =
     (f2i (maxFloat 3000 (minFloat (f64 (sizeGiB * 3)) 16000)), maxFloat 125 observedThroughputMiBps)"

text \<open>The cost of a gp3 volume that keeps the performance: storage, and what exceeds the free baseline.\<close>

definition add_extra :: "rat \<Rightarrow> Money \<Rightarrow> Money \<Rightarrow> Money option" where
  "add_extra extra price cost = (if extra > 0 then MustAdd cost (Scale price extra) else Some cost)"

definition decideEBSGp2Gp3 :: "EvalContext \<Rightarrow> Resource \<Rightarrow> (int \<times> rat \<times> Money \<times> Money \<times> Money) decision" where [claim_defs, action_defs]:
  "decideEBSGp2Gp3 ctx r = (let size = ca_StorageGiB (res_Capacity r);
     (targetIOPS, targetThroughput) = GP2ToGP3Target size (ca_ThroughputMiBps (res_Capacity r));
     pr = ec_Pricing ctx; region = res_Region r
   in need (pr_StoragePrice pr region ''gp2'') (\<lambda>gp2Storage. need (pr_StoragePrice pr region ''gp3'') (\<lambda>gp3Storage.
     need (pr_IOPSPrice pr region ''gp3'') (\<lambda>iopsPrice. need (pr_ThroughputPrice pr region ''gp3'') (\<lambda>throughputPrice.
     let gp2Cost = Scale gp2Storage size in
     must (add_extra (f64 (i2f targetIOPS - 3000)) iopsPrice (Scale gp3Storage size)) (\<lambda>withIOPS.
     must (add_extra (f64 (targetThroughput - 125)) throughputPrice withIOPS) (\<lambda>gp3Cost.
     if \<not> LessThan gp3Cost gp2Cost then Skip
     else must (MustSub gp2Cost gp3Cost) (\<lambda>saving.
     if \<not> worthwhile ctx RuleIDEBSGp2Gp3 1 r ActionModifyVolumeType saving then Skip
     else Found (targetIOPS, targetThroughput, gp2Cost, gp3Cost, saving)))))))))"

definition ruleEBSGp2Gp3_Evaluate :: "EvalContext \<Rightarrow> Resource \<Rightarrow> claimed decision" where [claim_defs]:
  "ruleEBSGp2Gp3_Evaluate ctx r = claim_of (decideEBSGp2Gp3 ctx r) (\<lambda>(targetIOPS, targetThroughput, gp2Cost, gp3Cost, saving).
     (SeverityLow, [ConfigEvidence ''current type'', CostEvidence ''gp2 vs gp3 monthly cost'' ''pricing_catalog''], gp2Cost, saving))"

definition ruleEBSGp2Gp3_BuildAction :: "EvalContext \<Rightarrow> Resource \<Rightarrow> RuleAction option" where [action_defs]:
  "ruleEBSGp2Gp3_BuildAction ctx r = action_of (decideEBSGp2Gp3 ctx r) (\<lambda>(targetIOPS, targetThroughput, gp2Cost, gp3Cost, saving).
     Some (action ActionModifyVolumeType
       [(''volume_id'', PString (res_NativeID r)), (''volume_type'', PString ''gp3''), (''iops'', PInt targetIOPS),
        (''throughput_mibps'', PFloat targetThroughput)]
       ((costs gp3Cost)\<lparr>ss_VolumeType := ''gp3'', ss_IOPS := targetIOPS\<rparr>) ReversibilityFast ComplexityTrivial))"

definition ruleEBSGp2Gp3 :: FullRule where [claim_defs, action_defs]:
  "ruleEBSGp2Gp3 = \<lparr>fr_ID = RuleIDEBSGp2Gp3, fr_Category = CategoryStorage, fr_Action = ActionModifyVolumeType, fr_Enabled = True,
     fr_Applies = ruleEBSGp2Gp3_Applies, fr_Claim = ruleEBSGp2Gp3_Evaluate, fr_BuildAction = ruleEBSGp2Gp3_BuildAction\<rparr>"


section \<open>Snapshots past their retention\<close>

abbreviation "RuleIDEBSSnapshotRetention \<equiv> ''ebs-snapshot-retention''"

definition ruleEBSSnapshotRetention_Applies :: "Resource \<Rightarrow> bool" where
  "ruleEBSSnapshotRetention_Applies r \<longleftrightarrow> res_Kind r = KindEBSSnapshot"

definition hasDependentAMI :: "EvalContext \<Rightarrow> Resource \<Rightarrow> bool" where
  "hasDependentAMI ctx snap \<longleftrightarrow>
     list_ex (\<lambda>e. case ByID (ec_Inventory ctx) (FromID e) of Some dep \<Rightarrow> res_Kind dep = KindAMI | None \<Rightarrow> False)
       (Inbound (ec_Topology ctx) (res_ID snap) [RelAttachedTo, RelContains]) \<or>
     list_ex (\<lambda>ami. Attr ami ''source_snapshot_id'' '''' = res_NativeID snap) (OfKind (ec_Inventory ctx) KindAMI)"

definition decideEBSSnapshotRetention :: "EvalContext \<Rightarrow> Resource \<Rightarrow> Money decision" where [claim_defs, action_defs]:
  "decideEBSSnapshotRetention ctx r = (let
     days = parseFloatAttr (Attr r ''age_days'' '''') (daysSince (res_CreatedAt r) (ec_Now ctx)) in
     if days < threshold ctx RuleIDEBSSnapshotRetention ''retention_days'' 90 then Skip
     else if hasDependentAMI ctx r then Skip
     else if \<not> worthwhile ctx RuleIDEBSSnapshotRetention (1 / 2) r ActionDeleteSnapshot (CostFor ctx r) then Skip
     else Found (CostFor ctx r))"

definition ruleEBSSnapshotRetention_Evaluate :: "EvalContext \<Rightarrow> Resource \<Rightarrow> claimed decision" where [claim_defs]:
  "ruleEBSSnapshotRetention_Evaluate ctx r = claim_of (decideEBSSnapshotRetention ctx r) (\<lambda>cost.
     (SeverityLow, [ConfigEvidence ''age'', TopologyEvidence ''dependent AMIs''], cost, cost))"

definition ruleEBSSnapshotRetention_BuildAction :: "EvalContext \<Rightarrow> Resource \<Rightarrow> RuleAction option" where [action_defs]:
  "ruleEBSSnapshotRetention_BuildAction ctx r = Some (action ActionDeleteSnapshot [(''snapshot_id'', PString (res_NativeID r))]
     (costs ZeroUSD) ReversibilityNone ComplexityTrivial)"

definition ruleEBSSnapshotRetention :: FullRule where [claim_defs, action_defs]:
  "ruleEBSSnapshotRetention = \<lparr>fr_ID = RuleIDEBSSnapshotRetention, fr_Category = CategoryDataLifecycle, fr_Action = ActionDeleteSnapshot, fr_Enabled = True,
     fr_Applies = ruleEBSSnapshotRetention_Applies, fr_Claim = ruleEBSSnapshotRetention_Evaluate, fr_BuildAction = ruleEBSSnapshotRetention_BuildAction\<rparr>"


section \<open>Orphaned snapshots\<close>

abbreviation "RuleIDEBSOrphanedSnapshot \<equiv> ''ebs-orphaned-snapshot''"

definition ruleEBSOrphanedSnapshot_Applies :: "Resource \<Rightarrow> bool" where
  "ruleEBSOrphanedSnapshot_Applies r \<longleftrightarrow> res_Kind r = KindEBSSnapshot \<and> Attr r ''volume_id'' '''' \<noteq> ''''"

definition decideEBSOrphanedSnapshot :: "EvalContext \<Rightarrow> Resource \<Rightarrow> Money decision" where [claim_defs, action_defs]:
  "decideEBSOrphanedSnapshot ctx r = (let volID = Attr r ''volume_id'' '''' in
     if volID = '''' then Skip
     else if ByNativeID (ec_Inventory ctx) volID \<noteq> None then Skip
     else let days = parseFloatAttr (Attr r ''age_days'' '''') (daysSince (res_CreatedAt r) (ec_Now ctx)) in
     if days < threshold ctx RuleIDEBSOrphanedSnapshot ''min_age_days'' 1 then Skip
     else if hasDependentAMI ctx r then Skip
     else if \<not> worthwhile ctx RuleIDEBSOrphanedSnapshot (1 / 4) r ActionDeleteSnapshot (CostFor ctx r) then Skip
     else Found (CostFor ctx r))"

definition ruleEBSOrphanedSnapshot_Evaluate :: "EvalContext \<Rightarrow> Resource \<Rightarrow> claimed decision" where [claim_defs]:
  "ruleEBSOrphanedSnapshot_Evaluate ctx r = claim_of (decideEBSOrphanedSnapshot ctx r) (\<lambda>cost.
     (SeverityLow, [ConfigEvidence ''source volume_id'', TopologyEvidence ''source volume lookup''], cost, cost))"

definition ruleEBSOrphanedSnapshot_BuildAction :: "EvalContext \<Rightarrow> Resource \<Rightarrow> RuleAction option" where [action_defs]:
  "ruleEBSOrphanedSnapshot_BuildAction ctx r = Some (action ActionDeleteSnapshot [(''snapshot_id'', PString (res_NativeID r))]
     (costs ZeroUSD) ReversibilityNone ComplexityTrivial)"

definition ruleEBSOrphanedSnapshot :: FullRule where [claim_defs, action_defs]:
  "ruleEBSOrphanedSnapshot = \<lparr>fr_ID = RuleIDEBSOrphanedSnapshot, fr_Category = CategoryWaste, fr_Action = ActionDeleteSnapshot, fr_Enabled = True,
     fr_Applies = ruleEBSOrphanedSnapshot_Applies, fr_Claim = ruleEBSOrphanedSnapshot_Evaluate, fr_BuildAction = ruleEBSOrphanedSnapshot_BuildAction\<rparr>"


section \<open>Unused images\<close>

abbreviation "RuleIDEBSUnusedAMI \<equiv> ''ebs-unused-ami''"

definition ruleEBSUnusedAMI_Applies :: "Resource \<Rightarrow> bool" where
  "ruleEBSUnusedAMI_Applies r \<longleftrightarrow> res_Kind r = KindAMI"

definition amiInUse :: "EvalContext \<Rightarrow> Resource \<Rightarrow> bool" where
  "amiInUse ctx ami \<longleftrightarrow>
     list_ex (\<lambda>e. ByID (ec_Inventory ctx) (ToID e) \<noteq> None) (Outbound (ec_Topology ctx) (res_ID ami) [RelContains, RelRunsOn]) \<or>
     list_ex (\<lambda>inst. Attr inst ''source_ami_id'' '''' = res_NativeID ami) (OfKind (ec_Inventory ctx) KindEC2Instance)"

definition decideEBSUnusedAMI :: "EvalContext \<Rightarrow> Resource \<Rightarrow> Money decision" where [claim_defs, action_defs]:
  "decideEBSUnusedAMI ctx r = (if amiInUse ctx r then Skip
     else if daysSince (res_CreatedAt r) (ec_Now ctx) < threshold ctx RuleIDEBSUnusedAMI ''min_age_days'' 90 then Skip
     else if \<not> worthwhile ctx RuleIDEBSUnusedAMI (1 / 2) r ActionDeregisterAMI (CostFor ctx r) then Skip
     else Found (CostFor ctx r))"

definition ruleEBSUnusedAMI_Evaluate :: "EvalContext \<Rightarrow> Resource \<Rightarrow> claimed decision" where [claim_defs]:
  "ruleEBSUnusedAMI_Evaluate ctx r = claim_of (decideEBSUnusedAMI ctx r) (\<lambda>cost.
     (SeverityLow, [TopologyEvidence ''referencing instances'', ConfigEvidence ''age''], cost, cost))"

definition ruleEBSUnusedAMI_BuildAction :: "EvalContext \<Rightarrow> Resource \<Rightarrow> RuleAction option" where [action_defs]:
  "ruleEBSUnusedAMI_BuildAction ctx r = Some (action ActionDeregisterAMI [(''ami_id'', PString (res_NativeID r))]
     (costs ZeroUSD) ReversibilityNone ComplexityLow)"

definition ruleEBSUnusedAMI :: FullRule where [claim_defs, action_defs]:
  "ruleEBSUnusedAMI = \<lparr>fr_ID = RuleIDEBSUnusedAMI, fr_Category = CategoryWaste, fr_Action = ActionDeregisterAMI, fr_Enabled = True,
     fr_Applies = ruleEBSUnusedAMI_Applies, fr_Claim = ruleEBSUnusedAMI_Evaluate, fr_BuildAction = ruleEBSUnusedAMI_BuildAction\<rparr>"


section \<open>Lifecycle parameters\<close>

definition S3TransitionStorageClass :: "string \<Rightarrow> string option" where
  "S3TransitionStorageClass c = (if c = ''standard_ia'' then Some ''STANDARD_IA''
     else if c = ''onezone_ia'' \<or> c = ''one_zone_ia'' then Some ''ONEZONE_IA''
     else if c = ''intelligent_tiering'' then Some ''INTELLIGENT_TIERING''
     else if c = ''glacier'' \<or> c = ''glacier_flexible'' then Some ''GLACIER''
     else if c = ''glacier_ir'' \<or> c = ''glacier_instant_retrieval'' then Some ''GLACIER_IR''
     else if c = ''deep_archive'' \<or> c = ''glacier_deep_archive'' then Some ''DEEP_ARCHIVE'' else None)"

definition s3LifecycleRuleID :: "RuleID \<Rightarrow> string" where
  "s3LifecycleRuleID rule = ''cloudoptix-'' @ rule"

definition s3TransitionParameters :: "RuleID \<Rightarrow> string \<Rightarrow> string \<Rightarrow> int \<Rightarrow> (string \<times> param) list option" where
  "s3TransitionParameters rule bucket targetCatalogClass afterDays = map_option (\<lambda>cls.
     [(''bucket'', PString bucket), (''rule_id'', PString (s3LifecycleRuleID rule)), (''transition_days'', PInt afterDays),
      (''transition_storage_class'', PString cls)]) (S3TransitionStorageClass targetCatalogClass)"

text \<open>The action of a rule that moves objects, advisory when the class is unknown.\<close>

definition transition_action :: "(string \<times> param) list option \<Rightarrow> StateSnapshot \<Rightarrow> RuleAction" where
  "transition_action params proposed = (case params of None \<Rightarrow> advisory
     | Some ps \<Rightarrow> action ActionApplyS3Lifecycle ps proposed ReversibilityFast ComplexityLow)"

section \<open>No lifecycle policy\<close>

abbreviation "RuleIDS3NoLifecycle \<equiv> ''s3-no-lifecycle-policy''"

definition ruleS3NoLifecycle_Applies :: "Resource \<Rightarrow> bool" where
  "ruleS3NoLifecycle_Applies r \<longleftrightarrow> res_Kind r = KindS3Bucket \<and> \<not> AttrBool r ''has_lifecycle_policy'' False"

definition decideS3NoLifecycle :: "EvalContext \<Rightarrow> Resource \<Rightarrow> Money decision" where [claim_defs, action_defs]:
  "decideS3NoLifecycle ctx r = (if ca_StorageGiB (res_Capacity r) < threshold ctx RuleIDS3NoLifecycle ''min_size_gib'' 50 then Skip
     else need (pr_StoragePrice (ec_Pricing ctx) (res_Region r) ''standard'') (\<lambda>standardPrice.
     need (pr_StoragePrice (ec_Pricing ctx) (res_Region r) ''standard_ia'') (\<lambda>iaPrice.
     must (MustSub standardPrice iaPrice) (\<lambda>delta.
     let saving = Scale delta (f64 (ca_StorageGiB (res_Capacity r) * f64 (6 / 10))) in
     if \<not> worthwhile ctx RuleIDS3NoLifecycle 5 r ActionApplyS3Lifecycle saving then Skip else Found saving))))"

definition ruleS3NoLifecycle_Evaluate :: "EvalContext \<Rightarrow> Resource \<Rightarrow> claimed decision" where [claim_defs]:
  "ruleS3NoLifecycle_Evaluate ctx r = claim_of (decideS3NoLifecycle ctx r) (\<lambda>saving.
     (SeverityLow, [ConfigEvidence ''lifecycle policy'', ConfigEvidence ''bucket size''], CostFor ctx r, saving))"

definition ruleS3NoLifecycle_BuildAction :: "EvalContext \<Rightarrow> Resource \<Rightarrow> RuleAction option" where [action_defs]:
  "ruleS3NoLifecycle_BuildAction ctx r = Some (transition_action (s3TransitionParameters RuleIDS3NoLifecycle (res_NativeID r) ''standard_ia'' 30)
     (zero_snapshot\<lparr>ss_Attributes := [(''lifecycle_policy'', ''standard_ia_30d'')]\<rparr>))"

definition ruleS3NoLifecycle :: FullRule where [claim_defs, action_defs]:
  "ruleS3NoLifecycle = \<lparr>fr_ID = RuleIDS3NoLifecycle, fr_Category = CategoryDataLifecycle, fr_Action = ActionApplyS3Lifecycle, fr_Enabled = True,
     fr_Applies = ruleS3NoLifecycle_Applies, fr_Claim = ruleS3NoLifecycle_Evaluate, fr_BuildAction = ruleS3NoLifecycle_BuildAction\<rparr>"


section \<open>Incomplete uploads\<close>

abbreviation "RuleIDS3IncompleteMultipart \<equiv> ''s3-incomplete-multipart-uploads''"

definition ruleS3IncompleteMultipart_Applies :: "Resource \<Rightarrow> bool" where
  "ruleS3IncompleteMultipart_Applies r \<longleftrightarrow> res_Kind r = KindS3Bucket \<and> parseFloatAttr (Attr r ''incomplete_multipart_count'' '''') 0 > 0"

definition decideS3IncompleteMultipart :: "EvalContext \<Rightarrow> Resource \<Rightarrow> Money decision" where [claim_defs, action_defs]:
  "decideS3IncompleteMultipart ctx r = (let count = parseIntAttr (Attr r ''incomplete_multipart_count'' '''') 0;
       gib = parseFloatAttr (Attr r ''incomplete_multipart_gib'' '''') 0 in
     if count = 0 \<or> gib < threshold ctx RuleIDS3IncompleteMultipart ''min_gib'' 1 then Skip
     else need (pr_StoragePrice (ec_Pricing ctx) (res_Region r) ''standard'') (\<lambda>price.
     let saving = Scale price gib in
     if \<not> worthwhile ctx RuleIDS3IncompleteMultipart (1 / 4) r ActionAbortMultipartUploads saving then Skip else Found saving))"

definition ruleS3IncompleteMultipart_Evaluate :: "EvalContext \<Rightarrow> Resource \<Rightarrow> claimed decision" where [claim_defs]:
  "ruleS3IncompleteMultipart_Evaluate ctx r = claim_of (decideS3IncompleteMultipart ctx r) (\<lambda>saving.
     (SeverityInfo, [ConfigEvidence ''incomplete multipart uploads''], CostFor ctx r, saving))"

definition ruleS3IncompleteMultipart_BuildAction :: "EvalContext \<Rightarrow> Resource \<Rightarrow> RuleAction option" where [action_defs]:
  "ruleS3IncompleteMultipart_BuildAction ctx r = Some (action ActionAbortMultipartUploads
     [(''bucket'', PString (res_NativeID r)), (''older_than_days'', PInt 7)] zero_snapshot ReversibilityInstant ComplexityTrivial)"

definition ruleS3IncompleteMultipart :: FullRule where [claim_defs, action_defs]:
  "ruleS3IncompleteMultipart = \<lparr>fr_ID = RuleIDS3IncompleteMultipart, fr_Category = CategoryWaste, fr_Action = ActionAbortMultipartUploads, fr_Enabled = True,
     fr_Applies = ruleS3IncompleteMultipart_Applies, fr_Claim = ruleS3IncompleteMultipart_Evaluate, fr_BuildAction = ruleS3IncompleteMultipart_BuildAction\<rparr>"


section \<open>Noncurrent versions\<close>

abbreviation "RuleIDS3NoncurrentVersions \<equiv> ''s3-noncurrent-versions''"

definition ruleS3NoncurrentVersions_Applies :: "Resource \<Rightarrow> bool" where
  "ruleS3NoncurrentVersions_Applies r \<longleftrightarrow> res_Kind r = KindS3Bucket \<and> AttrBool r ''versioning_enabled'' False \<and>
     \<not> AttrBool r ''has_lifecycle_policy'' False"

definition decideS3NoncurrentVersions :: "EvalContext \<Rightarrow> Resource \<Rightarrow> Money decision" where [claim_defs, action_defs]:
  "decideS3NoncurrentVersions ctx r = (let gib = parseFloatAttr (Attr r ''non_current_version_gib'' '''') 0 in
     if gib < threshold ctx RuleIDS3NoncurrentVersions ''min_noncurrent_gib'' 10 then Skip
     else need (pr_StoragePrice (ec_Pricing ctx) (res_Region r) ''standard'') (\<lambda>price.
     let saving = Scale price gib in
     if \<not> worthwhile ctx RuleIDS3NoncurrentVersions 1 r ActionApplyS3Lifecycle saving then Skip else Found saving))"

definition ruleS3NoncurrentVersions_Evaluate :: "EvalContext \<Rightarrow> Resource \<Rightarrow> claimed decision" where [claim_defs]:
  "ruleS3NoncurrentVersions_Evaluate ctx r = claim_of (decideS3NoncurrentVersions ctx r) (\<lambda>saving.
     (SeverityLow, [ConfigEvidence ''non-current version storage'', ConfigEvidence ''versioning''], CostFor ctx r, saving))"

definition ruleS3NoncurrentVersions_BuildAction :: "EvalContext \<Rightarrow> Resource \<Rightarrow> RuleAction option" where [action_defs]:
  "ruleS3NoncurrentVersions_BuildAction ctx r = Some ((action ActionApplyS3Lifecycle
     [(''bucket'', PString (res_NativeID r)), (''rule_id'', PString (s3LifecycleRuleID RuleIDS3NoncurrentVersions)),
      (''noncurrent_expiration_days'', PInt 30)]
     (zero_snapshot\<lparr>ss_Attributes := [(''noncurrent_version_expiration_days'', ''30'')]\<rparr>)
     ReversibilityFast ComplexityTrivial)\<lparr>ac_ConflictDomain := ConflictDomainNoncurrentVersions\<rparr>)"

definition ruleS3NoncurrentVersions :: FullRule where [claim_defs, action_defs]:
  "ruleS3NoncurrentVersions = \<lparr>fr_ID = RuleIDS3NoncurrentVersions, fr_Category = CategoryDataLifecycle, fr_Action = ActionApplyS3Lifecycle, fr_Enabled = True,
     fr_Applies = ruleS3NoncurrentVersions_Applies, fr_Claim = ruleS3NoncurrentVersions_Evaluate, fr_BuildAction = ruleS3NoncurrentVersions_BuildAction\<rparr>"


section \<open>Intelligent tiering\<close>

abbreviation "RuleIDS3IntelligentTiering \<equiv> ''s3-intelligent-tiering-candidacy''"

definition ruleS3IntelligentTiering_Applies :: "Resource \<Rightarrow> bool" where
  "ruleS3IntelligentTiering_Applies r \<longleftrightarrow> res_Kind r = KindS3Bucket \<and> ca_ObjectCount (res_Capacity r) > 0 \<and>
     ca_StorageGiB (res_Capacity r) > 0 \<and> Attr r ''storage_class'' ''standard'' = ''standard''"

definition S3IntelligentTieringBreakEvenGiB :: "Money \<Rightarrow> Money \<Rightarrow> rat option" where
  "S3IntelligentTieringBreakEvenGiB monitoringPerObject storageDeltaPerGiB =
     (if IsZero storageDeltaPerGiB \<or> IsNegative storageDeltaPerGiB then None
      else Some (Ratio monitoringPerObject storageDeltaPerGiB))"

definition decideS3IntelligentTiering :: "EvalContext \<Rightarrow> Resource \<Rightarrow> (rat \<times> rat \<times> Money) decision" where [claim_defs, action_defs]:
  "decideS3IntelligentTiering ctx r = (let size = ca_StorageGiB (res_Capacity r); n = i2f (ca_ObjectCount (res_Capacity r)) in
     need (pr_ServicePrice (ec_Pricing ctx) (res_Region r) ''s3'' ''monitoring_per_million_objects'') (\<lambda>perMillion.
     let perObject = Div perMillion 1000000 in
     need (pr_StoragePrice (ec_Pricing ctx) (res_Region r) ''standard'') (\<lambda>standardPrice.
     need (pr_StoragePrice (ec_Pricing ctx) (res_Region r) ''standard_ia'') (\<lambda>iaPrice.
     must (MustSub standardPrice iaPrice) (\<lambda>delta.
     need (S3IntelligentTieringBreakEvenGiB perObject delta) (\<lambda>breakEven.
     let avgObject = f64 (size / n) in
     if avgObject \<le> breakEven then Skip
     else must (MustSub (Scale delta (f64 (size * (1 / 2)))) (Scale perObject n)) (\<lambda>net.
     if IsZero net \<or> IsNegative net then Skip
     else if \<not> worthwhile ctx RuleIDS3IntelligentTiering 3 r ActionApplyS3Lifecycle net then Skip
     else Found (avgObject, breakEven, net))))))))"

definition ruleS3IntelligentTiering_Evaluate :: "EvalContext \<Rightarrow> Resource \<Rightarrow> claimed decision" where [claim_defs]:
  "ruleS3IntelligentTiering_Evaluate ctx r = claim_of (decideS3IntelligentTiering ctx r) (\<lambda>(avgObject, breakEven, saving).
     (SeverityInfo, [ConfigEvidence ''average object size'', CostEvidence ''break-even average object size'' ''pricing_catalog''],
      CostFor ctx r, saving))"

definition ruleS3IntelligentTiering_BuildAction :: "EvalContext \<Rightarrow> Resource \<Rightarrow> RuleAction option" where [action_defs]:
  "ruleS3IntelligentTiering_BuildAction ctx r = Some (transition_action (s3TransitionParameters RuleIDS3IntelligentTiering (res_NativeID r) ''intelligent_tiering'' 0)
     (zero_snapshot\<lparr>ss_Attributes := [(''storage_class'', ''intelligent_tiering'')]\<rparr>))"

definition ruleS3IntelligentTiering :: FullRule where [claim_defs, action_defs]:
  "ruleS3IntelligentTiering = \<lparr>fr_ID = RuleIDS3IntelligentTiering, fr_Category = CategoryStorage, fr_Action = ActionApplyS3Lifecycle, fr_Enabled = True,
     fr_Applies = ruleS3IntelligentTiering_Applies, fr_Claim = ruleS3IntelligentTiering_Evaluate, fr_BuildAction = ruleS3IntelligentTiering_BuildAction\<rparr>"


section \<open>Storage class\<close>

abbreviation "RuleIDS3WrongStorageClass \<equiv> ''s3-wrong-storage-class''"

definition ruleS3WrongStorageClass_Applies :: "Resource \<Rightarrow> bool" where
  "ruleS3WrongStorageClass_Applies r \<longleftrightarrow> res_Kind r = KindS3Bucket \<and> Attr r ''storage_class'' '''' \<noteq> ''''"

definition s3RequestsPerObjectPerMonth :: "ResourceMetrics \<Rightarrow> int \<Rightarrow> rat" where
  "s3RequestsPerObjectPerMonth m objectCount = (case rm_Requests m of None \<Rightarrow> -1
     | Some rq \<Rightarrow> if objectCount \<le> 0 then -1 else f64 (f64 (pc_Mean rq * (HoursPerMonth * 3600)) / i2f objectCount))"

definition decideS3WrongStorageClass :: "EvalContext \<Rightarrow> Resource \<Rightarrow> (string \<times> string \<times> Money) decision" where [claim_defs, action_defs]:
  "decideS3WrongStorageClass ctx r = need (MetricsFor ctx (res_ID r)) (\<lambda>m.
     let freq = s3RequestsPerObjectPerMonth m (ca_ObjectCount (res_Capacity r)) in
     if freq < 0 then Skip
     else need (pr_StoragePrice (ec_Pricing ctx) (res_Region r) ''standard'') (\<lambda>standardPrice.
     need (pr_StoragePrice (ec_Pricing ctx) (res_Region r) ''standard_ia'') (\<lambda>iaPrice.
     if Attr r ''storage_class'' ''standard'' \<noteq> ''standard'' \<or> freq \<ge> f64 (1 / 10) then Skip
     else must (MustSub standardPrice iaPrice) (\<lambda>delta.
     let saving = Scale delta (ca_StorageGiB (res_Capacity r)) in
     if IsZero saving \<or> IsNegative saving then Skip
     else if \<not> worthwhile ctx RuleIDS3WrongStorageClass 2 r ActionApplyS3Lifecycle saving then Skip
     else Found (''standard'', ''standard_ia'', saving)))))"

definition ruleS3WrongStorageClass_Evaluate :: "EvalContext \<Rightarrow> Resource \<Rightarrow> claimed decision" where [claim_defs]:
  "ruleS3WrongStorageClass_Evaluate ctx r = claim_of (decideS3WrongStorageClass ctx r) (\<lambda>(cls, target, saving).
     (SeverityLow, [ConfigEvidence ''current storage class'',
       MetricEvidence ''request rate'' (Option.bind (MetricsFor ctx (res_ID r)) rm_Requests) ''cloudwatch''],
      CostFor ctx r, saving))"

definition ruleS3WrongStorageClass_BuildAction :: "EvalContext \<Rightarrow> Resource \<Rightarrow> RuleAction option" where [action_defs]:
  "ruleS3WrongStorageClass_BuildAction ctx r = action_of (decideS3WrongStorageClass ctx r) (\<lambda>(cls, target, saving).
     case s3TransitionParameters RuleIDS3WrongStorageClass (res_NativeID r) target 30 of None \<Rightarrow> Some advisory
     | Some ps \<Rightarrow> map_option (\<lambda>rest. action ActionApplyS3Lifecycle ps
         ((costs rest)\<lparr>ss_Attributes := [(''storage_class'', target)]\<rparr>) ReversibilityFast ComplexityLow)
         (MustSub (CostFor ctx r) saving))"

definition ruleS3WrongStorageClass :: FullRule where [claim_defs, action_defs]:
  "ruleS3WrongStorageClass = \<lparr>fr_ID = RuleIDS3WrongStorageClass, fr_Category = CategoryStorage, fr_Action = ActionApplyS3Lifecycle, fr_Enabled = True,
     fr_Applies = ruleS3WrongStorageClass_Applies, fr_Claim = ruleS3WrongStorageClass_Evaluate, fr_BuildAction = ruleS3WrongStorageClass_BuildAction\<rparr>"


end
