(* ===== verification/RulesDatabase.thy ===== *)
theory RulesDatabase imports RulesStorage begin

text \<open>
  The rules for databases and tables, \<open>internal/application/optimization/rule_rds_*.go\<close> and
  \<open>rule_dynamodb_billing_mode.go\<close>; modelled like the rules for instances.
\<close>

section \<open>Aurora\<close>

abbreviation "RuleIDRDSAuroraCandidacy \<equiv> ''rds-aurora-candidacy''"

definition ruleRDSAuroraCandidacy_Applies :: "Resource \<Rightarrow> bool" where
  "ruleRDSAuroraCandidacy_Applies r \<longleftrightarrow> res_Kind r = KindRDSInstance \<and> State_Active (res_State r) \<and>
     \<not> AttrBool r ''is_read_replica'' False \<and> (res_Engine r = ''mysql'' \<or> res_Engine r = ''postgres'')"

definition countReplicas :: "EvalContext \<Rightarrow> Resource \<Rightarrow> int" where
  "countReplicas ctx primary = (let
     n = length (filter (\<lambda>e. case ByID (ec_Inventory ctx) (FromID e) of Some dep \<Rightarrow> res_Kind dep = KindRDSInstance | None \<Rightarrow> False)
           (Inbound (ec_Topology ctx) (res_ID primary) [RelReplicaOf]))
   in if n = 0 then int (length (filter (\<lambda>other. Attr other ''primary_id'' '''' = res_NativeID primary)
        (OfKind (ec_Inventory ctx) KindRDSInstance))) else int n)"

definition decideRDSAuroraCandidacy :: "EvalContext \<Rightarrow> Resource \<Rightarrow> (int \<times> Money \<times> Money \<times> Money) decision" where [claim_defs, action_defs]:
  "decideRDSAuroraCandidacy ctx r = (let replicas = countReplicas ctx r; pr = ec_Pricing ctx in
     if replicas < threshold_int ctx RuleIDRDSAuroraCandidacy ''min_read_replica_count'' 2 then Skip
     else need (pr_DatabasePrice pr (res_Region r) (res_InstanceType r) (res_Engine r) (AttrBool r ''multi_az'' False)) (\<lambda>primaryPrice.
     need (pr_DatabasePrice pr (res_Region r) (res_InstanceType r) (''aurora-'' @ res_Engine r) False) (\<lambda>auroraPrimary.
     need (pr_StoragePrice pr (res_Region r) ''rds_gp3'') (\<lambda>storagePrice.
     let replicaCost = Scale primaryPrice (f64 (HoursPerMonth * i2f replicas));
       saving = Scale storagePrice (f64 (ca_StorageGiB (res_Capacity r) * i2f replicas)) in
     if \<not> worthwhile ctx RuleIDRDSAuroraCandidacy 50 r ActionAdvisoryOnly saving then Skip
     else Found (replicas, replicaCost, Scale auroraPrimary HoursPerMonth, saving)))))"

definition ruleRDSAuroraCandidacy_Evaluate :: "EvalContext \<Rightarrow> Resource \<Rightarrow> claimed decision" where [claim_defs]:
  "ruleRDSAuroraCandidacy_Evaluate ctx r = claim_of (decideRDSAuroraCandidacy ctx r) (\<lambda>(replicas, replicaCost, auroraEquivalent, saving).
     (SeverityInfo, [TopologyEvidence ''read replicas'', CostEvidence ''replica fleet cost vs Aurora primary'' ''pricing_catalog''],
      CostFor ctx r, saving))"

definition ruleRDSAuroraCandidacy_BuildAction :: "EvalContext \<Rightarrow> Resource \<Rightarrow> RuleAction option" where [action_defs]:
  "ruleRDSAuroraCandidacy_BuildAction ctx r = Some (action ActionAdvisoryOnly [] zero_snapshot ReversibilityNone ComplexityProject)"

definition ruleRDSAuroraCandidacy :: FullRule where [claim_defs, action_defs]:
  "ruleRDSAuroraCandidacy = \<lparr>fr_ID = RuleIDRDSAuroraCandidacy, fr_Category = CategoryArchitecture, fr_Action = ActionAdvisoryOnly, fr_Enabled = True,
     fr_Applies = ruleRDSAuroraCandidacy_Applies, fr_Claim = ruleRDSAuroraCandidacy_Evaluate, fr_BuildAction = ruleRDSAuroraCandidacy_BuildAction\<rparr>"


section \<open>Backup retention\<close>

abbreviation "RuleIDRDSBackupRetention \<equiv> ''rds-excessive-backup-retention''"

definition ruleRDSBackupRetention_Applies :: "Resource \<Rightarrow> bool" where
  "ruleRDSBackupRetention_Applies r \<longleftrightarrow> res_Kind r = KindRDSInstance \<and> ca_RetentionDays (res_Capacity r) > 0"

definition decideRDSBackupRetention :: "EvalContext \<Rightarrow> Resource \<Rightarrow> (rat \<times> Money) decision" where [claim_defs, action_defs]:
  "decideRDSBackupRetention ctx r = (let maxDays = threshold ctx RuleIDRDSBackupRetention ''max_recommended_days'' 14;
       days = i2f (ca_RetentionDays (res_Capacity r)) in
     if days \<le> maxDays then Skip
     else let excessDays = f64 (days - maxDays) in
     need (pr_StoragePrice (ec_Pricing ctx) (res_Region r) ''rds_backup'') (\<lambda>backupPrice.
     let saving = Scale backupPrice (f64 (f64 (ca_StorageGiB (res_Capacity r) * f64 (5 / 100)) * excessDays)) in
     if \<not> worthwhile ctx RuleIDRDSBackupRetention 2 r ActionAdvisoryOnly saving then Skip else Found (excessDays, saving)))"

definition ruleRDSBackupRetention_Evaluate :: "EvalContext \<Rightarrow> Resource \<Rightarrow> claimed decision" where [claim_defs]:
  "ruleRDSBackupRetention_Evaluate ctx r = claim_of (decideRDSBackupRetention ctx r) (\<lambda>(excessDays, saving).
     (SeverityInfo, [ConfigEvidence ''backup retention''], CostFor ctx r, saving))"

definition ruleRDSBackupRetention_BuildAction :: "EvalContext \<Rightarrow> Resource \<Rightarrow> RuleAction option" where [action_defs]:
  "ruleRDSBackupRetention_BuildAction ctx r = Some (action ActionAdvisoryOnly [(''db_instance_id'', PString (res_NativeID r)),
     (''recommended_retention_days'', PInt (threshold_int ctx RuleIDRDSBackupRetention ''max_recommended_days'' 14))] zero_snapshot
     ReversibilityInstant ComplexityTrivial)"

definition ruleRDSBackupRetention :: FullRule where [claim_defs, action_defs]:
  "ruleRDSBackupRetention = \<lparr>fr_ID = RuleIDRDSBackupRetention, fr_Category = CategoryDataLifecycle, fr_Action = ActionAdvisoryOnly, fr_Enabled = True,
     fr_Applies = ruleRDSBackupRetention_Applies, fr_Claim = ruleRDSBackupRetention_Evaluate, fr_BuildAction = ruleRDSBackupRetention_BuildAction\<rparr>"


section \<open>Storage type\<close>

abbreviation "RuleIDRDSGp2Gp3 \<equiv> ''rds-gp2-to-gp3''"

definition ruleRDSGp2Gp3_Applies :: "Resource \<Rightarrow> bool" where
  "ruleRDSGp2Gp3_Applies r \<longleftrightarrow> res_Kind r = KindRDSInstance \<and> State_Active (res_State r) \<and> Attr r ''storage_type'' '''' = ''gp2''"

definition decideRDSGp2Gp3 :: "EvalContext \<Rightarrow> Resource \<Rightarrow> (Money \<times> Money \<times> Money) decision" where [claim_defs, action_defs]:
  "decideRDSGp2Gp3 ctx r = (let size = ca_StorageGiB (res_Capacity r) in
     need (pr_StoragePrice (ec_Pricing ctx) (res_Region r) ''rds_gp2'') (\<lambda>gp2Price.
     need (pr_StoragePrice (ec_Pricing ctx) (res_Region r) ''rds_gp3'') (\<lambda>gp3Price.
     let gp2Cost = Scale gp2Price size; gp3Cost = Scale gp3Price size in
     if \<not> LessThan gp3Cost gp2Cost then Skip
     else must (MustSub gp2Cost gp3Cost) (\<lambda>saving.
     if \<not> worthwhile ctx RuleIDRDSGp2Gp3 2 r ActionModifyRDSStorage saving then Skip
     else Found (gp2Cost, gp3Cost, saving)))))"

definition ruleRDSGp2Gp3_Evaluate :: "EvalContext \<Rightarrow> Resource \<Rightarrow> claimed decision" where [claim_defs]:
  "ruleRDSGp2Gp3_Evaluate ctx r = claim_of (decideRDSGp2Gp3 ctx r) (\<lambda>(gp2Cost, gp3Cost, saving).
     (SeverityInfo, [ConfigEvidence ''current storage type'', CostEvidence ''gp2 vs gp3 monthly cost'' ''pricing_catalog''],
      gp2Cost, saving))"

definition ruleRDSGp2Gp3_BuildAction :: "EvalContext \<Rightarrow> Resource \<Rightarrow> RuleAction option" where [action_defs]:
  "ruleRDSGp2Gp3_BuildAction ctx r = action_of (decideRDSGp2Gp3 ctx r) (\<lambda>(gp2Cost, gp3Cost, saving).
     Some (action ActionModifyRDSStorage
       [(''db_instance_id'', PString (res_NativeID r)), (''storage_type'', PString ''gp3'')]
       ((costs gp3Cost)\<lparr>ss_VolumeType := ''gp3''\<rparr>) ReversibilityFast ComplexityLow))"

definition ruleRDSGp2Gp3 :: FullRule where [claim_defs, action_defs]:
  "ruleRDSGp2Gp3 = \<lparr>fr_ID = RuleIDRDSGp2Gp3, fr_Category = CategoryStorage, fr_Action = ActionModifyRDSStorage, fr_Enabled = True,
     fr_Applies = ruleRDSGp2Gp3_Applies, fr_Claim = ruleRDSGp2Gp3_Evaluate, fr_BuildAction = ruleRDSGp2Gp3_BuildAction\<rparr>"


section \<open>Idle databases\<close>

abbreviation "RuleIDRDSIdle \<equiv> ''rds-idle-database''"

definition ruleRDSIdle_Applies :: "Resource \<Rightarrow> bool" where
  "ruleRDSIdle_Applies r \<longleftrightarrow> res_Kind r = KindRDSInstance \<and> State_Active (res_State r) \<and> \<not> AttrBool r ''is_read_replica'' False"

definition decideRDSIdle :: "EvalContext \<Rightarrow> Resource \<Rightarrow> (ResourceMetrics \<times> Money) decision" where [claim_defs, action_defs]:
  "decideRDSIdle ctx r = need (MetricsFor ctx (res_ID r)) (\<lambda>m. need (rm_Connections m) (\<lambda>conn.
     if \<not> HasSufficientData m (threshold ctx RuleIDRDSIdle ''min_coverage'' (1 / 2)) (threshold_hours ctx RuleIDRDSIdle ''min_window_hours'' 168) then Skip
     else if pc_P99 conn > threshold ctx RuleIDRDSIdle ''max_connections_p99'' 1 then Skip
     else if \<not> worthwhile ctx RuleIDRDSIdle 15 r ActionStopRDS (CostFor ctx r) then Skip
     else Found (m, CostFor ctx r)))"

definition ruleRDSIdle_Evaluate :: "EvalContext \<Rightarrow> Resource \<Rightarrow> claimed decision" where [claim_defs]:
  "ruleRDSIdle_Evaluate ctx r = claim_of (decideRDSIdle ctx r) (\<lambda>(m, cost).
     (SeverityMedium, [MetricEvidence ''connection count'' (rm_Connections m) ''cloudwatch''], cost, cost))"

definition ruleRDSIdle_BuildAction :: "EvalContext \<Rightarrow> Resource \<Rightarrow> RuleAction option" where [action_defs]:
  "ruleRDSIdle_BuildAction ctx r = Some (action ActionStopRDS [(''db_instance_id'', PString (res_NativeID r))]
     (costs ZeroUSD) ReversibilityFast ComplexityLow)"

definition ruleRDSIdle :: FullRule where [claim_defs, action_defs]:
  "ruleRDSIdle = \<lparr>fr_ID = RuleIDRDSIdle, fr_Category = CategoryWaste, fr_Action = ActionStopRDS, fr_Enabled = True,
     fr_Applies = ruleRDSIdle_Applies, fr_Claim = ruleRDSIdle_Evaluate, fr_BuildAction = ruleRDSIdle_BuildAction\<rparr>"


section \<open>Several zones outside production\<close>

abbreviation "RuleIDRDSMultiAZNonProd \<equiv> ''rds-multiaz-nonprod''"

definition ruleRDSMultiAZNonProd_Applies :: "Resource \<Rightarrow> bool" where
  "ruleRDSMultiAZNonProd_Applies r \<longleftrightarrow> res_Kind r = KindRDSInstance \<and> State_Active (res_State r) \<and>
     \<not> IsProduction (res_Environment r) \<and> AttrBool r ''multi_az'' False"

definition decideRDSMultiAZNonProd :: "EvalContext \<Rightarrow> Resource \<Rightarrow> (Money \<times> Money) decision" where [claim_defs, action_defs]:
  "decideRDSMultiAZNonProd ctx r =
     need (pr_DatabasePrice (ec_Pricing ctx) (res_Region r) (res_InstanceType r) (res_Engine r) True) (\<lambda>multiAZPrice.
     need (pr_DatabasePrice (ec_Pricing ctx) (res_Region r) (res_InstanceType r) (res_Engine r) False) (\<lambda>singleAZ.
     if \<not> LessThan singleAZ multiAZPrice then Skip
     else must (monthly_saving multiAZPrice singleAZ) (\<lambda>saving.
     if \<not> worthwhile ctx RuleIDRDSMultiAZNonProd 10 r ActionAdvisoryOnly saving then Skip else Found (singleAZ, saving))))"

definition ruleRDSMultiAZNonProd_Evaluate :: "EvalContext \<Rightarrow> Resource \<Rightarrow> claimed decision" where [claim_defs]:
  "ruleRDSMultiAZNonProd_Evaluate ctx r = claim_of (decideRDSMultiAZNonProd ctx r) (\<lambda>(singleAZ, saving).
     (SeverityLow, [ConfigEvidence ''environment'', CostEvidence ''single-AZ equivalent price'' ''pricing_catalog''],
      CostFor ctx r, saving))"

definition ruleRDSMultiAZNonProd_BuildAction :: "EvalContext \<Rightarrow> Resource \<Rightarrow> RuleAction option" where [action_defs]:
  "ruleRDSMultiAZNonProd_BuildAction ctx r = Some (action ActionAdvisoryOnly [] zero_snapshot ReversibilityFast ComplexityLow)"

definition ruleRDSMultiAZNonProd :: FullRule where [claim_defs, action_defs]:
  "ruleRDSMultiAZNonProd = \<lparr>fr_ID = RuleIDRDSMultiAZNonProd, fr_Category = CategoryWaste, fr_Action = ActionAdvisoryOnly, fr_Enabled = True,
     fr_Applies = ruleRDSMultiAZNonProd_Applies, fr_Claim = ruleRDSMultiAZNonProd_Evaluate, fr_BuildAction = ruleRDSMultiAZNonProd_BuildAction\<rparr>"


section \<open>Overprovisioned storage\<close>

abbreviation "RuleIDRDSOverprovisionedStorage \<equiv> ''rds-overprovisioned-storage''"

definition ruleRDSOverprovisionedStorage_Applies :: "Resource \<Rightarrow> bool" where
  "ruleRDSOverprovisionedStorage_Applies r \<longleftrightarrow> res_Kind r = KindRDSInstance \<and> State_Active (res_State r) \<and> ca_StorageGiB (res_Capacity r) > 0"

definition firstNonEmpty :: "string \<Rightarrow> string \<Rightarrow> string" where
  "firstNonEmpty a b = (if a \<noteq> '''' then a else b)"

definition decideRDSOverprovisionedStorage :: "EvalContext \<Rightarrow> Resource \<Rightarrow> (ResourceMetrics \<times> rat \<times> Money) decision" where [claim_defs, action_defs]:
  "decideRDSOverprovisionedStorage ctx r = (let size = ca_StorageGiB (res_Capacity r) in
     need (MetricsFor ctx (res_ID r)) (\<lambda>m. need (rm_DiskUsed m) (\<lambda>du.
     if rm_Coverage m < threshold ctx RuleIDRDSOverprovisionedStorage ''min_coverage'' (f64 (4 / 10)) then Skip
     else if f64 (pc_P95 du / 100) > threshold ctx RuleIDRDSOverprovisionedStorage ''used_fraction_max'' (f64 (4 / 10)) then Skip
     else let targetGiB = maxFloat 20 (f64 (f64 (size * f64 (pc_P99 du / 100)) * f64 (13 / 10))) in
     if targetGiB \<ge> size then Skip
     else need (pr_StoragePrice (ec_Pricing ctx) (res_Region r) (''rds_'' @ firstNonEmpty (Attr r ''storage_type'' '''') ''gp3'')) (\<lambda>price.
     let saving = Scale price (f64 (size - targetGiB)) in
     if \<not> worthwhile ctx RuleIDRDSOverprovisionedStorage 10 r ActionAdvisoryOnly saving then Skip else Found (m, targetGiB, saving)))))"

definition ruleRDSOverprovisionedStorage_Evaluate :: "EvalContext \<Rightarrow> Resource \<Rightarrow> claimed decision" where [claim_defs]:
  "ruleRDSOverprovisionedStorage_Evaluate ctx r = claim_of (decideRDSOverprovisionedStorage ctx r) (\<lambda>(m, targetGiB, saving).
     (SeverityLow, [MetricEvidence ''disk usage'' (rm_DiskUsed m) ''cloudwatch'', ConfigEvidence ''allocated storage''],
      CostFor ctx r, saving))"

definition ruleRDSOverprovisionedStorage_BuildAction :: "EvalContext \<Rightarrow> Resource \<Rightarrow> RuleAction option" where [action_defs]:
  "ruleRDSOverprovisionedStorage_BuildAction ctx r = action_of (decideRDSOverprovisionedStorage ctx r) (\<lambda>(m, targetGiB, saving).
     map_option (\<lambda>rest. (action ActionAdvisoryOnly
       [(''db_instance_id'', PString (res_NativeID r)),
        (''current_allocated_storage_gib'', PFloat (ca_StorageGiB (res_Capacity r))),
        (''recommended_storage_gib'', PFloat targetGiB),
        (''migration'', PString (''snapshot and restore into a smaller allocation, or cut over via blue/green; '' @
           ''rds:ModifyDBInstance cannot reduce allocated storage''))]
       ((costs rest)\<lparr>ss_SizeGiB := targetGiB\<rparr>) ReversibilitySlow ComplexityHigh)
         \<lparr>ac_ConflictDomain := ConflictDomainRDSStorage\<rparr>) (MustSub (CostFor ctx r) saving))"

definition ruleRDSOverprovisionedStorage :: FullRule where [claim_defs, action_defs]:
  "ruleRDSOverprovisionedStorage = \<lparr>fr_ID = RuleIDRDSOverprovisionedStorage, fr_Category = CategoryRightsizing, fr_Action = ActionAdvisoryOnly, fr_Enabled = True,
     fr_Applies = ruleRDSOverprovisionedStorage_Applies, fr_Claim = ruleRDSOverprovisionedStorage_Evaluate, fr_BuildAction = ruleRDSOverprovisionedStorage_BuildAction\<rparr>"


section \<open>Oversized databases\<close>

abbreviation "RuleIDRDSOversized \<equiv> ''rds-oversized-instance''"

definition ruleRDSOversized_Applies :: "Resource \<Rightarrow> bool" where
  "ruleRDSOversized_Applies r \<longleftrightarrow> res_Kind r = KindRDSInstance \<and> State_Active (res_State r) \<and> \<not> AttrBool r ''is_read_replica'' False"

definition decideRDSOversized :: "EvalContext \<Rightarrow> Resource \<Rightarrow> (ResourceMetrics \<times> string \<times> Money \<times> Money \<times> Money) decision" where [claim_defs, action_defs]:
  "decideRDSOversized ctx r = need (MetricsFor ctx (res_ID r)) (\<lambda>m. need (rm_CPU m) (\<lambda>cpu.
     if \<not> HasSufficientData m (threshold ctx RuleIDRDSOversized ''min_coverage'' (1 / 2)) (threshold_hours ctx RuleIDRDSOversized ''min_window_hours'' 168) then Skip
     else if pc_P95 cpu > threshold ctx RuleIDRDSOversized ''cpu_p95_max'' 40 \<or> pc_P99 cpu > threshold ctx RuleIDRDSOversized ''cpu_p99_max'' 55 then Skip
     else if (case rm_Memory m of None \<Rightarrow> False | Some mem \<Rightarrow> pc_P95 mem > threshold ctx RuleIDRDSOversized ''mem_p95_max'' 55) then Skip
     else let multiAZ = AttrBool r ''multi_az'' False in
     need (stepDBClass (res_InstanceType r) False) (\<lambda>candidate.
     need (pr_DatabasePrice (ec_Pricing ctx) (res_Region r) (res_InstanceType r) (res_Engine r) multiAZ) (\<lambda>curPrice.
     need (pr_DatabasePrice (ec_Pricing ctx) (res_Region r) candidate (res_Engine r) multiAZ) (\<lambda>candPrice.
     if \<not> LessThan candPrice curPrice then Skip
     else must (monthly_saving curPrice candPrice) (\<lambda>saving.
     if \<not> worthwhile ctx RuleIDRDSOversized 20 r ActionResizeRDS saving then Skip
     else Found (m, candidate, curPrice, candPrice, saving)))))))"

definition ruleRDSOversized_Evaluate :: "EvalContext \<Rightarrow> Resource \<Rightarrow> claimed decision" where [claim_defs]:
  "ruleRDSOversized_Evaluate ctx r = claim_of (decideRDSOversized ctx r) (\<lambda>(m, candidate, curPrice, candPrice, saving).
     (SeverityMedium, [MetricEvidence ''CPU utilization'' (rm_CPU m) ''cloudwatch'',
        CostEvidence ''current vs candidate class'' ''pricing_catalog''] @
       (if rm_Memory m \<noteq> None then [MetricEvidence ''Memory utilization'' (rm_Memory m) ''cloudwatch''] else []),
      CostFor ctx r, saving))"

definition ruleRDSOversized_BuildAction :: "EvalContext \<Rightarrow> Resource \<Rightarrow> RuleAction option" where [action_defs]:
  "ruleRDSOversized_BuildAction ctx r = action_of (decideRDSOversized ctx r) (\<lambda>(m, candidate, curPrice, candPrice, saving).
     Some (action ActionResizeRDS
       [(''db_instance_id'', PString (res_NativeID r)), (''instance_class'', PString candidate)]
       ((costs (Scale candPrice HoursPerMonth))\<lparr>ss_InstanceType := candidate\<rparr>) ReversibilitySlow ComplexityMedium))"

definition ruleRDSOversized :: FullRule where [claim_defs, action_defs]:
  "ruleRDSOversized = \<lparr>fr_ID = RuleIDRDSOversized, fr_Category = CategoryRightsizing, fr_Action = ActionResizeRDS, fr_Enabled = True,
     fr_Applies = ruleRDSOversized_Applies, fr_Claim = ruleRDSOversized_Evaluate, fr_BuildAction = ruleRDSOversized_BuildAction\<rparr>"


section \<open>Unused replicas\<close>

abbreviation "RuleIDRDSUnnecessaryReplica \<equiv> ''rds-unnecessary-read-replica''"

definition ruleRDSUnnecessaryReplica_Applies :: "Resource \<Rightarrow> bool" where
  "ruleRDSUnnecessaryReplica_Applies r \<longleftrightarrow> res_Kind r = KindRDSInstance \<and> State_Active (res_State r) \<and> AttrBool r ''is_read_replica'' False"

definition decideRDSUnnecessaryReplica :: "EvalContext \<Rightarrow> Resource \<Rightarrow> (ResourceMetrics \<times> Money) decision" where [claim_defs, action_defs]:
  "decideRDSUnnecessaryReplica ctx r = need (MetricsFor ctx (res_ID r)) (\<lambda>m. need (rm_Connections m) (\<lambda>conn.
     if \<not> HasSufficientData m (threshold ctx RuleIDRDSUnnecessaryReplica ''min_coverage'' (1 / 2)) (threshold_hours ctx RuleIDRDSUnnecessaryReplica ''min_window_hours'' 168) then Skip
     else if pc_P99 conn > threshold ctx RuleIDRDSUnnecessaryReplica ''max_connections_p99'' 1 then Skip
     else if \<not> worthwhile ctx RuleIDRDSUnnecessaryReplica 20 r ActionRemoveRDSReplica (CostFor ctx r) then Skip
     else Found (m, CostFor ctx r)))"

definition ruleRDSUnnecessaryReplica_Evaluate :: "EvalContext \<Rightarrow> Resource \<Rightarrow> claimed decision" where [claim_defs]:
  "ruleRDSUnnecessaryReplica_Evaluate ctx r = claim_of (decideRDSUnnecessaryReplica ctx r) (\<lambda>(m, cost).
     (SeverityMedium, [MetricEvidence ''connection count'' (rm_Connections m) ''cloudwatch'', ConfigEvidence ''primary''], cost, cost))"

definition ruleRDSUnnecessaryReplica_BuildAction :: "EvalContext \<Rightarrow> Resource \<Rightarrow> RuleAction option" where [action_defs]:
  "ruleRDSUnnecessaryReplica_BuildAction ctx r = Some (action ActionRemoveRDSReplica [(''db_instance_id'', PString (res_NativeID r))]
     (costs ZeroUSD) ReversibilityNone ComplexityLow)"

definition ruleRDSUnnecessaryReplica :: FullRule where [claim_defs, action_defs]:
  "ruleRDSUnnecessaryReplica = \<lparr>fr_ID = RuleIDRDSUnnecessaryReplica, fr_Category = CategoryWaste, fr_Action = ActionRemoveRDSReplica, fr_Enabled = True,
     fr_Applies = ruleRDSUnnecessaryReplica_Applies, fr_Claim = ruleRDSUnnecessaryReplica_Evaluate, fr_BuildAction = ruleRDSUnnecessaryReplica_BuildAction\<rparr>"


section \<open>Billing mode of tables\<close>

abbreviation "RuleIDDynamoBillingMode \<equiv> ''dynamodb-billing-mode-mismatch''"

definition ruleDynamoBillingMode_Applies :: "Resource \<Rightarrow> bool" where
  "ruleDynamoBillingMode_Applies r \<longleftrightarrow> res_Kind r = KindDynamoDBTable \<and> State_Active (res_State r) \<and> Attr r ''billing_mode'' '''' = ''provisioned''"

definition price_pair :: "Money \<Rightarrow> rat \<Rightarrow> Money \<Rightarrow> rat \<Rightarrow> Money option" where
  "price_pair p x q y = MustAdd (Scale p x) (Scale q y)"

definition decideDynamoBillingMode :: "EvalContext \<Rightarrow> Resource \<Rightarrow> (rat \<times> Money \<times> Money \<times> Money) decision" where [claim_defs, action_defs]:
  "decideDynamoBillingMode ctx r = need (MetricsFor ctx (res_ID r)) (\<lambda>m. need (rm_Requests m) (\<lambda>rq.
     if \<not> HasSufficientData m (threshold ctx RuleIDDynamoBillingMode ''min_coverage'' (1 / 2)) (threshold_hours ctx RuleIDDynamoBillingMode ''min_window_hours'' 168) then Skip
     else let rcu = ca_WriteCapacityRCU (res_Capacity r); wcu = ca_ReadCapacityWCU (res_Capacity r); both = f64 (rcu + wcu) in
     if both \<le> 0 then Skip
     else let consumed = pc_P95 rq; ratio = f64 (consumed / both) in
     if ratio > threshold ctx RuleIDDynamoBillingMode ''provisioned_consumed_ratio_max'' (f64 (3 / 10)) then Skip
     else let price = (\<lambda>k. pr_ServicePrice (ec_Pricing ctx) (res_Region r) ''dynamodb'' k) in
     need (price ''rcu_hour'') (\<lambda>rcuPrice. need (price ''wcu_hour'') (\<lambda>wcuPrice.
     need (price ''on_demand_read'') (\<lambda>readPrice. need (price ''on_demand_write'') (\<lambda>writePrice.
     must (price_pair rcuPrice (f64 (rcu * HoursPerMonth)) wcuPrice (f64 (wcu * HoursPerMonth))) (\<lambda>provisionedCost.
     let units = (\<lambda>share. f64 (f64 (consumed * share) * (HoursPerMonth * 3600))) in
     must (price_pair readPrice (f64 (units (f64 (rcu / both)) / 1000)) writePrice (f64 (units (f64 (wcu / both)) / 1000)))
       (\<lambda>onDemandCost.
     if \<not> LessThan onDemandCost provisionedCost then Skip
     else must (MustSub provisionedCost onDemandCost) (\<lambda>saving.
     if \<not> worthwhile ctx RuleIDDynamoBillingMode 5 r ActionSwitchDynamoBilling saving then Skip
     else Found (ratio, provisionedCost, onDemandCost, saving))))))))))"

definition ruleDynamoBillingMode_Evaluate :: "EvalContext \<Rightarrow> Resource \<Rightarrow> claimed decision" where [claim_defs]:
  "ruleDynamoBillingMode_Evaluate ctx r = claim_of (decideDynamoBillingMode ctx r) (\<lambda>(ratio, provisionedCost, onDemandCost, saving).
     (SeverityLow, [ConfigEvidence ''billing mode'',
        MetricEvidence ''consumed vs provisioned capacity ratio'' (Some ((empty_percentiles 0)\<lparr>pc_P95 := ratio\<rparr>)) ''cloudwatch'',
        CostEvidence ''provisioned vs estimated on-demand cost'' ''pricing_catalog''], provisionedCost, saving))"

definition ruleDynamoBillingMode_BuildAction :: "EvalContext \<Rightarrow> Resource \<Rightarrow> RuleAction option" where [action_defs]:
  "ruleDynamoBillingMode_BuildAction ctx r = action_of (decideDynamoBillingMode ctx r) (\<lambda>(ratio, provisionedCost, onDemandCost, saving).
     Some (action ActionSwitchDynamoBilling
       [(''table_id'', PString (res_NativeID r)), (''target_billing_mode'', PString ''on_demand'')]
       ((costs onDemandCost)\<lparr>ss_Attributes := [(''billing_mode'', ''on_demand'')]\<rparr>) ReversibilityFast ComplexityLow))"

definition ruleDynamoBillingMode :: FullRule where [claim_defs, action_defs]:
  "ruleDynamoBillingMode = \<lparr>fr_ID = RuleIDDynamoBillingMode, fr_Category = CategoryCommitment, fr_Action = ActionSwitchDynamoBilling, fr_Enabled = True,
     fr_Applies = ruleDynamoBillingMode_Applies, fr_Claim = ruleDynamoBillingMode_Evaluate, fr_BuildAction = ruleDynamoBillingMode_BuildAction\<rparr>"


end
