(* ===== verification/RulesNetwork.thy ===== *)
theory RulesNetwork imports RulesDatabase begin

text \<open>
  The rules for the network, \<open>internal/application/optimization/rule_nat_*.go\<close>, \<open>rule_cross_az_chatter.go\<close>,
  \<open>rule_eip_unattached.go\<close>, \<open>rule_lb_idle.go\<close> and \<open>rule_cloudfront_egress.go\<close>; modelled like the rules for instances.
\<close>

section \<open>Redundant NAT gateways\<close>

abbreviation "RuleIDNATRedundant \<equiv> ''nat-gateway-redundant''"

definition ruleNATRedundant_Applies :: "Resource \<Rightarrow> bool" where
  "ruleNATRedundant_Applies r \<longleftrightarrow> res_Kind r = KindNATGateway \<and> State_Active (res_State r)"

definition natSiblings :: "EvalContext \<Rightarrow> Resource \<Rightarrow> Resource list" where
  "natSiblings ctx r = filter (\<lambda>other. \<not> (res_ID other = res_ID r \<or> \<not> State_Active (res_State other) \<or>
     res_Region other \<noteq> res_Region r)) (OfKind (ec_Inventory ctx) KindNATGateway)"

definition decideNATRedundant :: "EvalContext \<Rightarrow> Resource \<Rightarrow> (rat \<times> Money) decision" where [claim_defs, action_defs]:
  "decideNATRedundant ctx r = (let pr = ec_Pricing ctx; region = res_Region r in
     if natSiblings ctx r = [] then Skip
     else let gb = parseFloatAttr (Attr r ''gb_processed_month'' '''') (-1) in
     if gb < 0 then Skip
     else if gb > threshold ctx RuleIDNATRedundant ''max_gb_processed_month'' 200 then Skip
     else need (pr_ServicePrice pr region ''nat_gateway'' ''hours'') (\<lambda>hoursPrice.
     need (pr_ServicePrice pr region ''nat_gateway'' ''gb_processed'') (\<lambda>gbPrice.
     need (pr_DataTransferPrice pr region ''cross_az'') (\<lambda>crossAZPrice.
     must (MustAdd (Scale hoursPrice HoursPerMonth) (Scale gbPrice gb)) (\<lambda>removedCost.
     let added = Scale crossAZPrice gb in
     if \<not> LessThan added removedCost then Skip
     else must (MustSub removedCost added) (\<lambda>saving.
     if \<not> worthwhile ctx RuleIDNATRedundant 15 r ActionRemoveNATGateway saving then Skip else Found (gb, saving)))))))"

definition ruleNATRedundant_Evaluate :: "EvalContext \<Rightarrow> Resource \<Rightarrow> claimed decision" where [claim_defs]:
  "ruleNATRedundant_Evaluate ctx r = claim_of (decideNATRedundant ctx r) (\<lambda>(gb, saving).
     (SeverityLow, [ConfigEvidence ''processed GB / month'', TopologyEvidence ''consolidation target''], CostFor ctx r, saving))"

definition ruleNATRedundant_BuildAction :: "EvalContext \<Rightarrow> Resource \<Rightarrow> RuleAction option" where [action_defs]:
  "ruleNATRedundant_BuildAction ctx r = Some (action ActionRemoveNATGateway [(''nat_gateway_id'', PString (res_NativeID r))]
     (costs ZeroUSD) ReversibilitySlow ComplexityMedium)"

definition ruleNATRedundant :: FullRule where [claim_defs, action_defs]:
  "ruleNATRedundant = \<lparr>fr_ID = RuleIDNATRedundant, fr_Category = CategoryNetwork, fr_Action = ActionRemoveNATGateway, fr_Enabled = True,
     fr_Applies = ruleNATRedundant_Applies, fr_Claim = ruleNATRedundant_Evaluate, fr_BuildAction = ruleNATRedundant_BuildAction\<rparr>"


section \<open>Gateway endpoints\<close>

abbreviation "RuleIDNATVPCEndpoint \<equiv> ''nat-gateway-vpc-endpoint-opportunity''"

definition ruleNATVPCEndpoint_Applies :: "Resource \<Rightarrow> bool" where
  "ruleNATVPCEndpoint_Applies r \<longleftrightarrow> res_Kind r = KindNATGateway \<and> State_Active (res_State r)"

definition decideNATVPCEndpoint :: "EvalContext \<Rightarrow> Resource \<Rightarrow> Money decision" where [claim_defs, action_defs]:
  "decideNATVPCEndpoint ctx r = (let gb = parseFloatAttr (Attr r ''gb_processed_month'' '''') (-1);
       fraction = parseFloatAttr (Attr r ''s3_dynamodb_traffic_fraction'' '''') (-1) in
     if gb < 0 \<or> fraction < 0 then Skip
     else if fraction < threshold ctx RuleIDNATVPCEndpoint ''min_s3_dynamo_fraction'' (1 / 4) then Skip
     else need (pr_ServicePrice (ec_Pricing ctx) (res_Region r) ''nat_gateway'' ''gb_processed'') (\<lambda>gbPrice.
     let saving = Scale gbPrice (f64 (gb * fraction)) in
     if \<not> worthwhile ctx RuleIDNATVPCEndpoint 5 r ActionCreateVPCEndpoint saving then Skip else Found saving))"

definition GatewayEndpointServiceName :: "Region \<Rightarrow> string \<Rightarrow> string" where
  "GatewayEndpointServiceName region service = ''com.amazonaws.'' @ region @ ''.'' @ service"

definition ruleNATVPCEndpoint_Evaluate :: "EvalContext \<Rightarrow> Resource \<Rightarrow> claimed decision" where [claim_defs]:
  "ruleNATVPCEndpoint_Evaluate ctx r = claim_of (decideNATVPCEndpoint ctx r) (\<lambda>saving.
     (SeverityInfo, [ConfigEvidence ''processed GB / month'', ConfigEvidence ''S3/DynamoDB share of processed bytes''],
      CostFor ctx r, saving))"

definition ruleNATVPCEndpoint_BuildAction :: "EvalContext \<Rightarrow> Resource \<Rightarrow> RuleAction option" where [action_defs]:
  "ruleNATVPCEndpoint_BuildAction ctx r = Some (action ActionCreateVPCEndpoint [(''vpc_id'', PString (Attr r ''vpc_id'' '''')),
     (''service_name'', PString (GatewayEndpointServiceName (res_Region r) ''s3''))] zero_snapshot
     ReversibilityInstant ComplexityLow)"

definition ruleNATVPCEndpoint :: FullRule where [claim_defs, action_defs]:
  "ruleNATVPCEndpoint = \<lparr>fr_ID = RuleIDNATVPCEndpoint, fr_Category = CategoryNetwork, fr_Action = ActionCreateVPCEndpoint, fr_Enabled = True,
     fr_Applies = ruleNATVPCEndpoint_Applies, fr_Claim = ruleNATVPCEndpoint_Evaluate, fr_BuildAction = ruleNATVPCEndpoint_BuildAction\<rparr>"


section \<open>Traffic between zones\<close>

abbreviation "RuleIDCrossAZChatter \<equiv> ''cross-az-chatter''"

definition ruleCrossAZChatter_Applies :: "Resource \<Rightarrow> bool" where
  "ruleCrossAZChatter_Applies r \<longleftrightarrow> State_Active (res_State r) \<and> res_AZ r \<noteq> ''''"

text \<open>One edge: the partners found and the identifiers seen.\<close>

definition add_partner :: "EvalContext \<Rightarrow> Resource \<Rightarrow> Relationship \<Rightarrow> Resource list \<Rightarrow> Resource list" where
  "add_partner ctx r e partners = (if \<not> TraversesRequestPath (RKind e) then partners
     else let p = (if ToID e = res_ID r then FromID e else ToID e) in
     if p \<in> res_ID ` set partners then partners
     else (case ByID (ec_Inventory ctx) p of None \<Rightarrow> partners
       | Some partner \<Rightarrow> if res_AZ partner = '''' \<or> res_AZ partner = res_AZ r then partners else partners @ [partner]))"

definition crossAZPartners :: "EvalContext \<Rightarrow> Resource \<Rightarrow> Resource list" where
  "crossAZPartners ctx r = fold (add_partner ctx r)
     (Outbound (ec_Topology ctx) (res_ID r) [] @ Inbound (ec_Topology ctx) (res_ID r) []) []"

definition decideCrossAZChatter :: "EvalContext \<Rightarrow> Resource \<Rightarrow> (rat \<times> Money) decision" where [claim_defs, action_defs]:
  "decideCrossAZChatter ctx r = (if crossAZPartners ctx r = [] then Skip
     else let gb = parseFloatAttr (Attr r ''cross_az_gb_month'' '''') (-1) in
     if gb < 0 then Skip
     else if gb < threshold ctx RuleIDCrossAZChatter ''min_cross_az_gb_month'' 500 then Skip
     else need (pr_DataTransferPrice (ec_Pricing ctx) (res_Region r) ''cross_az'') (\<lambda>crossAZPrice.
     let cost = Scale crossAZPrice gb in
     if \<not> worthwhile ctx RuleIDCrossAZChatter 20 r ActionAdvisoryOnly cost then Skip else Found (gb, cost)))"

definition ruleCrossAZChatter_Evaluate :: "EvalContext \<Rightarrow> Resource \<Rightarrow> claimed decision" where [claim_defs]:
  "ruleCrossAZChatter_Evaluate ctx r = claim_of (decideCrossAZChatter ctx r) (\<lambda>(gb, cost).
     (SeverityLow, [TopologyEvidence ''cross-AZ request-path partners'', ConfigEvidence ''cross-AZ transfer volume''],
      CostFor ctx r, cost))"

definition ruleCrossAZChatter_BuildAction :: "EvalContext \<Rightarrow> Resource \<Rightarrow> RuleAction option" where [action_defs]:
  "ruleCrossAZChatter_BuildAction ctx r = Some (action ActionAdvisoryOnly [] zero_snapshot ReversibilityNone ComplexityMedium)"

definition ruleCrossAZChatter :: FullRule where [claim_defs, action_defs]:
  "ruleCrossAZChatter = \<lparr>fr_ID = RuleIDCrossAZChatter, fr_Category = CategoryNetwork, fr_Action = ActionAdvisoryOnly, fr_Enabled = True,
     fr_Applies = ruleCrossAZChatter_Applies, fr_Claim = ruleCrossAZChatter_Evaluate, fr_BuildAction = ruleCrossAZChatter_BuildAction\<rparr>"


section \<open>Unattached addresses\<close>

abbreviation "RuleIDEIPUnattached \<equiv> ''elastic-ip-unattached''"

definition ruleEIPUnattached_Applies :: "Resource \<Rightarrow> bool" where
  "ruleEIPUnattached_Applies r \<longleftrightarrow> res_Kind r = KindElasticIP \<and> res_State r \<noteq> StateInUse"

definition decideEIPUnattached :: "EvalContext \<Rightarrow> Resource \<Rightarrow> Money decision" where [claim_defs, action_defs]:
  "decideEIPUnattached ctx r = (if daysSince (res_FirstSeenAt r) (ec_Now ctx) < threshold ctx RuleIDEIPUnattached ''min_unattached_days'' 1 then Skip
     else need (pr_ServicePrice (ec_Pricing ctx) (res_Region r) ''elastic_ip'' ''idle_hour'') (\<lambda>idlePrice.
     let saving = Scale idlePrice HoursPerMonth in
     if \<not> worthwhile ctx RuleIDEIPUnattached 1 r ActionReleaseElasticIP saving then Skip else Found saving))"

definition ruleEIPUnattached_Evaluate :: "EvalContext \<Rightarrow> Resource \<Rightarrow> claimed decision" where [claim_defs]:
  "ruleEIPUnattached_Evaluate ctx r = claim_of (decideEIPUnattached ctx r) (\<lambda>saving.
     (SeverityLow, [ConfigEvidence ''state'', ConfigEvidence ''observed unattached for''], CostFor ctx r, saving))"

definition ruleEIPUnattached_BuildAction :: "EvalContext \<Rightarrow> Resource \<Rightarrow> RuleAction option" where [action_defs]:
  "ruleEIPUnattached_BuildAction ctx r = Some (action ActionReleaseElasticIP [(''allocation_id'', PString (res_NativeID r))]
     (costs ZeroUSD) ReversibilityNone ComplexityTrivial)"

definition ruleEIPUnattached :: FullRule where [claim_defs, action_defs]:
  "ruleEIPUnattached = \<lparr>fr_ID = RuleIDEIPUnattached, fr_Category = CategoryWaste, fr_Action = ActionReleaseElasticIP, fr_Enabled = True,
     fr_Applies = ruleEIPUnattached_Applies, fr_Claim = ruleEIPUnattached_Evaluate, fr_BuildAction = ruleEIPUnattached_BuildAction\<rparr>"


section \<open>Idle load balancers\<close>

abbreviation "RuleIDLBIdle \<equiv> ''load-balancer-idle''"

definition ruleLBIdle_Applies :: "Resource \<Rightarrow> bool" where
  "ruleLBIdle_Applies r \<longleftrightarrow> (res_Kind r = KindALB \<or> res_Kind r = KindNLB) \<and> State_Active (res_State r)"

definition decideLBIdle :: "EvalContext \<Rightarrow> Resource \<Rightarrow> Money decision" where [claim_defs, action_defs]:
  "decideLBIdle ctx r = (let lcu = parseFloatAttr (Attr r ''lcu_hour_avg'' '''') (-1) in
     if lcu < 0 then Skip
     else if lcu > threshold ctx RuleIDLBIdle ''max_lcu_hour_avg'' (f64 (5 / 100)) then Skip
     else if \<not> worthwhile ctx RuleIDLBIdle 5 r ActionAdvisoryOnly (CostFor ctx r) then Skip
     else Found (CostFor ctx r))"

definition ruleLBIdle_Evaluate :: "EvalContext \<Rightarrow> Resource \<Rightarrow> claimed decision" where [claim_defs]:
  "ruleLBIdle_Evaluate ctx r = claim_of (decideLBIdle ctx r) (\<lambda>cost.
     (SeverityLow, [ConfigEvidence ''average consumed LCUs / hour''], cost, cost))"

definition ruleLBIdle_BuildAction :: "EvalContext \<Rightarrow> Resource \<Rightarrow> RuleAction option" where [action_defs]:
  "ruleLBIdle_BuildAction ctx r = Some (action ActionAdvisoryOnly [] zero_snapshot ReversibilityNone ComplexityLow)"

definition ruleLBIdle :: FullRule where [claim_defs, action_defs]:
  "ruleLBIdle = \<lparr>fr_ID = RuleIDLBIdle, fr_Category = CategoryWaste, fr_Action = ActionAdvisoryOnly, fr_Enabled = True,
     fr_Applies = ruleLBIdle_Applies, fr_Claim = ruleLBIdle_Evaluate, fr_BuildAction = ruleLBIdle_BuildAction\<rparr>"


section \<open>Delivery network or direct egress\<close>

abbreviation "RuleIDCloudFrontEgress \<equiv> ''cloudfront-vs-direct-egress''"

definition ruleCloudFrontEgress_Applies :: "Resource \<Rightarrow> bool" where
  "ruleCloudFrontEgress_Applies r \<longleftrightarrow> (res_Kind r = KindS3Bucket \<or> res_Kind r = KindCloudFront) \<and> State_Active (res_State r)"

definition decideCloudFrontEgress :: "EvalContext \<Rightarrow> Resource \<Rightarrow> (rat \<times> Money \<times> Money \<times> bool) decision" where [claim_defs, action_defs]:
  "decideCloudFrontEgress ctx r = (let gb = parseFloatAttr (Attr r ''gb_out_month'' '''') (-1) in
     if gb < 0 then Skip
     else if gb < threshold ctx RuleIDCloudFrontEgress ''min_gb_out_month'' 500 then Skip
     else need (pr_DataTransferPrice (ec_Pricing ctx) (res_Region r) ''internet_out'') (\<lambda>directPrice.
     need (pr_ServicePrice (ec_Pricing ctx) (res_Region r) ''cloudfront'' ''gb_out'') (\<lambda>cfPrice.
     let directCost = Scale directPrice gb; cfCost = Scale cfPrice gb; bucket = (res_Kind r = KindS3Bucket);
       (cheap, dear) = (if bucket then (cfCost, directCost) else (directCost, cfCost)) in
     if \<not> LessThan cheap dear then Skip
     else must (MustSub dear cheap) (\<lambda>saving.
     if \<not> worthwhile ctx RuleIDCloudFrontEgress 20 r ActionAdvisoryOnly saving then Skip
     else Found (gb, directCost, cfCost, bucket)))))"

definition ruleCloudFrontEgress_Evaluate :: "EvalContext \<Rightarrow> Resource \<Rightarrow> claimed decision" where [claim_defs]:
  "ruleCloudFrontEgress_Evaluate ctx r = (case decideCloudFrontEgress ctx r of Panic \<Rightarrow> Panic | Skip \<Rightarrow> Skip
   | Found (gb, directCost, cfCost, _) \<Rightarrow>
       let evidence = [ConfigEvidence ''observed egress volume'', CostEvidence ''direct vs CloudFront data-transfer cost'' ''pricing_catalog'']
       in must (MustSub directCost cfCost) (\<lambda>direct.
         if res_Kind r = KindCloudFront
         then must (MustSub cfCost directCost) (\<lambda>saving. Found (SeverityInfo, evidence, cfCost, saving))
         else Found (SeverityInfo, evidence, directCost, direct)))"

definition ruleCloudFrontEgress_BuildAction :: "EvalContext \<Rightarrow> Resource \<Rightarrow> RuleAction option" where [action_defs]:
  "ruleCloudFrontEgress_BuildAction ctx r = Some (action ActionAdvisoryOnly [] zero_snapshot ReversibilitySlow ComplexityMedium)"

definition ruleCloudFrontEgress :: FullRule where [claim_defs, action_defs]:
  "ruleCloudFrontEgress = \<lparr>fr_ID = RuleIDCloudFrontEgress, fr_Category = CategoryArchitecture, fr_Action = ActionAdvisoryOnly, fr_Enabled = True,
     fr_Applies = ruleCloudFrontEgress_Applies, fr_Claim = ruleCloudFrontEgress_Evaluate, fr_BuildAction = ruleCloudFrontEgress_BuildAction\<rparr>"


end
