(* ===== verification/RulesServerless.thy ===== *)
theory RulesServerless imports RulesNetwork begin

text \<open>
  The rules for functions, \<open>internal/application/optimization/rule_lambda_*.go\<close>; modelled like the rules for instances.
  The memory search tries the sizes from 128 MB to 10240 MB; the step is small enough that adding it does not overflow.
\<close>

definition clamp01 :: "rat \<Rightarrow> rat" where
  "clamp01 v = (if v < 0 then 0 else if v > 1 then 1 else v)"

section \<open>The cost curve\<close>

definition LambdaDurationAtMemory :: "int \<Rightarrow> rat \<Rightarrow> int \<Rightarrow> rat \<Rightarrow> rat" where
  "LambdaDurationAtMemory currentMB currentDurationMs candidateMB nonParallelFloorFraction =
     (if currentMB \<le> 0 \<or> candidateMB \<le> 0 \<or> currentDurationMs \<le> 0 then currentDurationMs
      else let floorMs = f64 (currentDurationMs * clamp01 nonParallelFloorFraction);
        parallelMs = f64 (currentDurationMs - floorMs)
      in f64 (floorMs + f64 (parallelMs * f64 (i2f currentMB / i2f candidateMB))))"

definition lambda_gb_seconds :: "int \<Rightarrow> rat \<Rightarrow> rat" where
  "lambda_gb_seconds memoryMB durationMs = f64 (f64 (i2f memoryMB / 1024) * f64 (durationMs / 1000))"

definition LambdaMonthlyCost :: "int \<Rightarrow> rat \<Rightarrow> rat \<Rightarrow> Money \<Rightarrow> Money \<Rightarrow> Money option" where
  "LambdaMonthlyCost memoryMB durationMs invocationsPerMonth gbSecondPrice requestPrice =
     MustAdd (Scale gbSecondPrice (f64 (lambda_gb_seconds memoryMB durationMs * invocationsPerMonth)))
       (Scale requestPrice (f64 (invocationsPerMonth / 1000)))"

definition lambda_sizes :: "int \<Rightarrow> int list" where
  "lambda_sizes step = map (\<lambda>i. 128 + int i * step) [0..<nat ((10240 - 128) div step + 1)]"

text \<open>One size of the search; the state is the best size so far, its cost and its duration.\<close>

definition try_size :: "int \<Rightarrow> rat \<Rightarrow> rat \<Rightarrow> rat \<Rightarrow> Money \<Rightarrow> Money \<Rightarrow> int \<Rightarrow> int \<times> Money \<times> rat \<Rightarrow> (int \<times> Money \<times> rat) option" where
  "try_size currentMB durationMs floorFraction invocations gbSecondPrice requestPrice mb best = (if mb = currentMB then Some best
     else let d = LambdaDurationAtMemory currentMB durationMs mb floorFraction in
       (case LambdaMonthlyCost mb d invocations gbSecondPrice requestPrice of None \<Rightarrow> None
       | Some c \<Rightarrow> Some (if LessThan c (fst (snd best)) then (mb, c, d) else best)))"

definition LambdaOptimalMemory :: "int \<Rightarrow> rat \<Rightarrow> rat \<Rightarrow> rat \<Rightarrow> Money \<Rightarrow> Money \<Rightarrow> int \<Rightarrow> (int \<times> Money \<times> rat) option" where
  "LambdaOptimalMemory currentMB durationMs floorFraction invocations gbSecondPrice requestPrice stepMB =
     (let step = (if stepMB \<le> 0 then 64 else stepMB) in
      case LambdaMonthlyCost currentMB durationMs invocations gbSecondPrice requestPrice of None \<Rightarrow> None
      | Some c \<Rightarrow> fold_opt (try_size currentMB durationMs floorFraction invocations gbSecondPrice requestPrice)
          (lambda_sizes step) (currentMB, c, durationMs))"

section \<open>Memory of functions\<close>

abbreviation "RuleIDLambdaMemoryCostCurve \<equiv> ''lambda-memory-cost-curve''"

definition ruleLambdaMemoryCostCurve_Applies :: "Resource \<Rightarrow> bool" where
  "ruleLambdaMemoryCostCurve_Applies r \<longleftrightarrow> res_Kind r = KindLambdaFunction \<and> State_Active (res_State r) \<and> ca_MemoryMB (res_Capacity r) > 0"

definition lambdaGBSecondPrice :: "EvalContext \<Rightarrow> Resource \<Rightarrow> Money option" where
  "lambdaGBSecondPrice ctx r = pr_ServicePrice (ec_Pricing ctx) (res_Region r) ''lambda''
     (if Attr r ''architecture'' '''' = ''arm64'' then ''arm_gb_second'' else ''gb_second'')"

definition decideLambdaMemoryCostCurve :: "EvalContext \<Rightarrow> Resource \<Rightarrow> (int \<times> Money \<times> Money \<times> Money) decision" where [claim_defs, action_defs]:
  "decideLambdaMemoryCostCurve ctx r = (let durationMs = parseFloatAttr (Attr r ''avg_duration_ms'' '''') (-1);
       invocations = parseFloatAttr (Attr r ''invocations_per_month'' '''') (-1) in
     if durationMs \<le> 0 \<or> invocations < 0 then Skip
     else need (lambdaGBSecondPrice ctx r) (\<lambda>gbSecondPrice.
     need (pr_ServicePrice (ec_Pricing ctx) (res_Region r) ''lambda'' ''request'') (\<lambda>requestPrice.
     let currentMB = ca_MemoryMB (res_Capacity r) in
     must (LambdaMonthlyCost currentMB durationMs invocations gbSecondPrice requestPrice) (\<lambda>currentCost.
     must (LambdaOptimalMemory currentMB durationMs (threshold ctx RuleIDLambdaMemoryCostCurve ''nonparallel_floor_fraction'' (f64 (15 / 100))) invocations
       gbSecondPrice requestPrice (threshold_int ctx RuleIDLambdaMemoryCostCurve ''memory_step_mb'' 64)) (\<lambda>(bestMB, bestCost, _).
     if bestMB = currentMB \<or> \<not> LessThan bestCost currentCost then Skip
     else must (MustSub currentCost bestCost) (\<lambda>saving.
     if \<not> worthwhile ctx RuleIDLambdaMemoryCostCurve 1 r ActionResizeLambdaMemory saving then Skip
     else Found (bestMB, currentCost, bestCost, saving)))))))"

definition ruleLambdaMemoryCostCurve_Evaluate :: "EvalContext \<Rightarrow> Resource \<Rightarrow> claimed decision" where [claim_defs]:
  "ruleLambdaMemoryCostCurve_Evaluate ctx r = claim_of (decideLambdaMemoryCostCurve ctx r) (\<lambda>(bestMB, currentCost, bestCost, saving).
     (SeverityInfo, [ConfigEvidence ''current memory'', ConfigEvidence ''observed avg duration'',
        CostEvidence ''current vs cost-curve-optimal monthly cost'' ''pricing_catalog''], currentCost, saving))"

definition ruleLambdaMemoryCostCurve_BuildAction :: "EvalContext \<Rightarrow> Resource \<Rightarrow> RuleAction option" where [action_defs]:
  "ruleLambdaMemoryCostCurve_BuildAction ctx r = action_of (decideLambdaMemoryCostCurve ctx r) (\<lambda>(bestMB, currentCost, bestCost, saving).
     Some (action ActionResizeLambdaMemory
       [(''function_id'', PString (res_NativeID r)), (''memory_mb'', PInt bestMB)]
       ((costs bestCost)\<lparr>ss_MemoryMB := bestMB\<rparr>) ReversibilityInstant ComplexityTrivial))"

definition ruleLambdaMemoryCostCurve :: FullRule where [claim_defs, action_defs]:
  "ruleLambdaMemoryCostCurve = \<lparr>fr_ID = RuleIDLambdaMemoryCostCurve, fr_Category = CategoryRightsizing, fr_Action = ActionResizeLambdaMemory, fr_Enabled = True,
     fr_Applies = ruleLambdaMemoryCostCurve_Applies, fr_Claim = ruleLambdaMemoryCostCurve_Evaluate, fr_BuildAction = ruleLambdaMemoryCostCurve_BuildAction\<rparr>"


section \<open>Timeouts\<close>

abbreviation "RuleIDLambdaExcessiveTimeout \<equiv> ''lambda-excessive-timeout-advisory''"

definition ruleLambdaExcessiveTimeout_Applies :: "Resource \<Rightarrow> bool" where
  "ruleLambdaExcessiveTimeout_Applies r \<longleftrightarrow> res_Kind r = KindLambdaFunction \<and> State_Active (res_State r) \<and>
     ca_TimeoutSeconds (res_Capacity r) > 0"

definition decideLambdaExcessiveTimeout :: "EvalContext \<Rightarrow> Resource \<Rightarrow> (rat \<times> rat) decision" where [claim_defs, action_defs]:
  "decideLambdaExcessiveTimeout ctx r = (let fallback = parseFloatAttr (Attr r ''avg_duration_ms'' '''') (-1);
       p99Ms = (case Option.bind (MetricsFor ctx (res_ID r)) rm_LatencyP99 of None \<Rightarrow> fallback
         | Some l \<Rightarrow> if pc_P99 l > 0 then pc_P99 l else fallback) in
     if p99Ms \<le> 0 then Skip
     else let ratio = f64 (f64 (i2f (ca_TimeoutSeconds (res_Capacity r)) * 1000) / p99Ms) in
     if ratio < threshold ctx RuleIDLambdaExcessiveTimeout ''timeout_to_duration_ratio_min'' 8 then Skip
     else if ExcludedBySpec (ec_Spec ctx) r ActionAdvisoryOnly then Skip
     else Found (ratio, p99Ms))"

definition ruleLambdaExcessiveTimeout_Evaluate :: "EvalContext \<Rightarrow> Resource \<Rightarrow> claimed decision" where [claim_defs]:
  "ruleLambdaExcessiveTimeout_Evaluate ctx r = claim_of (decideLambdaExcessiveTimeout ctx r) (\<lambda>(ratio, p99Ms).
     (SeverityLow, [ConfigEvidence ''configured timeout'', ConfigEvidence ''observed P99 duration (or fallback avg)''],
      CostFor ctx r, zero_money))"

definition ruleLambdaExcessiveTimeout_BuildAction :: "EvalContext \<Rightarrow> Resource \<Rightarrow> RuleAction option" where [action_defs]:
  "ruleLambdaExcessiveTimeout_BuildAction ctx r = Some (action ActionAdvisoryOnly [] zero_snapshot ReversibilityInstant ComplexityTrivial)"

definition ruleLambdaExcessiveTimeout :: FullRule where [claim_defs, action_defs]:
  "ruleLambdaExcessiveTimeout = \<lparr>fr_ID = RuleIDLambdaExcessiveTimeout, fr_Category = CategoryArchitecture, fr_Action = ActionAdvisoryOnly, fr_Enabled = True,
     fr_Applies = ruleLambdaExcessiveTimeout_Applies, fr_Claim = ruleLambdaExcessiveTimeout_Evaluate, fr_BuildAction = ruleLambdaExcessiveTimeout_BuildAction\<rparr>"


section \<open>Architecture of functions\<close>

abbreviation "RuleIDLambdaGraviton \<equiv> ''lambda-graviton-migration''"

definition ruleLambdaGraviton_Applies :: "Resource \<Rightarrow> bool" where
  "ruleLambdaGraviton_Applies r \<longleftrightarrow> res_Kind r = KindLambdaFunction \<and> State_Active (res_State r) \<and>
     Attr r ''architecture'' ''x86_64'' \<noteq> ''arm64''"

definition decideLambdaGraviton :: "EvalContext \<Rightarrow> Resource \<Rightarrow> (Money \<times> Money \<times> Money) decision" where [claim_defs, action_defs]:
  "decideLambdaGraviton ctx r = (let durationMs = parseFloatAttr (Attr r ''avg_duration_ms'' '''') (-1);
       invocations = parseFloatAttr (Attr r ''invocations_per_month'' '''') (-1);
       price = (\<lambda>k. pr_ServicePrice (ec_Pricing ctx) (res_Region r) ''lambda'' k);
       cost = (\<lambda>p q. LambdaMonthlyCost (ca_MemoryMB (res_Capacity r)) durationMs invocations p q) in
     if durationMs \<le> 0 \<or> invocations < 0 then Skip
     else need (price ''gb_second'') (\<lambda>x86Price. need (price ''arm_gb_second'') (\<lambda>armPrice. need (price ''request'') (\<lambda>requestPrice.
     must (cost x86Price requestPrice) (\<lambda>x86Cost. must (cost armPrice requestPrice) (\<lambda>armCost.
     if \<not> LessThan armCost x86Cost then Skip
     else must (MustSub x86Cost armCost) (\<lambda>saving.
     if \<not> worthwhile ctx RuleIDLambdaGraviton 1 r ActionSwitchLambdaArch saving then Skip
     else Found (x86Cost, armCost, saving))))))))"

definition ruleLambdaGraviton_Evaluate :: "EvalContext \<Rightarrow> Resource \<Rightarrow> claimed decision" where [claim_defs]:
  "ruleLambdaGraviton_Evaluate ctx r = claim_of (decideLambdaGraviton ctx r) (\<lambda>(x86Cost, armCost, saving).
     (SeverityInfo, [ConfigEvidence ''current architecture'',
        CostEvidence ''x86_64 vs arm64 monthly cost at equal duration'' ''pricing_catalog''], x86Cost, saving))"

definition ruleLambdaGraviton_BuildAction :: "EvalContext \<Rightarrow> Resource \<Rightarrow> RuleAction option" where [action_defs]:
  "ruleLambdaGraviton_BuildAction ctx r = action_of (decideLambdaGraviton ctx r) (\<lambda>(x86Cost, armCost, saving).
     Some (action ActionSwitchLambdaArch
       [(''function_id'', PString (res_NativeID r)), (''target_architecture'', PString ''arm64'')]
       ((costs armCost)\<lparr>ss_Attributes := [(''architecture'', ''arm64'')]\<rparr>) ReversibilityFast ComplexityMedium))"

definition ruleLambdaGraviton :: FullRule where [claim_defs, action_defs]:
  "ruleLambdaGraviton = \<lparr>fr_ID = RuleIDLambdaGraviton, fr_Category = CategoryRightsizing, fr_Action = ActionSwitchLambdaArch, fr_Enabled = True,
     fr_Applies = ruleLambdaGraviton_Applies, fr_Claim = ruleLambdaGraviton_Evaluate, fr_BuildAction = ruleLambdaGraviton_BuildAction\<rparr>"


section \<open>Provisioned concurrency\<close>

abbreviation "RuleIDLambdaUnusedProvisionedConcurrency \<equiv> ''lambda-unused-provisioned-concurrency''"

definition ruleLambdaUnusedProvisionedConcurrency_Applies :: "Resource \<Rightarrow> bool" where
  "ruleLambdaUnusedProvisionedConcurrency_Applies r \<longleftrightarrow> res_Kind r = KindLambdaFunction \<and> State_Active (res_State r) \<and>
     ca_Concurrency (res_Capacity r) > 0"

definition decideLambdaUnusedProvisionedConcurrency :: "EvalContext \<Rightarrow> Resource \<Rightarrow> (rat \<times> Money) decision" where [claim_defs, action_defs]:
  "decideLambdaUnusedProvisionedConcurrency ctx r = need (MetricsFor ctx (res_ID r)) (\<lambda>m. need (rm_Concurrency m) (\<lambda>cc.
     if \<not> HasSufficientData m (1 / 2) (threshold_hours ctx RuleIDLambdaUnusedProvisionedConcurrency ''min_window_hours'' 168) then Skip
     else let conc = i2f (ca_Concurrency (res_Capacity r)); utilPct = f64 (f64 (pc_P95 cc / conc) * 100) in
     if utilPct > threshold ctx RuleIDLambdaUnusedProvisionedConcurrency ''max_utilization_pct'' 15 then Skip
     else need (pr_ServicePrice (ec_Pricing ctx) (res_Region r) ''lambda'' ''provisioned_concurrency_gb_second'') (\<lambda>pcPrice.
     let memoryGB = f64 (i2f (ca_MemoryMB (res_Capacity r)) / 1024);
       cost = Scale pcPrice (f64 (f64 (memoryGB * conc) * (HoursPerMonth * 3600))) in
     if \<not> worthwhile ctx RuleIDLambdaUnusedProvisionedConcurrency 5 r ActionRemoveProvisionedConcurrency cost then Skip else Found (utilPct, cost))))"

definition ruleLambdaUnusedProvisionedConcurrency_Evaluate :: "EvalContext \<Rightarrow> Resource \<Rightarrow> claimed decision" where [claim_defs]:
  "ruleLambdaUnusedProvisionedConcurrency_Evaluate ctx r = claim_of (decideLambdaUnusedProvisionedConcurrency ctx r) (\<lambda>(utilPct, cost).
     (SeverityMedium, [MetricEvidence ''concurrent executions'' (Option.bind (MetricsFor ctx (res_ID r)) rm_Concurrency) ''cloudwatch'',
        ConfigEvidence ''provisioned concurrency''], CostFor ctx r, cost))"

definition ruleLambdaUnusedProvisionedConcurrency_BuildAction :: "EvalContext \<Rightarrow> Resource \<Rightarrow> RuleAction option" where [action_defs]:
  "ruleLambdaUnusedProvisionedConcurrency_BuildAction ctx r = Some (action ActionRemoveProvisionedConcurrency
     [(''function_id'', PString (res_NativeID r))] zero_snapshot ReversibilityInstant ComplexityTrivial)"

definition ruleLambdaUnusedProvisionedConcurrency :: FullRule where [claim_defs, action_defs]:
  "ruleLambdaUnusedProvisionedConcurrency = \<lparr>fr_ID = RuleIDLambdaUnusedProvisionedConcurrency, fr_Category = CategoryWaste, fr_Action = ActionRemoveProvisionedConcurrency, fr_Enabled = True,
     fr_Applies = ruleLambdaUnusedProvisionedConcurrency_Applies, fr_Claim = ruleLambdaUnusedProvisionedConcurrency_Evaluate, fr_BuildAction = ruleLambdaUnusedProvisionedConcurrency_BuildAction\<rparr>"


end
