(* ===== verification/RulesContainers.thy ===== *)
theory RulesContainers imports RulesServerless begin

text \<open>
  The rules for containers and observability, \<open>internal/application/optimization/rule_ecs_task_count.go\<close>,
  \<open>rule_eks_*.go\<close>, \<open>rule_k8s_pod_requests_oversized.go\<close>, \<open>rule_fargate_vs_ec2.go\<close>, \<open>rule_cloudwatch_*.go\<close> and
  \<open>rule_kms_secrets_unused.go\<close>, modelled like the rules for instances, and the registry of all rules
  (\<open>registry_init.go\<close>). A target packing of zero, by which the code would divide, is not modelled.
\<close>

text \<open>\<open>int(math.Ceil(x))\<close>, and \<open>%d\<close>.\<close>

definition ceil_int :: "rat \<Rightarrow> int" where
  "ceil_int x = f2i (of_int \<lceil>x\<rceil>)"

definition show_int :: "int \<Rightarrow> string" where
  "show_int n = (if n < 0 then ''-'' @ itoa (nat (- n)) else itoa (nat n))"

text \<open>The number of nodes a price is for: at least one.\<close>

definition node_count :: "Resource \<Rightarrow> rat" where
  "node_count r = maxFloat (i2f (ca_InstanceCount (res_Capacity r))) 1"

section \<open>Task counts\<close>

abbreviation "RuleIDECSTaskCount \<equiv> ''ecs-service-task-count''"

definition ruleECSTaskCount_Applies :: "Resource \<Rightarrow> bool" where
  "ruleECSTaskCount_Applies r \<longleftrightarrow> res_Kind r = KindECSService \<and> State_Active (res_State r) \<and> ca_DesiredCount (res_Capacity r) > 1"

definition decideECSTaskCount :: "EvalContext \<Rightarrow> Resource \<Rightarrow> (rat \<times> int \<times> Money) decision" where [claim_defs, action_defs]:
  "decideECSTaskCount ctx r = need (MetricsFor ctx (res_ID r)) (\<lambda>m. need (rm_CPU m) (\<lambda>cpu.
     if \<not> HasSufficientData m (1 / 2) 0 then Skip
     else let utilRatio = f64 (pc_P99 cpu / 100); desired = ca_DesiredCount (res_Capacity r) in
     if utilRatio > threshold ctx RuleIDECSTaskCount ''concurrency_over_desired_max'' (f64 (4 / 10)) then Skip
     else let headroom = f64 (1 + f64 (threshold ctx RuleIDECSTaskCount ''headroom_buffer_pct'' 20 / 100));
       needed = ceil_int (f64 (f64 (i2f desired * utilRatio) * headroom));
       reclaimable = wrap64 (desired - (if needed < 1 then 1 else needed)) in
     if reclaimable \<le> 0 then Skip
     else if IsZero (CostFor ctx r) then Skip
     else let saving = Scale (Div (CostFor ctx r) (i2f desired)) (i2f reclaimable) in
     if \<not> worthwhile ctx RuleIDECSTaskCount 10 r ActionAdvisoryOnly saving then Skip
     else Found (utilRatio, reclaimable, saving)))"

definition ruleECSTaskCount_Evaluate :: "EvalContext \<Rightarrow> Resource \<Rightarrow> claimed decision" where [claim_defs]:
  "ruleECSTaskCount_Evaluate ctx r = claim_of (decideECSTaskCount ctx r) (\<lambda>(utilRatio, reclaimable, saving).
     (SeverityLow, [MetricEvidence ''CPU utilization'' (Option.bind (MetricsFor ctx (res_ID r)) rm_CPU) ''cloudwatch'',
        ConfigEvidence ''desired task count''], CostFor ctx r, saving))"

definition ruleECSTaskCount_BuildAction :: "EvalContext \<Rightarrow> Resource \<Rightarrow> RuleAction option" where [action_defs]:
  "ruleECSTaskCount_BuildAction ctx r = action_of (decideECSTaskCount ctx r) (\<lambda>(utilRatio, reclaimable, saving).
     Some (action ActionAdvisoryOnly
       [(''service_id'', PString (res_NativeID r)), (''reclaimable_tasks'', PInt reclaimable),
        (''target_desired_count'', PInt (wrap64 (ca_DesiredCount (res_Capacity r) - reclaimable)))]
       zero_snapshot ReversibilityFast ComplexityLow))"

definition ruleECSTaskCount :: FullRule where [claim_defs, action_defs]:
  "ruleECSTaskCount = \<lparr>fr_ID = RuleIDECSTaskCount, fr_Category = CategoryRightsizing, fr_Action = ActionAdvisoryOnly, fr_Enabled = True,
     fr_Applies = ruleECSTaskCount_Applies, fr_Claim = ruleECSTaskCount_Evaluate, fr_BuildAction = ruleECSTaskCount_BuildAction\<rparr>"


section \<open>Consolidation of nodes\<close>

abbreviation "RuleIDEKSConsolidation \<equiv> ''eks-consolidation-opportunity''"

definition ruleEKSConsolidation_Applies :: "Resource \<Rightarrow> bool" where
  "ruleEKSConsolidation_Applies r \<longleftrightarrow> res_Kind r = KindEKSNodeGroup \<and> State_Active (res_State r) \<and> res_InstanceType r \<noteq> ''''"

definition decideEKSConsolidation :: "EvalContext \<Rightarrow> Resource \<Rightarrow> (rat \<times> int \<times> Money) decision" where [claim_defs, action_defs]:
  "decideEKSConsolidation ctx r = (let n = ca_InstanceCount (res_Capacity r) in
     if n < threshold_int ctx RuleIDEKSConsolidation ''min_node_count'' 3 then Skip
     else let packed = parseFloatAttr (Attr r ''packed_fraction'' '''') (-1) in
     if packed < 0 then Skip
     else if packed > threshold ctx RuleIDEKSConsolidation ''packed_fraction_max'' (f64 (55 / 100)) then Skip
     else let needed = ceil_int (f64 (f64 (i2f n * packed) / threshold ctx RuleIDEKSConsolidation ''target_packed_fraction'' (f64 (85 / 100))));
       reclaimable = wrap64 (n - needed) in
     if reclaimable \<le> 0 then Skip
     else need (pr_InstancePrice (ec_Pricing ctx) (res_Region r) (res_InstanceType r) '''') (\<lambda>price.
     let saving = Scale price (f64 (HoursPerMonth * i2f reclaimable)) in
     if \<not> worthwhile ctx RuleIDEKSConsolidation 20 r ActionResizeNodeGroup saving then Skip
     else Found (packed, reclaimable, saving)))"

definition ruleEKSConsolidation_Evaluate :: "EvalContext \<Rightarrow> Resource \<Rightarrow> claimed decision" where [claim_defs]:
  "ruleEKSConsolidation_Evaluate ctx r = claim_of (decideEKSConsolidation ctx r) (\<lambda>(packed, reclaimable, saving).
     (SeverityMedium, [ConfigEvidence ''packed fraction'', ConfigEvidence ''current node count''], CostFor ctx r, saving))"

definition ruleEKSConsolidation_BuildAction :: "EvalContext \<Rightarrow> Resource \<Rightarrow> RuleAction option" where [action_defs]:
  "ruleEKSConsolidation_BuildAction ctx r = action_of (decideEKSConsolidation ctx r) (\<lambda>(packed, reclaimable, saving).
     let target = wrap64 (ca_InstanceCount (res_Capacity r) - reclaimable) in
     Some (action ActionResizeNodeGroup [(''node_group_id'', PString (res_NativeID r)), (''desired_size'', PInt target)]
       (zero_snapshot\<lparr>ss_Count := target\<rparr>) ReversibilityFast ComplexityMedium))"

definition ruleEKSConsolidation :: FullRule where [claim_defs, action_defs]:
  "ruleEKSConsolidation = \<lparr>fr_ID = RuleIDEKSConsolidation, fr_Category = CategoryRightsizing, fr_Action = ActionResizeNodeGroup, fr_Enabled = True,
     fr_Applies = ruleEKSConsolidation_Applies, fr_Claim = ruleEKSConsolidation_Evaluate, fr_BuildAction = ruleEKSConsolidation_BuildAction\<rparr>"


section \<open>Node groups without spot\<close>

abbreviation "RuleIDEKSNodeGroupNoSpot \<equiv> ''eks-nodegroup-no-spot''"

definition ruleEKSNodeGroupNoSpot_Applies :: "Resource \<Rightarrow> bool" where
  "ruleEKSNodeGroupNoSpot_Applies r \<longleftrightarrow> res_Kind r = KindEKSNodeGroup \<and> State_Active (res_State r) \<and>
     res_Purchase r = PurchaseOnDemand \<and> res_Criticality r \<noteq> CriticalityTier0 \<and> res_InstanceType r \<noteq> ''''"

definition decideEKSNodeGroupNoSpot :: "EvalContext \<Rightarrow> Resource \<Rightarrow> (Money \<times> Money \<times> Money) decision" where [claim_defs, action_defs]:
  "decideEKSNodeGroupNoSpot ctx r = (if \<not> SpotAllowed (ec_Spec ctx) \<or> res_Criticality r = CriticalityTier0 then Skip
     else need (matchedWorkload (ec_Spec ctx) r) (\<lambda>w.
     if \<not> InterruptionTolerant (wl_Type w) \<or> wl_Criticality w = ''TIER_0'' then Skip
     else need (pr_InstancePrice (ec_Pricing ctx) (res_Region r) (res_InstanceType r) '''') (\<lambda>onDemand.
     need (pr_SpotPrice (ec_Pricing ctx) (res_Region r) (res_InstanceType r)) (\<lambda>spot.
     if \<not> LessThan spot onDemand then Skip
     else must (MustSub onDemand spot) (\<lambda>delta.
     let saving = Scale delta (f64 (HoursPerMonth * node_count r)) in
     if \<not> worthwhile ctx RuleIDEKSNodeGroupNoSpot 15 r ActionEnableSpot saving then Skip
     else Found (onDemand, spot, saving))))))"

definition ruleEKSNodeGroupNoSpot_Evaluate :: "EvalContext \<Rightarrow> Resource \<Rightarrow> claimed decision" where [claim_defs]:
  "ruleEKSNodeGroupNoSpot_Evaluate ctx r = claim_of (decideEKSNodeGroupNoSpot ctx r) (\<lambda>(onDemand, spot, saving).
     (SeverityLow, [ConfigEvidence ''declared workload type'', CostEvidence ''on-demand vs recent average spot'' ''pricing_catalog''],
      CostFor ctx r, saving))"

definition ruleEKSNodeGroupNoSpot_BuildAction :: "EvalContext \<Rightarrow> Resource \<Rightarrow> RuleAction option" where [action_defs]:
  "ruleEKSNodeGroupNoSpot_BuildAction ctx r = action_of (decideEKSNodeGroupNoSpot ctx r) (\<lambda>(onDemand, spot, saving).
     Some (action ActionEnableSpot [(''node_group_id'', PString (res_NativeID r))]
       ((costs (Scale spot (f64 (HoursPerMonth * node_count r))))\<lparr>ss_Attributes := [(''purchase_model'', ''spot'')]\<rparr>)
       ReversibilityFast ComplexityMedium))"

definition ruleEKSNodeGroupNoSpot :: FullRule where [claim_defs, action_defs]:
  "ruleEKSNodeGroupNoSpot = \<lparr>fr_ID = RuleIDEKSNodeGroupNoSpot, fr_Category = CategoryCommitment, fr_Action = ActionEnableSpot, fr_Enabled = True,
     fr_Applies = ruleEKSNodeGroupNoSpot_Applies, fr_Claim = ruleEKSNodeGroupNoSpot_Evaluate, fr_BuildAction = ruleEKSNodeGroupNoSpot_BuildAction\<rparr>"


section \<open>Overprovisioned node groups\<close>

abbreviation "RuleIDEKSNodeGroupOverprovisioned \<equiv> ''eks-nodegroup-overprovisioned''"

definition ruleEKSNodeGroupOverprovisioned_Applies :: "Resource \<Rightarrow> bool" where
  "ruleEKSNodeGroupOverprovisioned_Applies r \<longleftrightarrow> res_Kind r = KindEKSNodeGroup \<and> State_Active (res_State r) \<and> res_InstanceType r \<noteq> ''''"

text \<open>The walk down the ladder on processors alone.\<close>

fun walk_down_vcpu :: "PricingCatalog \<Rightarrow> rat \<Rightarrow> string list \<Rightarrow> (string \<times> InstanceSpec) option" where
  "walk_down_vcpu pr vcpu [] = None"
| "walk_down_vcpu pr vcpu (t # ts) = (case pr_InstanceSpec pr t of None \<Rightarrow> walk_down_vcpu pr vcpu ts
     | Some cs \<Rightarrow> if is_VCPU cs < vcpu then None else Some (t, cs))"

definition decideEKSNodeGroupOverprovisioned :: "EvalContext \<Rightarrow> Resource \<Rightarrow> (string \<times> InstanceSpec \<times> Money \<times> Money) decision" where [claim_defs, action_defs]:
  "decideEKSNodeGroupOverprovisioned ctx r = (let packed = parseFloatAttr (Attr r ''packed_fraction'' '''') (-1) in
     if packed < 0 then Skip
     else if packed > threshold ctx RuleIDEKSNodeGroupOverprovisioned ''packed_fraction_max'' (f64 (45 / 100)) then Skip
     else need (pr_InstanceSpec (ec_Pricing ctx) (res_InstanceType r)) (\<lambda>cur.
     let family = pr_InstanceFamily (ec_Pricing ctx) (res_InstanceType r); idx = indexOfFold family (is_Type cur) in
     if idx \<le> 0 then Skip
     else let headroom = f64 (1 + f64 (threshold ctx RuleIDEKSNodeGroupOverprovisioned ''headroom_buffer_pct'' 20 / 100));
       neededVCPU = f64 (f64 (is_VCPU cur * packed) * headroom) in
     need (walk_down_vcpu (ec_Pricing ctx) neededVCPU (rev (take (nat idx) family))) (\<lambda>(t, cs).
     if t = '''' then Skip
     else need (pr_InstancePrice (ec_Pricing ctx) (res_Region r) (res_InstanceType r) '''') (\<lambda>curPrice.
     need (pr_InstancePrice (ec_Pricing ctx) (res_Region r) t '''') (\<lambda>candPrice.
     if \<not> LessThan candPrice curPrice then Skip
     else must (MustSub curPrice candPrice) (\<lambda>delta.
     let saving = Scale delta (f64 (HoursPerMonth * node_count r)) in
     if \<not> worthwhile ctx RuleIDEKSNodeGroupOverprovisioned 20 r ActionAdvisoryOnly saving then Skip
     else Found (t, cs, candPrice, saving)))))))"

definition ruleEKSNodeGroupOverprovisioned_Evaluate :: "EvalContext \<Rightarrow> Resource \<Rightarrow> claimed decision" where [claim_defs]:
  "ruleEKSNodeGroupOverprovisioned_Evaluate ctx r = claim_of (decideEKSNodeGroupOverprovisioned ctx r) (\<lambda>(t, cs, price, saving).
     (SeverityMedium, [ConfigEvidence ''packed fraction'', CostEvidence ''current vs candidate instance type'' ''pricing_catalog''],
      CostFor ctx r, saving))"

definition ruleEKSNodeGroupOverprovisioned_BuildAction :: "EvalContext \<Rightarrow> Resource \<Rightarrow> RuleAction option" where [action_defs]:
  "ruleEKSNodeGroupOverprovisioned_BuildAction ctx r = action_of (decideEKSNodeGroupOverprovisioned ctx r) (\<lambda>(t, cs, price, saving).
     Some ((action ActionAdvisoryOnly
       [(''node_group_id'', PString (res_NativeID r)), (''current_instance_type'', PString (res_InstanceType r)),
        (''recommended_instance_type'', PString t),
        (''migration'', PString (''create a replacement node group on the recommended type, '' @
           ''cordon and drain the current one, then delete it''))]
       (resized_to t cs (Scale price HoursPerMonth)) ReversibilitySlow ComplexityHigh)
         \<lparr>ac_ConflictDomain := ConflictDomainNodeGroupCapacity\<rparr>))"

definition ruleEKSNodeGroupOverprovisioned :: FullRule where [claim_defs, action_defs]:
  "ruleEKSNodeGroupOverprovisioned = \<lparr>fr_ID = RuleIDEKSNodeGroupOverprovisioned, fr_Category = CategoryRightsizing, fr_Action = ActionAdvisoryOnly, fr_Enabled = True,
     fr_Applies = ruleEKSNodeGroupOverprovisioned_Applies, fr_Claim = ruleEKSNodeGroupOverprovisioned_Evaluate, fr_BuildAction = ruleEKSNodeGroupOverprovisioned_BuildAction\<rparr>"


section \<open>Requests of pods\<close>

abbreviation "RuleIDK8sPodRequestsOversized \<equiv> ''k8s-pod-requests-oversized''"

definition ruleK8sPodRequestsOversized_Applies :: "Resource \<Rightarrow> bool" where
  "ruleK8sPodRequestsOversized_Applies r \<longleftrightarrow> res_Kind r = KindEKSNodeGroup \<and> State_Active (res_State r) \<and> ca_InstanceCount (res_Capacity r) > 0"

definition PodRequestReclaimableNodes :: "int \<Rightarrow> rat \<Rightarrow> rat \<Rightarrow> int" where
  "PodRequestReclaimableNodes currentNodes requestedOverActualRatio headroom =
     (if currentNodes \<le> 0 \<or> requestedOverActualRatio \<le> 0 \<or> headroom \<le> 0 then 0
      else if requestedOverActualRatio \<le> headroom then 0
      else let needed = ceil_int (f64 (f64 (i2f currentNodes * headroom) / requestedOverActualRatio));
        reclaimable = wrap64 (currentNodes - needed)
      in if reclaimable < 0 then 0 else if reclaimable > currentNodes - 1 then currentNodes - 1 else reclaimable)"

definition decideK8sPodRequestsOversized :: "EvalContext \<Rightarrow> Resource \<Rightarrow> (rat \<times> int \<times> Money) decision" where [claim_defs, action_defs]:
  "decideK8sPodRequestsOversized ctx r = (let ratio = parseFloatAttr (Attr r ''requested_over_actual_ratio'' '''') (-1) in
     if ratio < 0 then Skip
     else if ratio \<le> threshold ctx RuleIDK8sPodRequestsOversized ''requested_over_actual_max'' (f64 (18 / 10)) then Skip
     else let headroom = f64 (1 + f64 (threshold ctx RuleIDK8sPodRequestsOversized ''headroom_buffer_pct'' 20 / 100));
       reclaimable = PodRequestReclaimableNodes (ca_InstanceCount (res_Capacity r)) ratio headroom in
     if reclaimable \<le> 0 then Skip
     else need (pr_InstancePrice (ec_Pricing ctx) (res_Region r) (res_InstanceType r) '''') (\<lambda>price.
     let saving = Scale price (f64 (HoursPerMonth * i2f reclaimable)) in
     if \<not> worthwhile ctx RuleIDK8sPodRequestsOversized 15 r ActionAdjustPodResources saving then Skip
     else Found (ratio, reclaimable, saving)))"

definition ruleK8sPodRequestsOversized_Evaluate :: "EvalContext \<Rightarrow> Resource \<Rightarrow> claimed decision" where [claim_defs]:
  "ruleK8sPodRequestsOversized_Evaluate ctx r = claim_of (decideK8sPodRequestsOversized ctx r) (\<lambda>(ratio, reclaimable, saving).
     (SeverityMedium, [ConfigEvidence ''requested-over-actual ratio'', ConfigEvidence ''current node count''], CostFor ctx r, saving))"

definition ruleK8sPodRequestsOversized_BuildAction :: "EvalContext \<Rightarrow> Resource \<Rightarrow> RuleAction option" where [action_defs]:
  "ruleK8sPodRequestsOversized_BuildAction ctx r = action_of (decideK8sPodRequestsOversized ctx r) (\<lambda>(ratio, reclaimable, saving).
     let target = wrap64 (ca_InstanceCount (res_Capacity r) - reclaimable) in
     Some (action ActionAdjustPodResources
       [(''node_group_id'', PString (res_NativeID r)), (''reclaimable_nodes'', PInt reclaimable), (''desired_size'', PInt target)]
       (zero_snapshot\<lparr>ss_Count := target\<rparr>) ReversibilityFast ComplexityMedium))"

definition ruleK8sPodRequestsOversized :: FullRule where [claim_defs, action_defs]:
  "ruleK8sPodRequestsOversized = \<lparr>fr_ID = RuleIDK8sPodRequestsOversized, fr_Category = CategoryRightsizing, fr_Action = ActionAdjustPodResources, fr_Enabled = True,
     fr_Applies = ruleK8sPodRequestsOversized_Applies, fr_Claim = ruleK8sPodRequestsOversized_Evaluate, fr_BuildAction = ruleK8sPodRequestsOversized_BuildAction\<rparr>"


section \<open>Serverless containers or instances\<close>

abbreviation "RuleIDFargateVsEC2 \<equiv> ''fargate-vs-ec2-breakeven''"

definition ruleFargateVsEC2_Applies :: "Resource \<Rightarrow> bool" where
  "ruleFargateVsEC2_Applies r \<longleftrightarrow> res_Kind r = KindECSService \<and> State_Active (res_State r) \<and>
     equal_fold (Attr r ''launch_type'' '''') ''FARGATE''"

fun capacity_candidate :: "PricingCatalog \<Rightarrow> rat \<Rightarrow> rat \<Rightarrow> string list \<Rightarrow> (string \<times> InstanceSpec) option" where
  "capacity_candidate pr vcpu mem [] = None"
| "capacity_candidate pr vcpu mem (t # ts) = (case pr_InstanceSpec pr t of None \<Rightarrow> capacity_candidate pr vcpu mem ts
     | Some sp \<Rightarrow> if is_VCPU sp \<ge> vcpu \<and> is_MemoryGiB sp \<ge> mem then Some (t, sp) else capacity_candidate pr vcpu mem ts)"

definition ec2CandidateForCapacity :: "EvalContext \<Rightarrow> rat \<Rightarrow> rat \<Rightarrow> (string \<times> InstanceSpec) option" where
  "ec2CandidateForCapacity ctx vcpu memGiB =
     capacity_candidate (ec_Pricing ctx) vcpu memGiB (pr_InstanceFamily (ec_Pricing ctx) ''m5.large'')"

definition decideFargateVsEC2 :: "EvalContext \<Rightarrow> Resource \<Rightarrow> (Money \<times> Money \<times> Money \<times> string) decision" where [claim_defs, action_defs]:
  "decideFargateVsEC2 ctx r = need (MetricsFor ctx (res_ID r)) (\<lambda>m. need (rm_CPU m) (\<lambda>cpu.
     if \<not> HasSufficientData m (1 / 2) 0 then Skip
     else if pc_P50 cpu < threshold ctx RuleIDFargateVsEC2 ''breakeven_utilization_pct'' 55 then Skip
     else let desired = maxFloat (i2f (ca_DesiredCount (res_Capacity r))) 1;
       vcpu = f64 (ca_VCPU (res_Capacity r) * desired); mem = f64 (ca_MemoryGiB (res_Capacity r) * desired) in
     if vcpu \<le> 0 \<or> mem \<le> 0 then Skip
     else need (pr_ServicePrice (ec_Pricing ctx) (res_Region r) ''fargate'' ''vcpu_hour'') (\<lambda>vcpuPrice.
     need (pr_ServicePrice (ec_Pricing ctx) (res_Region r) ''fargate'' ''gb_hour'') (\<lambda>gbPrice.
     must (MustAdd (Scale vcpuPrice vcpu) (Scale gbPrice mem)) (\<lambda>hourly.
     let fargateCost = Scale hourly HoursPerMonth in
     need (ec2CandidateForCapacity ctx vcpu mem) (\<lambda>(t, _).
     need (pr_InstancePrice (ec_Pricing ctx) (res_Region r) t '''') (\<lambda>ec2Price.
     let ec2Cost = Scale ec2Price HoursPerMonth in
     if \<not> LessThan ec2Cost fargateCost then Skip
     else must (MustSub fargateCost ec2Cost) (\<lambda>saving.
     if \<not> worthwhile ctx RuleIDFargateVsEC2 20 r ActionAdvisoryOnly saving then Skip
     else Found (fargateCost, ec2Cost, saving, t)))))))))"

definition ruleFargateVsEC2_Evaluate :: "EvalContext \<Rightarrow> Resource \<Rightarrow> claimed decision" where [claim_defs]:
  "ruleFargateVsEC2_Evaluate ctx r = claim_of (decideFargateVsEC2 ctx r) (\<lambda>(fargateCost, ec2Cost, saving, t).
     (SeverityInfo, [MetricEvidence ''CPU utilization'' (Option.bind (MetricsFor ctx (res_ID r)) rm_CPU) ''cloudwatch'',
        CostEvidence ''Fargate vs EC2 equivalent monthly cost'' ''pricing_catalog''], fargateCost, saving))"

definition ruleFargateVsEC2_BuildAction :: "EvalContext \<Rightarrow> Resource \<Rightarrow> RuleAction option" where [action_defs]:
  "ruleFargateVsEC2_BuildAction ctx r = Some (action ActionAdvisoryOnly [] zero_snapshot ReversibilitySlow ComplexityHigh)"

definition ruleFargateVsEC2 :: FullRule where [claim_defs, action_defs]:
  "ruleFargateVsEC2 = \<lparr>fr_ID = RuleIDFargateVsEC2, fr_Category = CategoryArchitecture, fr_Action = ActionAdvisoryOnly, fr_Enabled = True,
     fr_Applies = ruleFargateVsEC2_Applies, fr_Claim = ruleFargateVsEC2_Evaluate, fr_BuildAction = ruleFargateVsEC2_BuildAction\<rparr>"


section \<open>Retention of logs\<close>

abbreviation "RuleIDCWLogRetention \<equiv> ''cloudwatch-log-retention-unbounded''"

definition ruleCWLogRetention_Applies :: "Resource \<Rightarrow> bool" where
  "ruleCWLogRetention_Applies r \<longleftrightarrow> res_Kind r = KindLogGroup \<and> State_Active (res_State r) \<and> ca_RetentionDays (res_Capacity r) = 0"

definition decideCWLogRetention :: "EvalContext \<Rightarrow> Resource \<Rightarrow> (rat \<times> Money \<times> Money) decision" where [claim_defs, action_defs]:
  "decideCWLogRetention ctx r = (let size = ca_StorageGiB (res_Capacity r);
       recommended = threshold ctx RuleIDCWLogRetention ''recommended_retention_days'' 90; age = daysSince (res_FirstSeenAt r) (ec_Now ctx) in
     if size \<le> 0 then Skip
     else if age \<le> recommended then Skip
     else need (pr_ServicePrice (ec_Pricing ctx) (res_Region r) ''cloudwatch'' ''log_storage_gb'') (\<lambda>price.
     let saving = Scale price (f64 (size - f64 (size * f64 (recommended / age)))) in
     if \<not> worthwhile ctx RuleIDCWLogRetention (1 / 2) r ActionSetLogRetention saving then Skip
     else Found (age, Scale price size, saving)))"

definition ruleCWLogRetention_Evaluate :: "EvalContext \<Rightarrow> Resource \<Rightarrow> claimed decision" where [claim_defs]:
  "ruleCWLogRetention_Evaluate ctx r = claim_of (decideCWLogRetention ctx r) (\<lambda>(age, currentCost, saving).
     (SeverityLow, [ConfigEvidence ''retention policy'', ConfigEvidence ''observed group age''], currentCost, saving))"

definition ruleCWLogRetention_BuildAction :: "EvalContext \<Rightarrow> Resource \<Rightarrow> RuleAction option" where [action_defs]:
  "ruleCWLogRetention_BuildAction ctx r = (let days = threshold_int ctx RuleIDCWLogRetention ''recommended_retention_days'' 90 in
     Some (action ActionSetLogRetention
       [(''log_group_id'', PString (res_NativeID r)), (''retention_days'', PInt days)]
       (zero_snapshot\<lparr>ss_Attributes := [(''retention_days'', show_int days)]\<rparr>) ReversibilityInstant ComplexityTrivial))"

definition ruleCWLogRetention :: FullRule where [claim_defs, action_defs]:
  "ruleCWLogRetention = \<lparr>fr_ID = RuleIDCWLogRetention, fr_Category = CategoryDataLifecycle, fr_Action = ActionSetLogRetention, fr_Enabled = True,
     fr_Applies = ruleCWLogRetention_Applies, fr_Claim = ruleCWLogRetention_Evaluate, fr_BuildAction = ruleCWLogRetention_BuildAction\<rparr>"


section \<open>Custom metrics\<close>

abbreviation "RuleIDCWHighCardinality \<equiv> ''cloudwatch-high-cardinality-metrics''"

definition ruleCWHighCardinality_Applies :: "Resource \<Rightarrow> bool" where
  "ruleCWHighCardinality_Applies r \<longleftrightarrow> State_Active (res_State r)"

definition decideCWHighCardinality :: "EvalContext \<Rightarrow> Resource \<Rightarrow> (rat \<times> Money) decision" where [claim_defs, action_defs]:
  "decideCWHighCardinality ctx r = (let count = parseFloatAttr (Attr r ''custom_metric_count'' '''') (-1) in
     if count < 0 then Skip
     else if count < threshold ctx RuleIDCWHighCardinality ''min_metric_count'' 500 then Skip
     else need (pr_ServicePrice (ec_Pricing ctx) (res_Region r) ''cloudwatch'' ''metric_month'') (\<lambda>price.
     let cost = Scale price count in
     if \<not> worthwhile ctx RuleIDCWHighCardinality 5 r ActionAdvisoryOnly cost then Skip else Found (count, cost)))"

definition ruleCWHighCardinality_Evaluate :: "EvalContext \<Rightarrow> Resource \<Rightarrow> claimed decision" where [claim_defs]:
  "ruleCWHighCardinality_Evaluate ctx r = claim_of (decideCWHighCardinality ctx r) (\<lambda>(count, cost).
     (SeverityLow, [ConfigEvidence ''declared custom-metric count''], cost, cost))"

definition ruleCWHighCardinality_BuildAction :: "EvalContext \<Rightarrow> Resource \<Rightarrow> RuleAction option" where [action_defs]:
  "ruleCWHighCardinality_BuildAction ctx r = Some (action ActionAdvisoryOnly [] zero_snapshot ReversibilityFast ComplexityMedium)"

definition ruleCWHighCardinality :: FullRule where [claim_defs, action_defs]:
  "ruleCWHighCardinality = \<lparr>fr_ID = RuleIDCWHighCardinality, fr_Category = CategoryObservability, fr_Action = ActionAdvisoryOnly, fr_Enabled = True,
     fr_Applies = ruleCWHighCardinality_Applies, fr_Claim = ruleCWHighCardinality_Evaluate, fr_BuildAction = ruleCWHighCardinality_BuildAction\<rparr>"


section \<open>Unused keys and secrets\<close>

abbreviation "RuleIDKMSSecretsUnused \<equiv> ''kms-secrets-unused''"

definition ruleKMSSecretsUnused_Applies :: "Resource \<Rightarrow> bool" where
  "ruleKMSSecretsUnused_Applies r \<longleftrightarrow> (res_Kind r = KindKMSKey \<or> res_Kind r = KindSecret) \<and> State_Active (res_State r)"

definition decideKMSSecretsUnused :: "EvalContext \<Rightarrow> Resource \<Rightarrow> (rat \<times> Money) decision" where [claim_defs, action_defs]:
  "decideKMSSecretsUnused ctx r = (let idleDays = parseFloatAttr (Attr r ''days_since_last_use'' '''') (-1) in
     if idleDays < 0 then Skip
     else if idleDays < threshold ctx RuleIDKMSSecretsUnused ''min_idle_days'' 90 then Skip
     else need (if res_Kind r = KindSecret then pr_ServicePrice (ec_Pricing ctx) (res_Region r) ''secretsmanager'' ''secret_month''
       else pr_ServicePrice (ec_Pricing ctx) (res_Region r) ''kms'' ''key_month'') (\<lambda>cost.
     if \<not> worthwhile ctx RuleIDKMSSecretsUnused 1 r ActionAdvisoryOnly cost then Skip else Found (idleDays, cost)))"

definition ruleKMSSecretsUnused_Evaluate :: "EvalContext \<Rightarrow> Resource \<Rightarrow> claimed decision" where [claim_defs]:
  "ruleKMSSecretsUnused_Evaluate ctx r = claim_of (decideKMSSecretsUnused ctx r) (\<lambda>(idleDays, cost).
     (SeverityLow, [ConfigEvidence ''days since last recorded use''], cost, cost))"

definition ruleKMSSecretsUnused_BuildAction :: "EvalContext \<Rightarrow> Resource \<Rightarrow> RuleAction option" where [action_defs]:
  "ruleKMSSecretsUnused_BuildAction ctx r = Some (action ActionAdvisoryOnly [] zero_snapshot ReversibilityNone ComplexityLow)"

definition ruleKMSSecretsUnused :: FullRule where [claim_defs, action_defs]:
  "ruleKMSSecretsUnused = \<lparr>fr_ID = RuleIDKMSSecretsUnused, fr_Category = CategoryWaste, fr_Action = ActionAdvisoryOnly, fr_Enabled = True,
     fr_Applies = ruleKMSSecretsUnused_Applies, fr_Claim = ruleKMSSecretsUnused_Evaluate, fr_BuildAction = ruleKMSSecretsUnused_BuildAction\<rparr>"


section \<open>The registry of all rules\<close>

definition shipped_rules :: "FullRule list" where
  "shipped_rules = [ruleEC2Rightsize, ruleEC2OversizedDeclared, ruleEC2StoppedStorage, ruleEC2NeverUsed, ruleEC2PrevGeneration,
     ruleEC2BurstCredit, ruleEC2ScheduleOffHours, ruleEBSUnattached, ruleEBSOverprovisioned, ruleEBSGp2Gp3,
     ruleEBSSnapshotRetention, ruleEBSOrphanedSnapshot, ruleEBSUnusedAMI, ruleS3NoLifecycle, ruleS3WrongStorageClass,
     ruleS3NoncurrentVersions, ruleS3IncompleteMultipart, ruleS3IntelligentTiering, ruleRDSOversized, ruleRDSIdle,
     ruleRDSOverprovisionedStorage, ruleRDSUnnecessaryReplica, ruleRDSMultiAZNonProd, ruleRDSGp2Gp3, ruleRDSBackupRetention,
     ruleRDSAuroraCandidacy, ruleNATVPCEndpoint, ruleNATRedundant, ruleCrossAZChatter, ruleEIPUnattached, ruleLBIdle,
     ruleCloudFrontEgress, ruleLambdaMemoryCostCurve, ruleLambdaUnusedProvisionedConcurrency, ruleLambdaGraviton,
     ruleLambdaExcessiveTimeout, ruleEKSNodeGroupOverprovisioned, ruleK8sPodRequestsOversized, ruleEKSNodeGroupNoSpot,
     ruleEKSConsolidation, ruleFargateVsEC2, ruleECSTaskCount, ruleCWLogRetention, ruleCWHighCardinality, ruleKMSSecretsUnused,
     ruleEC2SpotCandidacy, ruleEC2CommitmentGap, ruleDynamoBillingMode]"

text \<open>The definitions come from the embedded pack; \<open>None\<close> is the panic of a registration.\<close>

definition NewDefaultRegistry :: "(RuleID, RuleDef) tbl \<Rightarrow> FullRule list option" where
  "NewDefaultRegistry pack = fold_opt (Register \<lparr>ts_defs = pack, ts_overrides = []\<rparr>) shipped_rules []"

end
