(* ===== verification/RuleFacts.thy ===== *)
theory RuleFacts imports RulesContainers begin

text \<open>
  What the shipped rules guarantee together: every claim rests on evidence and spares what the specification excludes, every
  action carries the parameters its executor reads, the registry accepts the pack exactly when it defines every rule, and an
  evaluation returns only findings that an enabled and applicable rule made for a live resource.
\<close>

section \<open>Every shipped rule is sound\<close>

lemma compute_rules_sound:
  "list_all sound_rule [ruleEC2Rightsize, ruleEC2OversizedDeclared, ruleEC2StoppedStorage, ruleEC2NeverUsed,
     ruleEC2PrevGeneration, ruleEC2BurstCredit, ruleEC2ScheduleOffHours, ruleEC2SpotCandidacy, ruleEC2CommitmentGap]"
  by (auto simp: sound_rule_def claim_defs decisions Let_def case_prod_unfold split: if_splits)

lemma storage_rules_sound:
  "list_all sound_rule [ruleEBSUnattached, ruleEBSOverprovisioned, ruleEBSGp2Gp3, ruleEBSSnapshotRetention,
     ruleEBSOrphanedSnapshot, ruleEBSUnusedAMI, ruleS3NoLifecycle, ruleS3WrongStorageClass, ruleS3NoncurrentVersions,
     ruleS3IncompleteMultipart, ruleS3IntelligentTiering]"
  by (auto simp: sound_rule_def claim_defs decisions Let_def case_prod_unfold split: if_splits)

lemma database_rules_sound:
  "list_all sound_rule [ruleRDSOversized, ruleRDSIdle, ruleRDSOverprovisionedStorage, ruleRDSUnnecessaryReplica,
     ruleRDSMultiAZNonProd, ruleRDSGp2Gp3, ruleRDSBackupRetention, ruleRDSAuroraCandidacy, ruleDynamoBillingMode]"
  by (auto simp: sound_rule_def claim_defs decisions Let_def case_prod_unfold split: if_splits)

lemma network_rules_sound:
  "list_all sound_rule [ruleNATVPCEndpoint, ruleNATRedundant, ruleCrossAZChatter, ruleEIPUnattached, ruleLBIdle,
     ruleCloudFrontEgress]"
  by (auto simp: sound_rule_def claim_defs decisions Let_def case_prod_unfold split: if_splits decision.splits)

lemma function_rules_sound:
  "list_all sound_rule [ruleLambdaMemoryCostCurve, ruleLambdaUnusedProvisionedConcurrency, ruleLambdaGraviton,
     ruleLambdaExcessiveTimeout]"
  by (auto simp: sound_rule_def claim_defs decisions Let_def case_prod_unfold split: if_splits)

lemma container_rules_sound:
  "list_all sound_rule [ruleEKSNodeGroupOverprovisioned, ruleK8sPodRequestsOversized, ruleEKSNodeGroupNoSpot,
     ruleEKSConsolidation, ruleFargateVsEC2, ruleECSTaskCount, ruleCWLogRetention, ruleCWHighCardinality, ruleKMSSecretsUnused]"
  by (auto simp: sound_rule_def claim_defs decisions Let_def case_prod_unfold split: if_splits)

section \<open>Every shipped rule meets the contracts of the executors\<close>

lemma meets_contract_simps:
  "meets_contract (action a ps s v c) = (case ParameterContractFor a of None \<Rightarrow> True | Some c \<Rightarrow> Satisfied c (map_of ps))"
  "meets_contract (action a ps s v c\<lparr>ac_ConflictDomain := d\<rparr>) = meets_contract (action a ps s v c)"
  "meets_contract advisory" "ac_Type advisory = ActionAdvisoryOnly"
  "ac_Type (action a ps s v c) = a" "ac_Type (action a ps s v c\<lparr>ac_ConflictDomain := d\<rparr>) = a"
  by (simp_all add: meets_contract_def action_def advisory_def ParameterContractFor_def actionParameterContracts_def)

lemmas contract_eval = contracted_rule_def meets_contract_simps ParameterContractFor_def actionParameterContracts_def
  Satisfied_def present_def

lemma dropWhile_Nil_iff: "dropWhile P xs = [] \<longleftrightarrow> list_all P xs"
  by (induction xs) auto

lemma trim_space_Nil: "trim_space s = [] \<longleftrightarrow> list_all is_space s"
  by (induction s) (auto simp: trim_space_def dropWhile_Nil_iff list_all_iff)

lemma walks_in_catalogue:
  "walk_down pr v m ts = Some (t, cs) \<Longrightarrow> pr_InstanceSpec pr t = Some cs"
  "walk_smallest pr v best ts = Some (t, cs) \<Longrightarrow> pred_option (\<lambda>(t, cs). pr_InstanceSpec pr t = Some cs) best \<Longrightarrow>
     pr_InstanceSpec pr t = Some cs"
  "fixed_candidate pr region cur ts = Some (t, price) \<Longrightarrow> \<exists>cs. pr_InstanceSpec pr t = Some cs"
  by (induction ts arbitrary: best) (auto split: option.splits if_splits)

lemma named_walks:
  "named_catalog pr \<Longrightarrow> walk_down pr v m ts = Some (t, cs) \<Longrightarrow> trim_space t \<noteq> []"
  "named_catalog pr \<Longrightarrow> walk_smallest pr v None ts = Some (t, cs) \<Longrightarrow> trim_space t \<noteq> []"
  "named_catalog pr \<Longrightarrow> fixed_candidate pr region cur ts = Some (t, price) \<Longrightarrow> trim_space t \<noteq> []"
  "named_catalog pr \<Longrightarrow> pr_InstanceSpec pr t = Some cs \<Longrightarrow> trim_space (is_Type cs) \<noteq> []"
  by (metis named_catalog_def walks_in_catalogue(1), metis named_catalog_def walks_in_catalogue(2) option.pred_inject(1),
      metis named_catalog_def walks_in_catalogue(3), metis named_catalog_def)

lemma schedule_named: "hours \<noteq> [] \<Longrightarrow> trim_space (ScheduleFromActiveHours hours) \<noteq> []"
  by (simp add: ScheduleFromActiveHours_def trim_space_Nil Let_def is_space_def)

lemma stepDBClass_named: "stepDBClass c l = Some d \<Longrightarrow> \<not> list_all is_space d"
  by (auto simp: stepDBClass_def trim_space_Nil Let_def is_space_def split: option.splits if_splits)

lemma compute_rules_contracted:
  "list_all contracted_rule [ruleEC2Rightsize, ruleEC2OversizedDeclared, ruleEC2StoppedStorage, ruleEC2NeverUsed,
     ruleEC2PrevGeneration, ruleEC2BurstCredit, ruleEC2ScheduleOffHours, ruleEC2SpotCandidacy, ruleEC2CommitmentGap]"
  by (auto simp: contract_eval action_defs decisions Let_def case_prod_unfold named_walks schedule_named
    split: if_splits option.splits)

lemma database_rules_contracted:
  "list_all contracted_rule [ruleRDSOversized, ruleRDSIdle, ruleRDSOverprovisionedStorage, ruleRDSUnnecessaryReplica,
     ruleRDSMultiAZNonProd, ruleRDSGp2Gp3, ruleRDSBackupRetention, ruleRDSAuroraCandidacy, ruleDynamoBillingMode]"
  by (auto simp: contract_eval action_defs decisions Let_def case_prod_unfold trim_space_Nil is_space_def
    split: if_splits option.splits dest: stepDBClass_named)

lemma network_rules_contracted:
  "list_all contracted_rule [ruleNATVPCEndpoint, ruleNATRedundant, ruleCrossAZChatter, ruleEIPUnattached, ruleLBIdle,
     ruleCloudFrontEgress]"
  by (auto simp: contract_eval action_defs decisions Let_def GatewayEndpointServiceName_def trim_space_Nil is_space_def
    case_prod_unfold split: if_splits option.splits)

lemma function_rules_contracted:
  "list_all contracted_rule [ruleLambdaMemoryCostCurve, ruleLambdaUnusedProvisionedConcurrency, ruleLambdaGraviton,
     ruleLambdaExcessiveTimeout]"
  by (auto simp: contract_eval action_defs decisions Let_def case_prod_unfold split: if_splits option.splits)

lemma container_rules_contracted:
  "list_all contracted_rule [ruleEKSNodeGroupOverprovisioned, ruleK8sPodRequestsOversized, ruleEKSNodeGroupNoSpot,
     ruleEKSConsolidation, ruleFargateVsEC2, ruleECSTaskCount, ruleCWLogRetention, ruleCWHighCardinality, ruleKMSSecretsUnused]"
  by (auto simp: contract_eval action_defs decisions Let_def case_prod_unfold split: if_splits option.splits)
lemma storage_rules_contracted:
  "list_all contracted_rule [ruleEBSUnattached, ruleEBSOverprovisioned, ruleEBSGp2Gp3, ruleEBSSnapshotRetention,
     ruleEBSOrphanedSnapshot, ruleEBSUnusedAMI, ruleS3NoLifecycle, ruleS3WrongStorageClass, ruleS3NoncurrentVersions,
     ruleS3IncompleteMultipart, ruleS3IntelligentTiering]"
  by (auto simp: contract_eval action_defs decisions Let_def transition_action_def s3TransitionParameters_def
    S3TransitionStorageClass_def trim_space_def is_space_def case_prod_unfold split: if_splits option.splits)

lemmas shipped_sound = compute_rules_sound storage_rules_sound database_rules_sound network_rules_sound function_rules_sound
  container_rules_sound

lemmas shipped_contracted = compute_rules_contracted storage_rules_contracted database_rules_contracted
  network_rules_contracted function_rules_contracted container_rules_contracted

section \<open>What an evaluation returns\<close>

text \<open>A finding that a rule of the pack made for a live resource.\<close>

definition justified :: "FullRule list \<Rightarrow> EvalContext \<Rightarrow> Finding \<Rightarrow> bool" where
  "justified rules ctx f \<longleftrightarrow> (\<exists>rule \<in> set rules. \<exists>r \<in> set (resources (ec_Inventory ctx)).
     ts_Enabled (ec_Thresholds ctx) (ec_TenantID ctx) (fr_ID rule) (fr_Enabled rule) \<and> \<not> res_Deleted r \<and> fr_Applies rule r \<and>
     \<not> ExcludedBySpec (ec_Spec ctx) r (fr_Action rule) \<and> fi_RuleID f = fr_ID rule \<and> fi_ResourceID f = res_ID r \<and>
     fi_TenantID f = ec_TenantID ctx \<and> fi_Evidence f \<noteq> [] \<and>
     \<not> GreaterThan (fi_EstimatedMonthlySaving f) (fi_CurrentMonthlyCost f))"

lemma Finding_Validate_None:
  "Finding_Validate f = None \<Longrightarrow> fi_Evidence f \<noteq> [] \<and> \<not> GreaterThan (fi_EstimatedMonthlySaving f) (fi_CurrentMonthlyCost f)"
  by (simp add: Finding_Validate_def)

lemma NewFinding_Inr:
  assumes "NewFinding ctx rule cat r sev ev cur saving = Inr f"
  shows "Finding_Validate f = None \<and> fi_RuleID f = rule \<and> fi_ResourceID f = res_ID r \<and> fi_TenantID f = ec_TenantID ctx \<and>
    fi_Evidence f = ev"
  using assms by (auto simp: NewFinding_def Let_def split: option.splits)

locale rule_pack =
  fixes rules :: "FullRule list"
  assumes sound: "rule \<in> set rules \<Longrightarrow> sound_rule rule"
begin

lemma Evaluate_justified:
  assumes "rule \<in> set rules" "r \<in> set (resources (ec_Inventory ctx))" "\<not> res_Deleted r" "fr_Applies rule r"
    and "ts_Enabled (ec_Thresholds ctx) (ec_TenantID ctx) (fr_ID rule) (fr_Enabled rule)"
    and "rule_Evaluate rule ctx r = Some (Inr fs)" "f \<in> set fs"
  shows "justified rules ctx f"
proof -
  obtain sev ev cur saving where c: "fr_Claim rule ctx r = Found (sev, ev, cur, saving)"
    and n: "NewFinding ctx (fr_ID rule) (fr_Category rule) r sev ev cur saving = Inr f"
    using assms(6,7) by (auto simp: rule_Evaluate_def split: decision.splits sum.splits)
  have "\<not> ExcludedBySpec (ec_Spec ctx) r (fr_Action rule)"
    using sound [OF assms(1)] c unfolding sound_rule_def by blast
  with assms NewFinding_Inr [OF n] Finding_Validate_None [of f] show ?thesis
    unfolding justified_def by metis
qed

lemma keep_findings:
  "fst (fold keep_finding fs s) = fst s @ filter (\<lambda>f. Finding_Validate f = None) fs"
  by (induction fs arbitrary: s) (auto simp: keep_finding_def split: prod.splits option.splits)

lemma resource_step:
  assumes "evaluate_resource ctx rule r s = Some s'" "\<forall>f \<in> set (fst s). justified rules ctx f"
    and "rule \<in> set rules" "r \<in> set (resources (ec_Inventory ctx))"
    and "ts_Enabled (ec_Thresholds ctx) (ec_TenantID ctx) (fr_ID rule) (fr_Enabled rule)"
  shows "\<forall>f \<in> set (fst s'). justified rules ctx f"
  using assms Evaluate_justified [OF assms(3,4) _ _ assms(5)]
  by (auto simp: evaluate_resource_def keep_findings split: if_splits option.splits sum.splits)

lemma Registry_justified:
  assumes "Registry_Evaluate rules ctx = Some (fs, d)"
  shows "\<forall>f \<in> set fs. justified rules ctx f"
proof -
  let ?P = "\<lambda>s. \<forall>f \<in> set (fst s). justified rules ctx f"
  let ?rs = "stable_sort (by_asc res_ID) (resources (ec_Inventory ctx))"
  have step: "?P s'" if "rule \<in> set (Rules rules)" "?P s" "evaluate_rule ctx ?rs rule s = Some s'" for rule s s'
  proof (cases "ts_Enabled (ec_Thresholds ctx) (ec_TenantID ctx) (fr_ID rule) (fr_Enabled rule)")
    case True
    with that(3) have "fold_opt (evaluate_resource ctx rule) ?rs (fst s, (snd s)\<lparr>di_RulesEvaluated := di_RulesEvaluated (snd s) + 1\<rparr>)
        = Some s'"
      by (simp add: evaluate_rule_def case_prod_unfold)
    then show ?thesis
    proof (rule fold_opt_invariant)
      show "?P (fst s, (snd s)\<lparr>di_RulesEvaluated := di_RulesEvaluated (snd s) + 1\<rparr>)" using that(2) by simp
      show "?P u'" if "r \<in> set ?rs" "?P u" "evaluate_resource ctx rule r u = Some u'" for r u u'
        using resource_step [OF that(3,2) _ _ True] \<open>rule \<in> set (Rules rules)\<close> that(1) by (simp add: Rules_def)
    qed
  next
    case False
    with that(2,3) show ?thesis by (auto simp: evaluate_rule_def case_prod_unfold)
  qed
  have "?P (fs, d)"
    by (rule fold_opt_invariant [OF assms [unfolded Registry_Evaluate_def Let_def], where P = ?P]) (simp, rule step)
  then show ?thesis by simp
qed

end

interpretation shipped: rule_pack shipped_rules
  using shipped_sound by unfold_locales (auto simp: shipped_rules_def)

text \<open>Whatever the inventory, the metrics and the prices are, every finding that the evaluation of the shipped rules
  returns was made for the tenant by a rule that is enabled, for a live resource the rule applies to, which the specification
  does not exclude from the rule's action; it carries evidence and does not claim to save more than the resource costs.\<close>

theorem Evaluate_findings_justified:
  assumes "Registry_Evaluate shipped_rules ctx = Some (fs, d)" "f \<in> set fs"
  shows "justified shipped_rules ctx f"
  using shipped.Registry_justified [OF assms(1)] assms(2) by blast

text \<open>No action that a shipped rule builds lacks a parameter its executor reads: with a catalogue that has no blank
  names, the action is the one the rule announces or advice, and its parameters meet the contract of that action.\<close>

theorem BuildAction_meets_contract:
  assumes "rule \<in> set shipped_rules" "named_catalog (ec_Pricing ctx)" "fr_BuildAction rule ctx r = Some a"
  shows "ac_Type a \<in> {fr_Action rule, ActionAdvisoryOnly} \<and> meets_contract a"
proof -
  have "contracted_rule rule" using assms(1) shipped_contracted by (auto simp: shipped_rules_def)
  with assms(2,3) show ?thesis unfolding contracted_rule_def by blast
qed

end
