(* ===== verification/RiskModel.thy ===== *)
theory RiskModel imports RulesServerless Maintenance begin

text \<open>
  How a finding is scored: confidence (\<open>internal/application/optimization/confidence.go\<close>), blast radius (\<open>blast.go\<close>) and
  risk (\<open>risk.go\<close>). Explanations and mitigations are texts and not modelled. The dependents of a resource are a Go
  map; \<open>ids\<close> are its keys in the order the loop meets them. The environments of the dependents, a set in the code, are
  listed in the order they are first met.
\<close>

section \<open>Confidence\<close>

definition no_metrics :: ResourceMetrics where
  "no_metrics = \<lparr>rm_ResourceID = '''', rm_TenantID = '''', rm_Window = \<lparr>Start = 0, End = 0\<rparr>, rm_CPU = None, rm_Memory = None,
     rm_DiskUsed = None, rm_NetworkIn = None, rm_NetworkOut = None, rm_IOPS = None, rm_Throughput = None, rm_Requests = None,
     rm_LatencyP99 = None, rm_ErrorRate = None, rm_Concurrency = None, rm_Connections = None, rm_Coverage = 0\<rparr>"

abbreviation input :: "string \<Rightarrow> rat \<Rightarrow> rat \<Rightarrow> ConfidenceInput" where
  "input n v w \<equiv> \<lparr>ci_Name = n, ci_Value = v, ci_Weight = w\<rparr>"

definition confidence_inputs :: "EvalContext \<Rightarrow> Resource \<Rightarrow> ResourceMetrics \<Rightarrow> Percentiles option \<Rightarrow> BlastRadius \<Rightarrow>
    ConfidenceInput list" where
  "confidence_inputs ctx r m primary blast = [
     input ''metric_stability'' (case primary of None \<Rightarrow> f64 (65 / 100) | Some p \<Rightarrow> clamp01 (pc_Stability p)) (f64 (20 / 100)),
     input ''metric_coverage'' (clamp01 (if rm_ResourceID m = '''' then f64 (3 / 10) else rm_Coverage m)) (f64 (18 / 100)),
     input ''observation_window'' (clamp01 (f64 (Days (rm_Window m) / 14))) (f64 (16 / 100)),
     input ''dependency_completeness'' (clamp01 (br_Completeness blast)) (f64 (16 / 100)),
     input ''business_criticality'' (clamp01 (f64 (1 - f64 (f64 (3 / 10) * Weight (res_Criticality r))))) (f64 (15 / 100)),
     input ''resource_age'' (if res_CreatedAt r = 0 then 1 / 2
       else clamp01 (f64 (f64 (Hours \<lparr>Start = res_CreatedAt r, End = ec_Now ctx\<rparr> / 24) / 30))) (f64 (15 / 100))]"

definition weighted_mean :: "ConfidenceInput list \<Rightarrow> rat" where
  "weighted_mean ins = (let
     weighted = foldl (\<lambda>s i. f64 (s + f64 (ci_Value i * ci_Weight i))) 0 ins;
     totalWeight = foldl (\<lambda>s i. f64 (s + ci_Weight i)) 0 ins
   in if totalWeight > 0 then f64 (weighted / totalWeight) else 1 / 2)"

definition ComputeConfidence :: "EvalContext \<Rightarrow> Resource \<Rightarrow> RuleID \<Rightarrow> ResourceMetrics \<Rightarrow> Percentiles option \<Rightarrow> BlastRadius \<Rightarrow>
    Confidence \<times> ConfidenceInput list" where
  "ComputeConfidence ctx r ruleID m primary blast = (let
     ins = confidence_inputs ctx r m primary blast;
     cal = (case tbl_get (ec_Calibrations ctx) ruleID of None \<Rightarrow> 1
       | Some c \<Rightarrow> if rcal_Samples c > 0 then rcal_ConfidenceMultiplier c else 1)
   in (clamp01 (f64 (weighted_mean ins * cal)), ins @ [input ''rule_calibration'' cal 1]))"

section \<open>Blast radius\<close>

definition blast_saturate :: "rat \<Rightarrow> rat \<Rightarrow> rat" where
  "blast_saturate x ref = (if ref \<le> 0 then 0 else let v = f64 (x / ref) in if v > 1 then 1 else if v < 0 then 0 else v)"

text \<open>The dependents that the inventory knows, in the order of the loop.\<close>

definition known_dependents :: "EvalContext \<Rightarrow> ID list \<Rightarrow> Resource list" where
  "known_dependents ctx ids = List.map_filter (ByID (ec_Inventory ctx)) ids"

definition blast_completeness :: "EvalContext \<Rightarrow> Resource \<Rightarrow> ID list \<Rightarrow> rat" where
  "blast_completeness ctx r ids = (let deps = Dependents (ec_Topology ctx) (res_ID r) 6 in
     if Topology_Len (ec_Topology ctx) = 0 then f64 (1 / 10)
     else if ids = [] then (if Kind_Category (res_Kind r) = CategoryCompute \<or> Kind_Category (res_Kind r) = CategoryDatabase
       then f64 (35 / 100) else f64 (9 / 10))
     else f64 (fsum (map (\<lambda>i. the (deps i)) ids) / i2f (int (length ids))))"

definition estimated_users :: "Spec \<Rightarrow> TransactionSpec list \<Rightarrow> nat \<Rightarrow> int" where
  "estimated_users sp txs critical = (let volume = fsum (map tx_MonthlyVolume txs); customers = bu_CustomerCount (sp_Business sp) in
     if volume > 0 then f2i (f64 (volume / 40))
     else if 0 < critical \<and> customers > 0 then
       let share = f64 (f64 (1 / 10) * i2f (int critical)) in f2i (f64 (i2f customers * (if share > 1 then 1 else share)))
     else 0)"

definition ComputeBlastRadius :: "EvalContext \<Rightarrow> Resource \<Rightarrow> ID list \<Rightarrow> BlastRadius" where
  "ComputeBlastRadius ctx r ids = (let
     deps = known_dependents ctx ids;
     workloads = remdups (filter (\<lambda>w. \<not> id_IsZero w) (map res_WorkloadID deps));
     critical = remdups (map res_WorkloadID (filter (\<lambda>d. \<not> id_IsZero (res_WorkloadID d) \<and>
       (res_Criticality d = CriticalityTier0 \<or> res_Criticality d = CriticalityTier1)) deps));
     apis = filter (\<lambda>d. res_Kind d \<in> {KindALB, KindNLB, KindAPIGateway, KindCloudFront}) deps;
     completeness = blast_completeness ctx r ids;
     txs = matchedTransactions (ec_Spec ctx) r;
     n = (\<lambda>xs. i2f (int xs));
     base = f64 (f64 (f64 (f64 (f64 (35 / 100) * blast_saturate (n (length ids)) 10)
         + f64 (1 / 4 * blast_saturate (n (length workloads)) 4))
         + f64 (f64 (1 / 10) * blast_saturate (n (length apis)) 3))
         + f64 (f64 (3 / 10) * blast_saturate (n (length critical)) 2));
     bump = f64 (f64 (1 - completeness) * f64 (3 / 10));
     score = clamp01 (f64 (base + bump))
   in \<lparr>br_ResourcesAffected = int (length ids), br_ServicesAffected = int (length workloads),
     br_CriticalServices = int (length critical), br_APIsAffected = int (length apis),
     br_TransactionsAffected = map tx_Name txs, br_EstimatedUsers = estimated_users (ec_Spec ctx) txs (length critical),
     br_EnvironmentsAffected = filter (\<lambda>e. env_string e \<noteq> '''') (rev (remdups (rev (res_Environment r # map res_Environment deps)))),
     br_CrossAccount = list_ex (\<lambda>d. res_AccountID d \<noteq> '''' \<and> res_AccountID d \<noteq> res_AccountID r) deps,
     br_Score = score, br_Level = RiskLevelFromScore score, br_Completeness = completeness\<rparr>)"

section \<open>Risk\<close>

definition sloDeclared :: "WorkloadSLO \<Rightarrow> bool" where
  "sloDeclared s \<longleftrightarrow> ws_Availability s > 0 \<or> ws_LatencyP95MS s > 0 \<or> ws_LatencyP99MS s > 0 \<or> ws_ErrorRateMax s > 0"

definition capacityReducingActions :: "ActionType set" where
  "capacityReducingActions = {ActionResizeInstance, ActionResizeRDS, ActionResizeVolume, ActionResizeNodeGroup,
     ActionAdjustPodResources, ActionResizeLambdaMemory, ActionStopInstance, ActionStopRDS, ActionTerminateInstance}"

definition storageTouchingActions :: "ActionType set" where
  "storageTouchingActions = {ActionResizeVolume, ActionModifyVolumeType, ActionModifyRDSStorage, ActionResizeRDS,
     ActionStopRDS, ActionRemoveRDSReplica, ActionSwitchDynamoBilling}"

definition securityScore :: "Resource \<Rightarrow> ActionType \<Rightarrow> rat" where
  "securityScore r a = (if (res_Kind r = KindKMSKey \<or> res_Kind r = KindSecret) \<and> a \<noteq> ActionAdvisoryOnly then 1 / 2 else 0)"

record risk_scores =
  rk_action :: rat
  rk_env :: rat
  rk_crit :: rat
  rk_rev :: rat
  rk_data :: rat
  rk_slo :: rat
  rk_blast :: rat

definition risk_scores :: "EvalContext \<Rightarrow> Resource \<Rightarrow> ActionType \<Rightarrow> Reversibility \<Rightarrow> BlastRadius \<Rightarrow> risk_scores" where
  "risk_scores ctx r a rv blast = (let w = Weight (res_Criticality r) in
     \<lparr>rk_action = (if Destructive a then f64 (30 / 100) else if Mutating a then f64 (10 / 100) else 0),
      rk_env = (if IsProduction (res_Environment r) then f64 (20 / 100)
        else if res_Environment r = EnvStaging then f64 (8 / 100) else 0),
      rk_crit = f64 (w * f64 (15 / 100)),
      rk_rev = f64 (f64 (1 - Reversibility_Factor rv) * f64 (15 / 100)),
      rk_data = (if Destructive a then 1 / 4 else if a \<in> storageTouchingActions then f64 (8 / 100) else 0),
      rk_slo = (if a \<in> capacityReducingActions then (case matchedWorkload (ec_Spec ctx) r of
          Some wl \<Rightarrow> if sloDeclared (wl_SLO wl) then f64 (f64 (15 / 100) * w) else 0 | None \<Rightarrow> 0) else 0),
      rk_blast = f64 (br_Score blast * (1 / 4))\<rparr>)"

definition risk_factors :: "risk_scores \<Rightarrow> (string \<times> rat) list" where
  "risk_factors k = [(''action_class'', rk_action k)] @
     (if rk_env k > 0 then [(''environment'', rk_env k)] else []) @ [(''criticality'', rk_crit k)] @
     (if rk_rev k > f64 (1 / 100) then [(''reversibility'', rk_rev k)] else []) @
     (if rk_data k > 0 then [(''data_loss_potential'', rk_data k)] else []) @
     (if rk_slo k > f64 (2 / 100) then [(''slo_headroom'', rk_slo k)] else []) @ [(''blast_radius'', rk_blast k)]"

definition risk_total :: "risk_scores \<Rightarrow> rat" where
  "risk_total k = foldl (\<lambda>s x. f64 (s + x)) (rk_action k) [rk_env k, rk_crit k, rk_rev k, rk_data k, rk_slo k, rk_blast k]"

definition ComputeRisk :: "EvalContext \<Rightarrow> Resource \<Rightarrow> ActionType \<Rightarrow> Reversibility \<Rightarrow> BlastRadius \<Rightarrow> RiskAssessment" where
  "ComputeRisk ctx r a rv blast = (let k = risk_scores ctx r a rv blast; score = clamp01 (risk_total k) in
     \<lparr>ra_Score = score, ra_Level = RiskLevelFromScore score,
      ra_AvailabilityRisk = RiskLevelFromScore (clamp01 (f64 (f64 (rk_action k + rk_blast k) + rk_slo k))),
      ra_PerformanceRisk = RiskLevelFromScore (clamp01 (f64 (rk_slo k + rk_rev k))),
      ra_SecurityRisk = RiskLevelFromScore (securityScore r a),
      ra_DataLossRisk = RiskLevelFromScore (clamp01 (f64 (f64 (rk_data k / (1 / 4)) * f64 (7 / 10)))),
      ra_Factors = risk_factors k\<rparr>)"

text \<open>The private check of maintenance windows, which only the advice on risk uses.\<close>

definition minutes_of_day :: "gotime \<Rightarrow> int" where
  "minutes_of_day t = (t mod nanos_per_day) div 60000000000"

definition window_open_today :: "MaintenanceWindow \<Rightarrow> Environment \<Rightarrow> gotime \<Rightarrow> bool" where
  "window_open_today w env now = (let name = weekday_name (day_of now) in
     (mw_Environments w = [] \<or> list_ex (\<lambda>e. equal_fold e (env_string env)) (mw_Environments w)) \<and>
     (mw_Days w = [] \<or> list_ex (\<lambda>d. equal_fold d name \<or> equal_fold d (take 3 name)) (mw_Days w)) \<and>
     (case parse_hhmm (mw_StartUTC w) of None \<Rightarrow> False
      | Some (h, m) \<Rightarrow> let startMin = h * 60 + m in
          startMin \<le> minutes_of_day now \<and> minutes_of_day now < wrap64 (startMin + mw_DurationMinutes w)))"

definition inMaintenanceWindow :: "Spec \<Rightarrow> Environment \<Rightarrow> gotime \<Rightarrow> MaintenanceWindow option" where
  "inMaintenanceWindow sp env now = find (\<lambda>w. window_open_today w env now) (au_MaintenanceWindows (sp_Automation sp))"

end
