(* ===== verification/Spec2Isabelle.thy ===== *)
theory Spec2Isabelle imports Money Errors Assessment Identity Principal Resource Topology Estate
  Recommendation Conflict Contract Policy Approval Plan Savings AuditLog Paging AuditTrail Breaker Resilience Locker
  Calendar SpecModel SpecValidate SpecDiff Maintenance Budget Store Governance ApprovalFlow ExecRepo Metrics AutoBase Automation
  AutoPlan AutoValidate RecRepo ResRepo RuleFacts RiskModel begin

text \<open>
  A verification library for CloudOptix.
\<close>

end
